(* ===== verification/Prelude.thy ===== *)
theory Prelude
  imports Main "HOL-Library.Word" "HOL-Library.Monad_Syntax" "HOL-Library.Finite_Map" "HOL-Library.Multiset"
    "HOL-Library.List_Lexorder" "HOL-Library.Char_ord"
begin

text \<open>
  What the components share: the Go integer and time types, the decimal rendering used by
  the identifier generators, Go error values, the order in which a Go \<open>range\<close> visits a
  map, \<open>sort.Slice\<close>, JSON documents, and the generic lemmas on words, lists and finite
  maps that the component proofs use. The collection \<open>frame\<close> holds the facts "operation f
  does not touch part p of the state"; \<open>law_simps\<close> holds the interface laws that hold
  unconditionally.
\<close>

named_theorems frame
named_theorems law_simps

section \<open>Numbers and time\<close>

text \<open>
  Go's \<open>int64\<close> is a 64-bit word: addition and subtraction wrap, comparison reads the word
  as two's complement (\<open>sint\<close>). An instant is the number of nanoseconds since Go's zero
  time (midnight UTC of 1 January of the year 1), so \<open>IsZero\<close> is equality with 0 and
  midnights are the multiples of a day. A \<open>time.Duration\<close> is a number of nanoseconds.
\<close>

type_synonym int64 = "64 word"
type_synonym time = int
type_synonym duration = int

definition IsZero :: "time \<Rightarrow> bool" where
  "IsZero t \<longleftrightarrow> t = 0"

definition second :: duration where
  "second = 1000000000"

definition minute :: duration where
  "minute = 60 * second"

definition hour :: duration where
  "hour = 60 * minute"

definition day_start :: "time \<Rightarrow> time" where
  "day_start t = t - t mod (24 * hour)"

lemma day_pos [simp]: "0 < 24 * hour"
  by (simp add: hour_def minute_def second_def)

lemma day_start_le: "day_start t \<le> t"
  using pos_mod_sign [of "24 * hour" t] by (simp add: day_start_def del: day_pos)
    (simp add: hour_def minute_def second_def)

lemma day_start_less: "t < day_start t + 24 * hour"
  using pos_mod_bound [of "24 * hour" t] by (simp add: day_start_def del: day_pos)
    (simp add: hour_def minute_def second_def)

lemma div_window:
  assumes "0 < (D :: int)"
  shows "D * q \<le> t \<and> t < D * q + D \<longleftrightarrow> t div D = q"
proof
  assume "D * q \<le> t \<and> t < D * q + D"
  then show "t div D = q"
    using int_div_pos_eq [of t D q "t - D * q"] by simp
next
  assume "t div D = q"
  then have "t = D * q + t mod D" by (metis mult_div_mod_eq)
  with pos_mod_sign [OF assms, of t] pos_mod_bound [OF assms, of t]
  show "D * q \<le> t \<and> t < D * q + D" by linarith
qed

lemma same_day_iff:
  "(t = day_start d \<or> day_start d < t) \<and> t < day_start d + 24 * hour \<longleftrightarrow> day_start t = day_start d"
proof -
  have q: "day_start x = (24 * hour) * (x div (24 * hour))" for x
    by (simp add: day_start_def minus_mod_eq_mult_div)
  have "day_start d \<le> t \<and> t < day_start d + 24 * hour \<longleftrightarrow> t div (24 * hour) = d div (24 * hour)"
    unfolding q by (rule div_window) (rule day_pos)
  moreover have "(24 * hour) * x = (24 * hour) * y \<longleftrightarrow> x = y" for x y
    using day_pos by (metis less_irrefl mult_cancel_left)
  ultimately show ?thesis unfolding q by auto
qed

text \<open>Reading a word sum as an integer, where it does not overflow.\<close>

definition fits64 :: "int \<Rightarrow> bool" where
  "fits64 n \<longleftrightarrow> - (2 ^ 63) \<le> n \<and> n < 2 ^ 63"

lemma sint_range: "fits64 (sint (a :: int64))"
  using sint_ge [of a] sint_lt [of a] by (simp add: fits64_def)

lemma sint_of_int_fits: "fits64 n \<Longrightarrow> sint (word_of_int n :: int64) = n"
  by (simp add: fits64_def sint_sbintrunc' signed_take_bit_int_eq_self)

lemma sint_plus_fits: "fits64 (sint a + sint b) \<Longrightarrow> sint (a + b :: int64) = sint a + sint b"
  using sint_of_int_fits [of "sint a + sint b"] by simp

lemma sint_minus_fits: "fits64 (sint a - sint b) \<Longrightarrow> sint (a - b :: int64) = sint a - sint b"
  using sint_of_int_fits [of "sint a - sint b"] by simp

section \<open>Decimal rendering\<close>

text \<open>
  \<open>dec_nat\<close> is \<open>%d\<close> on an unsigned value, \<open>show_int\<close> is \<open>%d\<close> on a signed one and
  \<open>pad04\<close> is \<open>%04d\<close>. \<open>undec\<close> reads a rendering back; the round trips make the rendered
  identifiers distinct for distinct counters.
\<close>

definition digit :: "nat \<Rightarrow> char" where
  "digit d = char_of (48 + d)"

definition undigit :: "char \<Rightarrow> nat" where
  "undigit c = of_char c - 48"

fun dec_nat :: "nat \<Rightarrow> string" where
  "dec_nat n = (if n < 10 then [digit n] else dec_nat (n div 10) @ [digit (n mod 10)])"

declare dec_nat.simps [simp del]

definition undec :: "string \<Rightarrow> nat" where
  "undec = foldl (\<lambda>acc c. 10 * acc + undigit c) 0"

definition show_int :: "int \<Rightarrow> string" where
  "show_int n = (if n < 0 then CHR ''-'' # dec_nat (nat (- n)) else dec_nat (nat n))"

definition pad04 :: "nat \<Rightarrow> string" where
  "pad04 n = replicate (4 - length (dec_nat n)) (CHR ''0'') @ dec_nat n"

lemma digits_string: "map digit [0..<10] = ''0123456789''"
  by code_simp

lemma digit_nth: "d < 10 \<Longrightarrow> digit d = ''0123456789'' ! d"
  unfolding digits_string [symmetric] by simp

lemma digit_values:
  "digit 0 = CHR ''0''" "digit 1 = CHR ''1''" "digit (Suc 0) = CHR ''1''" "digit 2 = CHR ''2''"
  "digit 3 = CHR ''3''" "digit 4 = CHR ''4''" "digit 5 = CHR ''5''" "digit 6 = CHR ''6''"
  "digit 7 = CHR ''7''" "digit 8 = CHR ''8''" "digit 9 = CHR ''9''"
  by (simp_all add: digit_nth)

lemma undigit_digit: "d < 10 \<Longrightarrow> undigit (digit d) = d"
  by (simp add: digit_def undigit_def)

lemma undec_dec_nat [simp]: "undec (dec_nat n) = n"
proof (induction n rule: dec_nat.induct)
  case (1 n)
  show ?case
  proof (cases "n < 10")
    case True
    then show ?thesis by (simp add: dec_nat.simps [of n] undec_def undigit_digit)
  next
    case False
    with "1.IH" have "foldl (\<lambda>acc c. 10 * acc + undigit c) 0 (dec_nat (n div 10)) = n div 10"
      by (simp add: undec_def)
    with False show ?thesis
      by (simp add: dec_nat.simps [of n] undec_def undigit_digit)
  qed
qed

lemma undec_zeros: "undec (replicate k (CHR ''0'') @ s) = undec s"
proof (induction k)
  case (Suc k)
  have "undigit (CHR ''0'') = 0" by (simp add: undigit_def)
  with Suc show ?case by (simp add: undec_def)
qed simp

lemma undec_pad04 [simp]: "undec (pad04 n) = n"
  by (simp add: pad04_def undec_zeros)

lemma dec_nat_inject [simp]: "dec_nat m = dec_nat n \<longleftrightarrow> m = n"
  using undec_dec_nat by metis

lemma pad04_inject [simp]: "pad04 m = pad04 n \<longleftrightarrow> m = n"
  using undec_pad04 by metis

lemma dec_nat_not_Nil [simp]: "dec_nat n \<noteq> []"
  by (subst dec_nat.simps) simp

section \<open>Errors, documents\<close>

text \<open>
  A Go error. The three service error types are kept apart because the HTTP handlers
  recover them with \<open>errors.As\<close>, which sees through the wrapping of \<open>fmt.Errorf("...: %w")\<close>,
  and so is the \<open>APIError\<close> of the Nomba client (status code and body).
  \<open>Panic\<close> stands for a run-time panic, which no code of the program recovers from.
\<close>

datatype go_error =
    ValidationError string string
  | NotFoundError string string
  | StateError string string
  | Errorf string
  | Wrap string go_error
  | APIError int string
  | Panic string

fun as_validation :: "go_error \<Rightarrow> (string \<times> string) option" where
  "as_validation (ValidationError f d) = Some (f, d)"
| "as_validation (Wrap _ e) = as_validation e"
| "as_validation _ = None"

fun as_not_found :: "go_error \<Rightarrow> (string \<times> string) option" where
  "as_not_found (NotFoundError e i) = Some (e, i)"
| "as_not_found (Wrap _ e) = as_not_found e"
| "as_not_found _ = None"

fun as_state :: "go_error \<Rightarrow> (string \<times> string) option" where
  "as_state (StateError c t) = Some (c, t)"
| "as_state (Wrap _ e) = as_state e"
| "as_state _ = None"

fun as_api_error :: "go_error \<Rightarrow> (int \<times> string) option" where
  "as_api_error (APIError c b) = Some (c, b)"
| "as_api_error (Wrap _ e) = as_api_error e"
| "as_api_error _ = None"

text \<open>
  \<open>Error()\<close> of the error values (customer.go, provisioning.go and suspense.go define the
  three service types; \<open>%w\<close> prints the wrapped error).
\<close>

fun error_string :: "go_error \<Rightarrow> string" where
  "error_string (ValidationError f d) = ''validation error on '' @ f @ '': '' @ d"
| "error_string (NotFoundError e i) = e @ '' not found: '' @ i"
| "error_string (StateError c t) = ''invalid state transition: '' @ c @ '' '' @ [CHR 0xE2, CHR 0x86, CHR 0x92] @ '' '' @ t"
| "error_string (Errorf s) = s"
| "error_string (Wrap s e) = s @ '': '' @ error_string e"
| "error_string (APIError c b) = ''nomba: HTTP '' @ show_int c @ '': '' @ b"
| "error_string (Panic s) = s"

text \<open>
  The JSON documents that the program marshals, stores and decodes. Bytes that the program
  only passes on are kept as the document they hold: \<open>JNull\<close> is also the nil byte slice,
  \<open>JInt\<close> is a number written without fraction and exponent, \<open>JDec\<close> any other number literal
  as written, \<open>JTime\<close> is the RFC 3339 string of an instant, \<open>JRaw\<close> is a byte slice inside a document
  (a base64 string on the wire) and \<open>JInvalid\<close> stands for bytes that are not JSON.
\<close>

datatype json =
    JNull
  | JBool bool
  | JInt int
  | JDec string
  | JStr string
  | JTime time
  | JRaw json
  | JArr "json list"
  | JObj "(string \<times> json) list"
  | JInvalid string

text \<open>
  Field lookup in a decoded document, as \<open>json.Unmarshal\<close> fills a struct field: a later
  duplicate of a key wins, an absent key and \<open>null\<close> leave the zero value, a value of the
  wrong type is an error (\<open>None\<close>).
\<close>

definition jfield :: "string \<Rightarrow> (string \<times> json) list \<Rightarrow> json" where
  "jfield k fs = (case map_of (rev fs) k of None \<Rightarrow> JNull | Some v \<Rightarrow> v)"

fun jstring :: "json \<Rightarrow> string option" where
  "jstring JNull = Some ''''"
| "jstring (JStr s) = Some s"
| "jstring _ = None"

fun jint64 :: "json \<Rightarrow> int64 option" where
  "jint64 JNull = Some 0"
| "jint64 (JInt n) = (if fits64 n then Some (word_of_int n) else None)"
| "jint64 _ = None"

fun jtime :: "json \<Rightarrow> time option" where
  "jtime JNull = Some 0"
| "jtime (JTime t) = Some t"
| "jtime _ = None"

fun jraw :: "json \<Rightarrow> json option" where
  "jraw JNull = Some JNull"
| "jraw (JRaw j) = Some j"
| "jraw _ = None"

definition raw_field :: "json \<Rightarrow> json" where
  "raw_field j = (if j = JNull then JNull else JRaw j)"

text \<open>
  A struct field is filled from the members whose name equals the tag up to the case of ASCII letters,
  one after the other. For a pointer or a slice the last one counts (\<open>jlast\<close>); in a field of another
  type a \<^verbatim>\<open>null\<close> leaves what is there (\<open>jmember\<close>). A nested struct is filled from an object; where a
  document has two objects for it, the model reads the last. \<open>None\<close> is the decoding error.
\<close>

definition lower_char :: "char \<Rightarrow> char" where
  "lower_char c = (let n = of_char c :: nat in if 65 \<le> n \<and> n \<le> 90 then char_of (n + 32) else c)"

definition ToLower :: "string \<Rightarrow> string" where
  "ToLower s = map lower_char s"

definition jlast :: "string \<Rightarrow> (string \<times> json) list \<Rightarrow> json" where
  "jlast k fs = (case List.find (\<lambda>m. ToLower (fst m) = ToLower k) (rev fs) of
     None \<Rightarrow> JNull | Some m \<Rightarrow> snd m)"

definition jmember :: "string \<Rightarrow> (string \<times> json) list \<Rightarrow> json" where
  "jmember k fs = jlast k (filter (\<lambda>m. snd m \<noteq> JNull) fs)"

fun jobject :: "json \<Rightarrow> (string \<times> json) list option" where
  "jobject JNull = Some []"
| "jobject (JObj fs) = Some fs"
| "jobject _ = None"

fun jbool :: "json \<Rightarrow> bool option" where
  "jbool JNull = Some False"
| "jbool (JBool b) = Some b"
| "jbool _ = None"

fun jarray :: "json \<Rightarrow> json list option" where
  "jarray JNull = Some []"
| "jarray (JArr xs) = Some xs"
| "jarray _ = None"

fun collect :: "('a \<Rightarrow> 'b option) \<Rightarrow> 'a list \<Rightarrow> 'b list option" where
  "collect f [] = Some []"
| "collect f (x # xs) = do { y \<leftarrow> f x; ys \<leftarrow> collect f xs; Some (y # ys) }"

lemma jraw_raw_field [simp]: "jraw (raw_field j) = Some j"
  by (simp add: raw_field_def)

lemma jint64_sint [simp]: "jint64 (JInt (sint a)) = Some a"
  by (simp add: sint_range)

section \<open>Iteration order of Go maps, sort.Slice\<close>

text \<open>
  Go leaves the order in which \<open>range\<close> visits a map unspecified. The model takes that
  order as an argument \<open>r\<close>, a function from the key set to a list; a proposal that is not
  an enumeration of the keys is replaced by the sorted enumeration, so that every \<open>r\<close> is
  a legal order and the theorems quantify over all of them.
\<close>

type_synonym range_order = "string set \<Rightarrow> string list"

definition range_keys :: "range_order \<Rightarrow> (string, 'v) fmap \<Rightarrow> string list" where
  "range_keys r m =
     (let ks = fmdom' m; xs = r ks
      in if distinct xs \<and> set xs = ks then xs else sorted_list_of_set ks)"

definition range_vals :: "range_order \<Rightarrow> (string, 'v) fmap \<Rightarrow> 'v list" where
  "range_vals r m = map (\<lambda>k. the (fmlookup m k)) (range_keys r m)"

lemma set_range_keys [simp]: "set (range_keys r m) = fmdom' m"
  by (simp add: range_keys_def Let_def)

lemma distinct_range_keys [simp]: "distinct (range_keys r m)"
  by (simp add: range_keys_def Let_def)

lemma in_range_vals: "v \<in> set (range_vals r m) \<longleftrightarrow> (\<exists>k. fmlookup m k = Some v)"
  by (force simp: range_vals_def fmlookup_dom'_iff)

lemma range_vals_fmempty [simp]: "range_vals r fmempty = []"
  by (auto simp: range_vals_def range_keys_def Let_def)

text \<open>
  \<open>sort.Slice\<close> is not stable: elements with equal keys may come out in any order. The
  model sorts stably after a permutation \<open>p\<close> chosen by the argument, so that every legal
  outcome is one choice of \<open>p\<close>.
\<close>

definition shuffle :: "('a list \<Rightarrow> 'a list) \<Rightarrow> 'a list \<Rightarrow> 'a list" where
  "shuffle p xs = (if mset (p xs) = mset xs then p xs else xs)"

definition sort_slice :: "('a list \<Rightarrow> 'a list) \<Rightarrow> ('a \<Rightarrow> int) \<Rightarrow> 'a list \<Rightarrow> 'a list" where
  "sort_slice p key xs = sort_key key (shuffle p xs)"

lemma mset_shuffle [simp]: "mset (shuffle p xs) = mset xs"
  by (simp add: shuffle_def)

lemma mset_sort_slice [simp]: "mset (sort_slice p key xs) = mset xs"
  by (simp add: sort_slice_def)

lemma set_sort_slice [simp]: "set (sort_slice p key xs) = set xs"
  by (metis mset_sort_slice set_mset_mset)

lemma length_sort_slice [simp]: "length (sort_slice p key xs) = length xs"
  by (metis mset_sort_slice size_mset)

lemma sorted_sort_slice [simp]: "sorted (map key (sort_slice p key xs))"
  by (simp add: sort_slice_def)

section \<open>Generic lemmas\<close>

lemma find_in_set: "List.find P xs = Some x \<Longrightarrow> x \<in> set xs \<and> P x"
  by (auto simp: find_Some_iff)

lemma find_None: "List.find P xs = None \<longleftrightarrow> (\<forall>x \<in> set xs. \<not> P x)"
  by (auto simp: find_None_iff)

lemma sum_list_mset_cong: "mset xs = mset ys \<Longrightarrow> sum_list (map f xs) = sum_list (map f ys)"
  for f :: "'a \<Rightarrow> 'b :: comm_monoid_add"
  by (metis mset_map sum_mset_sum_list)

lemma sum_list_filter_if:
  "sum_list (map f (filter P xs)) = sum_list (map (\<lambda>x. if P x then f x else 0) xs)"
  for f :: "'a \<Rightarrow> 'b :: comm_monoid_add"
  by (induction xs) auto

lemma foldl_plus_sum: "foldl (\<lambda>acc x. acc + f x) a xs = a + sum_list (map f xs)"
  for f :: "'a \<Rightarrow> 'b :: comm_monoid_add"
  by (induction xs arbitrary: a) (auto simp: add.assoc)

text \<open>A loop whose body leaves a part of the state alone leaves it alone.\<close>

lemma foldl_frame: "(\<And>w x. v (f w x) = v w) \<Longrightarrow> v (foldl f w xs) = v w"
  by (induction xs arbitrary: w) simp_all

end
