(* ===== verification/Domain.thy ===== *)
theory Domain
  imports Prelude
begin

text \<open>
  The entity types of \<^verbatim>\<open>internal/domain/domain.go\<close>, one record per Go struct with the fields
  in the source's order (prefixed by the struct, since HOL field names are global), and the
  operations the file defines on them: the identity check, the legal status transitions of
  a virtual account and the name of a customer's ledger account. Pointers that may be
  \<open>nil\<close> are options; the named string types and the string enumerations stay strings,
  because the stores write whatever string they are given.
\<close>

section \<open>Tenants, keys, credentials\<close>

record tenant =
  Tenant_ID :: string
  Tenant_Name :: string
  Tenant_CreatedAt :: time

record api_key =
  Key_ID :: string
  Key_TenantID :: string
  Key_RawKey :: string
  Key_KeyHash :: string
  Key_KeyPrefix :: string
  Key_Active :: bool
  Key_CreatedAt :: time

record user_credential =
  Cred_ID :: string
  Cred_TenantID :: "string option"
  Cred_Email :: string
  Cred_PasswordHash :: string
  Cred_Name :: string
  Cred_Role :: string
  Cred_CreatedAt :: time

section \<open>Customers\<close>

record identity =
  Ident_ID :: string
  Ident_CustomerID :: string
  Ident_BVNMasked :: "string option"
  Ident_NINMasked :: "string option"
  Ident_KYCTier :: int
  Ident_VerificationStatus :: string
  Ident_CreatedAt :: time
  Ident_UpdatedAt :: time

record customer =
  Cust_ID :: string
  Cust_TenantID :: string
  Cust_ExternalRef :: string
  Cust_DisplayName :: string
  Cust_Status :: string
  Cust_Identity :: "identity option"
  Cust_CreatedAt :: time
  Cust_UpdatedAt :: time

record identity_input =
  In_BVNMasked :: "string option"
  In_NINMasked :: "string option"
  In_KYCTier :: int

definition Validate :: "identity_input \<Rightarrow> go_error option" where
  "Validate i =
     (if In_BVNMasked i = None \<and> In_NINMasked i = None
      then Some (Errorf ''at least one of BVN or NIN must be provided'')
      else if In_KYCTier i < 1 \<or> In_KYCTier i > 3
      then Some (Errorf ''kyc_tier must be 1, 2, or 3'')
      else None)"

lemma Validate_None_iff:
  "Validate i = None \<longleftrightarrow>
     (In_BVNMasked i \<noteq> None \<or> In_NINMasked i \<noteq> None) \<and> In_KYCTier i \<in> {1, 2, 3}"
  by (auto simp: Validate_def)

section \<open>Virtual accounts\<close>

definition VAStatusPending :: string where "VAStatusPending = ''PENDING''"
definition VAStatusActive :: string where "VAStatusActive = ''ACTIVE''"
definition VAStatusSuspended :: string where "VAStatusSuspended = ''SUSPENDED''"
definition VAStatusClosed :: string where "VAStatusClosed = ''CLOSED''"

lemmas va_status_defs =
  VAStatusPending_def VAStatusActive_def VAStatusSuspended_def VAStatusClosed_def

lemma va_status_distinct [simp]:
  "VAStatusActive \<noteq> VAStatusSuspended" "VAStatusSuspended \<noteq> VAStatusActive"
  "VAStatusActive \<noteq> VAStatusClosed" "VAStatusClosed \<noteq> VAStatusActive"
  "VAStatusSuspended \<noteq> VAStatusClosed" "VAStatusClosed \<noteq> VAStatusSuspended"
  "VAStatusPending \<noteq> VAStatusActive" "VAStatusActive \<noteq> VAStatusPending"
  "VAStatusPending \<noteq> VAStatusSuspended" "VAStatusSuspended \<noteq> VAStatusPending"
  "VAStatusPending \<noteq> VAStatusClosed" "VAStatusClosed \<noteq> VAStatusPending"
  by (simp_all add: va_status_defs)

record virtual_account =
  VA_ID :: string
  VA_CustomerID :: string
  VA_NombaAccountRef :: string
  VA_NUBAN :: string
  VA_BankName :: string
  VA_AccountName :: string
  VA_NombaHolderID :: string
  VA_Status :: string
  VA_CreatedAt :: time
  VA_UpdatedAt :: time
  VA_CustomerDisplayName :: string
  VA_TenantName :: string

text \<open>
  The table of legal moves; looking up a status that is not a key yields Go's zero value,
  the empty slice.
\<close>

definition allowed_transitions :: "string \<Rightarrow> string list" where
  "allowed_transitions s =
     (case map_of
        [(VAStatusPending, [VAStatusActive]),
         (VAStatusActive, [VAStatusSuspended, VAStatusClosed]),
         (VAStatusSuspended, [VAStatusActive, VAStatusClosed]),
         (VAStatusClosed, [])] s
      of None \<Rightarrow> [] | Some l \<Rightarrow> l)"

definition ValidTransition :: "string \<Rightarrow> string \<Rightarrow> bool" where
  "ValidTransition s nxt = list_ex (\<lambda>a. a = nxt) (allowed_transitions s)"

lemma ValidTransition_Active [simp]:
  "ValidTransition VAStatusActive s \<longleftrightarrow> s = VAStatusSuspended \<or> s = VAStatusClosed"
  by (auto simp: ValidTransition_def allowed_transitions_def)

lemma ValidTransition_Suspended [simp]:
  "ValidTransition VAStatusSuspended s \<longleftrightarrow> s = VAStatusActive \<or> s = VAStatusClosed"
  by (auto simp: ValidTransition_def allowed_transitions_def)

lemma ValidTransition_Closed [simp]: "\<not> ValidTransition VAStatusClosed s"
  by (simp add: ValidTransition_def allowed_transitions_def)

lemma ValidTransition_Pending [simp]:
  "ValidTransition VAStatusPending s \<longleftrightarrow> s = VAStatusActive"
  by (auto simp: ValidTransition_def allowed_transitions_def)

section \<open>Transactions and ledger\<close>

record transaction =
  Tx_ID :: string
  Tx_VirtualAccountID :: "string option"
  Tx_SessionID :: "string option"
  Tx_AmountKobo :: int64
  Tx_Direction :: string
  Tx_Source :: string
  Tx_Status :: string
  Tx_SenderName :: "string option"
  Tx_SenderBank :: "string option"
  Tx_Narration :: "string option"
  Tx_Raw :: json
  Tx_OccurredAt :: time
  Tx_CreatedAt :: time
  Tx_NUBAN :: string

record ledger_entry =
  LE_TransactionID :: string
  LE_Account :: string
  LE_Direction :: string
  LE_AmountKobo :: int64

definition CustomerWalletAccount :: "string \<Rightarrow> string" where
  "CustomerWalletAccount customerID = ''customer_wallet:'' @ customerID"

definition AccountNombaSettlement :: string where
  "AccountNombaSettlement = ''nomba_settlement''"

definition AccountSuspense :: string where
  "AccountSuspense = ''suspense''"

definition AccountFeeIncome :: string where
  "AccountFeeIncome = ''fee_income''"

lemma wallet_inject [simp]:
  "CustomerWalletAccount a = CustomerWalletAccount b \<longleftrightarrow> a = b"
  by (simp add: CustomerWalletAccount_def)

lemma account_names_distinct [simp]:
  "CustomerWalletAccount a \<noteq> AccountNombaSettlement"
  "CustomerWalletAccount a \<noteq> AccountSuspense"
  "AccountNombaSettlement \<noteq> CustomerWalletAccount a"
  "AccountSuspense \<noteq> CustomerWalletAccount a"
  "AccountNombaSettlement \<noteq> AccountSuspense"
  "AccountSuspense \<noteq> AccountNombaSettlement"
  by (simp_all add: CustomerWalletAccount_def AccountNombaSettlement_def AccountSuspense_def)

record statement_entry =
  SE_OccurredAt :: time
  SE_Description :: string
  SE_DebitKobo :: int64
  SE_CreditKobo :: int64
  SE_RunningBalance :: int64

record statement =
  St_OpeningBalanceKobo :: int64
  St_ClosingBalanceKobo :: int64
  St_From :: time
  St_To :: time
  St_Entries :: "statement_entry list"

section \<open>Webhook events, suspense, sweep runs\<close>

record webhook_event =
  WE_ID :: string
  WE_DedupeKey :: string
  WE_EventType :: string
  WE_SignatureValid :: bool
  WE_Status :: string
  WE_Payload :: json
  WE_CreatedAt :: time
  WE_ProcessedAt :: "time option"

record suspense_item =
  SI_ID :: string
  SI_TransactionID :: string
  SI_Reason :: string
  SI_Status :: string
  SI_ResolvedBy :: "string option"
  SI_ResolvedAt :: "time option"
  SI_Notes :: "string option"
  SI_CreatedAt :: time
  SI_AmountKobo :: int64
  SI_NUBAN :: string

definition SuspenseReasonUnmatched :: string where
  "SuspenseReasonUnmatched = ''unmatched''"
definition SuspenseReasonClosedAccount :: string where
  "SuspenseReasonClosedAccount = ''closed_account''"
definition SuspenseReasonSuspendedAccount :: string where
  "SuspenseReasonSuspendedAccount = ''suspended_account''"
definition SuspenseReasonAmountMismatch :: string where
  "SuspenseReasonAmountMismatch = ''amount_mismatch''"
definition SuspenseReasonTierLimit :: string where
  "SuspenseReasonTierLimit = ''tier_limit''"

lemmas suspense_reason_defs =
  SuspenseReasonUnmatched_def SuspenseReasonClosedAccount_def
  SuspenseReasonSuspendedAccount_def SuspenseReasonAmountMismatch_def
  SuspenseReasonTierLimit_def

record sweep_run =
  Run_ID :: string
  Run_WindowFrom :: time
  Run_WindowTo :: time
  Run_PagesFetched :: int
  Run_Found :: int
  Run_Posted :: int
  Run_Suspensed :: int
  Run_DurationMS :: "int option"
  Run_Error :: "string option"
  Run_RanAt :: time

section \<open>Relay\<close>

record relay_endpoint =
  EP_ID :: string
  EP_TenantID :: string
  EP_URL :: string
  EP_SecretHash :: string
  EP_Active :: bool
  EP_CreatedAt :: time

record relay_delivery =
  Del_ID :: string
  Del_EndpointID :: string
  Del_EventType :: string
  Del_Payload :: json
  Del_Attempt :: int
  Del_Status :: string
  Del_StatusCode :: "int option"
  Del_Error :: "string option"
  Del_NextRetryAt :: "time option"
  Del_DeliveredAt :: "time option"
  Del_CreatedAt :: time

section \<open>Platform health\<close>

record cross_tenant_suspense_item = suspense_item +
  XSI_TenantName :: string

record ledger_health =
  LH_DebitsKobo :: int64
  LH_CreditsKobo :: int64
  LH_Balanced :: bool

record sweep_health_snapshot =
  SHS_Posted :: int
  SHS_Found :: int
  SHS_Suspensed :: int
  SHS_RanAt :: time

record webhook_health =
  WH_Delivered :: int
  WH_Total :: int

record suspense_health =
  SH_AmountKobo :: int64
  SH_ItemCount :: int
  SH_TenantCount :: int

record tenant_health =
  TH_ID :: string
  TH_Name :: string
  TH_Customers :: int
  TH_Accounts :: int
  TH_OpenSuspenseKobo :: int64
  TH_LastActivity :: "time option"
  TH_Status :: string

record platform_health =
  PH_Ledger :: ledger_health
  PH_LastSweep :: "sweep_health_snapshot option"
  PH_Webhook24h :: webhook_health
  PH_CrossTenantSuspense :: suspense_health
  PH_ActiveTenants :: int
  PH_TotalTenants :: int
  PH_TenantHealth :: "tenant_health list"
  PH_CheckedAt :: time

section \<open>Withdrawals, collections, audit\<close>

record withdrawal =
  Wd_ID :: string
  Wd_CustomerID :: string
  Wd_VirtualAccountID :: "string option"
  Wd_AmountKobo :: int64
  Wd_DestinationBankCode :: string
  Wd_DestinationAccountNumber :: string
  Wd_DestinationAccountName :: string
  Wd_Narration :: string
  Wd_Status :: string
  Wd_ProviderTransactionID :: "string option"
  Wd_ProviderSessionID :: "string option"
  Wd_FailureReason :: "string option"
  Wd_Raw :: json
  Wd_CreatedAt :: time
  Wd_UpdatedAt :: time

record collection =
  Col_ID :: string
  Col_CustomerID :: string
  Col_VirtualAccountID :: "string option"
  Col_ExpectedAmountKobo :: "int64 option"
  Col_Reference :: string
  Col_Description :: string
  Col_Status :: string
  Col_ExpiresAt :: "time option"
  Col_FulfilledByTxnID :: "string option"
  Col_FulfilledAt :: "time option"
  Col_CreatedAt :: time
  Col_UpdatedAt :: time
  Col_NUBAN :: string
  Col_BankName :: string

record audit_entry =
  Aud_ID :: string
  Aud_TenantID :: "string option"
  Aud_Actor :: string
  Aud_Action :: string
  Aud_EntityType :: string
  Aud_EntityID :: string
  Aud_BeforeAfter :: json
  Aud_At :: time

end
