(* ===== verification/Ledger.thy ===== *)
theory Ledger
  imports Domain
begin

text \<open>
  \<^verbatim>\<open>internal/ledger/ledger.go\<close>: the six constructors of balanced entry lists. The locale
  \<open>double_entry\<close> is the contract they share (reject a non-positive amount, otherwise debit
  one account and credit another by the same amount); it is interpreted on each of them.
  The first section holds the abstract reading of an entry list: the \<open>int64\<close> balance of an
  account, as the stores compute it, and the exact integer sums that NFR-1 is about.
\<close>

section \<open>Balances of entry lists\<close>

definition signed_amount :: "ledger_entry \<Rightarrow> int64" where
  "signed_amount e = (if LE_Direction e = ''credit'' then LE_AmountKobo e else - LE_AmountKobo e)"

definition balance :: "string \<Rightarrow> ledger_entry list \<Rightarrow> int64" where
  "balance a es = sum_list (map (\<lambda>e. if LE_Account e = a then signed_amount e else 0) es)"

definition exact_balance :: "string \<Rightarrow> ledger_entry list \<Rightarrow> int" where
  "exact_balance a es =
     sum_list (map (\<lambda>e. if LE_Account e = a
                        then (if LE_Direction e = ''credit'' then sint (LE_AmountKobo e)
                              else - sint (LE_AmountKobo e)) else 0) es)"

definition total_debits :: "ledger_entry list \<Rightarrow> int" where
  "total_debits es =
     sum_list (map (\<lambda>e. sint (LE_AmountKobo e)) (filter (\<lambda>e. LE_Direction e = ''debit'') es))"

definition total_credits :: "ledger_entry list \<Rightarrow> int" where
  "total_credits es =
     sum_list (map (\<lambda>e. sint (LE_AmountKobo e)) (filter (\<lambda>e. LE_Direction e = ''credit'') es))"

text \<open>The entries of one transaction, as the ledger promises them.\<close>

definition well_formed_entries :: "string \<Rightarrow> ledger_entry list \<Rightarrow> bool" where
  "well_formed_entries tx es \<longleftrightarrow>
     (\<forall>e \<in> set es. LE_TransactionID e = tx \<and> LE_Direction e \<in> {''debit'', ''credit''}
                  \<and> 0 < sint (LE_AmountKobo e)) \<and>
     total_debits es = total_credits es"

lemma balance_simps [simp]:
  "balance a [] = 0"
  "balance a (e # es) = (if LE_Account e = a then signed_amount e else 0) + balance a es"
  "balance a (es @ fs) = balance a es + balance a fs"
  by (simp_all add: balance_def)

lemma exact_balance_simps [simp]:
  "exact_balance a [] = 0"
  "exact_balance a (es @ fs) = exact_balance a es + exact_balance a fs"
  by (simp_all add: exact_balance_def)

lemma totals_simps [simp]:
  "total_debits [] = 0" "total_credits [] = 0"
  "total_debits (es @ fs) = total_debits es + total_debits fs"
  "total_credits (es @ fs) = total_credits es + total_credits fs"
  by (simp_all add: total_debits_def total_credits_def)

text \<open>The computed balance is the exact one modulo \<open>2 ^ 64\<close>, hence exact when it fits.\<close>

lemma balance_of_exact: "balance a es = word_of_int (exact_balance a es)"
  by (induction es) (auto simp: balance_def exact_balance_def signed_amount_def)

lemma sint_balance: "fits64 (exact_balance a es) \<Longrightarrow> sint (balance a es) = exact_balance a es"
  by (simp add: balance_of_exact sint_of_int_fits)

section \<open>The six constructors\<close>

definition not_positive :: "int64 \<Rightarrow> go_error" where
  "not_positive amountKobo =
     Errorf (''ledger: amount must be positive, got '' @ show_int (sint amountKobo))"

definition CreditCustomer :: "string \<Rightarrow> string \<Rightarrow> int64 \<Rightarrow> go_error + ledger_entry list" where
  "CreditCustomer txID customerID amountKobo =
     (if sint amountKobo \<le> 0 then Inl (not_positive amountKobo)
      else let wallet = CustomerWalletAccount customerID in
        Inr [\<lparr>LE_TransactionID = txID, LE_Account = AccountNombaSettlement,
              LE_Direction = ''debit'', LE_AmountKobo = amountKobo\<rparr>,
             \<lparr>LE_TransactionID = txID, LE_Account = wallet,
              LE_Direction = ''credit'', LE_AmountKobo = amountKobo\<rparr>])"

definition CreditSuspense :: "string \<Rightarrow> int64 \<Rightarrow> go_error + ledger_entry list" where
  "CreditSuspense txID amountKobo =
     (if sint amountKobo \<le> 0 then Inl (not_positive amountKobo)
      else Inr [\<lparr>LE_TransactionID = txID, LE_Account = AccountNombaSettlement,
                 LE_Direction = ''debit'', LE_AmountKobo = amountKobo\<rparr>,
                \<lparr>LE_TransactionID = txID, LE_Account = AccountSuspense,
                 LE_Direction = ''credit'', LE_AmountKobo = amountKobo\<rparr>])"

definition ReversalEntries :: "string \<Rightarrow> string \<Rightarrow> int64 \<Rightarrow> go_error + ledger_entry list" where
  "ReversalEntries reversalTxID customerID amountKobo =
     (if sint amountKobo \<le> 0 then Inl (not_positive amountKobo)
      else let wallet = CustomerWalletAccount customerID in
        Inr [\<lparr>LE_TransactionID = reversalTxID, LE_Account = wallet,
              LE_Direction = ''debit'', LE_AmountKobo = amountKobo\<rparr>,
             \<lparr>LE_TransactionID = reversalTxID, LE_Account = AccountNombaSettlement,
              LE_Direction = ''credit'', LE_AmountKobo = amountKobo\<rparr>])"

definition ReversalToSuspense :: "string \<Rightarrow> int64 \<Rightarrow> go_error + ledger_entry list" where
  "ReversalToSuspense reversalTxID amountKobo =
     (if sint amountKobo \<le> 0 then Inl (not_positive amountKobo)
      else Inr [\<lparr>LE_TransactionID = reversalTxID, LE_Account = AccountSuspense,
                 LE_Direction = ''debit'', LE_AmountKobo = amountKobo\<rparr>,
                \<lparr>LE_TransactionID = reversalTxID, LE_Account = AccountNombaSettlement,
                 LE_Direction = ''credit'', LE_AmountKobo = amountKobo\<rparr>])"

definition WithdrawCustomer :: "string \<Rightarrow> string \<Rightarrow> int64 \<Rightarrow> go_error + ledger_entry list" where
  "WithdrawCustomer txID customerID amountKobo =
     (if sint amountKobo \<le> 0 then Inl (not_positive amountKobo)
      else let wallet = CustomerWalletAccount customerID in
        Inr [\<lparr>LE_TransactionID = txID, LE_Account = wallet,
              LE_Direction = ''debit'', LE_AmountKobo = amountKobo\<rparr>,
             \<lparr>LE_TransactionID = txID, LE_Account = AccountNombaSettlement,
              LE_Direction = ''credit'', LE_AmountKobo = amountKobo\<rparr>])"

definition SuspenseToCustomer :: "string \<Rightarrow> string \<Rightarrow> int64 \<Rightarrow> go_error + ledger_entry list" where
  "SuspenseToCustomer resolutionTxID customerID amountKobo =
     (if sint amountKobo \<le> 0 then Inl (not_positive amountKobo)
      else let wallet = CustomerWalletAccount customerID in
        Inr [\<lparr>LE_TransactionID = resolutionTxID, LE_Account = AccountSuspense,
              LE_Direction = ''debit'', LE_AmountKobo = amountKobo\<rparr>,
             \<lparr>LE_TransactionID = resolutionTxID, LE_Account = wallet,
              LE_Direction = ''credit'', LE_AmountKobo = amountKobo\<rparr>])"

section \<open>The shared contract\<close>

locale double_entry =
  fixes build :: "int64 \<Rightarrow> go_error + ledger_entry list"
    and tx dr cr :: string
  assumes rejects: "sint amt \<le> 0 \<Longrightarrow> build amt = Inl (not_positive amt)"
    and builds: "0 < sint amt \<Longrightarrow>
      build amt = Inr [\<lparr>LE_TransactionID = tx, LE_Account = dr,
                        LE_Direction = ''debit'', LE_AmountKobo = amt\<rparr>,
                       \<lparr>LE_TransactionID = tx, LE_Account = cr,
                        LE_Direction = ''credit'', LE_AmountKobo = amt\<rparr>]"
    and two_accounts: "dr \<noteq> cr"
begin

lemma accepts_iff: "(\<exists>es. build amt = Inr es) \<longleftrightarrow> 0 < sint amt"
  using rejects [of amt] builds [of amt] by (cases "sint amt \<le> 0") auto

lemma build_Inr:
  assumes "build amt = Inr es"
  shows "0 < sint amt"
    and "es = [\<lparr>LE_TransactionID = tx, LE_Account = dr,
                LE_Direction = ''debit'', LE_AmountKobo = amt\<rparr>,
               \<lparr>LE_TransactionID = tx, LE_Account = cr,
                LE_Direction = ''credit'', LE_AmountKobo = amt\<rparr>]"
  using assms rejects [of amt] builds [of amt] by (cases "sint amt \<le> 0"; simp)+

lemma well_formed: "build amt = Inr es \<Longrightarrow> well_formed_entries tx es"
  by (frule build_Inr(1), drule build_Inr(2))
    (simp add: well_formed_entries_def total_debits_def total_credits_def)

lemma moves:
  "build amt = Inr es \<Longrightarrow>
     balance a es = (if a = dr then - amt else if a = cr then amt else 0)"
  using two_accounts by (drule_tac build_Inr(2)) (simp add: signed_amount_def)

lemma exact_moves:
  "build amt = Inr es \<Longrightarrow>
     exact_balance a es = (if a = dr then - sint amt else if a = cr then sint amt else 0)"
  using two_accounts by (drule_tac build_Inr(2)) (simp add: exact_balance_def)

lemma of_amount: "build amt = Inr es \<Longrightarrow> total_debits es = sint amt \<and> total_credits es = sint amt"
  by (drule build_Inr(2)) (simp add: total_debits_def total_credits_def)

end

interpretation credit_customer: double_entry "CreditCustomer t c" t AccountNombaSettlement
  "CustomerWalletAccount c" for t c
  by unfold_locales (auto simp: CreditCustomer_def Let_def)

interpretation credit_suspense: double_entry "CreditSuspense t" t AccountNombaSettlement
  AccountSuspense for t
  by unfold_locales (auto simp: CreditSuspense_def)

interpretation reversal_entries: double_entry "ReversalEntries t c" t "CustomerWalletAccount c"
  AccountNombaSettlement for t c
  by unfold_locales (auto simp: ReversalEntries_def Let_def)

interpretation reversal_to_suspense: double_entry "ReversalToSuspense t" t AccountSuspense
  AccountNombaSettlement for t
  by unfold_locales (auto simp: ReversalToSuspense_def)

interpretation withdraw_customer: double_entry "WithdrawCustomer t c" t "CustomerWalletAccount c"
  AccountNombaSettlement for t c
  by unfold_locales (auto simp: WithdrawCustomer_def Let_def)

interpretation suspense_to_customer: double_entry "SuspenseToCustomer t c" t AccountSuspense
  "CustomerWalletAccount c" for t c
  by unfold_locales (auto simp: SuspenseToCustomer_def Let_def)

lemmas builders_well_formed =
  credit_customer.well_formed credit_suspense.well_formed reversal_entries.well_formed
  reversal_to_suspense.well_formed withdraw_customer.well_formed suspense_to_customer.well_formed

text \<open>
  Well-formed entries balance in the machine arithmetic of the stores as well: their signed
  \<open>int64\<close> sum is zero.
\<close>

lemma net_of_totals:
  "(\<forall>e \<in> set es. LE_Direction e \<in> {''debit'', ''credit''}) \<Longrightarrow>
   sum_list (map signed_amount es) = word_of_int (total_credits es - total_debits es)"
  by (induction es) (auto simp: signed_amount_def total_debits_def total_credits_def algebra_simps)

lemma well_formed_net: "well_formed_entries tx es \<Longrightarrow> sum_list (map signed_amount es) = 0"
  by (subst net_of_totals) (auto simp: well_formed_entries_def)

section \<open>Properties\<close>

text \<open>
  C14: Each of the six entry constructors rejects every non-positive amount with the same
  error, and for every positive amount builds exactly two entries, tagged with the given
  transaction, one debit and one credit of exactly that amount on two different accounts, so
  that the exact debits and credits of the list agree (NFR-1) and its int64 net is zero.
\<close>

theorem constructors_balanced:
  "list_all (\<lambda>build.
     if 0 < sint amt
     then \<exists>es. build amt = Inr es \<and> length es = 2 \<and> well_formed_entries t es \<and>
               total_debits es = sint amt \<and> total_credits es = sint amt \<and>
               map LE_Direction es = [''debit'', ''credit''] \<and> distinct (map LE_Account es) \<and>
               sum_list (map signed_amount es) = 0
     else build amt = Inl (not_positive amt))
   [CreditCustomer t c, CreditSuspense t, ReversalEntries t c, ReversalToSuspense t,
    WithdrawCustomer t c, SuspenseToCustomer t c]"
  by (simp add: CreditCustomer_def CreditSuspense_def ReversalEntries_def ReversalToSuspense_def
      WithdrawCustomer_def SuspenseToCustomer_def Let_def well_formed_entries_def total_debits_def
      total_credits_def signed_amount_def)

text \<open>
  The entry constructors move the amount between exactly the two accounts their names
  say, in exact integers and for every account of the ledger: a credit or a reassignment
  raises one wallet, a withdrawal or a reversal lowers one wallet, and no other wallet moves.
\<close>

theorem constructors_move:
  assumes "0 < sint amt"
  shows "\<exists>e1 e2 e3 e4 e5 e6.
     CreditCustomer t c amt = Inr e1 \<and> CreditSuspense t amt = Inr e2 \<and>
     ReversalEntries t c amt = Inr e3 \<and> ReversalToSuspense t amt = Inr e4 \<and>
     WithdrawCustomer t c amt = Inr e5 \<and> SuspenseToCustomer t c amt = Inr e6 \<and>
     map (\<lambda>es. exact_balance (CustomerWalletAccount d) es) [e1, e2, e3, e4, e5, e6] =
          (if d = c then [sint amt, 0, - sint amt, 0, - sint amt, sint amt] else [0, 0, 0, 0, 0, 0]) \<and>
     map (\<lambda>es. exact_balance AccountSuspense es) [e1, e2, e3, e4, e5, e6] =
          [0, sint amt, 0, - sint amt, 0, - sint amt] \<and>
     map (\<lambda>es. exact_balance AccountNombaSettlement es) [e1, e2, e3, e4, e5, e6] =
          [- sint amt, - sint amt, sint amt, sint amt, sint amt, 0]"
  using assms
  by (simp add: CreditCustomer_def CreditSuspense_def ReversalEntries_def ReversalToSuspense_def
      WithdrawCustomer_def SuspenseToCustomer_def Let_def exact_balance_def)

theorem constructors_move_witness:
  "\<exists>e. CreditCustomer ''tx'' ''c1'' 5000 = Inr e \<and>
       exact_balance (CustomerWalletAccount ''c1'') e = 5000 \<and>
       exact_balance AccountNombaSettlement e = - 5000"
  using constructors_move [of 5000 "''tx''" "''c1''" "''c1''"] by auto

end
