(* ===== verification/Store.thy ===== *)
theory Store
  imports Ledger
begin

text \<open>
  The repository interfaces of \<^verbatim>\<open>internal/store/store.go\<close>. A Go interface value is a record
  of operations over a world of type \<open>'w\<close> (the state of the store behind it); a service
  that holds an interface value takes the record as an argument, so the same service runs
  over the in-memory stores and over the Postgres repositories, as in the program.

  An operation that returns \<open>(value, error)\<close> yields \<open>Inl err\<close> or \<open>Inr value\<close>, one that
  returns \<open>error\<close> yields an optional error, and one that changes the store returns the new
  world as well. Mutating operations take the reading of the clock they may use. The
  \<open>_View\<close> operations say what reading through a pointer that a getter returned earlier
  yields in a later world: the in-memory stores return pointers to their own objects (a
  later update is visible through them), the Postgres repositories return fresh copies.
\<close>

section \<open>Interfaces\<close>

record 'w tenant_store =
  ts_CreateTenant :: "time \<Rightarrow> string \<Rightarrow> 'w \<Rightarrow> (go_error + tenant) \<times> 'w"
  ts_GetTenantByAPIKey :: "string \<Rightarrow> 'w \<Rightarrow> go_error + (tenant option \<times> api_key option)"
  ts_CreateAPIKey :: "string \<Rightarrow> string \<Rightarrow> string \<Rightarrow> string \<Rightarrow> 'w \<Rightarrow> (go_error + api_key) \<times> 'w"
  ts_ListTenants :: "'w \<Rightarrow> go_error + tenant list"
  ts_ListAPIKeys :: "string \<Rightarrow> 'w \<Rightarrow> go_error + api_key list"
  ts_RevokeAPIKey :: "string \<Rightarrow> string \<Rightarrow> 'w \<Rightarrow> go_error option \<times> 'w"

record 'w customer_store =
  cs_CreateCustomer :: "time \<Rightarrow> string \<Rightarrow> string \<Rightarrow> string \<Rightarrow> identity_input \<Rightarrow> 'w
                         \<Rightarrow> (go_error + customer) \<times> 'w"
  cs_GetCustomer :: "string \<Rightarrow> string \<Rightarrow> 'w \<Rightarrow> go_error + customer option"
  cs_GetCustomerByExternalRef :: "string \<Rightarrow> string \<Rightarrow> 'w \<Rightarrow> go_error + customer option"
  cs_UpdateKYCTier :: "time \<Rightarrow> string \<Rightarrow> int \<Rightarrow> string \<Rightarrow> 'w \<Rightarrow> go_error option \<times> 'w"
  cs_ListCustomers :: "string \<Rightarrow> int \<Rightarrow> string \<Rightarrow> 'w \<Rightarrow> go_error + (customer list \<times> string)"
  cs_GetCustomerByID :: "string \<Rightarrow> 'w \<Rightarrow> go_error + customer option"
  cs_View :: "customer \<Rightarrow> 'w \<Rightarrow> customer"

record 'w virtual_account_store =
  vs_CreateVirtualAccount :: "time \<Rightarrow> virtual_account \<Rightarrow> 'w
                               \<Rightarrow> (go_error + virtual_account) \<times> 'w"
  vs_GetActiveVA :: "string \<Rightarrow> 'w \<Rightarrow> go_error + virtual_account option"
  vs_GetLatestVA :: "string \<Rightarrow> 'w \<Rightarrow> go_error + virtual_account option"
  vs_GetVAByNUBAN :: "string \<Rightarrow> 'w \<Rightarrow> go_error + virtual_account option"
  vs_GetVAByAccountRef :: "string \<Rightarrow> 'w \<Rightarrow> go_error + virtual_account option"
  vs_GetVAByCustomerAndStatus :: "string \<Rightarrow> string \<Rightarrow> 'w \<Rightarrow> go_error + virtual_account option"
  vs_UpdateVAStatus :: "time \<Rightarrow> string \<Rightarrow> string \<Rightarrow> string \<Rightarrow> 'w \<Rightarrow> go_error option \<times> 'w"
  vs_RenameVA :: "time \<Rightarrow> string \<Rightarrow> string \<Rightarrow> string \<Rightarrow> 'w \<Rightarrow> go_error option \<times> 'w"
  vs_ListVAs :: "string \<Rightarrow> int \<Rightarrow> string \<Rightarrow> 'w \<Rightarrow> go_error + (virtual_account list \<times> string)"
  vs_ListAllVAs :: "int \<Rightarrow> string \<Rightarrow> 'w \<Rightarrow> go_error + (virtual_account list \<times> string)"
  vs_View :: "virtual_account \<Rightarrow> 'w \<Rightarrow> virtual_account"

record 'w transaction_store =
  xs_PostTransaction :: "time \<Rightarrow> transaction \<Rightarrow> ledger_entry list \<Rightarrow> 'w
                          \<Rightarrow> (go_error + bool) \<times> 'w"
  xs_GetTransaction :: "string \<Rightarrow> 'w \<Rightarrow> go_error + transaction option"
  xs_GetTransactionForTenant :: "string \<Rightarrow> string \<Rightarrow> 'w \<Rightarrow> go_error + transaction option"
  xs_ListTransactions :: "string \<Rightarrow> int \<Rightarrow> string \<Rightarrow> 'w \<Rightarrow> go_error + (transaction list \<times> string)"
  xs_ListTenantTransactions :: "string \<Rightarrow> int \<Rightarrow> string \<Rightarrow> 'w
                                 \<Rightarrow> go_error + (transaction list \<times> string)"
  xs_GetBalance :: "string \<Rightarrow> 'w \<Rightarrow> go_error + int64"
  xs_GetDailyCredits :: "string \<Rightarrow> time \<Rightarrow> 'w \<Rightarrow> go_error + int64"
  xs_GetStatement :: "string \<Rightarrow> time \<Rightarrow> time \<Rightarrow> 'w \<Rightarrow> go_error + statement"

record 'w webhook_event_store =
  ws_InsertWebhookEvent :: "time \<Rightarrow> webhook_event \<Rightarrow> 'w
                             \<Rightarrow> (go_error + bool \<times> webhook_event) \<times> 'w"
  ws_MarkWebhookProcessed :: "time \<Rightarrow> string \<Rightarrow> string \<Rightarrow> 'w \<Rightarrow> go_error option \<times> 'w"
  ws_ListWebhookEvents :: "int \<Rightarrow> 'w \<Rightarrow> go_error + webhook_event list"

record 'w suspense_store =
  ss_CreateSuspenseItem :: "time \<Rightarrow> suspense_item \<Rightarrow> 'w \<Rightarrow> go_error option \<times> 'w"
  ss_ListSuspenseItems :: "string \<Rightarrow> int \<Rightarrow> string \<Rightarrow> 'w
                            \<Rightarrow> go_error + (suspense_item list \<times> string)"
  ss_ResolveSuspenseItem :: "time \<Rightarrow> string \<Rightarrow> string \<Rightarrow> string \<Rightarrow> string \<Rightarrow> 'w
                              \<Rightarrow> go_error option \<times> 'w"
  ss_GetSuspenseItem :: "string \<Rightarrow> 'w \<Rightarrow> go_error + suspense_item option"
  ss_ListOpenUnmatchedItems :: "int \<Rightarrow> 'w \<Rightarrow> go_error + suspense_item list"

record 'w sweep_store =
  sw_CreateSweepRun :: "time \<Rightarrow> sweep_run \<Rightarrow> 'w \<Rightarrow> go_error option \<times> 'w"
  sw_GetLastSweepTime :: "'w \<Rightarrow> go_error + time"
  sw_ListSweepRuns :: "int \<Rightarrow> 'w \<Rightarrow> go_error + sweep_run list"

record 'w audit_store =
  as_Append :: "time \<Rightarrow> audit_entry \<Rightarrow> 'w \<Rightarrow> go_error option \<times> 'w"
  as_ListAuditEntries :: "string \<Rightarrow> int \<Rightarrow> string \<Rightarrow> 'w \<Rightarrow> go_error + (audit_entry list \<times> string)"

record 'w auth_store =
  au_CreateCredential :: "time \<Rightarrow> user_credential \<Rightarrow> 'w \<Rightarrow> go_error option \<times> 'w"
  au_SeedCredential :: "time \<Rightarrow> user_credential \<Rightarrow> 'w \<Rightarrow> go_error option \<times> 'w"
  au_GetCredentialByEmail :: "string \<Rightarrow> 'w
     \<Rightarrow> go_error + (user_credential option \<times> tenant option \<times> api_key option)"

record 'w settings_store =
  se_GetSetting :: "string \<Rightarrow> 'w \<Rightarrow> go_error + json option"
  se_UpsertSetting :: "time \<Rightarrow> string \<Rightarrow> json \<Rightarrow> 'w \<Rightarrow> go_error option \<times> 'w"
  se_SeedSetting :: "time \<Rightarrow> string \<Rightarrow> json \<Rightarrow> 'w \<Rightarrow> go_error option \<times> 'w"

record 'w collection_store =
  ls_CreateCollection :: "time \<Rightarrow> collection \<Rightarrow> 'w \<Rightarrow> (go_error + collection) \<times> 'w"
  ls_GetCollection :: "string \<Rightarrow> 'w \<Rightarrow> go_error + collection option"
  ls_ListCollections :: "string \<Rightarrow> int \<Rightarrow> string \<Rightarrow> 'w \<Rightarrow> go_error + (collection list \<times> string)"
  ls_FulfillCollection :: "time \<Rightarrow> string \<Rightarrow> string \<Rightarrow> 'w \<Rightarrow> go_error option \<times> 'w"
  ls_CancelCollection :: "time \<Rightarrow> string \<Rightarrow> 'w \<Rightarrow> go_error option \<times> 'w"
  ls_FindOpenCollectionForVA :: "time \<Rightarrow> string \<Rightarrow> int64 \<Rightarrow> 'w \<Rightarrow> go_error + collection option"

record 'w withdrawal_store =
  wd_CreateWithdrawal :: "time \<Rightarrow> withdrawal \<Rightarrow> 'w \<Rightarrow> (go_error + withdrawal) \<times> 'w"
  wd_GetWithdrawal :: "string \<Rightarrow> 'w \<Rightarrow> go_error + withdrawal option"
  wd_UpdateWithdrawalStatus :: "time \<Rightarrow> string \<Rightarrow> string \<Rightarrow> string option \<Rightarrow> string option
     \<Rightarrow> string option \<Rightarrow> 'w \<Rightarrow> go_error option \<times> 'w"
  wd_ListWithdrawals :: "string \<Rightarrow> int \<Rightarrow> string \<Rightarrow> 'w \<Rightarrow> go_error + (withdrawal list \<times> string)"

record 'w platform_health_store =
  hs_GetPlatformHealth :: "time \<Rightarrow> 'w \<Rightarrow> go_error + platform_health"
  hs_ListCrossTenantSuspense :: "int \<Rightarrow> string \<Rightarrow> 'w
     \<Rightarrow> go_error + (cross_tenant_suspense_item list \<times> string)"

record 'w relay_store =
  rs_CreateEndpoint :: "time \<Rightarrow> relay_endpoint \<Rightarrow> 'w \<Rightarrow> (go_error + relay_endpoint) \<times> 'w"
  rs_ListEndpoints :: "string \<Rightarrow> 'w \<Rightarrow> go_error + relay_endpoint list"
  rs_GetEndpoint :: "string \<Rightarrow> 'w \<Rightarrow> go_error + relay_endpoint option"
  rs_DeactivateEndpoint :: "string \<Rightarrow> string \<Rightarrow> 'w \<Rightarrow> go_error option \<times> 'w"
  rs_CreateDelivery :: "time \<Rightarrow> relay_delivery \<Rightarrow> 'w \<Rightarrow> (go_error + relay_delivery) \<times> 'w"
  rs_UpdateDelivery :: "relay_delivery \<Rightarrow> 'w \<Rightarrow> go_error option \<times> 'w"
  rs_GetDelivery :: "string \<Rightarrow> 'w \<Rightarrow> go_error + relay_delivery option"
  rs_ListDeliveries :: "string \<Rightarrow> int \<Rightarrow> string \<Rightarrow> 'w \<Rightarrow> go_error + (relay_delivery list \<times> string)"
  rs_ListPendingRetries :: "time \<Rightarrow> int \<Rightarrow> 'w \<Rightarrow> go_error + relay_delivery list"

section \<open>The ledger contract of a transaction store\<close>

text \<open>
  The reading of a store's world as a ledger: the identifiers posted so far and the entries
  in posting order. \<open>ledger_inv\<close> is NFR-1 for every transaction and for the whole ledger.
\<close>

definition entries_of :: "string \<Rightarrow> ledger_entry list \<Rightarrow> ledger_entry list" where
  "entries_of tx es = filter (\<lambda>e. LE_TransactionID e = tx) es"

definition ledger_inv :: "(string, transaction) fmap \<Rightarrow> ledger_entry list \<Rightarrow> bool" where
  "ledger_inv m es \<longleftrightarrow>
     (\<forall>e \<in> set es. fmlookup m (LE_TransactionID e) \<noteq> None) \<and>
     (\<forall>tx. well_formed_entries tx (entries_of tx es)) \<and>
     total_debits es = total_credits es"

lemma entries_of_simps [simp]:
  "entries_of tx [] = []"
  "entries_of tx (es @ fs) = entries_of tx es @ entries_of tx fs"
  by (simp_all add: entries_of_def)

lemma entries_of_all: "(\<And>e. e \<in> set es \<Longrightarrow> LE_TransactionID e = tx) \<Longrightarrow>
    entries_of tx' es = (if tx' = tx then es else [])"
  by (auto simp: entries_of_def filter_empty_conv)

lemma entries_of_none: "(\<And>e. e \<in> set es \<Longrightarrow> LE_TransactionID e \<noteq> tx) \<Longrightarrow> entries_of tx es = []"
  by (auto simp: entries_of_def filter_empty_conv)

lemma well_formed_entries_Nil [simp]: "well_formed_entries tx []"
  by (simp add: well_formed_entries_def)

lemma ledger_inv_empty [simp]: "ledger_inv m []"
  by (simp add: ledger_inv_def)

lemma ledger_inv_post:
  assumes inv: "ledger_inv m es" and new: "fmlookup m tx = None"
    and wf: "well_formed_entries tx fs"
  shows "ledger_inv (fmupd tx t m) (es @ fs)"
proof -
  have tags: "\<And>e. e \<in> set fs \<Longrightarrow> LE_TransactionID e = tx"
    using wf by (simp add: well_formed_entries_def)
  have old: "entries_of tx es = []"
    using inv new by (intro entries_of_none) (auto simp: ledger_inv_def)
  have "well_formed_entries tx' (entries_of tx' (es @ fs))" for tx'
    using inv wf old by (simp add: entries_of_all [OF tags] ledger_inv_def)
  moreover have "total_debits (es @ fs) = total_credits (es @ fs)"
    using inv wf by (simp add: ledger_inv_def well_formed_entries_def)
  moreover have "\<forall>e \<in> set (es @ fs). fmlookup (fmupd tx t m) (LE_TransactionID e) \<noteq> None"
    using inv tags by (auto simp: ledger_inv_def)
  ultimately show ?thesis by (simp add: ledger_inv_def)
qed

section \<open>The abstract ledger\<close>

text \<open>
  The contract that every operation of the program is held to: as far as the ledger is
  concerned it does nothing, or it appends the well-formed entries of one transaction whose
  identifier was not used before.
\<close>

type_synonym ledger_state = "(string, transaction) fmap \<times> ledger_entry list"

inductive ledger_step :: "ledger_state \<Rightarrow> ledger_state \<Rightarrow> bool" where
  stay: "ledger_step s s"
| post: "fmlookup m i = None \<Longrightarrow> well_formed_entries i es \<Longrightarrow> Tx_ID t = i \<Longrightarrow>
           ledger_step (m, l) (fmupd i t m, l @ es)"

inductive_cases ledger_stepE: "ledger_step s s'"

abbreviation ledger_steps :: "ledger_state \<Rightarrow> ledger_state \<Rightarrow> bool" where
  "ledger_steps \<equiv> ledger_step\<^sup>*\<^sup>*"

lemma ledger_steps_refl [simp]: "ledger_steps s s"
  by simp

lemma ledger_steps_trans: "ledger_steps a b \<Longrightarrow> ledger_steps b c \<Longrightarrow> ledger_steps a c"
  by (rule rtranclp_trans)

lemma ledger_step_steps: "ledger_step a b \<Longrightarrow> ledger_steps a b"
  by (rule r_into_rtranclp)

lemma ledger_step_inv:
  "ledger_step s s' \<Longrightarrow> ledger_inv (fst s) (snd s) \<Longrightarrow> ledger_inv (fst s') (snd s')"
  by (erule ledger_stepE) (auto intro: ledger_inv_post)

lemma ledger_steps_inv:
  "ledger_steps s s' \<Longrightarrow> ledger_inv (fst s) (snd s) \<Longrightarrow> ledger_inv (fst s') (snd s')"
  by (induction rule: rtranclp_induct) (auto dest: ledger_step_inv)

text \<open>Nothing that was posted is ever changed or dropped.\<close>

lemma ledger_step_keeps:
  "ledger_step s s' \<Longrightarrow>
     (\<forall>i t. fmlookup (fst s) i = Some t \<longrightarrow> fmlookup (fst s') i = Some t) \<and>
     (\<exists>es. snd s' = snd s @ es)"
  by (erule ledger_stepE) auto

lemma ledger_steps_keeps:
  "ledger_steps s s' \<Longrightarrow>
     (\<forall>i t. fmlookup (fst s) i = Some t \<longrightarrow> fmlookup (fst s') i = Some t) \<and>
     (\<exists>es. snd s' = snd s @ es)"
proof (induction rule: rtranclp_induct)
  case base
  show ?case by simp
next
  case (step y z)
  from ledger_step_keeps [OF step(2)] step(3) show ?case by auto
qed

text \<open>In particular a posted transaction keeps exactly the entries it was posted with.\<close>

lemma ledger_step_entries_of:
  "ledger_step s s' \<Longrightarrow> fmlookup (fst s) i \<noteq> None \<Longrightarrow>
     fmlookup (fst s') i = fmlookup (fst s) i \<and> entries_of i (snd s') = entries_of i (snd s)"
  by (erule ledger_stepE)
    (auto simp: well_formed_entries_def intro!: entries_of_none)

lemma ledger_steps_entries_of:
  "ledger_steps s s' \<Longrightarrow> fmlookup (fst s) i \<noteq> None \<Longrightarrow>
     fmlookup (fst s') i = fmlookup (fst s) i \<and> entries_of i (snd s') = entries_of i (snd s)"
proof (induction rule: rtranclp_induct)
  case (step y z)
  from step.IH [OF step.prems] step.prems ledger_step_entries_of [OF step.hyps(2), of i]
  show ?case by simp
qed simp

lemma ledger_inv_all:
  assumes "ledger_inv m es"
  shows "total_debits es = total_credits es \<and>
    (\<forall>tx. total_debits (entries_of tx es) = total_credits (entries_of tx es)) \<and>
    LE_TransactionID ` set es \<subseteq> fmdom' m \<and> sum_list (map signed_amount es) = 0"
proof -
  have "LE_Direction x \<in> {''debit'', ''credit''}" if "x \<in> set es" for x
  proof -
    have "x \<in> set (entries_of (LE_TransactionID x) es)" using that by (simp add: entries_of_def)
    moreover have "well_formed_entries (LE_TransactionID x) (entries_of (LE_TransactionID x) es)"
      using assms unfolding ledger_inv_def by blast
    ultimately show ?thesis unfolding well_formed_entries_def by blast
  qed
  with assms show ?thesis
    by (auto simp: ledger_inv_def well_formed_entries_def net_of_totals fmlookup_dom'_iff)
qed

text \<open>\<open>leaves v op\<close>: the operation does not change what \<open>v\<close> reads.\<close>

definition leaves :: "('w \<Rightarrow> 'v) \<Rightarrow> ('w \<Rightarrow> 'a \<times> 'w) \<Rightarrow> bool" where
  "leaves v op \<longleftrightarrow> (\<forall>w. v (snd (op w)) = v w)"

lemma leavesD: "leaves v op \<Longrightarrow> v (snd (op w)) = v w"
  by (simp add: leaves_def)

lemma leaves_pair: "leaves v op \<Longrightarrow> op w = (r, w') \<Longrightarrow> v w' = v w"
  by (metis leavesD snd_conv)

lemma leavesI: "(\<And>w r w'. op w = (r, w') \<Longrightarrow> v w' = v w) \<Longrightarrow> leaves v op"
  unfolding leaves_def by (metis prod.collapse)

text \<open>\<open>keeps Q op\<close>: the operation keeps the invariant \<open>Q\<close>.\<close>

definition keeps :: "('w \<Rightarrow> bool) \<Rightarrow> ('w \<Rightarrow> 'a \<times> 'w) \<Rightarrow> bool" where
  "keeps Q op \<longleftrightarrow> (\<forall>w. Q w \<longrightarrow> Q (snd (op w)))"

lemma keepsD: "keeps Q op \<Longrightarrow> Q w \<Longrightarrow> Q (snd (op w))"
  by (simp add: keeps_def)

lemma keeps_pair: "keeps Q op \<Longrightarrow> op w = (r, w') \<Longrightarrow> Q w \<Longrightarrow> Q w'"
  by (metis keepsD snd_conv)

lemma keepsI: "(\<And>w r w'. op w = (r, w') \<Longrightarrow> Q w \<Longrightarrow> Q w') \<Longrightarrow> keeps Q op"
  unfolding keeps_def by (metis prod.collapse)

lemma leaves_keeps: "leaves v op \<longleftrightarrow> (\<forall>x. keeps (\<lambda>w. v w = x) op)"
  by (auto simp: leaves_def keeps_def)

lemma keeps_leaves: "leaves v op \<Longrightarrow> keeps (\<lambda>w. Q (v w)) op"
  by (simp add: leaves_def keeps_def)

section \<open>The lifecycle of virtual accounts\<close>

text \<open>
  The contract of the account directory: an account appears as ACTIVE, for a customer with no
  other ACTIVE account at that moment; afterwards only its name and its status change, the
  status along \<open>ValidTransition\<close>. Nothing is ever removed.
\<close>

type_synonym directory = "(string, virtual_account) fmap"

definition same_account :: "virtual_account \<Rightarrow> virtual_account \<Rightarrow> bool" where
  "same_account va va' \<longleftrightarrow>
     VA_ID va' = VA_ID va \<and> VA_CustomerID va' = VA_CustomerID va \<and>
     VA_NombaAccountRef va' = VA_NombaAccountRef va \<and> VA_NUBAN va' = VA_NUBAN va"

definition no_active :: "string \<Rightarrow> directory \<Rightarrow> bool" where
  "no_active c m \<longleftrightarrow>
     (\<forall>i va. fmlookup m i = Some va \<longrightarrow> VA_CustomerID va = c \<longrightarrow> VA_Status va \<noteq> VAStatusActive)"

inductive va_step :: "directory \<Rightarrow> directory \<Rightarrow> bool" where
  va_stay: "va_step m m"
| va_open: "fmlookup m i = None \<Longrightarrow> VA_ID va = i \<Longrightarrow> VA_Status va = VAStatusActive \<Longrightarrow>
              no_active (VA_CustomerID va) m \<Longrightarrow> va_step m (fmupd i va m)"
| va_move: "fmlookup m i = Some va \<Longrightarrow> same_account va va' \<Longrightarrow>
              ValidTransition (VA_Status va) (VA_Status va') \<Longrightarrow> va_step m (fmupd i va' m)"
| va_rename: "fmlookup m i = Some va \<Longrightarrow> same_account va va' \<Longrightarrow> VA_Status va' = VA_Status va \<Longrightarrow>
              va_step m (fmupd i va' m)"

inductive_cases va_stepE: "va_step m m'"

abbreviation va_steps :: "directory \<Rightarrow> directory \<Rightarrow> bool" where
  "va_steps \<equiv> va_step\<^sup>*\<^sup>*"

lemma same_account_refl [simp]: "same_account va va"
  by (simp add: same_account_def)

lemma same_account_trans: "same_account a b \<Longrightarrow> same_account b c \<Longrightarrow> same_account a c"
  by (simp add: same_account_def)

lemma va_step_keeps:
  "va_step m m' \<Longrightarrow> fmlookup m i = Some va \<Longrightarrow>
     \<exists>va'. fmlookup m' i = Some va' \<and> same_account va va' \<and>
           (VA_Status va' = VA_Status va \<or> ValidTransition (VA_Status va) (VA_Status va'))"
  by (erule va_stepE) auto

lemma va_steps_keeps:
  assumes "va_steps m m'" and "fmlookup m i = Some va"
  shows "\<exists>va'. fmlookup m' i = Some va' \<and> same_account va va' \<and>
           (VA_Status va = VAStatusClosed \<longrightarrow> VA_Status va' = VAStatusClosed)"
  using assms
proof (induction rule: rtranclp_induct)
  case (step y z)
  then obtain va' where y: "fmlookup y i = Some va'" "same_account va va'"
    "VA_Status va = VAStatusClosed \<longrightarrow> VA_Status va' = VAStatusClosed" by blast
  from va_step_keeps [OF step(2) y(1)] y(2,3) show ?case
    by (auto intro: same_account_trans)
qed auto

text \<open>
  The interface of an account store to its clients: \<open>accts\<close> is its directory, \<open>cid\<close> the form in
  which it keeps a customer's identifier, \<open>inv\<close> what holds of its worlds, \<open>room\<close> that its
  identifiers are not used up.
\<close>

locale va_directory =
  fixes VS :: "'w virtual_account_store"
    and accts :: "'w \<Rightarrow> directory"
    and cid :: "string \<Rightarrow> string"
    and inv room :: "'w \<Rightarrow> bool"
  assumes get_active: "inv w \<Longrightarrow> vs_GetActiveVA VS c w = Inr (Some va) \<Longrightarrow>
      fmlookup (accts w) (VA_ID va) = Some va \<and> VA_CustomerID va = cid c \<and> VA_Status va = VAStatusActive"
    and get_active_none: "inv w \<Longrightarrow> vs_GetActiveVA VS c w = Inr None \<Longrightarrow> no_active (cid c) (accts w)"
    and get_status: "inv w \<Longrightarrow> vs_GetVAByCustomerAndStatus VS c st w = Inr (Some va) \<Longrightarrow>
      fmlookup (accts w) (VA_ID va) = Some va \<and> VA_CustomerID va = cid c \<and> VA_Status va = st"
    and update_status: "vs_UpdateVAStatus VS now i st actor w = (e, w') \<Longrightarrow>
      inv w \<Longrightarrow> fmlookup (accts w) i = Some va \<Longrightarrow>
      inv w' \<and> (if e = None
                then \<exists>va'. same_account va va' \<and> VA_Status va' = st \<and> accts w' = fmupd i va' (accts w)
                else accts w' = accts w)"
    and rename: "vs_RenameVA VS now i n actor w = (e, w') \<Longrightarrow>
      inv w \<Longrightarrow> fmlookup (accts w) i = Some va \<Longrightarrow>
      inv w' \<and> (if e = None
                then \<exists>va'. same_account va va' \<and> VA_Status va' = VA_Status va \<and>
                           accts w' = fmupd i va' (accts w)
                else accts w' = accts w)"
    and create_error: "vs_CreateVirtualAccount VS now va w = (Inl err, w') \<Longrightarrow> inv w \<Longrightarrow>
      inv w' \<and> accts w' = accts w"
    and create: "vs_CreateVirtualAccount VS now va w = (Inr va', w') \<Longrightarrow> VA_ID va = '''' \<Longrightarrow>
      inv w \<Longrightarrow> room w \<Longrightarrow>
      inv w' \<and> fmlookup (accts w) (VA_ID va') = None \<and>
      (\<exists>row. accts w' = fmupd (VA_ID va') row (accts w) \<and> VA_ID row = VA_ID va' \<and>
             VA_CustomerID row = cid (VA_CustomerID va) \<and> VA_NUBAN row = VA_NUBAN va \<and>
             VA_NombaAccountRef row = VA_NombaAccountRef va \<and> VA_Status row = VA_Status va)"

section \<open>The contract of a transaction store\<close>

locale transaction_ledger =
  fixes X :: "'w transaction_store"
    and txns :: "'w \<Rightarrow> (string, transaction) fmap"
    and entries :: "'w \<Rightarrow> ledger_entry list"
  assumes post_error: "xs_PostTransaction X now tx es w = (Inl err, w') \<Longrightarrow> w' = w"
    and post_dup: "xs_PostTransaction X now tx es w = (Inr False, w') \<Longrightarrow>
          w' = w \<and> fmlookup (txns w) (Tx_ID tx) \<noteq> None"
    and post_new: "xs_PostTransaction X now tx es w = (Inr True, w') \<Longrightarrow>
          fmlookup (txns w) (Tx_ID tx) = None \<and>
          (\<exists>t. txns w' = fmupd (Tx_ID tx) t (txns w) \<and> Tx_ID t = Tx_ID tx \<and>
               Tx_AmountKobo t = Tx_AmountKobo tx) \<and>
          entries w' = entries w @ es"
    and get_balance: "xs_GetBalance X a w = Inr b \<Longrightarrow> b = balance a (entries w)"
    and get_txn: "xs_GetTransaction X i w = Inr r \<Longrightarrow> r = fmlookup (txns w) i"
begin

lemma post_again:
  assumes "xs_PostTransaction X now tx es w = (Inr True, w1)"
    and "Tx_ID tx' = Tx_ID tx"
    and "xs_PostTransaction X now' tx' es' w1 = (r, w2)"
  shows "w2 = w1 \<and> r \<noteq> Inr True"
proof -
  from post_new [OF assms(1)] have dom: "fmlookup (txns w1) (Tx_ID tx') \<noteq> None"
    using assms(2) by auto
  show ?thesis
  proof (cases r)
    case (Inl e)
    with assms(3) post_error show ?thesis by auto
  next
    case (Inr b)
    with assms(3) dom post_dup [of now' tx' es' w1 w2] post_new [of now' tx' es' w1 w2]
    show ?thesis by (cases b) auto
  qed
qed

lemma post_present:
  "xs_PostTransaction X now tx es w = (Inr b, w') \<Longrightarrow> fmlookup (txns w') (Tx_ID tx) \<noteq> None"
  using post_dup [of now tx es w w'] post_new [of now tx es w w'] by (cases b) auto

lemma post_fresh:
  "xs_PostTransaction X now tx es w = (Inr b, w') \<Longrightarrow> fmlookup (txns w) (Tx_ID tx) = None \<Longrightarrow> b"
  using post_dup [of now tx es w w'] by (cases b) auto

lemma post_seen:
  "fmlookup (txns w) (Tx_ID tx) \<noteq> None \<Longrightarrow> xs_PostTransaction X now tx es w = (Inr b, w') \<Longrightarrow>
     \<not> b \<and> w' = w"
  using post_dup [of now tx es w w'] post_new [of now tx es w w'] by (cases b) auto

lemma post_step:
  assumes "xs_PostTransaction X now tx es w = (r, w')"
    and "well_formed_entries (Tx_ID tx) es"
  shows "ledger_step (txns w, entries w) (txns w', entries w')"
proof (cases r)
  case (Inl e)
  with assms post_error [of now tx es w e w'] show ?thesis by (simp add: ledger_step.stay)
next
  case (Inr b)
  show ?thesis
  proof (cases b)
    case True
    with assms Inr post_new [of now tx es w w'] show ?thesis by (auto intro: ledger_step.post)
  next
    case False
    with assms Inr post_dup [of now tx es w w'] show ?thesis by (simp add: ledger_step.stay)
  qed
qed

lemma post_delta:
  assumes "xs_PostTransaction X now tx es w = (r, w')"
  shows "balance a (entries w') = balance a (entries w) + (if r = Inr True then balance a es else 0)"
proof (cases r)
  case (Inl e)
  with assms post_error [of now tx es w e w'] show ?thesis by simp
next
  case (Inr b)
  with assms post_dup [of now tx es w w'] post_new [of now tx es w w'] show ?thesis
    by (cases b) auto
qed

lemma post_keeps:
  assumes "xs_PostTransaction X now tx es w = (r, w')"
    and "fmlookup (txns w) i = Some t"
  shows "fmlookup (txns w') i = Some t"
proof (cases r)
  case (Inl e)
  with assms post_error [of now tx es w e w'] show ?thesis by simp
next
  case (Inr b)
  with assms post_dup [of now tx es w w'] post_new [of now tx es w w'] show ?thesis
    by (cases b) auto
qed

end

end
