(* ===== verification/Runtime.thy ===== *)
theory Runtime
  imports Store
begin

text \<open>
  The provider interface (\<^verbatim>\<open>internal/provider/provider.go\<close>), the tier-limit cache
  (\<^verbatim>\<open>internal/config/tier_limits.go\<close>), the in-memory provider
  (\<^verbatim>\<open>internal/provider/fakeprov/fake.go\<close>) and the in-process state that is not a store: the
  worker's channel, the limits cache and the goroutines that have been started and have not
  run yet.
\<close>

section \<open>Provider types\<close>

record va_request =
  CVR_AccountRef :: string
  CVR_AccountName :: string
  CVR_BVN :: string

record va_response =
  VAR_AccountRef :: string
  VAR_NUBAN :: string
  VAR_BankName :: string
  VAR_AccountName :: string
  VAR_AccountHolderID :: string

record nomba_va =
  NVA_AccountRef :: string
  NVA_NUBAN :: string
  NVA_BankName :: string
  NVA_AccountName :: string
  NVA_Status :: string
  NVA_CreatedAt :: string

record list_request =
  LTR_DateFrom :: time
  LTR_DateTo :: time
  LTR_Cursor :: string
  LTR_PageSize :: int
  LTR_VirtualAccount :: string

record provider_tx =
  PT_TransactionID :: string
  PT_SessionID :: string
  PT_AccountNumber :: string
  PT_AccountRef :: string
  PT_AmountKobo :: int64
  PT_Type :: string
  PT_Status :: string
  PT_SenderName :: string
  PT_SenderBank :: string
  PT_Narration :: string
  PT_OccurredAt :: time
  PT_Raw :: json

record tx_page =
  TP_Transactions :: "provider_tx list"
  TP_NextCursor :: string

record transfer_request =
  TR_AmountKobo :: int64
  TR_DestinationBankCode :: string
  TR_DestinationAccountNumber :: string
  TR_DestinationAccountName :: string
  TR_Narration :: string
  TR_Reference :: string

record transfer_response =
  TRsp_TransactionID :: string
  TRsp_SessionID :: string
  TRsp_Status :: string

record account_resolution =
  AR_AccountName :: string
  AR_AccountNumber :: string
  AR_BankCode :: string

record webhook_payload =
  WP_EventType :: string
  WP_Transaction :: provider_tx
  WP_Raw :: json

record work_item =
  WI_WebhookEventID :: string
  WI_Payload :: webhook_payload
  WI_Source :: string

text \<open>
  The provider as the services see it: an external system that may change its own state and
  fail on every call.
\<close>

record 'w provider =
  pv_CreateVA :: "va_request \<Rightarrow> 'w \<Rightarrow> (go_error + va_response) \<times> 'w"
  pv_UpdateVA :: "string \<Rightarrow> string \<Rightarrow> 'w \<Rightarrow> go_error option \<times> 'w"
  pv_CloseVA :: "string \<Rightarrow> 'w \<Rightarrow> go_error option \<times> 'w"
  pv_SuspendVA :: "string \<Rightarrow> 'w \<Rightarrow> go_error option \<times> 'w"
  pv_ListVAs :: "string \<Rightarrow> 'w \<Rightarrow> (go_error + nomba_va list \<times> string) \<times> 'w"
  pv_ListTransactions :: "list_request \<Rightarrow> 'w \<Rightarrow> (go_error + tx_page) \<times> 'w"
  pv_Requery :: "string \<Rightarrow> 'w \<Rightarrow> (go_error + provider_tx) \<times> 'w"
  pv_Transfer :: "transfer_request \<Rightarrow> 'w \<Rightarrow> (go_error + transfer_response) \<times> 'w"
  pv_ResolveAccount :: "string \<Rightarrow> string \<Rightarrow> 'w \<Rightarrow> (go_error + account_resolution) \<times> 'w"
  pv_VerifyWebhookSignature :: "(string \<times> string) list \<Rightarrow> json \<Rightarrow> 'w \<Rightarrow> go_error option"
  pv_ParseWebhook :: "time \<Rightarrow> json \<Rightarrow> 'w \<Rightarrow> go_error + webhook_payload"

text \<open>\<open>json.Marshal\<close> and \<open>json.Unmarshal\<close> on a provider transaction (the struct has no tags).\<close>

definition json_of_pt :: "provider_tx \<Rightarrow> json" where
  "json_of_pt pt = JObj
     [(''TransactionID'', JStr (PT_TransactionID pt)), (''SessionID'', JStr (PT_SessionID pt)),
      (''AccountNumber'', JStr (PT_AccountNumber pt)), (''AccountRef'', JStr (PT_AccountRef pt)),
      (''AmountKobo'', JInt (sint (PT_AmountKobo pt))), (''Type'', JStr (PT_Type pt)),
      (''Status'', JStr (PT_Status pt)), (''SenderName'', JStr (PT_SenderName pt)),
      (''SenderBank'', JStr (PT_SenderBank pt)), (''Narration'', JStr (PT_Narration pt)),
      (''OccurredAt'', JTime (PT_OccurredAt pt)), (''Raw'', raw_field (PT_Raw pt))]"

definition zero_pt :: provider_tx where
  "zero_pt = \<lparr>PT_TransactionID = '''', PT_SessionID = '''', PT_AccountNumber = '''',
     PT_AccountRef = '''', PT_AmountKobo = 0, PT_Type = '''', PT_Status = '''',
     PT_SenderName = '''', PT_SenderBank = '''', PT_Narration = '''', PT_OccurredAt = 0,
     PT_Raw = JNull\<rparr>"

fun pt_of_json :: "json \<Rightarrow> provider_tx option" where
  "pt_of_json JNull = Some zero_pt"
| "pt_of_json (JObj fs) =
     do { i \<leftarrow> jstring (jfield ''TransactionID'' fs);
          sid \<leftarrow> jstring (jfield ''SessionID'' fs);
          nuban \<leftarrow> jstring (jfield ''AccountNumber'' fs);
          ref \<leftarrow> jstring (jfield ''AccountRef'' fs);
          amt \<leftarrow> jint64 (jfield ''AmountKobo'' fs);
          ty \<leftarrow> jstring (jfield ''Type'' fs);
          st \<leftarrow> jstring (jfield ''Status'' fs);
          sn \<leftarrow> jstring (jfield ''SenderName'' fs);
          sb \<leftarrow> jstring (jfield ''SenderBank'' fs);
          narr \<leftarrow> jstring (jfield ''Narration'' fs);
          occ \<leftarrow> jtime (jfield ''OccurredAt'' fs);
          raw \<leftarrow> jraw (jfield ''Raw'' fs);
          Some \<lparr>PT_TransactionID = i, PT_SessionID = sid, PT_AccountNumber = nuban,
                PT_AccountRef = ref, PT_AmountKobo = amt, PT_Type = ty, PT_Status = st,
                PT_SenderName = sn, PT_SenderBank = sb, PT_Narration = narr,
                PT_OccurredAt = occ, PT_Raw = raw\<rparr> }"
| "pt_of_json _ = None"

lemma pt_of_json_of_pt [simp]: "pt_of_json (json_of_pt pt) = Some pt"
  by (simp add: json_of_pt_def jfield_def sint_range)

section \<open>Tier limits\<close>

record tier_limit =
  TL_DailyCreditKobo :: int64
  TL_MaxBalanceKobo :: int64

definition TierLimitsKey :: string where
  "TierLimitsKey = ''tier_limits''"

definition json_of_limit :: "tier_limit \<Rightarrow> json" where
  "json_of_limit l = JObj [(''daily_credit_kobo'', JInt (sint (TL_DailyCreditKobo l))),
                           (''max_balance_kobo'', JInt (sint (TL_MaxBalanceKobo l)))]"

fun limit_of_json :: "json \<Rightarrow> tier_limit option" where
  "limit_of_json JNull = Some \<lparr>TL_DailyCreditKobo = 0, TL_MaxBalanceKobo = 0\<rparr>"
| "limit_of_json (JObj fs) =
     do { d \<leftarrow> jint64 (jmember ''daily_credit_kobo'' fs);
          m \<leftarrow> jint64 (jmember ''max_balance_kobo'' fs);
          Some \<lparr>TL_DailyCreditKobo = d, TL_MaxBalanceKobo = m\<rparr> }"
| "limit_of_json _ = None"

definition DefaultTierLimitsJSON :: json where
  "DefaultTierLimitsJSON = JObj
     [(''1'', JObj [(''daily_credit_kobo'', JInt 5000000), (''max_balance_kobo'', JInt 30000000)]),
      (''2'', JObj [(''daily_credit_kobo'', JInt 20000000), (''max_balance_kobo'', JInt 500000000)]),
      (''3'', JObj [(''daily_credit_kobo'', JInt 0), (''max_balance_kobo'', JInt 0)])]"

text \<open>
  \<open>json.Unmarshal\<close> into a \<open>map[string]TierLimit\<close>: \<open>null\<close> gives the nil map, a later
  duplicate of a key replaces the earlier one.
\<close>

definition add_limit :: "(string, tier_limit) fmap option \<Rightarrow> string \<times> json
    \<Rightarrow> (string, tier_limit) fmap option" where
  "add_limit acc kv =
     (case acc of None \<Rightarrow> None
      | Some m \<Rightarrow> map_option (\<lambda>l. fmupd (fst kv) l m) (limit_of_json (snd kv)))"

fun limit_map_of_json :: "json \<Rightarrow> (string, tier_limit) fmap option" where
  "limit_map_of_json JNull = Some fmempty"
| "limit_map_of_json (JObj fs) =
     foldl add_limit (Some fmempty) fs"
| "limit_map_of_json _ = None"

text \<open>
  \<open>fmt.Sscanf(k, "%d", &tier)\<close>: blanks are skipped, an optional sign and at least one digit
  are read, what follows the digits is ignored, and a value outside the range of \<open>int\<close> is
  an error.
\<close>

definition is_digit :: "char \<Rightarrow> bool" where
  "is_digit c \<longleftrightarrow> c \<in> set ''0123456789''"

definition is_blank :: "char \<Rightarrow> bool" where
  "is_blank c \<longleftrightarrow> c \<in> {CHR 0x09, CHR 0x0B, CHR 0x0C, CHR 0x0D, CHR '' ''}"

definition sscanf_d :: "string \<Rightarrow> int option" where
  "sscanf_d s =
     (let s = dropWhile is_blank s;
          neg = (s \<noteq> [] \<and> hd s = CHR ''-'');
          s = (if s \<noteq> [] \<and> hd s \<in> {CHR ''+'', CHR ''-''} then tl s else s);
          ds = takeWhile is_digit s;
          n = (if neg then - int (undec ds) else int (undec ds))
      in if ds = [] then None else if fits64 n then Some n else None)"

text \<open>
  The cache holds the current limits; \<open>Load\<close> replaces them only when the whole document is
  acceptable. The second argument is the order of the \<open>range\<close> over the decoded map.
\<close>

type_synonym tier_limits = "(int, tier_limit) fmap"

definition parse_limits :: "range_order \<Rightarrow> json \<Rightarrow> go_error + tier_limits" where
  "parse_limits r raw =
     (case limit_map_of_json raw of
        None \<Rightarrow> Inl (Wrap ''tier limits: invalid JSON'' (Errorf ''json''))
      | Some strMap \<Rightarrow>
          foldl (\<lambda>acc k. case acc of
                   Inl err \<Rightarrow> Inl err
                 | Inr m \<Rightarrow> (case sscanf_d k of
                     None \<Rightarrow> Inl (Errorf (''tier limits: key '' @ k @ '' is not an integer tier''))
                   | Some tier \<Rightarrow> Inr (fmupd tier (the (fmlookup strMap k)) m)))
            (Inr fmempty) (range_keys r strMap))"

section \<open>The in-memory provider\<close>

record fake =
  fk_accounts :: "(string, va_response) fmap"
  fk_transactions :: "(string, provider_tx) fmap"
  fk_nextNUBAN :: nat

definition fake_New :: fake where
  "fake_New = \<lparr>fk_accounts = fmempty, fk_transactions = fmempty, fk_nextNUBAN = 1000000001\<rparr>"

definition pad10 :: "nat \<Rightarrow> string" where
  "pad10 n = replicate (10 - length (dec_nat n)) (CHR ''0'') @ dec_nat n"

definition fake_SeedTransaction :: "provider_tx \<Rightarrow> fake \<Rightarrow> fake" where
  "fake_SeedTransaction t f =
     f\<lparr>fk_transactions := fmupd (PT_TransactionID t) t (fk_transactions f)\<rparr>"

definition fake_CreateVA :: "va_request \<Rightarrow> fake \<Rightarrow> (go_error + va_response) \<times> fake" where
  "fake_CreateVA req f =
     (case fmlookup (fk_accounts f) (CVR_AccountRef req) of
        Some existing \<Rightarrow> (Inr existing, f)
      | None \<Rightarrow>
          let va = \<lparr>VAR_AccountRef = CVR_AccountRef req, VAR_NUBAN = pad10 (fk_nextNUBAN f),
                    VAR_BankName = ''FakeBank'', VAR_AccountName = CVR_AccountName req,
                    VAR_AccountHolderID = ''fake-holder-'' @ CVR_AccountRef req\<rparr>
          in (Inr va, f\<lparr>fk_nextNUBAN := fk_nextNUBAN f + 1,
                        fk_accounts := fmupd (CVR_AccountRef req) va (fk_accounts f)\<rparr>))"

definition fake_find_ref :: "range_order \<Rightarrow> string \<Rightarrow> fake \<Rightarrow> string option" where
  "fake_find_ref r identifier f =
     List.find (\<lambda>ref. let va = the (fmlookup (fk_accounts f) ref)
                      in VAR_AccountRef va = identifier \<or> VAR_NUBAN va = identifier)
       (range_keys r (fk_accounts f))"

definition fake_UpdateVA :: "range_order \<Rightarrow> string \<Rightarrow> string \<Rightarrow> fake \<Rightarrow> go_error option \<times> fake" where
  "fake_UpdateVA r identifier newName f =
     (case fake_find_ref r identifier f of
        None \<Rightarrow> (Some (Errorf (''fakeprov: VA not found: '' @ identifier)), f)
      | Some ref \<Rightarrow> (None, f\<lparr>fk_accounts := fmupd ref
            ((the (fmlookup (fk_accounts f) ref))\<lparr>VAR_AccountName := newName\<rparr>) (fk_accounts f)\<rparr>))"

definition fake_CloseVA :: "range_order \<Rightarrow> string \<Rightarrow> fake \<Rightarrow> go_error option \<times> fake" where
  "fake_CloseVA r identifier f =
     (case fake_find_ref r identifier f of
        None \<Rightarrow> (None, f)
      | Some ref \<Rightarrow> (None, f\<lparr>fk_accounts := fmdrop ref (fk_accounts f)\<rparr>))"

definition fake_ListVAs :: "range_order \<Rightarrow> string \<Rightarrow> fake \<Rightarrow> go_error + nomba_va list \<times> string" where
  "fake_ListVAs r cursor f =
     Inr (map (\<lambda>va. \<lparr>NVA_AccountRef = VAR_AccountRef va, NVA_NUBAN = VAR_NUBAN va,
                      NVA_BankName = VAR_BankName va, NVA_AccountName = VAR_AccountName va,
                      NVA_Status = ''ACTIVE'', NVA_CreatedAt = ''''\<rparr>)
            (range_vals r (fk_accounts f)), '''')"

definition fake_ListTransactions :: "range_order \<Rightarrow> list_request \<Rightarrow> fake \<Rightarrow> go_error + tx_page" where
  "fake_ListTransactions r req f =
     Inr \<lparr>TP_Transactions = filter (\<lambda>t. (PT_OccurredAt t = LTR_DateFrom req
              \<or> PT_OccurredAt t > LTR_DateFrom req) \<and> PT_OccurredAt t < LTR_DateTo req)
            (range_vals r (fk_transactions f)), TP_NextCursor = ''''\<rparr>"

definition fake_Requery :: "range_order \<Rightarrow> string \<Rightarrow> fake \<Rightarrow> go_error + provider_tx" where
  "fake_Requery r sessionID f =
     (case List.find (\<lambda>t. PT_SessionID t = sessionID) (range_vals r (fk_transactions f)) of
        Some t \<Rightarrow> Inr t
      | None \<Rightarrow> Inl (Errorf (''fakeprov: session not found: '' @ sessionID)))"

definition fake_Transfer :: "transfer_request \<Rightarrow> go_error + transfer_response" where
  "fake_Transfer req =
     (let txID = ''fake-tx-'' @ show_int (sint (TR_AmountKobo req))
      in Inr \<lparr>TRsp_TransactionID = txID, TRsp_SessionID = ''fake-session-'' @ txID,
              TRsp_Status = ''SUCCESSFUL''\<rparr>)"

definition fake_ResolveAccount :: "string \<Rightarrow> string \<Rightarrow> go_error + account_resolution" where
  "fake_ResolveAccount bankCode accountNumber =
     Inr \<lparr>AR_AccountName = ''FAKE ACCOUNT HOLDER'', AR_AccountNumber = accountNumber,
          AR_BankCode = bankCode\<rparr>"

definition fake_ParseWebhook :: "time \<Rightarrow> json \<Rightarrow> go_error + webhook_payload" where
  "fake_ParseWebhook now body =
     (case (case body of JNull \<Rightarrow> Some ('''', zero_pt)
            | JObj fs \<Rightarrow> do { e \<leftarrow> jstring (jfield ''event'' fs);
                             d \<leftarrow> pt_of_json (jfield ''data'' fs); Some (e, d) }
            | _ \<Rightarrow> None) of
        None \<Rightarrow> Inl (Wrap ''fakeprov: parse webhook'' (Errorf ''json''))
      | Some (e, d) \<Rightarrow>
          let d = (if IsZero (PT_OccurredAt d) then d\<lparr>PT_OccurredAt := now\<rparr> else d);
              d = d\<lparr>PT_Raw := body\<rparr>
          in Inr \<lparr>WP_EventType = e, WP_Transaction = d, WP_Raw = body\<rparr>)"

section \<open>The in-process state\<close>

text \<open>
  A relay delivery that has been handed to a goroutine: endpoint, event type, body and
  attempt number, the arguments of \<open>deliver\<close>.
\<close>

record relay_job =
  Job_Endpoint :: relay_endpoint
  Job_EventType :: string
  Job_Body :: json
  Job_Attempt :: int

record runtime =
  rt_limits :: tier_limits
  rt_queue :: "work_item list"
  rt_jobs :: "relay_job list"
  rt_fake :: fake

definition runtime_init :: runtime where
  "runtime_init = \<lparr>rt_limits = fmempty, rt_queue = [], rt_jobs = [], rt_fake = fake_New\<rparr>"

definition Load :: "range_order \<Rightarrow> json \<Rightarrow> runtime \<Rightarrow> go_error option \<times> runtime" where
  "Load r raw rt =
     (case parse_limits r raw of
        Inl err \<Rightarrow> (Some err, rt)
      | Inr m \<Rightarrow> (None, rt\<lparr>rt_limits := m\<rparr>))"

section \<open>Loading limits\<close>

definition json_of_limits :: "(int \<times> tier_limit) list \<Rightarrow> json" where
  "json_of_limits ls = JObj (map (\<lambda>(k, l). (show_int k, json_of_limit l)) ls)"

lemma digits_is_digit: "d < 10 \<Longrightarrow> is_digit (digit d)"
  using nth_mem [of d "''0123456789''"] by (simp add: is_digit_def digit_nth del: set_simps)

lemma dec_nat_digits: "c \<in> set (dec_nat n) \<Longrightarrow> is_digit c"
proof (induction n arbitrary: c rule: dec_nat.induct)
  case (1 n)
  then show ?case
    by (cases "n < 10") (auto simp: dec_nat.simps [of n] digits_is_digit)
qed

lemma dec_nat_hd: "is_digit (hd (dec_nat n))"
  by (rule dec_nat_digits [OF hd_in_set [OF dec_nat_not_Nil]])

lemma digit_not_sign: "is_digit c \<Longrightarrow> \<not> is_blank c \<and> c \<noteq> CHR ''-'' \<and> c \<noteq> CHR ''+''"
  by (auto simp: is_digit_def is_blank_def)

lemma takeWhile_dec_nat: "takeWhile is_digit (dec_nat n) = dec_nat n"
  by (simp add: takeWhile_eq_all_conv dec_nat_digits)

lemma dropWhile_dec_nat: "dropWhile is_blank (dec_nat n) = dec_nat n"
  using dec_nat_hd [of n] digit_not_sign [of "hd (dec_nat n)"]
  by (cases "dec_nat n") auto

lemma sscanf_show_int: "fits64 n \<Longrightarrow> sscanf_d (show_int n) = Some n"
proof (cases "n < 0")
  case True
  assume "fits64 n"
  have "dropWhile is_blank (CHR ''-'' # dec_nat (nat (- n))) = CHR ''-'' # dec_nat (nat (- n))"
    by (simp add: is_blank_def)
  with True \<open>fits64 n\<close> show ?thesis
    by (simp add: sscanf_d_def show_int_def Let_def takeWhile_dec_nat)
next
  case False
  assume "fits64 n"
  with False dec_nat_hd [of "nat n"] digit_not_sign [of "hd (dec_nat (nat n))"] show ?thesis
    by (simp add: sscanf_d_def show_int_def Let_def dropWhile_dec_nat takeWhile_dec_nat)
qed

lemma show_int_inject: "fits64 m \<Longrightarrow> fits64 n \<Longrightarrow> show_int m = show_int n \<longleftrightarrow> m = n"
  by (metis sscanf_show_int option.inject)

lemma limit_keys:
  "ToLower ''daily_credit_kobo'' = ''daily_credit_kobo''"
  "ToLower ''max_balance_kobo'' = ''max_balance_kobo''"
  by code_simp+

lemma limit_of_json_of_limit [simp]: "limit_of_json (json_of_limit l) = Some l"
  by (cases l) (simp add: json_of_limit_def jmember_def jlast_def limit_keys sint_range)

lemma limit_map_fold:
  "foldl add_limit (Some m) (map (\<lambda>(k, l). (show_int k, json_of_limit l)) ls) =
   Some (foldl (\<lambda>m x. fmupd (show_int (fst x)) (snd x) m) m ls)"
  by (induction ls arbitrary: m) (auto simp: add_limit_def)

lemma foldl_fmupd_lookup:
  "distinct (map f ls) \<Longrightarrow>
   fmlookup (foldl (\<lambda>m x. fmupd (f x) (g x) m) m ls) k =
     (case List.find (\<lambda>x. f x = k) ls of Some x \<Rightarrow> Some (g x) | None \<Rightarrow> fmlookup m k)"
proof (induction ls arbitrary: m)
  case (Cons x ls)
  have "List.find (\<lambda>y. f y = f x) ls = None"
    using Cons.prems by (simp add: find_None) (metis imageI)
  with Cons show ?case by (auto split: option.splits)
qed simp

lemma find_distinct:
  "distinct (map f ls) \<Longrightarrow> x \<in> set ls \<Longrightarrow> f x = k \<Longrightarrow> List.find (\<lambda>y. f y = k) ls = Some x"
  by (induction ls) (auto simp: image_iff)

text \<open>The loop of \<open>Load\<close> over keys that are renderings of distinct tiers.\<close>

definition load_step :: "(string, tier_limit) fmap \<Rightarrow> go_error + tier_limits \<Rightarrow> string
    \<Rightarrow> go_error + tier_limits" where
  "load_step strMap acc k =
     (case acc of
        Inl err \<Rightarrow> Inl err
      | Inr m \<Rightarrow> (case sscanf_d k of
          None \<Rightarrow> Inl (Errorf (''tier limits: key '' @ k @ '' is not an integer tier''))
        | Some tier \<Rightarrow> Inr (fmupd tier (the (fmlookup strMap k)) m)))"

abbreviation tier_key :: "int \<times> tier_limit \<Rightarrow> string" where
  "tier_key x \<equiv> show_int (fst x)"

lemma load_walk:
  assumes fst_inj: "inj_on fst (set ls)" and key_inj: "inj_on tier_key (set ls)"
    and fits: "list_all (\<lambda>x. fits64 (fst x)) ls"
    and lk: "\<And>x. x \<in> set ls \<Longrightarrow> fmlookup strMap (tier_key x) = Some (snd x)"
  shows "set ks \<subseteq> tier_key ` set ls \<Longrightarrow> \<exists>m'. foldl (load_step strMap) (Inr m) ks = Inr m' \<and>
      (\<forall>x \<in> set ls. tier_key x \<in> set ks \<longrightarrow> fmlookup m' (fst x) = Some (snd x)) \<and>
      (\<forall>t. (\<forall>x \<in> set ls. tier_key x \<in> set ks \<longrightarrow> fst x \<noteq> t) \<longrightarrow> fmlookup m' t = fmlookup m t)"
proof (induction ks arbitrary: m rule: rev_induct)
  case (snoc k ks)
  from snoc.prems obtain x where x: "x \<in> set ls" "k = tier_key x" by auto
  from x(1) fits have "fits64 (fst x)" by (simp add: list_all_iff)
  with x(2) have sc: "sscanf_d k = Some (fst x)" by (simp add: sscanf_show_int)
  from snoc.prems have "set ks \<subseteq> tier_key ` set ls" by simp
  from snoc.IH [OF this] obtain m' where m': "foldl (load_step strMap) (Inr m) ks = Inr m'"
    "\<forall>y \<in> set ls. tier_key y \<in> set ks \<longrightarrow> fmlookup m' (fst y) = Some (snd y)"
    "\<forall>t. (\<forall>y \<in> set ls. tier_key y \<in> set ks \<longrightarrow> fst y \<noteq> t) \<longrightarrow> fmlookup m' t = fmlookup m t"
    by blast
  let ?m = "fmupd (fst x) (snd x) m'"
  have run: "foldl (load_step strMap) (Inr m) (ks @ [k]) = Inr ?m"
    using m'(1) sc lk [OF x(1)] x(2) by (simp add: load_step_def)
  have here: "fmlookup ?m (fst y) = Some (snd y)" if y: "y \<in> set ls" "tier_key y \<in> set (ks @ [k])" for y
  proof (cases "fst y = fst x")
    case True
    with inj_onD [OF fst_inj _ y(1) x(1)] show ?thesis by simp
  next
    case False
    with inj_onD [OF key_inj _ y(1) x(1)] y(2) x(2) have "tier_key y \<in> set ks" by auto
    with m'(2) y(1) False show ?thesis by simp
  qed
  have other: "fmlookup ?m t = fmlookup m t"
    if t: "\<forall>y \<in> set ls. tier_key y \<in> set (ks @ [k]) \<longrightarrow> fst y \<noteq> t" for t
  proof -
    from t x have "fst x \<noteq> t" by simp
    moreover from t have "\<forall>y \<in> set ls. tier_key y \<in> set ks \<longrightarrow> fst y \<noteq> t" by simp
    ultimately show ?thesis using m'(3) by simp
  qed
  show ?case using run here other by blast
qed auto

lemma fmap_of_list_ext:
  assumes "distinct (map fst ls)" and "\<forall>x \<in> set ls. fmlookup m (fst x) = Some (snd x)"
    and "\<forall>t. (\<forall>x \<in> set ls. fst x \<noteq> t) \<longrightarrow> fmlookup m t = None"
  shows "m = fmap_of_list ls"
proof (rule fmap_ext)
  fix t
  show "fmlookup m t = fmlookup (fmap_of_list ls) t"
  proof (cases "\<exists>x \<in> set ls. fst x = t")
    case True
    then obtain v where "(t, v) \<in> set ls" by auto
    with assms(1,2) show ?thesis by (auto simp: fmlookup_of_list)
  next
    case False
    then have "map_of ls t = None" by (auto simp: map_of_eq_None_iff)
    with assms(3) False show ?thesis by (auto simp: fmlookup_of_list)
  qed
qed

text \<open>
  Loading a tier-limit document gives back exactly the limits it was made from, in every
  order in which \<open>range\<close> may visit the decoded map, provided that the tiers are distinct
  integers of Go's \<open>int\<close>: the limits survive the way through decimal keys, JSON and
  \<open>Sscanf\<close>.
\<close>

theorem load_limits_roundtrip:
  assumes "distinct (map fst ls)" and "list_all (\<lambda>x. fits64 (fst x)) ls"
  shows "parse_limits r (json_of_limits ls) = Inr (fmap_of_list ls)"
proof -
  have fst_inj: "inj_on fst (set ls)" using assms(1) by (simp add: distinct_map)
  have key_inj: "inj_on tier_key (set ls)"
  proof (rule inj_onI)
    fix x y
    assume xy: "x \<in> set ls" "y \<in> set ls" "tier_key x = tier_key y"
    with assms(2) have "fst x = fst y" by (simp add: list_all_iff show_int_inject)
    with xy inj_onD [OF fst_inj] show "x = y" by blast
  qed
  with assms(1) have dist: "distinct (map tier_key ls)"
    by (metis distinct_map)
  define strMap where "strMap = foldl (\<lambda>m x. fmupd (tier_key x) (snd x) m) fmempty ls"
  have lk: "fmlookup strMap (tier_key x) = Some (snd x)" if "x \<in> set ls" for x
    using that dist by (simp add: strMap_def foldl_fmupd_lookup find_distinct)
  have "fmdom' strMap \<subseteq> tier_key ` set ls"
  proof
    fix k
    assume "k \<in> fmdom' strMap"
    then obtain v where "fmlookup strMap k = Some v" by (auto simp: fmlookup_dom'_iff)
    with foldl_fmupd_lookup [OF dist, of snd fmempty k]
    obtain x where "List.find (\<lambda>x. tier_key x = k) ls = Some x"
      by (auto simp: strMap_def split: option.splits)
    then show "k \<in> tier_key ` set ls" by (auto simp: find_Some_iff)
  qed
  moreover have "tier_key ` set ls \<subseteq> fmdom' strMap"
    using lk by (auto simp: fmlookup_dom'_iff)
  ultimately have dom: "fmdom' strMap = tier_key ` set ls" by blast
  from load_walk [OF fst_inj key_inj assms(2) lk, of "range_keys r strMap" fmempty] dom
  obtain m where m: "foldl (load_step strMap) (Inr fmempty) (range_keys r strMap) = Inr m"
    "\<forall>x \<in> set ls. fmlookup m (fst x) = Some (snd x)"
    "\<forall>t. (\<forall>x \<in> set ls. fst x \<noteq> t) \<longrightarrow> fmlookup m t = None" by auto
  have "limit_map_of_json (json_of_limits ls) = Some strMap"
    by (simp add: json_of_limits_def limit_map_fold strMap_def)
  with m(1) fmap_of_list_ext [OF assms(1) m(2,3)] show ?thesis
    by (simp add: parse_limits_def load_step_def [abs_def])
qed

theorem load_limits_roundtrip_witness:
  "parse_limits (\<lambda>ks. []) DefaultTierLimitsJSON =
     Inr (fmap_of_list [(1, \<lparr>TL_DailyCreditKobo = 5000000, TL_MaxBalanceKobo = 30000000\<rparr>),
       (2, \<lparr>TL_DailyCreditKobo = 20000000, TL_MaxBalanceKobo = 500000000\<rparr>),
       (3, \<lparr>TL_DailyCreditKobo = 0, TL_MaxBalanceKobo = 0\<rparr>)])"
  using load_limits_roundtrip [of "[(1, \<lparr>TL_DailyCreditKobo = 5000000, TL_MaxBalanceKobo = 30000000\<rparr>),
       (2, \<lparr>TL_DailyCreditKobo = 20000000, TL_MaxBalanceKobo = 500000000\<rparr>),
       (3, \<lparr>TL_DailyCreditKobo = 0, TL_MaxBalanceKobo = 0\<rparr>)]" "\<lambda>ks. []"]
  by (simp add: json_of_limits_def json_of_limit_def DefaultTierLimitsJSON_def fits64_def
      show_int_def dec_nat.simps digit_values)

end
