(* ===== verification/Doubles.thy ===== *)
theory Doubles
  imports Runtime
begin

text \<open>
  IEEE 754 double precision arithmetic as the Go program uses it on amounts of money: a double
  is its exact rational value, and every operation rounds its exact result to the nearest double,
  ties to even. The money lemmas bound the error for amounts of up to \<open>2 ^ 50\<close> kobo.
\<close>

section \<open>Rounding\<close>

fun ilog2 :: "nat \<Rightarrow> nat" where
  "ilog2 n = (if n < 2 then 0 else Suc (ilog2 (n div 2)))"

declare ilog2.simps [simp del]

definition binary_exponent :: "rat \<Rightarrow> int" where
  "binary_exponent q =
     (let (a, b) = quotient_of q; k = int (ilog2 (nat a)) - int (ilog2 (nat b))
      in if 2 powi k \<le> q then k else k - 1)"

definition half_even :: "rat \<Rightarrow> int" where
  "half_even q =
     (let n = \<lfloor>q\<rfloor>; r = q - of_int n
      in if r < 1 / 2 then n else if r > 1 / 2 then n + 1 else if even n then n else n + 1)"

definition nearest64 :: "rat \<Rightarrow> rat" where
  "nearest64 q =
     (if q = 0 then 0
      else let u = 2 powi (max (binary_exponent \<bar>q\<bar> - 52) (- 1074))
           in sgn q * of_int (half_even (\<bar>q\<bar> / u)) * u)"

definition float64 :: "rat \<Rightarrow> rat option" where
  "float64 q = (let x = nearest64 q in if \<bar>x\<bar> < 2 ^ 1024 then Some x else None)"

lemma ilog2_bounds: "0 < n \<Longrightarrow> 2 ^ ilog2 n \<le> n \<and> n < 2 ^ (ilog2 n + 1)"
proof (induction n rule: ilog2.induct)
  case (1 n)
  show ?case
  proof (cases "n < 2")
    case True
    with 1 show ?thesis by (simp add: ilog2.simps [of n])
  next
    case False
    with 1 have "2 ^ ilog2 (n div 2) \<le> n div 2 \<and> n div 2 < 2 ^ (ilog2 (n div 2) + 1)" by simp
    then have "2 * 2 ^ ilog2 (n div 2) \<le> n \<and> n < 2 * 2 ^ (ilog2 (n div 2) + 1)" by linarith
    with False show ?thesis by (simp add: ilog2.simps [of n])
  qed
qed

lemma ilog2_rat:
  assumes "0 < a"
  shows "(2::rat) ^ ilog2 (nat a) \<le> of_int a \<and> of_int a < (2::rat) ^ (ilog2 (nat a) + 1)"
proof -
  have "2 ^ ilog2 (nat a) \<le> nat a" "nat a < 2 ^ (ilog2 (nat a) + 1)"
    using ilog2_bounds [of "nat a"] assms by simp_all
  then have "rat_of_nat (2 ^ ilog2 (nat a)) \<le> of_nat (nat a)"
    "rat_of_nat (nat a) < of_nat (2 ^ (ilog2 (nat a) + 1))"
    by (simp_all only: of_nat_le_iff of_nat_less_iff)
  with assms show ?thesis by simp
qed

lemma binary_exponent_bounds:
  assumes "0 < q"
  shows "2 powi binary_exponent q \<le> q \<and> q < 2 powi (binary_exponent q + 1)"
proof -
  obtain a b where ab: "quotient_of q = (a, b)" by fastforce
  then have b: "0 < b" by (rule quotient_of_denom_pos)
  have q: "q = of_int a / of_int b" by (rule quotient_of_div [OF ab])
  with assms b have a: "0 < a" by (simp add: zero_less_divide_iff)
  define m n where "m = ilog2 (nat a)" and "n = ilog2 (nat b)"
  define k where "k = int m - int n"
  have A: "(2::rat) ^ m \<le> of_int a" "of_int a < (2::rat) ^ (m + 1)"
    unfolding m_def using ilog2_rat [OF a] by simp_all
  have B: "(2::rat) ^ n \<le> of_int b" "of_int b < (2::rat) ^ (n + 1)"
    unfolding n_def using ilog2_rat [OF b] by simp_all
  have k: "(2::rat) powi k = 2 ^ m / 2 ^ n" by (simp add: k_def power_int_diff)
  have up: "q < 2 powi (k + 1)"
  proof -
    have "of_int a / of_int b < (2::rat) ^ (m + 1) / 2 ^ n"
      by (rule frac_less) (use A B a b in auto)
    then show ?thesis by (simp add: q k power_int_add mult.commute)
  qed
  have lo: "2 powi (k - 1) \<le> q"
  proof -
    have "(2::rat) ^ m / 2 ^ (n + 1) \<le> of_int a / of_int b"
      by (rule frac_le) (use A B a b in auto)
    then show ?thesis by (simp add: q k power_int_diff)
  qed
  have "binary_exponent q = (if 2 powi k \<le> q then k else k - 1)"
    by (simp add: binary_exponent_def ab k_def m_def n_def)
  with up lo show ?thesis by auto
qed

lemma half_even_error: "\<bar>of_int (half_even q) - q\<bar> \<le> 1 / 2"
proof -
  have "of_int \<lfloor>q\<rfloor> \<le> q" "q < of_int \<lfloor>q\<rfloor> + 1" by linarith+
  then show ?thesis by (auto simp: half_even_def Let_def)
qed

lemma half_even_int [simp]: "half_even (of_int n) = n"
  by (simp add: half_even_def)

lemma nearest64_error:
  assumes "2 powi (- 1022) \<le> q"
  shows "\<bar>nearest64 q - q\<bar> \<le> q / 2 ^ 53"
proof -
  have q: "0 < q" using assms by (rule less_le_trans [rotated]) simp
  note be = binary_exponent_bounds [OF q]
  have "(2::rat) powi (- 1022) < 2 powi (binary_exponent q + 1)" using assms be by linarith
  then have "- 1022 < binary_exponent q + 1"
    using power_int_increasing [of "binary_exponent q + 1" "- 1022" "2::rat"] by (cases "binary_exponent q + 1 \<le> - 1022") simp_all
  define u :: rat where "u = 2 powi (binary_exponent q - 52)"
  have mx: "max (binary_exponent q - 52) (- 1074) = binary_exponent q - 52"
    using \<open>- 1022 < _\<close> by linarith
  have mx: "nearest64 q = of_int (half_even (q / u)) * u"
    using q mx by (simp add: nearest64_def Let_def u_def del: power_int_add_numeral)
  have u: "0 < u" by (simp add: u_def)
  have "\<bar>of_int (half_even (q / u)) - q / u\<bar> * u \<le> 1 / 2 * u"
    by (rule mult_right_mono [OF half_even_error]) (use u in simp)
  then have "\<bar>nearest64 q - q\<bar> \<le> u / 2"
    using u by (simp add: mx abs_mult_pos' [symmetric] field_simps)
  also have "u / 2 = 2 powi binary_exponent q / 2 ^ 53"
    by (simp add: u_def power_int_diff)
  also have "\<dots> \<le> q / 2 ^ 53" using be by (simp add: divide_right_mono)
  finally show ?thesis .
qed

text \<open>Multiplication and addition of doubles, each rounded; \<open>None\<close> is an infinity.\<close>

definition fl_mult :: "rat option \<Rightarrow> rat \<Rightarrow> rat option" where
  "fl_mult x y = do { a \<leftarrow> x; float64 (a * y) }"

definition fl_add :: "rat option \<Rightarrow> rat \<Rightarrow> rat option" where
  "fl_add x y = do { a \<leftarrow> x; float64 (a + y) }"

definition trunc :: "rat \<Rightarrow> int" where
  "trunc q = (if 0 \<le> q then \<lfloor>q\<rfloor> else \<lceil>q\<rceil>)"

text \<open>
  The conversion \<open>int64(f)\<close> drops the fraction. What it gives for a value that does not fit
  is left to the implementation by the language: \<open>conv\<close>.
\<close>

definition int64_of :: "(rat option \<Rightarrow> int64) \<Rightarrow> rat option \<Rightarrow> int64" where
  "int64_of conv x =
     (case x of Some q \<Rightarrow> if fits64 (trunc q) then word_of_int (trunc q) else conv x | None \<Rightarrow> conv x)"

lemma nearest64_0 [simp]: "nearest64 0 = 0"
  by (simp add: nearest64_def)

lemma float64_0 [simp]: "float64 0 = Some 0"
  by (simp add: float64_def)

text \<open>In the range of money amounts rounding is relative and never overflows.\<close>

lemma float64_money:
  assumes "1 / 100 \<le> q" and "q \<le> 2 ^ 60"
  obtains x where "float64 q = Some x" and "\<bar>x - q\<bar> \<le> q / 2 ^ 53" and "0 < x"
proof -
  have "(2::rat) powi (- 1022) \<le> 1 / 100"
    by (simp add: power_int_minus_divide)
  with assms(1) have e: "\<bar>nearest64 q - q\<bar> \<le> q / 2 ^ 53"
    by (intro nearest64_error) linarith
  moreover have "q / 2 ^ 53 < q" using assms(1) by simp
  ultimately have "0 < nearest64 q" "nearest64 q < 2 * 2 ^ 60" using assms by linarith+
  moreover have "(2::rat) * 2 ^ 60 < 2 ^ 1024"
    using power_strict_increasing [of 61 1024 "2::rat"] by simp
  ultimately have "\<bar>nearest64 q\<bar> < 2 ^ 1024" by linarith
  with e \<open>0 < nearest64 q\<close> that show thesis by (simp add: float64_def)
qed

lemma kobo_product:
  assumes "n \<le> 2 ^ 50" and "float64 (of_nat n / 100) = Some f"
  obtains g where "fl_mult (Some f) 100 = Some g" and "\<bar>g - of_nat n\<bar> \<le> 26 / 100" and "0 \<le> g"
proof (cases "n = 0")
  case True
  with assms(2) that [of 0] show thesis by (simp add: fl_mult_def)
next
  case False
  have n: "1 \<le> rat_of_nat n" "rat_of_nat n \<le> 2 ^ 50"
    using False of_nat_mono [OF assms(1), where 'a = rat] by simp_all
  then have "1 / 100 \<le> rat_of_nat n / 100" "rat_of_nat n / 100 \<le> 2 ^ 60" by simp_all
  then obtain x where "float64 (of_nat n / 100) = Some x" "\<bar>x - of_nat n / 100\<bar> \<le> of_nat n / 100 / 2 ^ 53"
    by (rule float64_money) blast
  with assms(2) have "\<bar>f - of_nat n / 100\<bar> \<le> of_nat n / 100 / 2 ^ 53" by simp
  then have f: "\<bar>f * 100 - of_nat n\<bar> \<le> of_nat n / 2 ^ 53" by (simp add: abs_le_iff field_simps)
  have "of_nat n / 2 ^ 53 \<le> (1 / 8 :: rat)" using n by simp
  with f n have r: "1 / 100 \<le> f * 100" "f * 100 \<le> 2 ^ 50 + 1" by linarith+
  then have "f * 100 \<le> 2 ^ 60" by simp
  with r(1) obtain g where g: "float64 (f * 100) = Some g" "\<bar>g - f * 100\<bar> \<le> f * 100 / 2 ^ 53" "0 < g"
    by (rule float64_money)
  have "f * 100 / 2 ^ 53 \<le> (2 ^ 50 + 1) / 2 ^ 53" using r(2) by (rule divide_right_mono) simp
  then have "f * 100 / 2 ^ 53 \<le> 13 / 100" by simp
  with g(2) f \<open>of_nat n / 2 ^ 53 \<le> 1 / 8\<close> have "\<bar>g - of_nat n\<bar> \<le> 26 / 100" by linarith
  with g that show thesis by (simp add: fl_mult_def)
qed

lemma kobo_truncated:
  assumes "n \<le> 2 ^ 50" and "float64 (of_nat n / 100) = Some f"
  shows "int64_of conv (fl_mult (Some f) 100) \<in> {of_nat n, of_nat n - 1}"
proof -
  from assms obtain g where g: "fl_mult (Some f) 100 = Some g" "\<bar>g - of_nat n\<bar> \<le> 26 / 100" "0 \<le> g"
    by (rule kobo_product)
  have "\<lfloor>g\<rfloor> = int n \<or> \<lfloor>g\<rfloor> = int n - 1"
  proof (cases "of_nat n \<le> g")
    case True
    with g(2) have "\<lfloor>g\<rfloor> = int n" by (intro floor_unique) (simp, linarith)
    then show ?thesis ..
  next
    case False
    with g(2) have "\<lfloor>g\<rfloor> = int n - 1" by (intro floor_unique) (simp, linarith)+
    then show ?thesis ..
  qed
  with assms(1) g show ?thesis
    by (auto simp: int64_of_def trunc_def fits64_def)
qed

lemma kobo_rounded:
  assumes "n \<le> 2 ^ 50" and "float64 (of_nat n / 100) = Some f"
  shows "int64_of conv (fl_add (fl_mult (Some f) 100) (1 / 2)) = of_nat n"
proof -
  from assms obtain g where g: "fl_mult (Some f) 100 = Some g" "\<bar>g - of_nat n\<bar> \<le> 26 / 100" "0 \<le> g"
    by (rule kobo_product)
  have n: "rat_of_nat n \<le> 2 ^ 50"
    using of_nat_mono [OF assms(1), where 'a = rat] by simp
  have r: "1 / 100 \<le> g + 1 / 2" "g + 1 / 2 \<le> 2 ^ 50 + 1" using g n by linarith+
  then have "g + 1 / 2 \<le> 2 ^ 60" by simp
  with r(1) obtain h where h: "float64 (g + 1 / 2) = Some h"
    "\<bar>h - (g + 1 / 2)\<bar> \<le> (g + 1 / 2) / 2 ^ 53" "0 < h"
    by (rule float64_money)
  have "(g + 1 / 2) / 2 ^ 53 \<le> (2 ^ 50 + 1) / 2 ^ 53" using r(2) by (rule divide_right_mono) simp
  then have "(g + 1 / 2) / 2 ^ 53 < 13 / 100" by simp
  with h(2) g(2) have "of_nat n \<le> h" "h < of_nat n + 1" by linarith+
  then have "\<lfloor>h\<rfloor> = int n" by (intro floor_unique) simp_all
  with assms(1) g h show ?thesis
    by (simp add: int64_of_def trunc_def fits64_def fl_add_def)
qed

lemma floor_numeral_quotient [simp]: "\<lfloor>numeral a / numeral b :: rat\<rfloor> = numeral a div numeral b"
  using floor_divide_of_int_eq [of "numeral a" "numeral b", where 'a = rat] by simp

lemma binary_exponent_unique:
  assumes "2 powi e \<le> q" and "q < 2 powi (e + 1)"
  shows "binary_exponent q = e"
proof -
  have "(0::rat) < 2 powi e" by simp
  then have "0 < q" using assms(1) by (rule less_le_trans)
  note b = binary_exponent_bounds [OF this]
  have "\<not> e + 1 \<le> binary_exponent q"
    using power_int_increasing [of "e + 1" "binary_exponent q" "2::rat"] b assms by linarith
  moreover have "\<not> binary_exponent q + 1 \<le> e"
    using power_int_increasing [of "binary_exponent q + 1" e "2::rat"] b assms by linarith
  ultimately show ?thesis by linarith
qed

text \<open>A double is computed from its exponent.\<close>

lemma nearest64_at:
  assumes "2 powi e \<le> q" and "q < 2 powi (e + 1)" and "- 1022 \<le> e"
  shows "nearest64 q = of_int (half_even (q / 2 powi (e - 52))) * 2 powi (e - 52)"
proof -
  have "(0::rat) < 2 powi e" by simp
  then have q: "0 < q" using assms(1) by (rule less_le_trans)
  have "max (e - 52) (- 1074) = e - 52" using assms(3) by linarith
  with q binary_exponent_unique [OF assms(1,2)] show ?thesis
    by (simp add: nearest64_def Let_def del: power_int_add_numeral)
qed

text \<open>Integers of at most 53 bits are doubles.\<close>

lemma nearest64_int:
  assumes "n < 2 ^ 53"
  shows "nearest64 (of_nat n) = of_nat n"
proof (cases "n = 0")
  case False
  define e where "e = binary_exponent (of_nat n)"
  have b: "2 powi e \<le> rat_of_nat n" "rat_of_nat n < 2 powi (e + 1)"
    using binary_exponent_bounds [of "of_nat n"] False by (simp_all add: e_def)
  have n: "1 \<le> rat_of_nat n" "rat_of_nat n < 2 ^ 53"
    using False of_nat_less_iff [of n "2 ^ 53", where 'a = rat] assms by simp_all
  have "\<not> e + 1 \<le> 0" using power_int_increasing [of "e + 1" 0 "2::rat"] b n by auto
  moreover have "\<not> 53 \<le> e" using power_int_increasing [of 53 e "2::rat"] b n by auto
  ultimately have e: "0 \<le> e" "e \<le> 52" by linarith+
  define k where "k = nat (52 - e)"
  have k: "e - 52 = - int k" using e by (simp add: k_def)
  have "rat_of_nat n / 2 powi (e - 52) = of_int (int n * 2 ^ k)"
    by (simp add: k power_int_minus_divide)
  then show ?thesis
    using nearest64_at [OF b] e by (simp add: k power_int_minus_divide del: of_int_mult of_int_of_nat_eq)
       (simp add: power_int_minus_divide)
qed simp

lemma float64_at:
  assumes "nearest64 q = x" and "\<bar>x\<bar> \<le> 2 ^ 60"
  shows "float64 q = Some x"
proof -
  have "(2::rat) ^ 60 < 2 ^ 1024" by (rule power_strict_increasing) simp_all
  with assms have "\<bar>x\<bar> < 2 ^ 1024" by linarith
  with assms(1) show ?thesis by (simp add: float64_def Let_def del: power_numeral)
qed

section \<open>Number literals\<close>

text \<open>
  The grammar of a JSON number and its exact value: an optional minus sign, digits without a
  superfluous leading zero, an optional fraction and an optional exponent. \<open>Float64\<close> of a
  \<open>json.Number\<close> is the nearest double, and an error when that is infinite.
\<close>

definition number_int :: "string \<Rightarrow> (string \<times> string) option" where
  "number_int s =
     (let ds = takeWhile is_digit s
      in if ds = [] \<or> (length ds > 1 \<and> hd ds = CHR ''0'') then None
         else Some (ds, drop (length ds) s))"

definition number_fraction :: "string \<Rightarrow> (string \<times> string) option" where
  "number_fraction s =
     (if s \<noteq> [] \<and> hd s = CHR ''.''
      then let ds = takeWhile is_digit (tl s)
           in if ds = [] then None else Some (ds, drop (length ds) (tl s))
      else Some ('''', s))"

definition number_exponent :: "string \<Rightarrow> (int \<times> string) option" where
  "number_exponent s =
     (if s \<noteq> [] \<and> hd s \<in> {CHR ''e'', CHR ''E''}
      then let r = tl s; neg = (r \<noteq> [] \<and> hd r = CHR ''-'');
               r = (if r \<noteq> [] \<and> hd r \<in> {CHR ''-'', CHR ''+''} then tl r else r);
               ds = takeWhile is_digit r
           in if ds = [] then None
              else Some (if neg then - int (undec ds) else int (undec ds), drop (length ds) r)
      else Some (0, s))"

definition parse_number :: "string \<Rightarrow> rat option" where
  "parse_number s =
     (let neg = (s \<noteq> [] \<and> hd s = CHR ''-'')
      in do { (ip, r) \<leftarrow> number_int (if neg then tl s else s);
              (fp, r) \<leftarrow> number_fraction r;
              (e, r) \<leftarrow> number_exponent r;
              if r = [] then Some ((if neg then - 1 else 1) * of_nat (undec (ip @ fp))
                                   * 10 powi (e - int (length fp)))
              else None })"

fun jnumber :: "json \<Rightarrow> string option" where
  "jnumber JNull = Some ''''"
| "jnumber (JInt n) = Some (show_int n)"
| "jnumber (JDec s) = Some s"
| "jnumber (JStr s) = (if parse_number s = None then None else Some s)"
| "jnumber _ = None"

fun jfloat :: "json \<Rightarrow> rat option" where
  "jfloat JNull = Some 0"
| "jfloat (JInt n) = float64 (of_int n)"
| "jfloat (JDec s) = do { q \<leftarrow> parse_number s; float64 q }"
| "jfloat _ = None"

definition Float64 :: "string \<Rightarrow> rat option" where
  "Float64 s = do { q \<leftarrow> parse_number s; float64 q }"

text \<open>An amount as the provider writes it: whole units, a point and two decimals.\<close>

definition naira_text :: "nat \<Rightarrow> string" where
  "naira_text n = dec_nat (n div 100) @ CHR ''.'' # [digit (n mod 100 div 10), digit (n mod 10)]"

lemma dec_nat_leading_zero: "hd (dec_nat n) = CHR ''0'' \<Longrightarrow> length (dec_nat n) = 1"
proof (induction n rule: dec_nat.induct)
  case (1 n)
  show ?case
  proof (cases "n < 10")
    case True
    then show ?thesis by (simp add: dec_nat.simps [of n])
  next
    case False
    with 1 have "length (dec_nat (n div 10)) = 1"
      by (simp add: dec_nat.simps [of n] hd_append)
    then have "n div 10 < 10" using dec_nat_not_Nil [of "n div 10 div 10"]
      by (cases "n div 10 < 10") (auto simp: dec_nat.simps [of "n div 10"])
    with False "1.prems" show ?thesis
      by (simp add: dec_nat.simps [of n] dec_nat.simps [of "n div 10"] digit_nth nth_Cons' split: if_splits)
  qed
qed

lemma undec_append: "undec (a @ b) = undec a * 10 ^ length b + undec b"
proof -
  let ?g = "\<lambda>acc c. 10 * acc + undigit c"
  have *: "foldl ?g k b = k * 10 ^ length b + foldl ?g 0 b" for k
  proof (induction b arbitrary: k)
    case (Cons c b)
    have "foldl ?g k (c # b) = (10 * k + undigit c) * 10 ^ length b + foldl ?g 0 b"
      by (simp only: foldl_Cons Cons.IH [of "10 * k + undigit c"])
    also have "\<dots> = k * 10 ^ length (c # b) + (undigit c * 10 ^ length b + foldl ?g 0 b)"
      by (simp add: distrib_right)
    also have "undigit c * 10 ^ length b + foldl ?g 0 b = foldl ?g 0 (c # b)"
      by (simp only: foldl_Cons Cons.IH [of "undigit c"] mult_0_right add_0)
    finally show ?case .
  qed simp
  show ?thesis unfolding undec_def foldl_append by (rule *)
qed

lemma parse_naira_text: "parse_number (naira_text n) = Some (of_nat n / 100)"
proof -
  let ?w = "dec_nat (n div 100)" and ?f = "[digit (n mod 100 div 10), digit (n mod 10)]"
  have dig: "is_digit (digit (n mod 100 div 10))" "is_digit (digit (n mod 10))"
    by (intro digits_is_digit; simp add: less_mult_imp_div_less)+
  have w: "takeWhile is_digit (?w @ CHR ''.'' # ?f) = ?w"
    using dec_nat_digits [of _ "n div 100"] by (simp add: is_digit_def takeWhile_append2)
  have i: "number_int (?w @ CHR ''.'' # ?f) = Some (?w, CHR ''.'' # ?f)"
    using dec_nat_leading_zero [of "n div 100"] by (auto simp: number_int_def w Let_def)
  have f: "number_fraction (CHR ''.'' # ?f) = Some (?f, [])"
    using dig by (simp add: number_fraction_def)
  have "hd (?w @ CHR ''.'' # ?f) \<noteq> CHR ''-''"
    using digit_not_sign [OF dec_nat_hd [of "n div 100"]] by simp
  moreover have "undec (?w @ ?f) = n"
  proof -
    have "n mod 100 mod 10 = n mod 10" by (rule mod_mod_cancel) simp
    then have "10 * (n mod 100 div 10) + n mod 10 = n mod 100"
      using mult_div_mod_eq [of 10 "n mod 100"] by simp
    then have "undec ?f = n mod 100"
      by (simp add: undec_def undigit_digit less_mult_imp_div_less)
    then show ?thesis by (simp add: undec_append)
  qed
  ultimately show ?thesis
    by (simp add: parse_number_def naira_text_def i f number_exponent_def power_int_minus_divide)
qed

end
