(* ===== verification/Matcher.thy ===== *)
theory Matcher
  imports Runtime
begin

text \<open>
  \<^verbatim>\<open>internal/recon/matcher.go\<close>: how a provider transaction is matched to a virtual account
  and which ledger entries it becomes. The matcher only reads the stores.
\<close>

section \<open>Operations\<close>

record match_result =
  MR_VA :: "virtual_account option"
  MR_CustomerID :: string
  MR_Entries :: "ledger_entry list"
  MR_Suspense :: "suspense_item option"

record 'w matcher =
  mt_accounts :: "'w virtual_account_store"
  mt_txns :: "'w transaction_store"
  mt_tierLimits :: "'w \<Rightarrow> tier_limits"

definition open_item :: "string \<Rightarrow> string \<Rightarrow> suspense_item" where
  "open_item txID reason =
     \<lparr>SI_ID = '''', SI_TransactionID = txID, SI_Reason = reason, SI_Status = ''open'',
      SI_ResolvedBy = None, SI_ResolvedAt = None, SI_Notes = None, SI_CreatedAt = 0,
      SI_AmountKobo = 0, SI_NUBAN = ''''\<rparr>"

text \<open>
  The two lookup steps, the same in \<open>Match\<close> and \<open>MatchReversal\<close> up to the error texts:
  account reference first, the NUBAN when that found nothing.
\<close>

definition find_va :: "'w matcher \<Rightarrow> string \<Rightarrow> string \<Rightarrow> provider_tx \<Rightarrow> 'w
    \<Rightarrow> go_error + virtual_account option" where
  "find_va m refMsg nubanMsg pt w =
     (case (if PT_AccountRef pt \<noteq> '''' then vs_GetVAByAccountRef (mt_accounts m) (PT_AccountRef pt) w
            else Inr None) of
        Inl err \<Rightarrow> Inl (Wrap refMsg err)
      | Inr (Some va) \<Rightarrow> Inr (Some va)
      | Inr None \<Rightarrow>
          if PT_AccountNumber pt \<noteq> ''''
          then (case vs_GetVAByNUBAN (mt_accounts m) (PT_AccountNumber pt) w of
                  Inl err \<Rightarrow> Inl (Wrap nubanMsg err)
                | Inr va \<Rightarrow> Inr va)
          else Inr None)"

definition to_suspense :: "provider_tx \<Rightarrow> virtual_account option \<Rightarrow> string
    \<Rightarrow> go_error + match_result" where
  "to_suspense pt va reason =
     (case CreditSuspense (PT_TransactionID pt) (PT_AmountKobo pt) of
        Inl err \<Rightarrow> Inl err
      | Inr entries \<Rightarrow>
          Inr \<lparr>MR_VA = va, MR_CustomerID = '''', MR_Entries = entries,
               MR_Suspense = Some (open_item (PT_TransactionID pt) reason)\<rparr>)"

text \<open>The matcher's own limit check is a stub in the code: it never finds a reason.\<close>

definition checkTierLimits :: "'w matcher \<Rightarrow> virtual_account \<Rightarrow> string \<Rightarrow> int64
    \<Rightarrow> go_error + string" where
  "checkTierLimits m va walletAccount amountKobo = Inr ''''"

definition Match :: "'w matcher \<Rightarrow> provider_tx \<Rightarrow> 'w \<Rightarrow> go_error + match_result" where
  "Match m pt w =
     (case find_va m ''matcher: lookup by accountRef'' ''matcher: lookup by NUBAN'' pt w of
        Inl err \<Rightarrow> Inl err
      | Inr None \<Rightarrow> to_suspense pt None SuspenseReasonUnmatched
      | Inr (Some va) \<Rightarrow>
          if VA_Status va = VAStatusClosed then to_suspense pt (Some va) SuspenseReasonClosedAccount
          else if VA_Status va = VAStatusSuspended
          then to_suspense pt (Some va) SuspenseReasonSuspendedAccount
          else
            let customerID = VA_CustomerID va;
                walletAccount = CustomerWalletAccount customerID
            in case checkTierLimits m va walletAccount (PT_AmountKobo pt) of
                 Inl err \<Rightarrow> Inl err
               | Inr reason \<Rightarrow>
                   if reason \<noteq> '''' then to_suspense pt (Some va) reason
                   else case CreditCustomer (PT_TransactionID pt) customerID (PT_AmountKobo pt) of
                          Inl err \<Rightarrow> Inl err
                        | Inr entries \<Rightarrow>
                            Inr \<lparr>MR_VA = Some va, MR_CustomerID = customerID,
                                 MR_Entries = entries, MR_Suspense = None\<rparr>)"

definition MatchReversal :: "'w matcher \<Rightarrow> provider_tx \<Rightarrow> 'w \<Rightarrow> go_error + match_result" where
  "MatchReversal m pt w =
     (case find_va m ''matcher: reversal lookup by ref'' ''matcher: reversal lookup by NUBAN'' pt w of
        Inl err \<Rightarrow> Inl err
      | Inr None \<Rightarrow>
          (case ReversalToSuspense (PT_TransactionID pt) (PT_AmountKobo pt) of
             Inl err \<Rightarrow> Inl err
           | Inr entries \<Rightarrow> Inr \<lparr>MR_VA = None, MR_CustomerID = '''', MR_Entries = entries,
                                MR_Suspense = None\<rparr>)
      | Inr (Some va) \<Rightarrow>
          (case ReversalEntries (PT_TransactionID pt) (VA_CustomerID va) (PT_AmountKobo pt) of
             Inl err \<Rightarrow> Inl err
           | Inr entries \<Rightarrow> Inr \<lparr>MR_VA = Some va, MR_CustomerID = VA_CustomerID va,
                                MR_Entries = entries, MR_Suspense = None\<rparr>))"

definition CheckTierLimitsForCustomer :: "'w matcher \<Rightarrow> time \<Rightarrow> string \<Rightarrow> int64 \<Rightarrow> int \<Rightarrow> 'w
    \<Rightarrow> go_error + string" where
  "CheckTierLimitsForCustomer m now walletAccount amountKobo kycTier w =
     (case fmlookup (mt_tierLimits m w) kycTier of
        None \<Rightarrow> Inr ''''
      | Some limits \<Rightarrow>
          let balance_check =
                (if sint (TL_MaxBalanceKobo limits) > 0
                 then (case xs_GetBalance (mt_txns m) walletAccount w of
                        Inl err \<Rightarrow> Some (Inl (Wrap ''matcher: get balance'' err))
                      | Inr bal \<Rightarrow>
                          if sint (bal + amountKobo) > sint (TL_MaxBalanceKobo limits)
                          then Some (Inr SuspenseReasonTierLimit) else None)
                 else None);
              daily_check =
                (if sint (TL_DailyCreditKobo limits) > 0
                 then (case xs_GetDailyCredits (mt_txns m) walletAccount now w of
                        Inl err \<Rightarrow> Some (Inl (Wrap ''matcher: get daily credits'' err))
                      | Inr daily \<Rightarrow>
                          if sint (daily + amountKobo) > sint (TL_DailyCreditKobo limits)
                          then Some (Inr SuspenseReasonTierLimit) else None)
                 else None)
          in case balance_check of Some r \<Rightarrow> r
             | None \<Rightarrow> (case daily_check of Some r \<Rightarrow> r | None \<Rightarrow> Inr ''''))"

section \<open>Routing\<close>

text \<open>
  Every result of the matcher carries entries that are well formed for the transaction, and
  the accounts they move money between are determined by the lookup and the status.
\<close>

lemma to_suspense_Inr:
  "to_suspense pt va reason = Inr r \<Longrightarrow>
     CreditSuspense (PT_TransactionID pt) (PT_AmountKobo pt) = Inr (MR_Entries r) \<and>
     MR_VA r = va \<and> MR_CustomerID r = '''' \<and>
     MR_Suspense r = Some (open_item (PT_TransactionID pt) reason)"
  by (auto simp: to_suspense_def split: sum.splits)

lemma to_suspense_ok:
  "0 < sint (PT_AmountKobo pt) \<Longrightarrow> \<exists>r. to_suspense pt va reason = Inr r"
  using credit_suspense.accepts_iff [of "PT_TransactionID pt" "PT_AmountKobo pt"]
  by (auto simp: to_suspense_def)

definition find_match :: "'w matcher \<Rightarrow> provider_tx \<Rightarrow> 'w \<Rightarrow> go_error + virtual_account option" where
  "find_match m = find_va m ''matcher: lookup by accountRef'' ''matcher: lookup by NUBAN''"

lemma Match_Inr_cases:
  assumes "Match m pt w = Inr r"
  obtains (unmatched) "find_match m pt w = Inr None" "MR_VA r = None" "MR_CustomerID r = ''''"
      "MR_Suspense r = Some (open_item (PT_TransactionID pt) SuspenseReasonUnmatched)"
      "CreditSuspense (PT_TransactionID pt) (PT_AmountKobo pt) = Inr (MR_Entries r)"
    | (closed) va where "find_match m pt w = Inr (Some va)" "VA_Status va = VAStatusClosed"
      "MR_VA r = Some va" "MR_CustomerID r = ''''"
      "MR_Suspense r = Some (open_item (PT_TransactionID pt) SuspenseReasonClosedAccount)"
      "CreditSuspense (PT_TransactionID pt) (PT_AmountKobo pt) = Inr (MR_Entries r)"
    | (suspended) va where "find_match m pt w = Inr (Some va)" "VA_Status va = VAStatusSuspended"
      "MR_VA r = Some va" "MR_CustomerID r = ''''"
      "MR_Suspense r = Some (open_item (PT_TransactionID pt) SuspenseReasonSuspendedAccount)"
      "CreditSuspense (PT_TransactionID pt) (PT_AmountKobo pt) = Inr (MR_Entries r)"
    | (credited) va where "find_match m pt w = Inr (Some va)"
      "VA_Status va \<noteq> VAStatusClosed" "VA_Status va \<noteq> VAStatusSuspended"
      "MR_VA r = Some va" "MR_CustomerID r = VA_CustomerID va" "MR_Suspense r = None"
      "CreditCustomer (PT_TransactionID pt) (VA_CustomerID va) (PT_AmountKobo pt) = Inr (MR_Entries r)"
  using assms
  by (auto simp: Match_def find_match_def checkTierLimits_def Let_def dest!: to_suspense_Inr
      split: sum.splits option.splits if_splits)

lemma Match_well_formed:
  "Match m pt w = Inr r \<Longrightarrow> well_formed_entries (PT_TransactionID pt) (MR_Entries r)"
  by (erule Match_Inr_cases) (auto intro: builders_well_formed)

lemma MatchReversal_well_formed:
  "MatchReversal m pt w = Inr r \<Longrightarrow> well_formed_entries (PT_TransactionID pt) (MR_Entries r)"
  by (auto simp: MatchReversal_def split: sum.splits option.splits intro: builders_well_formed)

lemma check_silent:
  assumes "CheckTierLimitsForCustomer m now a amt tier w = Inr ''''"
    and "fmlookup (mt_tierLimits m w) tier = Some limits"
  shows "0 < sint (TL_MaxBalanceKobo limits) \<Longrightarrow>
           \<exists>b. xs_GetBalance (mt_txns m) a w = Inr b \<and> sint (b + amt) \<le> sint (TL_MaxBalanceKobo limits)"
    and "0 < sint (TL_DailyCreditKobo limits) \<Longrightarrow>
           \<exists>d. xs_GetDailyCredits (mt_txns m) a now w = Inr d \<and>
               sint (d + amt) \<le> sint (TL_DailyCreditKobo limits)"
  using assms
  by (auto simp: CheckTierLimitsForCustomer_def Let_def SuspenseReasonTierLimit_def
      split: sum.splits option.splits if_splits)

lemma check_reason:
  "CheckTierLimitsForCustomer m now a amt tier w = Inr reason \<Longrightarrow>
     reason = '''' \<or> reason = SuspenseReasonTierLimit"
  by (auto simp: CheckTierLimitsForCustomer_def Let_def split: sum.splits option.splits if_splits)

section \<open>The routing decision\<close>

text \<open>
  The contract of the matcher, apart from the code's control flow: the reason to hold a credit
  back, the account that receives it and the account that a reversal takes it from.
\<close>

definition hold_reason :: "virtual_account option \<Rightarrow> string option" where
  "hold_reason va =
     (case va of
        None \<Rightarrow> Some SuspenseReasonUnmatched
      | Some v \<Rightarrow> if VA_Status v = VAStatusClosed then Some SuspenseReasonClosedAccount
                  else if VA_Status v = VAStatusSuspended then Some SuspenseReasonSuspendedAccount
                  else None)"

definition credited_account :: "virtual_account option \<Rightarrow> string" where
  "credited_account va =
     (if hold_reason va \<noteq> None then AccountSuspense
      else CustomerWalletAccount (VA_CustomerID (the va)))"

definition debited_account :: "virtual_account option \<Rightarrow> string" where
  "debited_account va =
     (case va of None \<Rightarrow> AccountSuspense | Some v \<Rightarrow> CustomerWalletAccount (VA_CustomerID v))"

definition two_entries :: "string \<Rightarrow> string \<Rightarrow> string \<Rightarrow> int64 \<Rightarrow> ledger_entry list" where
  "two_entries tx dr cr amt =
     [\<lparr>LE_TransactionID = tx, LE_Account = dr, LE_Direction = ''debit'', LE_AmountKobo = amt\<rparr>,
      \<lparr>LE_TransactionID = tx, LE_Account = cr, LE_Direction = ''credit'', LE_AmountKobo = amt\<rparr>]"

lemma two_entries_balance:
  "dr \<noteq> cr \<Longrightarrow> exact_balance a (two_entries tx dr cr amt) =
     (if a = dr then - sint amt else if a = cr then sint amt else 0)"
  by (simp add: exact_balance_def two_entries_def)

lemma two_entries_int64:
  "dr \<noteq> cr \<Longrightarrow> balance a (two_entries tx dr cr amt) =
     (if a = dr then - amt else if a = cr then amt else 0)"
  by (simp add: two_entries_def signed_amount_def)

text \<open>The lookup asks for the reference first and for the NUBAN only when that found nothing.\<close>

definition lookup_order :: "'w matcher \<Rightarrow> provider_tx \<Rightarrow> 'w \<Rightarrow> (go_error + virtual_account option) list" where
  "lookup_order m pt w =
     (if PT_AccountRef pt \<noteq> '''' then [vs_GetVAByAccountRef (mt_accounts m) (PT_AccountRef pt) w] else []) @
     (if PT_AccountNumber pt \<noteq> '''' then [vs_GetVAByNUBAN (mt_accounts m) (PT_AccountNumber pt) w] else [])"

definition first_hit :: "(go_error + virtual_account option) list \<Rightarrow> go_error + virtual_account option" where
  "first_hit rs = (case List.find (\<lambda>r. r \<noteq> Inr None) rs of None \<Rightarrow> Inr None | Some r \<Rightarrow> r)"

definition failed_by_ref :: "'w matcher \<Rightarrow> provider_tx \<Rightarrow> 'w \<Rightarrow> bool" where
  "failed_by_ref m pt w \<longleftrightarrow> PT_AccountRef pt \<noteq> '''' \<and>
     vs_GetVAByAccountRef (mt_accounts m) (PT_AccountRef pt) w \<noteq> Inr None"

lemma find_va_first_hit:
  "find_va m a b pt w =
     (case first_hit (lookup_order m pt w) of
        Inr va \<Rightarrow> Inr va
      | Inl err \<Rightarrow> Inl (Wrap (if failed_by_ref m pt w then a else b) err))"
  by (auto simp: find_va_def first_hit_def lookup_order_def failed_by_ref_def
      split: sum.splits option.splits)

lemma Match_is_routing:
  "Match m pt w =
     (case first_hit (lookup_order m pt w) of
        Inl err \<Rightarrow> Inl (Wrap (if failed_by_ref m pt w then ''matcher: lookup by accountRef''
                             else ''matcher: lookup by NUBAN'') err)
      | Inr va \<Rightarrow>
          if sint (PT_AmountKobo pt) \<le> 0 then Inl (not_positive (PT_AmountKobo pt))
          else Inr \<lparr>MR_VA = va,
                    MR_CustomerID = (if hold_reason va = None then VA_CustomerID (the va) else ''''),
                    MR_Entries = two_entries (PT_TransactionID pt) AccountNombaSettlement
                                   (credited_account va) (PT_AmountKobo pt),
                    MR_Suspense = map_option (open_item (PT_TransactionID pt)) (hold_reason va)\<rparr>)"
  by (auto simp: Match_def find_va_first_hit to_suspense_def CreditSuspense_def CreditCustomer_def
      checkTierLimits_def Let_def hold_reason_def credited_account_def two_entries_def
      split: sum.splits option.splits)

lemma MatchReversal_is_routing:
  "MatchReversal m pt w =
     (case first_hit (lookup_order m pt w) of
        Inl err \<Rightarrow> Inl (Wrap (if failed_by_ref m pt w then ''matcher: reversal lookup by ref''
                             else ''matcher: reversal lookup by NUBAN'') err)
      | Inr va \<Rightarrow>
          if sint (PT_AmountKobo pt) \<le> 0 then Inl (not_positive (PT_AmountKobo pt))
          else Inr \<lparr>MR_VA = va, MR_CustomerID = (case va of None \<Rightarrow> '''' | Some v \<Rightarrow> VA_CustomerID v),
                    MR_Entries = two_entries (PT_TransactionID pt) (debited_account va)
                                   AccountNombaSettlement (PT_AmountKobo pt),
                    MR_Suspense = None\<rparr>)"
  by (auto simp: MatchReversal_def find_va_first_hit ReversalToSuspense_def ReversalEntries_def Let_def
      debited_account_def two_entries_def split: sum.splits option.splits)

text \<open>
  C10: The matcher is the routing table. The lookup asks for the account reference first and for the
  NUBAN only when that found nothing, and its error is passed on. Where it succeeds, a non-positive
  amount is rejected with the ledger's error; otherwise \<open>Match\<close> debits the settlement account and
  credits the customer's wallet if the account can receive money, and the suspense account, with an
  open item of the right reason, if no account was found or it is closed or suspended.
\<close>

theorem Match_is_routing_table:
  "Match m pt w =
     (case first_hit (lookup_order m pt w) of
        Inl err \<Rightarrow> Inl (Wrap (if failed_by_ref m pt w then ''matcher: lookup by accountRef''
                             else ''matcher: lookup by NUBAN'') err)
      | Inr va \<Rightarrow>
          if sint (PT_AmountKobo pt) \<le> 0 then Inl (not_positive (PT_AmountKobo pt))
          else Inr \<lparr>MR_VA = va,
                    MR_CustomerID = (if hold_reason va = None then VA_CustomerID (the va) else ''''),
                    MR_Entries = two_entries (PT_TransactionID pt) AccountNombaSettlement
                                   (credited_account va) (PT_AmountKobo pt),
                    MR_Suspense = map_option (open_item (PT_TransactionID pt)) (hold_reason va)\<rparr>)"
  by (rule Match_is_routing)

text \<open>
  C39: A credit that was held back and its reversal do not cancel. When the account is closed or
  suspended, the credit goes to suspense but the reversal of it, on the same account and amount,
  is taken from the customer's wallet: together they leave the settlement account even, the wallet
  lower by the amount and the suspense account higher by it.
\<close>

theorem reversal_of_held_credit:
  assumes "first_hit (lookup_order m pt w) = Inr (Some va)" and "hold_reason (Some va) \<noteq> None"
    and "Match m pt w = Inr r" and "MatchReversal m (pt\<lparr>PT_TransactionID := rid\<rparr>) w = Inr rv"
  shows "exact_balance (CustomerWalletAccount (VA_CustomerID va)) (MR_Entries r @ MR_Entries rv)
           = - sint (PT_AmountKobo pt) \<and>
         exact_balance AccountSuspense (MR_Entries r @ MR_Entries rv) = sint (PT_AmountKobo pt) \<and>
         exact_balance AccountNombaSettlement (MR_Entries r @ MR_Entries rv) = 0"
proof -
  have "lookup_order m (pt\<lparr>PT_TransactionID := rid\<rparr>) w = lookup_order m pt w"
    by (simp add: lookup_order_def)
  with assms have "MR_Entries r = two_entries (PT_TransactionID pt) AccountNombaSettlement
      AccountSuspense (PT_AmountKobo pt)"
    "MR_Entries rv = two_entries rid (CustomerWalletAccount (VA_CustomerID va))
      AccountNombaSettlement (PT_AmountKobo pt)"
    by (auto simp: Match_is_routing MatchReversal_is_routing credited_account_def
        debited_account_def split: if_splits)
  then show ?thesis by (simp add: two_entries_balance)
qed

text \<open>A matcher over a fixed directory with one account.\<close>

definition demo_va :: "string \<Rightarrow> virtual_account" where
  "demo_va st = \<lparr>VA_ID = ''v1'', VA_CustomerID = ''c1'', VA_NombaAccountRef = ''r1'', VA_NUBAN = ''0123456789'',
     VA_BankName = '''', VA_AccountName = '''', VA_NombaHolderID = '''', VA_Status = st,
     VA_CreatedAt = 0, VA_UpdatedAt = 0, VA_CustomerDisplayName = '''', VA_TenantName = ''''\<rparr>"

definition demo_matcher :: "string \<Rightarrow> unit matcher" where
  "demo_matcher st =
     \<lparr>mt_accounts = \<lparr>vs_CreateVirtualAccount = (\<lambda>t v w. (Inr v, w)), vs_GetActiveVA = (\<lambda>c w. Inr None),
        vs_GetLatestVA = (\<lambda>c w. Inr None),
        vs_GetVAByNUBAN = (\<lambda>n w. Inr (if n = ''0123456789'' then Some (demo_va st) else None)),
        vs_GetVAByAccountRef = (\<lambda>r w. Inr (if r = ''r1'' then Some (demo_va st) else None)),
        vs_GetVAByCustomerAndStatus = (\<lambda>c s w. Inr None), vs_UpdateVAStatus = (\<lambda>t i s a w. (None, w)),
        vs_RenameVA = (\<lambda>t i n a w. (None, w)), vs_ListVAs = (\<lambda>t l c w. Inr ([], '''')),
        vs_ListAllVAs = (\<lambda>l c w. Inr ([], '''')), vs_View = (\<lambda>v w. v)\<rparr>,
      mt_txns = \<lparr>xs_PostTransaction = (\<lambda>t x es w. (Inr True, w)), xs_GetTransaction = (\<lambda>i w. Inr None),
        xs_GetTransactionForTenant = (\<lambda>t i w. Inr None), xs_ListTransactions = (\<lambda>v l c w. Inr ([], '''')),
        xs_ListTenantTransactions = (\<lambda>t l c w. Inr ([], '''')), xs_GetBalance = (\<lambda>a w. Inr 0),
        xs_GetDailyCredits = (\<lambda>a t w. Inr 0), xs_GetStatement = (\<lambda>a f t w. Inl (Errorf ''''))\<rparr>,
      mt_tierLimits = (\<lambda>w. fmempty)\<rparr>"

theorem reversal_of_held_credit_witness:
  "\<exists>r rv. Match (demo_matcher VAStatusClosed) (zero_pt\<lparr>PT_AccountRef := ''r1'', PT_AmountKobo := 900\<rparr>) () = Inr r \<and>
     MatchReversal (demo_matcher VAStatusClosed)
       (zero_pt\<lparr>PT_AccountRef := ''r1'', PT_AmountKobo := 900, PT_TransactionID := ''rev''\<rparr>) () = Inr rv \<and>
     exact_balance (CustomerWalletAccount ''c1'') (MR_Entries r @ MR_Entries rv) = - 900"
proof -
  let ?m = "demo_matcher VAStatusClosed"
  let ?pt = "zero_pt\<lparr>PT_AccountRef := ''r1'', PT_AmountKobo := 900\<rparr>"
  have hit: "first_hit (lookup_order ?m ?pt ()) = Inr (Some (demo_va VAStatusClosed))"
    by (simp add: first_hit_def lookup_order_def demo_matcher_def zero_pt_def)
  have hit2: "first_hit (lookup_order ?m (?pt\<lparr>PT_TransactionID := ''rev''\<rparr>) ()) = Inr (Some (demo_va VAStatusClosed))"
    by (simp add: first_hit_def lookup_order_def demo_matcher_def zero_pt_def)
  have hold: "hold_reason (Some (demo_va VAStatusClosed)) \<noteq> None"
    by (simp add: hold_reason_def demo_va_def)
  have amt: "0 < sint (900 :: int64)" by simp
  obtain r where r: "Match ?m ?pt () = Inr r"
    using amt by (simp add: Match_is_routing hit)
  obtain rv where rv: "MatchReversal ?m (?pt\<lparr>PT_TransactionID := ''rev''\<rparr>) () = Inr rv"
    using hit2 amt by (simp add: MatchReversal_is_routing)
  from reversal_of_held_credit [OF hit hold r rv] r rv show ?thesis
    by (simp add: demo_va_def zero_pt_def)
qed

end
