(* ===== verification/Memstore.thy ===== *)
theory Memstore
  imports Runtime
begin

text \<open>
  \<^verbatim>\<open>internal/store/memstore/memstore.go\<close>: the in-memory implementation of the store
  interfaces, on which the repository's end-to-end harness runs. One record per Go struct;
  the package-level counters and the structs together with the in-process state are
  the world \<open>mem\<close> of the harness. Every method
  holds its mutex throughout, so one call is one atomic step. The maps are finite maps; the
  order in which \<open>range\<close> visits them and the order in which \<open>sort.Slice\<close> leaves ties are
  the arguments gathered in \<open>go_order\<close> (the order may differ from world to world).
\<close>

section \<open>State\<close>

record tenant_mem =
  ten_tenants :: "(string, tenant) fmap"
  ten_keys :: "(string, api_key) fmap"
  ten_byKey :: "(string, string) fmap"

record customer_mem =
  cus_customers :: "(string, customer) fmap"
  cus_byExtRef :: "(string, string) fmap"

record auth_mem =
  aut_creds :: "(string, user_credential) fmap"

record va_mem =
  va_accounts :: "(string, virtual_account) fmap"
  va_byNUBAN :: "(string, string) fmap"
  va_byRef :: "(string, string) fmap"

record ledger_row =
  Row_Entry :: ledger_entry
  Row_occurredAt :: time

record txn_mem =
  txn_txns :: "(string, transaction) fmap"
  txn_ledger :: "ledger_row list"

text \<open>
  Both maps of the webhook store hold pointers to the same objects, and
  \<open>MarkWebhookProcessed\<close> writes through one of them: the objects are a heap, the maps hold
  positions in it.
\<close>

record webhook_mem =
  web_heap :: "webhook_event list"
  web_events :: "(string, nat) fmap"
  web_byID :: "(string, nat) fmap"

record suspense_mem =
  sus_items :: "(string, suspense_item) fmap"

record relay_mem =
  rel_endpoints :: "(string, relay_endpoint) fmap"
  rel_deliveries :: "relay_delivery list"

record mem =
  idSeq :: int64
  webhookSeq :: int64
  suspenseSeq :: int64
  sweepSeq :: int64
  mem_tenants :: tenant_mem
  mem_customers :: customer_mem
  mem_auth :: auth_mem
  mem_vas :: va_mem
  mem_txns :: txn_mem
  mem_webhooks :: webhook_mem
  mem_suspense :: suspense_mem
  mem_sweeps :: "sweep_run list"
  mem_audit :: "audit_entry list"
  mem_relay :: relay_mem
  mem_settings :: "(string, json) fmap"
  mem_rt :: runtime

record go_order =
  go_range :: "mem \<Rightarrow> range_order"
  go_customers :: "customer list \<Rightarrow> customer list"
  go_txns :: "transaction list \<Rightarrow> transaction list"
  go_rows :: "ledger_row list \<Rightarrow> ledger_row list"

text \<open>The constructors, and the world in which every store is new.\<close>

definition NewTenantStore :: tenant_mem where
  [simp]: "NewTenantStore = \<lparr>ten_tenants = fmempty, ten_keys = fmempty, ten_byKey = fmempty\<rparr>"

definition NewCustomerStore :: customer_mem where
  [simp]: "NewCustomerStore = \<lparr>cus_customers = fmempty, cus_byExtRef = fmempty\<rparr>"

definition NewAuthStore :: auth_mem where
  [simp]: "NewAuthStore = \<lparr>aut_creds = fmempty\<rparr>"

definition NewVirtualAccountStore :: va_mem where
  [simp]: "NewVirtualAccountStore = \<lparr>va_accounts = fmempty, va_byNUBAN = fmempty, va_byRef = fmempty\<rparr>"

definition NewTransactionStore :: txn_mem where
  [simp]: "NewTransactionStore = \<lparr>txn_txns = fmempty, txn_ledger = []\<rparr>"

definition NewWebhookEventStore :: webhook_mem where
  [simp]: "NewWebhookEventStore = \<lparr>web_heap = [], web_events = fmempty, web_byID = fmempty\<rparr>"

definition NewSuspenseStore :: suspense_mem where
  [simp]: "NewSuspenseStore = \<lparr>sus_items = fmempty\<rparr>"

definition NewRelayStore :: relay_mem where
  [simp]: "NewRelayStore = \<lparr>rel_endpoints = fmempty, rel_deliveries = []\<rparr>"

definition mem_init :: mem where
  "mem_init = \<lparr>idSeq = 0, webhookSeq = 0, suspenseSeq = 0, sweepSeq = 0,
     mem_tenants = NewTenantStore, mem_customers = NewCustomerStore, mem_auth = NewAuthStore,
     mem_vas = NewVirtualAccountStore, mem_txns = NewTransactionStore,
     mem_webhooks = NewWebhookEventStore, mem_suspense = NewSuspenseStore,
     mem_sweeps = [], mem_audit = [],
     mem_relay = NewRelayStore, mem_settings = fmempty, mem_rt = runtime_init\<rparr>"

definition nextID :: "string \<Rightarrow> mem \<Rightarrow> string \<times> mem" where
  "nextID prefix w =
     (let n = idSeq w + 1 in (prefix @ ''-'' @ pad04 (unat n), w\<lparr>idSeq := n\<rparr>))"

section \<open>TenantStore, AuthStore, SettingsStore, AuditStore, SweepStore\<close>

definition mem_CreateTenant :: "time \<Rightarrow> string \<Rightarrow> mem \<Rightarrow> (go_error + tenant) \<times> mem" where
  "mem_CreateTenant now name w =
     (let (i, w) = nextID ''tenant'' w;
          t = \<lparr>Tenant_ID = i, Tenant_Name = name, Tenant_CreatedAt = now\<rparr>
      in (Inr t, w\<lparr>mem_tenants := (mem_tenants w)
                    \<lparr>ten_tenants := fmupd i t (ten_tenants (mem_tenants w))\<rparr>\<rparr>))"

definition mem_GetTenantByAPIKey :: "string \<Rightarrow> mem \<Rightarrow> go_error + (tenant option \<times> api_key option)" where
  "mem_GetTenantByAPIKey keyHash w =
     (case fmlookup (ten_byKey (mem_tenants w)) keyHash of
        None \<Rightarrow> Inr (None, None)
      | Some tid \<Rightarrow> Inr (fmlookup (ten_tenants (mem_tenants w)) tid,
                         fmlookup (ten_keys (mem_tenants w)) keyHash))"

definition mem_put_key :: "string \<Rightarrow> string \<Rightarrow> api_key \<Rightarrow> mem \<Rightarrow> mem" where
  "mem_put_key keyHash tenantID k w =
     w\<lparr>mem_tenants := (mem_tenants w)
        \<lparr>ten_keys := fmupd keyHash k (ten_keys (mem_tenants w)),
         ten_byKey := fmupd keyHash tenantID (ten_byKey (mem_tenants w))\<rparr>\<rparr>"

definition mem_CreateAPIKey :: "string \<Rightarrow> string \<Rightarrow> string \<Rightarrow> string \<Rightarrow> mem
    \<Rightarrow> (go_error + api_key) \<times> mem" where
  "mem_CreateAPIKey tenantID rawKey keyHash keyPrefix w =
     (let (i, w) = nextID ''key'' w;
          k = \<lparr>Key_ID = i, Key_TenantID = tenantID, Key_RawKey = rawKey, Key_KeyHash = keyHash,
               Key_KeyPrefix = keyPrefix, Key_Active = True, Key_CreatedAt = 0\<rparr>
      in (Inr k, mem_put_key keyHash tenantID k w))"

definition mem_SeedAPIKey :: "string \<Rightarrow> string \<Rightarrow> mem \<Rightarrow> mem" where
  "mem_SeedAPIKey tenantID keyHash w =
     (let (i, w) = nextID ''key'' w;
          k = \<lparr>Key_ID = i, Key_TenantID = tenantID, Key_RawKey = '''', Key_KeyHash = keyHash,
               Key_KeyPrefix = ''test_'', Key_Active = False, Key_CreatedAt = 0\<rparr>
      in mem_put_key keyHash tenantID k w)"

definition mem_CreateCredential :: "time \<Rightarrow> user_credential \<Rightarrow> mem \<Rightarrow> go_error option \<times> mem" where
  "mem_CreateCredential now cred w =
     (let (i, w) = nextID ''cred'' w
      in (None, w\<lparr>mem_auth := \<lparr>aut_creds =
            fmupd (Cred_Email cred) (cred\<lparr>Cred_ID := i\<rparr>) (aut_creds (mem_auth w))\<rparr>\<rparr>))"

definition mem_SeedCredential :: "time \<Rightarrow> user_credential \<Rightarrow> mem \<Rightarrow> go_error option \<times> mem" where
  "mem_SeedCredential now cred w =
     (case fmlookup (aut_creds (mem_auth w)) (Cred_Email cred) of
        Some _ \<Rightarrow> (None, w)
      | None \<Rightarrow> (let (i, w) = nextID ''cred'' w
          in (None, w\<lparr>mem_auth := \<lparr>aut_creds =
                fmupd (Cred_Email cred) (cred\<lparr>Cred_ID := i\<rparr>) (aut_creds (mem_auth w))\<rparr>\<rparr>)))"

definition mem_GetCredentialByEmail :: "string \<Rightarrow> mem
    \<Rightarrow> go_error + (user_credential option \<times> tenant option \<times> api_key option)" where
  "mem_GetCredentialByEmail email w =
     (case fmlookup (aut_creds (mem_auth w)) email of
        None \<Rightarrow> Inr (None, None, None)
      | Some cred \<Rightarrow> Inr (Some cred, None, None))"

definition mem_GetSetting :: "string \<Rightarrow> mem \<Rightarrow> go_error + json option" where
  "mem_GetSetting key w = Inr (fmlookup (mem_settings w) key)"

definition mem_UpsertSetting :: "time \<Rightarrow> string \<Rightarrow> json \<Rightarrow> mem \<Rightarrow> go_error option \<times> mem" where
  "mem_UpsertSetting now key v w = (None, w\<lparr>mem_settings := fmupd key v (mem_settings w)\<rparr>)"

definition mem_SeedSetting :: "time \<Rightarrow> string \<Rightarrow> json \<Rightarrow> mem \<Rightarrow> go_error option \<times> mem" where
  "mem_SeedSetting now key v w =
     (case fmlookup (mem_settings w) key of
        Some _ \<Rightarrow> (None, w)
      | None \<Rightarrow> (None, w\<lparr>mem_settings := fmupd key v (mem_settings w)\<rparr>))"

definition mem_Append :: "time \<Rightarrow> audit_entry \<Rightarrow> mem \<Rightarrow> go_error option \<times> mem" where
  "mem_Append now entry w = (None, w\<lparr>mem_audit := mem_audit w @ [entry]\<rparr>)"

definition mem_CreateSweepRun :: "time \<Rightarrow> sweep_run \<Rightarrow> mem \<Rightarrow> go_error option \<times> mem" where
  "mem_CreateSweepRun now run w =
     (let n = sweepSeq w + 1;
          run = run\<lparr>Run_ID := ''sweep-'' @ pad04 (unat n)\<rparr>
      in (None, w\<lparr>sweepSeq := n, mem_sweeps := mem_sweeps w @ [run]\<rparr>))"

definition mem_GetLastSweepTime :: "mem \<Rightarrow> go_error + time" where
  "mem_GetLastSweepTime w =
     (if mem_sweeps w = [] then Inr 0 else Inr (Run_WindowTo (last (mem_sweeps w))))"

definition mem_ListSweepRuns :: "int \<Rightarrow> mem \<Rightarrow> go_error + sweep_run list" where
  "mem_ListSweepRuns limit w =
     (let limit = (if limit \<le> 0 then 50 else limit)
      in Inr (take (nat limit) (rev (mem_sweeps w))))"

section \<open>CustomerStore\<close>

definition ext_key :: "string \<Rightarrow> string \<Rightarrow> string" where
  "ext_key tenantID externalRef = tenantID @ '':'' @ externalRef"

definition mem_CreateCustomer :: "time \<Rightarrow> string \<Rightarrow> string \<Rightarrow> string \<Rightarrow> identity_input \<Rightarrow> mem
    \<Rightarrow> (go_error + customer) \<times> mem" where
  "mem_CreateCustomer now tenantID externalRef displayName ident w =
     (let (i, w) = nextID ''cust'' w;
          c = \<lparr>Cust_ID = i, Cust_TenantID = tenantID, Cust_ExternalRef = externalRef,
               Cust_DisplayName = displayName, Cust_Status = '''',
               Cust_Identity = Some \<lparr>Ident_ID = '''', Ident_CustomerID = i,
                 Ident_BVNMasked = In_BVNMasked ident, Ident_NINMasked = In_NINMasked ident,
                 Ident_KYCTier = In_KYCTier ident, Ident_VerificationStatus = '''',
                 Ident_CreatedAt = 0, Ident_UpdatedAt = 0\<rparr>,
               Cust_CreatedAt = now, Cust_UpdatedAt = 0\<rparr>
      in (Inr c, w\<lparr>mem_customers :=
            \<lparr>cus_customers = fmupd i c (cus_customers (mem_customers w)),
             cus_byExtRef = fmupd (ext_key tenantID externalRef) i
                              (cus_byExtRef (mem_customers w))\<rparr>\<rparr>))"

definition mem_GetCustomer :: "string \<Rightarrow> string \<Rightarrow> mem \<Rightarrow> go_error + customer option" where
  "mem_GetCustomer tenantID customerID w =
     (case fmlookup (cus_customers (mem_customers w)) customerID of
        None \<Rightarrow> Inr None
      | Some c \<Rightarrow> if tenantID \<noteq> '''' \<and> Cust_TenantID c \<noteq> tenantID then Inr None else Inr (Some c))"

definition mem_GetCustomerByID :: "string \<Rightarrow> mem \<Rightarrow> go_error + customer option" where
  "mem_GetCustomerByID customerID w = Inr (fmlookup (cus_customers (mem_customers w)) customerID)"

definition mem_GetCustomerByExternalRef :: "string \<Rightarrow> string \<Rightarrow> mem
    \<Rightarrow> go_error + customer option" where
  "mem_GetCustomerByExternalRef tenantID externalRef w =
     (case fmlookup (cus_byExtRef (mem_customers w)) (ext_key tenantID externalRef) of
        None \<Rightarrow> Inr None
      | Some i \<Rightarrow> Inr (fmlookup (cus_customers (mem_customers w)) i))"

definition mem_UpdateKYCTier :: "time \<Rightarrow> string \<Rightarrow> int \<Rightarrow> string \<Rightarrow> mem \<Rightarrow> go_error option \<times> mem" where
  "mem_UpdateKYCTier now customerID newTier actor w =
     (case fmlookup (cus_customers (mem_customers w)) customerID of
        None \<Rightarrow> (Some (Errorf (''memstore: customer not found: '' @ customerID)), w)
      | Some c \<Rightarrow>
          let ident = (case Cust_Identity c of
                 Some ident \<Rightarrow> ident
               | None \<Rightarrow> \<lparr>Ident_ID = '''', Ident_CustomerID = customerID, Ident_BVNMasked = None,
                          Ident_NINMasked = None, Ident_KYCTier = 0,
                          Ident_VerificationStatus = '''', Ident_CreatedAt = 0,
                          Ident_UpdatedAt = 0\<rparr>);
              c = c\<lparr>Cust_Identity := Some (ident\<lparr>Ident_KYCTier := newTier\<rparr>)\<rparr>
          in (None, w\<lparr>mem_customers := (mem_customers w)
                \<lparr>cus_customers := fmupd customerID c (cus_customers (mem_customers w))\<rparr>\<rparr>))"

definition mem_ListCustomers :: "go_order \<Rightarrow> string \<Rightarrow> int \<Rightarrow> string \<Rightarrow> mem
    \<Rightarrow> go_error + (customer list \<times> string)" where
  "mem_ListCustomers g tenantID limit cursor w =
     (let out = filter (\<lambda>c. Cust_TenantID c = tenantID)
                  (range_vals (go_range g w) (cus_customers (mem_customers w)));
          out = sort_slice (go_customers g) (\<lambda>c. - Cust_CreatedAt c) out
      in Inr (if limit > 0 \<and> int (length out) > limit then take (nat limit) out else out, ''''))"

section \<open>VirtualAccountStore\<close>

definition mem_CreateVirtualAccount :: "time \<Rightarrow> virtual_account \<Rightarrow> mem
    \<Rightarrow> (go_error + virtual_account) \<times> mem" where
  "mem_CreateVirtualAccount now va w =
     (let (va, w) = (if VA_ID va = ''''
                     then let (i, w) = nextID ''va'' w in (va\<lparr>VA_ID := i\<rparr>, w)
                     else (va, w));
          va = va\<lparr>VA_CreatedAt := now\<rparr>
      in (Inr va, w\<lparr>mem_vas :=
            \<lparr>va_accounts = fmupd (VA_ID va) va (va_accounts (mem_vas w)),
             va_byNUBAN = fmupd (VA_NUBAN va) (VA_ID va) (va_byNUBAN (mem_vas w)),
             va_byRef = fmupd (VA_NombaAccountRef va) (VA_ID va) (va_byRef (mem_vas w))\<rparr>\<rparr>))"

definition mem_GetVAByCustomerAndStatus :: "go_order \<Rightarrow> string \<Rightarrow> string \<Rightarrow> mem
    \<Rightarrow> go_error + virtual_account option" where
  "mem_GetVAByCustomerAndStatus g customerID status w =
     Inr (List.find (\<lambda>va. VA_CustomerID va = customerID \<and> VA_Status va = status)
            (range_vals (go_range g w) (va_accounts (mem_vas w))))"

definition mem_GetActiveVA :: "go_order \<Rightarrow> string \<Rightarrow> mem \<Rightarrow> go_error + virtual_account option" where
  "mem_GetActiveVA g customerID w =
     Inr (List.find (\<lambda>va. VA_CustomerID va = customerID \<and> VA_Status va = VAStatusActive)
            (range_vals (go_range g w) (va_accounts (mem_vas w))))"

definition later_va :: "virtual_account option \<Rightarrow> virtual_account \<Rightarrow> virtual_account option" where
  "later_va latest va =
     (case latest of
        None \<Rightarrow> Some va
      | Some l \<Rightarrow> if VA_CreatedAt va > VA_CreatedAt l then Some va else Some l)"

definition mem_GetLatestVA :: "go_order \<Rightarrow> string \<Rightarrow> mem \<Rightarrow> go_error + virtual_account option" where
  "mem_GetLatestVA g customerID w =
     Inr (foldl (\<lambda>latest va. if VA_CustomerID va = customerID then later_va latest va else latest)
            None (range_vals (go_range g w) (va_accounts (mem_vas w))))"

definition mem_GetVAByNUBAN :: "string \<Rightarrow> mem \<Rightarrow> go_error + virtual_account option" where
  "mem_GetVAByNUBAN nuban w =
     (case fmlookup (va_byNUBAN (mem_vas w)) nuban of
        None \<Rightarrow> Inr None
      | Some i \<Rightarrow> Inr (fmlookup (va_accounts (mem_vas w)) i))"

definition mem_GetVAByAccountRef :: "string \<Rightarrow> mem \<Rightarrow> go_error + virtual_account option" where
  "mem_GetVAByAccountRef accountRef w =
     (case fmlookup (va_byRef (mem_vas w)) accountRef of
        None \<Rightarrow> Inr None
      | Some i \<Rightarrow> Inr (fmlookup (va_accounts (mem_vas w)) i))"

definition mem_set_va :: "string \<Rightarrow> (virtual_account \<Rightarrow> virtual_account) \<Rightarrow> mem
    \<Rightarrow> go_error option \<times> mem" where
  "mem_set_va vaID f w =
     (case fmlookup (va_accounts (mem_vas w)) vaID of
        None \<Rightarrow> (Some (Errorf (''memstore: VA not found: '' @ vaID)), w)
      | Some va \<Rightarrow> (None, w\<lparr>mem_vas := (mem_vas w)
            \<lparr>va_accounts := fmupd vaID (f va) (va_accounts (mem_vas w))\<rparr>\<rparr>))"

definition mem_UpdateVAStatus :: "time \<Rightarrow> string \<Rightarrow> string \<Rightarrow> string \<Rightarrow> mem
    \<Rightarrow> go_error option \<times> mem" where
  "mem_UpdateVAStatus now vaID status actor w = mem_set_va vaID (\<lambda>va. va\<lparr>VA_Status := status\<rparr>) w"

definition mem_RenameVA :: "time \<Rightarrow> string \<Rightarrow> string \<Rightarrow> string \<Rightarrow> mem
    \<Rightarrow> go_error option \<times> mem" where
  "mem_RenameVA now vaID newName actor w = mem_set_va vaID (\<lambda>va. va\<lparr>VA_AccountName := newName\<rparr>) w"

section \<open>TransactionStore\<close>

text \<open>The loop that NFR-1 is checked with: the signed \<open>int64\<close> sum of the entries.\<close>

definition net_kobo :: "ledger_entry list \<Rightarrow> int64" where
  "net_kobo entries = foldl (\<lambda>sum e. if LE_Direction e = ''credit'' then sum + LE_AmountKobo e
                                    else sum - LE_AmountKobo e) 0 entries"

definition mem_PostTransaction :: "time \<Rightarrow> transaction \<Rightarrow> ledger_entry list \<Rightarrow> mem
    \<Rightarrow> (go_error + bool) \<times> mem" where
  "mem_PostTransaction now tx entries w =
     (case fmlookup (txn_txns (mem_txns w)) (Tx_ID tx) of
        Some _ \<Rightarrow> (Inr False, w)
      | None \<Rightarrow>
          if net_kobo entries \<noteq> 0
          then (Inl (Errorf (''memstore: unbalanced ledger entries for txn '' @ Tx_ID tx
                             @ '': net='' @ show_int (sint (net_kobo entries)))), w)
          else
            let tx = (if IsZero (Tx_CreatedAt tx) then tx\<lparr>Tx_CreatedAt := now\<rparr> else tx)
            in (Inr True, w\<lparr>mem_txns :=
                  \<lparr>txn_txns = fmupd (Tx_ID tx) tx (txn_txns (mem_txns w)),
                   txn_ledger = txn_ledger (mem_txns w)
                     @ map (\<lambda>e. \<lparr>Row_Entry = e, Row_occurredAt = Tx_OccurredAt tx\<rparr>) entries\<rparr>\<rparr>))"

definition mem_GetTransaction :: "string \<Rightarrow> mem \<Rightarrow> go_error + transaction option" where
  "mem_GetTransaction txID w = Inr (fmlookup (txn_txns (mem_txns w)) txID)"

text \<open>
  The cursor loop: the list after the first element with the cursor's identifier, the whole
  list when there is none.
\<close>

definition skip_cursor :: "string \<Rightarrow> transaction list \<Rightarrow> transaction list" where
  "skip_cursor cursor all =
     (if cursor \<noteq> '''' \<and> (\<exists>t \<in> set all. Tx_ID t = cursor)
      then tl (dropWhile (\<lambda>t. Tx_ID t \<noteq> cursor) all) else all)"

definition mem_ListTransactions :: "go_order \<Rightarrow> string \<Rightarrow> int \<Rightarrow> string \<Rightarrow> mem
    \<Rightarrow> go_error + (transaction list \<times> string)" where
  "mem_ListTransactions g vaID limit cursor w =
     (let all = filter (\<lambda>t. Tx_VirtualAccountID t = Some vaID)
                  (range_vals (go_range g w) (txn_txns (mem_txns w)));
          all = sort_slice (go_txns g) (\<lambda>t. - Tx_OccurredAt t) all;
          all = skip_cursor cursor all;
          limit = (if limit \<le> 0 then 50 else limit)
      in if int (length all) > limit
         then Inr (take (nat limit) all, Tx_ID (all ! (nat limit - 1)))
         else Inr (all, ''''))"

definition mem_GetBalance :: "string \<Rightarrow> mem \<Rightarrow> go_error + int64" where
  "mem_GetBalance walletAccount w =
     Inr (foldl (\<lambda>bal row. if LE_Account (Row_Entry row) = walletAccount
                 then if LE_Direction (Row_Entry row) = ''credit''
                      then bal + LE_AmountKobo (Row_Entry row)
                      else bal - LE_AmountKobo (Row_Entry row)
                 else bal) 0 (txn_ledger (mem_txns w)))"

definition mem_GetDailyCredits :: "string \<Rightarrow> time \<Rightarrow> mem \<Rightarrow> go_error + int64" where
  "mem_GetDailyCredits walletAccount date w =
     (let dayStart = day_start date; dayEnd = dayStart + 24 * hour
      in Inr (foldl (\<lambda>total row.
            if LE_Account (Row_Entry row) = walletAccount
               \<and> LE_Direction (Row_Entry row) = ''credit''
               \<and> (Row_occurredAt row = dayStart \<or> Row_occurredAt row > dayStart)
               \<and> Row_occurredAt row < dayEnd
            then total + LE_AmountKobo (Row_Entry row) else total) 0 (txn_ledger (mem_txns w))))"

definition statement_row :: "int64 \<times> statement_entry list \<Rightarrow> ledger_row
    \<Rightarrow> int64 \<times> statement_entry list" where
  "statement_row st row =
     (let (running, entries) = st;
          amt = LE_AmountKobo (Row_Entry row);
          credit = (LE_Direction (Row_Entry row) = ''credit'');
          running = (if credit then running + amt else running - amt)
      in (running, entries @ [\<lparr>SE_OccurredAt = Row_occurredAt row, SE_Description = '''',
            SE_DebitKobo = (if credit then 0 else amt), SE_CreditKobo = (if credit then amt else 0),
            SE_RunningBalance = running\<rparr>]))"

definition mem_GetStatement :: "go_order \<Rightarrow> string \<Rightarrow> time \<Rightarrow> time \<Rightarrow> mem \<Rightarrow> go_error + statement" where
  "mem_GetStatement g walletAccount frm to w =
     (let rows = txn_ledger (mem_txns w);
          opening = foldl (\<lambda>opening row.
              if LE_Account (Row_Entry row) = walletAccount \<and> Row_occurredAt row < frm
              then if LE_Direction (Row_Entry row) = ''credit''
                   then opening + LE_AmountKobo (Row_Entry row)
                   else opening - LE_AmountKobo (Row_Entry row)
              else opening) 0 rows;
          inWindow = filter (\<lambda>row. LE_Account (Row_Entry row) = walletAccount
              \<and> (Row_occurredAt row = frm \<or> Row_occurredAt row > frm)
              \<and> Row_occurredAt row < to) rows;
          inWindow = sort_slice (go_rows g) Row_occurredAt inWindow;
          (running, entries) = foldl statement_row (opening, []) inWindow
      in Inr \<lparr>St_OpeningBalanceKobo = opening, St_ClosingBalanceKobo = running,
              St_From = frm, St_To = to, St_Entries = entries\<rparr>)"

definition AllLedgerEntries :: "mem \<Rightarrow> ledger_entry list" where
  "AllLedgerEntries w = map Row_Entry (txn_ledger (mem_txns w))"

section \<open>WebhookEventStore\<close>

definition mem_InsertWebhookEvent :: "time \<Rightarrow> webhook_event \<Rightarrow> mem
    \<Rightarrow> (go_error + bool \<times> webhook_event) \<times> mem" where
  "mem_InsertWebhookEvent now evt w =
     (case fmlookup (web_events (mem_webhooks w)) (WE_DedupeKey evt) of
        Some _ \<Rightarrow> (Inr (False, evt), w)
      | None \<Rightarrow>
          let (evt, w) = (if WE_ID evt = ''''
                then let n = webhookSeq w + 1
                     in (evt\<lparr>WE_ID := ''wh-'' @ pad04 (unat n)\<rparr>, w\<lparr>webhookSeq := n\<rparr>)
                else (evt, w));
              evt = evt\<lparr>WE_CreatedAt := now\<rparr>;
              p = length (web_heap (mem_webhooks w))
          in (Inr (True, evt), w\<lparr>mem_webhooks :=
                \<lparr>web_heap = web_heap (mem_webhooks w) @ [evt],
                 web_events = fmupd (WE_DedupeKey evt) p (web_events (mem_webhooks w)),
                 web_byID = fmupd (WE_ID evt) p (web_byID (mem_webhooks w))\<rparr>\<rparr>))"

text \<open>A loop that stops as soon as \<open>limit\<close> elements are collected (no bound if \<open>limit \<le> 0\<close>).\<close>

definition upto_limit :: "int \<Rightarrow> 'a list \<Rightarrow> 'a list" where
  "upto_limit limit xs = (if limit > 0 then take (nat limit) xs else xs)"

definition mem_ListWebhookEvents :: "go_order \<Rightarrow> int \<Rightarrow> mem \<Rightarrow> go_error + webhook_event list" where
  "mem_ListWebhookEvents g limit w =
     Inr (upto_limit limit (map (\<lambda>p. web_heap (mem_webhooks w) ! p)
            (range_vals (go_range g w) (web_byID (mem_webhooks w)))))"

definition mem_MarkWebhookProcessed :: "time \<Rightarrow> string \<Rightarrow> string \<Rightarrow> mem
    \<Rightarrow> go_error option \<times> mem" where
  "mem_MarkWebhookProcessed now i status w =
     (case fmlookup (web_byID (mem_webhooks w)) i of
        None \<Rightarrow> (None, w)
      | Some p \<Rightarrow> (None, w\<lparr>mem_webhooks := (mem_webhooks w)
            \<lparr>web_heap := (web_heap (mem_webhooks w))
               [p := (web_heap (mem_webhooks w) ! p)\<lparr>WE_Status := status\<rparr>]\<rparr>\<rparr>))"

section \<open>SuspenseStore\<close>

definition mem_CreateSuspenseItem :: "time \<Rightarrow> suspense_item \<Rightarrow> mem \<Rightarrow> go_error option \<times> mem" where
  "mem_CreateSuspenseItem now item w =
     (let (item, w) = (if SI_ID item = ''''
            then let n = suspenseSeq w + 1
                 in (item\<lparr>SI_ID := ''susp-'' @ pad04 (unat n)\<rparr>, w\<lparr>suspenseSeq := n\<rparr>)
            else (item, w));
          item = item\<lparr>SI_CreatedAt := now\<rparr>
      in (None, w\<lparr>mem_suspense :=
            \<lparr>sus_items = fmupd (SI_ID item) item (sus_items (mem_suspense w))\<rparr>\<rparr>))"

definition mem_GetSuspenseItem :: "string \<Rightarrow> mem \<Rightarrow> go_error + suspense_item option" where
  "mem_GetSuspenseItem itemID w = Inr (fmlookup (sus_items (mem_suspense w)) itemID)"

definition mem_ListSuspenseItems :: "go_order \<Rightarrow> string \<Rightarrow> int \<Rightarrow> string \<Rightarrow> mem
    \<Rightarrow> go_error + (suspense_item list \<times> string)" where
  "mem_ListSuspenseItems g tenantID limit cursor w =
     (let out = filter (\<lambda>item. SI_Status item = ''open'')
                  (range_vals (go_range g w) (sus_items (mem_suspense w)))
      in if limit > 0 \<and> int (length out) > limit
         then Inr (take (nat limit) out, SI_ID (out ! (nat limit - 1)))
         else Inr (out, ''''))"

definition mem_ResolveSuspenseItem :: "time \<Rightarrow> string \<Rightarrow> string \<Rightarrow> string \<Rightarrow> string \<Rightarrow> mem
    \<Rightarrow> go_error option \<times> mem" where
  "mem_ResolveSuspenseItem now itemID resolution actor notes w =
     (case fmlookup (sus_items (mem_suspense w)) itemID of
        None \<Rightarrow> (Some (Errorf (''memstore: suspense item not found: '' @ itemID)), w)
      | Some item \<Rightarrow> (None, w\<lparr>mem_suspense := \<lparr>sus_items = fmupd itemID
            (item\<lparr>SI_Status := resolution, SI_ResolvedBy := Some actor, SI_Notes := Some notes\<rparr>)
            (sus_items (mem_suspense w))\<rparr>\<rparr>))"

definition mem_ListOpenUnmatchedItems :: "go_order \<Rightarrow> int \<Rightarrow> mem \<Rightarrow> go_error + suspense_item list" where
  "mem_ListOpenUnmatchedItems g limit w =
     Inr (upto_limit limit
            (filter (\<lambda>item. SI_Status item = ''open'' \<and> SI_Reason item = ''unmatched'')
               (range_vals (go_range g w) (sus_items (mem_suspense w)))))"

definition mem_OpenItems :: "go_order \<Rightarrow> mem \<Rightarrow> suspense_item list" where
  "mem_OpenItems g w = filter (\<lambda>item. SI_Status item = ''open'')
     (range_vals (go_range g w) (sus_items (mem_suspense w)))"

section \<open>RelayStore\<close>

definition mem_CreateEndpoint :: "time \<Rightarrow> relay_endpoint \<Rightarrow> mem
    \<Rightarrow> (go_error + relay_endpoint) \<times> mem" where
  "mem_CreateEndpoint now ep w =
     (let (ep, w) = (if EP_ID ep = ''''
                     then let (i, w) = nextID ''ep'' w in (ep\<lparr>EP_ID := i\<rparr>, w)
                     else (ep, w));
          ep = ep\<lparr>EP_CreatedAt := now\<rparr>
      in (Inr ep, w\<lparr>mem_relay := (mem_relay w)
            \<lparr>rel_endpoints := fmupd (EP_ID ep) ep (rel_endpoints (mem_relay w))\<rparr>\<rparr>))"

definition mem_ListEndpoints :: "go_order \<Rightarrow> string \<Rightarrow> mem \<Rightarrow> go_error + relay_endpoint list" where
  "mem_ListEndpoints g tenantID w =
     Inr (filter (\<lambda>ep. EP_TenantID ep = tenantID)
            (range_vals (go_range g w) (rel_endpoints (mem_relay w))))"

definition mem_GetEndpoint :: "string \<Rightarrow> mem \<Rightarrow> go_error + relay_endpoint option" where
  "mem_GetEndpoint i w = Inr (fmlookup (rel_endpoints (mem_relay w)) i)"

definition mem_DeactivateEndpoint :: "string \<Rightarrow> string \<Rightarrow> mem \<Rightarrow> go_error option \<times> mem" where
  "mem_DeactivateEndpoint i tenantID w =
     (case fmlookup (rel_endpoints (mem_relay w)) i of
        None \<Rightarrow> (Some (Errorf ''memstore: relay endpoint not found''), w)
      | Some ep \<Rightarrow>
          if EP_TenantID ep \<noteq> tenantID
          then (Some (Errorf ''memstore: relay endpoint not found''), w)
          else (None, w\<lparr>mem_relay := (mem_relay w)
                 \<lparr>rel_endpoints := fmupd i (ep\<lparr>EP_Active := False\<rparr>)
                                     (rel_endpoints (mem_relay w))\<rparr>\<rparr>))"

definition mem_CreateDelivery :: "time \<Rightarrow> relay_delivery \<Rightarrow> mem
    \<Rightarrow> (go_error + relay_delivery) \<times> mem" where
  "mem_CreateDelivery now d w =
     (let (d, w) = (if Del_ID d = ''''
                    then let (i, w) = nextID ''del'' w in (d\<lparr>Del_ID := i\<rparr>, w)
                    else (d, w));
          d = d\<lparr>Del_CreatedAt := now\<rparr>
      in (Inr d, w\<lparr>mem_relay := (mem_relay w)
            \<lparr>rel_deliveries := rel_deliveries (mem_relay w) @ [d]\<rparr>\<rparr>))"

fun replace_delivery :: "relay_delivery \<Rightarrow> relay_delivery list \<Rightarrow> relay_delivery list option" where
  "replace_delivery d [] = None"
| "replace_delivery d (e # ds) =
     (if Del_ID e = Del_ID d then Some (d # ds)
      else map_option (\<lambda>ds. e # ds) (replace_delivery d ds))"

definition mem_UpdateDelivery :: "relay_delivery \<Rightarrow> mem \<Rightarrow> go_error option \<times> mem" where
  "mem_UpdateDelivery d w =
     (case replace_delivery d (rel_deliveries (mem_relay w)) of
        Some ds \<Rightarrow> (None, w\<lparr>mem_relay := (mem_relay w)\<lparr>rel_deliveries := ds\<rparr>\<rparr>)
      | None \<Rightarrow> (Some (Errorf (''memstore: delivery not found: '' @ Del_ID d)), w))"

definition mem_ListPendingRetries :: "time \<Rightarrow> int \<Rightarrow> mem \<Rightarrow> go_error + relay_delivery list" where
  "mem_ListPendingRetries now limit w =
     Inr (upto_limit limit (filter (\<lambda>d. Del_Status d = ''failed'' \<and>
            (case Del_NextRetryAt d of None \<Rightarrow> False | Some t \<Rightarrow> \<not> now < t))
            (rel_deliveries (mem_relay w))))"

definition mem_GetDelivery :: "string \<Rightarrow> mem \<Rightarrow> go_error + relay_delivery option" where
  "mem_GetDelivery i w = Inr (List.find (\<lambda>d. Del_ID d = i) (rel_deliveries (mem_relay w)))"

definition mem_ListDeliveries :: "string \<Rightarrow> int \<Rightarrow> string \<Rightarrow> mem
    \<Rightarrow> go_error + (relay_delivery list \<times> string)" where
  "mem_ListDeliveries tenantID limit cursor w =
     Inr (upto_limit limit (filter (\<lambda>d.
            case fmlookup (rel_endpoints (mem_relay w)) (Del_EndpointID d) of
              None \<Rightarrow> False | Some ep \<Rightarrow> EP_TenantID ep = tenantID)
            (rel_deliveries (mem_relay w))), '''')"

section \<open>The stores as interface values\<close>

text \<open>
  The list methods at the end of the file are stubs that return nothing; they are written
  out in place. \<open>ListAuditEntries\<close>, \<open>ListVAs\<close> and the like ignore the store.
\<close>

definition mem_tenant_store :: "mem tenant_store" where
  "mem_tenant_store = \<lparr>ts_CreateTenant = mem_CreateTenant,
     ts_GetTenantByAPIKey = mem_GetTenantByAPIKey, ts_CreateAPIKey = mem_CreateAPIKey,
     ts_ListTenants = (\<lambda>w. Inr []), ts_ListAPIKeys = (\<lambda>t w. Inr []),
     ts_RevokeAPIKey = (\<lambda>k t w. (None, w))\<rparr>"

definition mem_customer_store :: "go_order \<Rightarrow> mem customer_store" where
  "mem_customer_store g = \<lparr>cs_CreateCustomer = mem_CreateCustomer,
     cs_GetCustomer = mem_GetCustomer, cs_GetCustomerByExternalRef = mem_GetCustomerByExternalRef,
     cs_UpdateKYCTier = mem_UpdateKYCTier, cs_ListCustomers = mem_ListCustomers g,
     cs_GetCustomerByID = mem_GetCustomerByID,
     cs_View = (\<lambda>c w. case fmlookup (cus_customers (mem_customers w)) (Cust_ID c) of
                        None \<Rightarrow> c | Some c' \<Rightarrow> c')\<rparr>"

definition mem_virtual_account_store :: "go_order \<Rightarrow> mem virtual_account_store" where
  "mem_virtual_account_store g = \<lparr>vs_CreateVirtualAccount = mem_CreateVirtualAccount,
     vs_GetActiveVA = mem_GetActiveVA g, vs_GetLatestVA = mem_GetLatestVA g,
     vs_GetVAByNUBAN = mem_GetVAByNUBAN, vs_GetVAByAccountRef = mem_GetVAByAccountRef,
     vs_GetVAByCustomerAndStatus = mem_GetVAByCustomerAndStatus g,
     vs_UpdateVAStatus = mem_UpdateVAStatus, vs_RenameVA = mem_RenameVA,
     vs_ListVAs = (\<lambda>t l c w. Inr ([], '''')), vs_ListAllVAs = (\<lambda>l c w. Inr ([], '''')),
     vs_View = (\<lambda>va w. case fmlookup (va_accounts (mem_vas w)) (VA_ID va) of
                         None \<Rightarrow> va | Some va' \<Rightarrow> va')\<rparr>"

definition mem_transaction_store :: "go_order \<Rightarrow> mem transaction_store" where
  "mem_transaction_store g = \<lparr>xs_PostTransaction = mem_PostTransaction,
     xs_GetTransaction = mem_GetTransaction,
     xs_GetTransactionForTenant = (\<lambda>t i w. Inr None),
     xs_ListTransactions = mem_ListTransactions g,
     xs_ListTenantTransactions = (\<lambda>t l c w. Inr ([], '''')),
     xs_GetBalance = mem_GetBalance, xs_GetDailyCredits = mem_GetDailyCredits,
     xs_GetStatement = mem_GetStatement g\<rparr>"

definition mem_webhook_event_store :: "go_order \<Rightarrow> mem webhook_event_store" where
  "mem_webhook_event_store g = \<lparr>ws_InsertWebhookEvent = mem_InsertWebhookEvent,
     ws_MarkWebhookProcessed = mem_MarkWebhookProcessed,
     ws_ListWebhookEvents = mem_ListWebhookEvents g\<rparr>"

definition mem_suspense_store :: "go_order \<Rightarrow> mem suspense_store" where
  "mem_suspense_store g = \<lparr>ss_CreateSuspenseItem = mem_CreateSuspenseItem,
     ss_ListSuspenseItems = mem_ListSuspenseItems g,
     ss_ResolveSuspenseItem = mem_ResolveSuspenseItem,
     ss_GetSuspenseItem = mem_GetSuspenseItem,
     ss_ListOpenUnmatchedItems = mem_ListOpenUnmatchedItems g\<rparr>"

definition mem_sweep_store :: "mem sweep_store" where
  "mem_sweep_store = \<lparr>sw_CreateSweepRun = mem_CreateSweepRun,
     sw_GetLastSweepTime = mem_GetLastSweepTime, sw_ListSweepRuns = mem_ListSweepRuns\<rparr>"

definition mem_audit_store :: "mem audit_store" where
  "mem_audit_store = \<lparr>as_Append = mem_Append, as_ListAuditEntries = (\<lambda>t l c w. Inr ([], ''''))\<rparr>"

definition mem_auth_store :: "mem auth_store" where
  "mem_auth_store = \<lparr>au_CreateCredential = mem_CreateCredential,
     au_SeedCredential = mem_SeedCredential, au_GetCredentialByEmail = mem_GetCredentialByEmail\<rparr>"

definition mem_settings_store :: "mem settings_store" where
  "mem_settings_store = \<lparr>se_GetSetting = mem_GetSetting, se_UpsertSetting = mem_UpsertSetting,
     se_SeedSetting = mem_SeedSetting\<rparr>"

text \<open>The health store of the harness is a stub; its answer is the zero value.\<close>

definition mem_GetPlatformHealth :: "go_error + platform_health" where
  "mem_GetPlatformHealth = Inr
     \<lparr>PH_Ledger = \<lparr>LH_DebitsKobo = 0, LH_CreditsKobo = 0, LH_Balanced = False\<rparr>, PH_LastSweep = None,
      PH_Webhook24h = \<lparr>WH_Delivered = 0, WH_Total = 0\<rparr>,
      PH_CrossTenantSuspense = \<lparr>SH_AmountKobo = 0, SH_ItemCount = 0, SH_TenantCount = 0\<rparr>,
      PH_ActiveTenants = 0, PH_TotalTenants = 0, PH_TenantHealth = [], PH_CheckedAt = 0\<rparr>"

definition mem_ListCrossTenantSuspense :: "go_error + (cross_tenant_suspense_item list \<times> string)" where
  "mem_ListCrossTenantSuspense = Inr ([], '''')"

definition NewHealthStore :: "mem platform_health_store" where
  "NewHealthStore = \<lparr>hs_GetPlatformHealth = (\<lambda>now w. mem_GetPlatformHealth),
     hs_ListCrossTenantSuspense = (\<lambda>limit cursor w. mem_ListCrossTenantSuspense)\<rparr>"

definition mem_relay_store :: "go_order \<Rightarrow> mem relay_store" where
  "mem_relay_store g = \<lparr>rs_CreateEndpoint = mem_CreateEndpoint,
     rs_ListEndpoints = mem_ListEndpoints g, rs_GetEndpoint = mem_GetEndpoint,
     rs_DeactivateEndpoint = mem_DeactivateEndpoint, rs_CreateDelivery = mem_CreateDelivery,
     rs_UpdateDelivery = mem_UpdateDelivery, rs_GetDelivery = mem_GetDelivery,
     rs_ListDeliveries = mem_ListDeliveries, rs_ListPendingRetries = mem_ListPendingRetries\<rparr>"

section \<open>The fake provider in the harness world\<close>

definition with_fake :: "(fake \<Rightarrow> 'a \<times> fake) \<Rightarrow> mem \<Rightarrow> 'a \<times> mem" where
  "with_fake op w =
     (let (x, f) = op (rt_fake (mem_rt w)) in (x, w\<lparr>mem_rt := (mem_rt w)\<lparr>rt_fake := f\<rparr>\<rparr>))"

definition fake_provider :: "go_order \<Rightarrow> mem provider" where
  "fake_provider g = \<lparr>pv_CreateVA = (\<lambda>req. with_fake (fake_CreateVA req)),
     pv_UpdateVA = (\<lambda>i n w. with_fake (fake_UpdateVA (go_range g w) i n) w),
     pv_CloseVA = (\<lambda>i w. with_fake (fake_CloseVA (go_range g w) i) w),
     pv_SuspendVA = (\<lambda>i w. (None, w)),
     pv_ListVAs = (\<lambda>c w. (fake_ListVAs (go_range g w) c (rt_fake (mem_rt w)), w)),
     pv_ListTransactions = (\<lambda>req w.
        (fake_ListTransactions (go_range g w) req (rt_fake (mem_rt w)), w)),
     pv_Requery = (\<lambda>i w. (fake_Requery (go_range g w) i (rt_fake (mem_rt w)), w)),
     pv_Transfer = (\<lambda>req w. (fake_Transfer req, w)),
     pv_ResolveAccount = (\<lambda>b a w. (fake_ResolveAccount b a, w)),
     pv_VerifyWebhookSignature = (\<lambda>h b w. None),
     pv_ParseWebhook = (\<lambda>now b w. fake_ParseWebhook now b)\<rparr>"

section \<open>The ledger of the in-memory store\<close>

lemma net_kobo_sum: "net_kobo es = sum_list (map signed_amount es)"
proof -
  have "(\<lambda>sum e. if LE_Direction e = ''credit'' then sum + LE_AmountKobo e
                 else sum - LE_AmountKobo e) = (\<lambda>sum e. sum + signed_amount e)"
    by (intro ext) (simp add: signed_amount_def)
  then show ?thesis by (simp add: net_kobo_def foldl_plus_sum)
qed

lemma net_kobo_well_formed: "well_formed_entries tx es \<Longrightarrow> net_kobo es = 0"
  by (simp add: net_kobo_sum well_formed_net)

text \<open>The loops over the ledger that add up the rows of one account which satisfy a test.\<close>

lemma ledger_loop:
  "foldl (\<lambda>bal row. if LE_Account (Row_Entry row) = a \<and> P row
              then if LE_Direction (Row_Entry row) = ''credit''
                   then bal + LE_AmountKobo (Row_Entry row)
                   else bal - LE_AmountKobo (Row_Entry row)
              else bal) b rows
   = b + balance a (map Row_Entry (filter P rows))"
  by (induction rows arbitrary: b) (auto simp: signed_amount_def algebra_simps)

lemma mem_GetBalance_balance: "mem_GetBalance a w = Inr (balance a (AllLedgerEntries w))"
  using ledger_loop [of a "\<lambda>_. True" 0 "txn_ledger (mem_txns w)"]
  by (simp add: mem_GetBalance_def AllLedgerEntries_def)

text \<open>What \<open>PostTransaction\<close> does, on each of its branches.\<close>

lemma mem_Post_dup:
  "fmlookup (txn_txns (mem_txns w)) (Tx_ID tx) = Some t \<Longrightarrow>
     mem_PostTransaction now tx es w = (Inr False, w)"
  by (simp add: mem_PostTransaction_def)

lemma mem_Post_new:
  assumes "fmlookup (txn_txns (mem_txns w)) (Tx_ID tx) = None" and "net_kobo es = 0"
  obtains w' where "mem_PostTransaction now tx es w = (Inr True, w')"
    and "AllLedgerEntries w' = AllLedgerEntries w @ es"
    and "txn_txns (mem_txns w') = fmupd (Tx_ID tx)
           (if IsZero (Tx_CreatedAt tx) then tx\<lparr>Tx_CreatedAt := now\<rparr> else tx)
           (txn_txns (mem_txns w))"
  using assms by (simp add: mem_PostTransaction_def Let_def AllLedgerEntries_def comp_def)

lemma mem_Post_unbalanced:
  "fmlookup (txn_txns (mem_txns w)) (Tx_ID tx) = None \<Longrightarrow> net_kobo es \<noteq> 0 \<Longrightarrow>
     \<exists>err. mem_PostTransaction now tx es w = (Inl err, w)"
  by (simp add: mem_PostTransaction_def)

abbreviation mem_txn_map :: "mem \<Rightarrow> (string, transaction) fmap" where
  "mem_txn_map w \<equiv> txn_txns (mem_txns w)"

interpretation mem_ledger: transaction_ledger "mem_transaction_store g" mem_txn_map AllLedgerEntries
  for g
proof unfold_locales
  fix now tx es w err w'
  assume "xs_PostTransaction (mem_transaction_store g) now tx es w = (Inl err, w')"
  then show "w' = w"
    by (auto simp: mem_transaction_store_def mem_PostTransaction_def Let_def
        split: option.splits if_splits)
next
  fix now tx es w w'
  assume "xs_PostTransaction (mem_transaction_store g) now tx es w = (Inr False, w')"
  then show "w' = w \<and> fmlookup (mem_txn_map w) (Tx_ID tx) \<noteq> None"
    by (auto simp: mem_transaction_store_def mem_PostTransaction_def Let_def
        split: option.splits if_splits)
next
  fix now tx es w w'
  assume "xs_PostTransaction (mem_transaction_store g) now tx es w = (Inr True, w')"
  then show "fmlookup (mem_txn_map w) (Tx_ID tx) = None \<and>
     (\<exists>t. mem_txn_map w' = fmupd (Tx_ID tx) t (mem_txn_map w) \<and> Tx_ID t = Tx_ID tx \<and>
          Tx_AmountKobo t = Tx_AmountKobo tx) \<and>
     AllLedgerEntries w' = AllLedgerEntries w @ es"
    by (auto simp: mem_transaction_store_def mem_PostTransaction_def Let_def AllLedgerEntries_def
        comp_def split: option.splits if_splits)
next
  fix a w b
  assume "xs_GetBalance (mem_transaction_store g) a w = Inr b"
  then show "b = balance a (AllLedgerEntries w)"
    by (simp add: mem_transaction_store_def mem_GetBalance_balance)
next
  fix i w r
  assume "xs_GetTransaction (mem_transaction_store g) i w = Inr r"
  then show "r = fmlookup (mem_txn_map w) i"
    by (simp add: mem_transaction_store_def mem_GetTransaction_def)
qed

section \<open>Which part of the world an operation touches\<close>

lemmas mem_split = Let_def split_beta option.case_eq_if

lemma mem_frame_nextID [frame]: "snd (nextID p w) = w\<lparr>idSeq := idSeq w + 1\<rparr>"
  by (simp add: nextID_def Let_def)

text \<open>Only \<open>PostTransaction\<close> writes the transactions and the ledger.\<close>

lemma mem_txns_frame [frame]:
  "mem_txns (snd (mem_CreateTenant now n w)) = mem_txns w"
  "mem_txns (snd (mem_CreateAPIKey t k h p w)) = mem_txns w"
  "mem_txns (snd (mem_CreateCredential now c w)) = mem_txns w"
  "mem_txns (snd (mem_SeedCredential now c w)) = mem_txns w"
  "mem_txns (snd (mem_UpsertSetting now s j w)) = mem_txns w"
  "mem_txns (snd (mem_SeedSetting now s j w)) = mem_txns w"
  "mem_txns (snd (mem_Append now a w)) = mem_txns w"
  "mem_txns (snd (mem_CreateSweepRun now run w)) = mem_txns w"
  "mem_txns (snd (mem_CreateCustomer now t x dn ident w)) = mem_txns w"
  "mem_txns (snd (mem_UpdateKYCTier now i tier actor w)) = mem_txns w"
  "mem_txns (snd (mem_CreateVirtualAccount now va w)) = mem_txns w"
  "mem_txns (snd (mem_UpdateVAStatus now i st actor w)) = mem_txns w"
  "mem_txns (snd (mem_RenameVA now i st actor w)) = mem_txns w"
  "mem_txns (snd (mem_InsertWebhookEvent now evt w)) = mem_txns w"
  "mem_txns (snd (mem_MarkWebhookProcessed now i st w)) = mem_txns w"
  "mem_txns (snd (mem_CreateSuspenseItem now item w)) = mem_txns w"
  "mem_txns (snd (mem_ResolveSuspenseItem now i res actor notes w)) = mem_txns w"
  "mem_txns (snd (mem_CreateEndpoint now ep w)) = mem_txns w"
  "mem_txns (snd (mem_DeactivateEndpoint i t w)) = mem_txns w"
  "mem_txns (snd (mem_CreateDelivery now del w)) = mem_txns w"
  "mem_txns (snd (mem_UpdateDelivery del w)) = mem_txns w"
  by (simp_all add: mem_CreateTenant_def mem_CreateAPIKey_def mem_put_key_def
      mem_CreateCredential_def mem_SeedCredential_def mem_UpsertSetting_def mem_SeedSetting_def
      mem_Append_def mem_CreateSweepRun_def mem_CreateCustomer_def mem_UpdateKYCTier_def
      mem_CreateVirtualAccount_def mem_UpdateVAStatus_def mem_RenameVA_def mem_set_va_def
      mem_InsertWebhookEvent_def mem_MarkWebhookProcessed_def mem_CreateSuspenseItem_def
      mem_ResolveSuspenseItem_def mem_CreateEndpoint_def mem_DeactivateEndpoint_def
      mem_CreateDelivery_def mem_UpdateDelivery_def nextID_def mem_split)

lemma mem_txns_with_fake [frame]: "mem_txns (snd (with_fake op w)) = mem_txns w"
  by (simp add: with_fake_def mem_split)

lemma mem_txns_of_pair: "mem_txns (snd p) = mem_txns w \<Longrightarrow> p = (r, w') \<Longrightarrow> mem_txns w' = mem_txns w"
  by simp

lemmas mem_txns_pair = mem_txns_frame [THEN mem_txns_of_pair]

abbreviation mem_view :: "mem \<Rightarrow> ledger_state" where
  "mem_view w \<equiv> (mem_txn_map w, AllLedgerEntries w)"

lemma mem_view_cong: "mem_txns w' = mem_txns w \<Longrightarrow> mem_view w' = mem_view w"
  by (simp add: AllLedgerEntries_def)

lemma leaves_mem_view: "(\<And>w. mem_txns (snd (op w)) = mem_txns w) \<Longrightarrow> leaves mem_view op"
  by (simp add: leaves_def AllLedgerEntries_def)

section \<open>The directory of the in-memory account store\<close>

abbreviation mem_accts :: "mem \<Rightarrow> directory" where
  "mem_accts w \<equiv> va_accounts (mem_vas w)"

text \<open>The identifiers that \<open>nextID\<close> has handed out with a prefix.\<close>

definition issued :: "string \<Rightarrow> mem \<Rightarrow> string set" where
  "issued prefix w = {prefix @ ''-'' @ pad04 n |n. n \<le> unat (idSeq w)}"

definition mem_room :: "mem \<Rightarrow> bool" where
  "mem_room w \<longleftrightarrow> idSeq w \<noteq> - 1"

definition mem_va_inv :: "mem \<Rightarrow> bool" where
  "mem_va_inv w \<longleftrightarrow>
     (\<forall>i va. fmlookup (mem_accts w) i = Some va \<longrightarrow> VA_ID va = i) \<and> fmdom' (mem_accts w) \<subseteq> issued ''va'' w"

lemma nextID_fresh:
  assumes "nextID p w = (i, w')" and "mem_room w"
  shows "i \<notin> issued p w" and "issued p w' = insert i (issued p w)"
proof -
  have u: "unat (idSeq w + 1) = Suc (unat (idSeq w))"
    using assms(2) unatSuc [of "idSeq w"]
    by (simp add: mem_room_def add.commute eq_neg_iff_add_eq_0)
  have i: "i = p @ ''-'' @ pad04 (Suc (unat (idSeq w)))" and w': "idSeq w' = idSeq w + 1"
    using assms(1) u by (auto simp: nextID_def Let_def)
  show "i \<notin> issued p w" by (auto simp: i issued_def)
  show "issued p w' = insert i (issued p w)"
    by (auto simp: issued_def i w' u le_Suc_eq)
qed

lemma issued_cong: "idSeq w' = idSeq w \<Longrightarrow> issued p w' = issued p w"
  by (simp add: issued_def)

lemma range_find:
  "List.find P (range_vals r m) = Some v \<Longrightarrow> (\<exists>k. fmlookup m k = Some v) \<and> P v"
  using find_in_set [of P "range_vals r m" v] by (auto simp: in_range_vals)

lemma range_find_None:
  "List.find P (range_vals r m) = None \<longleftrightarrow> (\<forall>k v. fmlookup m k = Some v \<longrightarrow> \<not> P v)"
  by (auto simp: find_None in_range_vals)

lemma mem_set_va_law:
  assumes "mem_set_va i f w = (e, w')" and "mem_va_inv w" and "fmlookup (mem_accts w) i = Some va"
    and "VA_ID (f va) = VA_ID va"
  shows "e = None \<and> mem_va_inv w' \<and> mem_accts w' = fmupd i (f va) (mem_accts w)"
proof -
  have e: "e = None" and w': "w' = w\<lparr>mem_vas := (mem_vas w)\<lparr>va_accounts := fmupd i (f va) (mem_accts w)\<rparr>\<rparr>"
    using assms(1,3) by (auto simp: mem_set_va_def)
  have id_i: "VA_ID (f va) = i" using assms(2,3,4) by (simp add: mem_va_inv_def)
  have "i \<in> fmdom' (mem_accts w)" using assms(3) by (simp add: fmlookup_dom'_iff)
  then have i_in: "i \<in> issued ''va'' w" using assms(2) unfolding mem_va_inv_def by blast
  have iss: "issued ''va'' w' = issued ''va'' w" by (rule issued_cong) (simp add: w')
  have m: "mem_accts w' = fmupd i (f va) (mem_accts w)" by (simp add: w')
  have ids: "\<forall>j v. fmlookup (mem_accts w) j = Some v \<longrightarrow> VA_ID v = j"
    and sub: "fmdom' (mem_accts w) \<subseteq> issued ''va'' w"
    using assms(2) unfolding mem_va_inv_def by blast+
  have "VA_ID v = j" if "fmlookup (mem_accts w') j = Some v" for j v
    using that id_i ids by (simp add: m split: if_splits)
  moreover have "fmdom' (mem_accts w') \<subseteq> issued ''va'' w'"
    using i_in sub by (simp add: m iss)
  ultimately have "mem_va_inv w'" unfolding mem_va_inv_def by blast
  with e m show ?thesis by blast
qed

interpretation mem_vas: va_directory "mem_virtual_account_store g" mem_accts "\<lambda>c. c" mem_va_inv mem_room
  for g
proof unfold_locales
  fix w c va
  assume "mem_va_inv w" "vs_GetActiveVA (mem_virtual_account_store g) c w = Inr (Some va)"
  then show "fmlookup (mem_accts w) (VA_ID va) = Some va \<and> VA_CustomerID va = c \<and>
    VA_Status va = VAStatusActive"
    by (auto simp: mem_virtual_account_store_def mem_GetActiveVA_def mem_va_inv_def dest!: range_find)
next
  fix w c
  assume "mem_va_inv w" "vs_GetActiveVA (mem_virtual_account_store g) c w = Inr None"
  then show "no_active c (mem_accts w)"
    by (auto simp: mem_virtual_account_store_def mem_GetActiveVA_def range_find_None no_active_def)
next
  fix w c st va
  assume "mem_va_inv w" "vs_GetVAByCustomerAndStatus (mem_virtual_account_store g) c st w = Inr (Some va)"
  then show "fmlookup (mem_accts w) (VA_ID va) = Some va \<and> VA_CustomerID va = c \<and> VA_Status va = st"
    by (auto simp: mem_virtual_account_store_def mem_GetVAByCustomerAndStatus_def mem_va_inv_def
        dest!: range_find)
next
  fix now i st actor w e w' va
  assume "vs_UpdateVAStatus (mem_virtual_account_store g) now i st actor w = (e, w')"
    "mem_va_inv w" "fmlookup (mem_accts w) i = Some va"
  then show "mem_va_inv w' \<and> (if e = None
      then \<exists>va'. same_account va va' \<and> VA_Status va' = st \<and> mem_accts w' = fmupd i va' (mem_accts w)
      else mem_accts w' = mem_accts w)"
    by (auto simp: mem_virtual_account_store_def mem_UpdateVAStatus_def same_account_def
        dest!: mem_set_va_law intro!: exI [of _ "va\<lparr>VA_Status := st\<rparr>"])
next
  fix now i n actor w e w' va
  assume "vs_RenameVA (mem_virtual_account_store g) now i n actor w = (e, w')"
    "mem_va_inv w" "fmlookup (mem_accts w) i = Some va"
  then show "mem_va_inv w' \<and> (if e = None
      then \<exists>va'. same_account va va' \<and> VA_Status va' = VA_Status va \<and>
                 mem_accts w' = fmupd i va' (mem_accts w)
      else mem_accts w' = mem_accts w)"
    by (auto simp: mem_virtual_account_store_def mem_RenameVA_def same_account_def
        dest!: mem_set_va_law intro!: exI [of _ "va\<lparr>VA_AccountName := n\<rparr>"])
next
  fix now va w err w'
  assume "vs_CreateVirtualAccount (mem_virtual_account_store g) now va w = (Inl err, w')" "mem_va_inv w"
  then show "mem_va_inv w' \<and> mem_accts w' = mem_accts w"
    by (simp add: mem_virtual_account_store_def mem_CreateVirtualAccount_def mem_split)
next
  fix now va w va' w'
  assume cr: "vs_CreateVirtualAccount (mem_virtual_account_store g) now va w = (Inr va', w')"
    and i: "VA_ID va = ''''" and inv: "mem_va_inv w" and room: "mem_room w"
  obtain j v where n: "nextID ''va'' w = (j, v)" by fastforce
  have v: "v = w\<lparr>idSeq := idSeq w + 1\<rparr>" using n by (auto simp: nextID_def Let_def)
  from cr i n have va': "va' = va\<lparr>VA_ID := j, VA_CreatedAt := now\<rparr>"
    and w': "w' = v\<lparr>mem_vas := \<lparr>va_accounts = fmupd j va' (mem_accts v),
       va_byNUBAN = fmupd (VA_NUBAN va') j (va_byNUBAN (mem_vas v)),
       va_byRef = fmupd (VA_NombaAccountRef va') j (va_byRef (mem_vas v))\<rparr>\<rparr>"
    by (auto simp: mem_virtual_account_store_def mem_CreateVirtualAccount_def Let_def)
  have iss: "issued ''va'' w' = insert j (issued ''va'' w)"
    using nextID_fresh(2) [OF n room] issued_cong [of w' v] w' by simp
  have new: "fmlookup (mem_accts w) j = None"
    using nextID_fresh(1) [OF n room] inv by (auto simp: mem_va_inv_def fmlookup_dom'_iff)
  show "mem_va_inv w' \<and> fmlookup (mem_accts w) (VA_ID va') = None \<and>
      (\<exists>row. mem_accts w' = fmupd (VA_ID va') row (mem_accts w) \<and> VA_ID row = VA_ID va' \<and>
             VA_CustomerID row = VA_CustomerID va \<and> VA_NUBAN row = VA_NUBAN va \<and>
             VA_NombaAccountRef row = VA_NombaAccountRef va \<and> VA_Status row = VA_Status va)"
    using inv new iss by (auto simp: va' w' v mem_va_inv_def)
qed

section \<open>Statements, daily credits\<close>

definition entries_before :: "time \<Rightarrow> mem \<Rightarrow> ledger_entry list" where
  "entries_before t w = map Row_Entry (filter (\<lambda>row. Row_occurredAt row < t) (txn_ledger (mem_txns w)))"

definition window_rows :: "string \<Rightarrow> time \<Rightarrow> time \<Rightarrow> mem \<Rightarrow> ledger_row list" where
  "window_rows a frm to w = filter (\<lambda>row. LE_Account (Row_Entry row) = a \<and>
     frm \<le> Row_occurredAt row \<and> Row_occurredAt row < to) (txn_ledger (mem_txns w))"

lemma balance_window:
  "frm \<le> to \<Longrightarrow> balance a (entries_before to w) =
     balance a (entries_before frm w) + sum_list (map (\<lambda>row. signed_amount (Row_Entry row)) (window_rows a frm to w))"
proof -
  assume le: "frm \<le> to"
  have "balance a (map Row_Entry (filter (\<lambda>row. Row_occurredAt row < to) rows)) =
      balance a (map Row_Entry (filter (\<lambda>row. Row_occurredAt row < frm) rows)) +
      sum_list (map (\<lambda>row. signed_amount (Row_Entry row)) (filter (\<lambda>row. LE_Account (Row_Entry row) = a \<and>
        frm \<le> Row_occurredAt row \<and> Row_occurredAt row < to) rows))" for rows
    using le by (induction rows) (auto simp: algebra_simps)
  then show ?thesis by (simp add: entries_before_def window_rows_def)
qed

definition entry_net :: "statement_entry \<Rightarrow> int64" where
  "entry_net e = SE_CreditKobo e - SE_DebitKobo e"

lemma statement_fold:
  "foldl statement_row (b, acc) rows = (b', es) \<Longrightarrow>
     \<exists>new. es = acc @ new \<and> map SE_OccurredAt new = map Row_occurredAt rows \<and>
       map entry_net new = map (\<lambda>row. signed_amount (Row_Entry row)) rows \<and>
       b' = b + sum_list (map entry_net new) \<and>
       map SE_RunningBalance new = map (\<lambda>k. b + sum_list (take (Suc k) (map entry_net new))) [0..<length new]"
proof (induction rows arbitrary: b acc)
  case Nil
  then show ?case by simp
next
  case (Cons row rows)
  obtain b1 e where st: "statement_row (b, acc) row = (b1, acc @ [e])"
    and e: "SE_OccurredAt e = Row_occurredAt row" "entry_net e = signed_amount (Row_Entry row)"
      "b1 = b + entry_net e" "SE_RunningBalance e = b1"
    by (auto simp: statement_row_def Let_def entry_net_def signed_amount_def)
  from Cons.IH [of b1 "acc @ [e]"] Cons.prems st obtain new where new:
    "es = (acc @ [e]) @ new" "map SE_OccurredAt new = map Row_occurredAt rows"
    "map entry_net new = map (\<lambda>row. signed_amount (Row_Entry row)) rows"
    "b' = b1 + sum_list (map entry_net new)"
    "map SE_RunningBalance new = map (\<lambda>k. b1 + sum_list (take (Suc k) (map entry_net new))) [0..<length new]"
    by auto
  have "map SE_RunningBalance (e # new) =
      map (\<lambda>k. b + sum_list (take (Suc k) (map entry_net (e # new)))) [0..<length (e # new)]"
    using new(5) e by (simp add: upt_rec [of 0 "Suc _"] map_Suc_upt [symmetric] comp_def add.assoc
        del: upt_Suc)
  with new e show ?case by (intro exI [of _ "e # new"]) (simp add: add.assoc)
qed

lemma mem_GetStatement_unfold:
  "mem_GetStatement g a frm to w =
     (let (b, es) = foldl statement_row (balance a (entries_before frm w), [])
                      (sort_slice (go_rows g) Row_occurredAt (window_rows a frm to w))
      in Inr \<lparr>St_OpeningBalanceKobo = balance a (entries_before frm w), St_ClosingBalanceKobo = b,
              St_From = frm, St_To = to, St_Entries = es\<rparr>)"
proof -
  have le: "(t = frm \<or> frm < t) \<longleftrightarrow> frm \<le> t" for t by auto
  show ?thesis
    unfolding mem_GetStatement_def Let_def le ledger_loop entries_before_def window_rows_def by simp
qed

text \<open>
  A statement is consistent: its opening balance is the balance of all entries before the
  window, its closing balance the balance of all entries before the end of the window; its
  lines are in the order of time, they are the window's rows of the account (as a multiset of
  amounts), and each line's running balance is the opening balance plus the net of the lines
  up to it, whatever order \<open>sort.Slice\<close> gives to lines with equal times.
\<close>

theorem statement_consistent:
  assumes "frm \<le> to"
  shows "\<exists>st. mem_GetStatement g a frm to w = Inr st \<and>
     St_OpeningBalanceKobo st = balance a (entries_before frm w) \<and>
     St_ClosingBalanceKobo st = balance a (entries_before to w) \<and>
     sorted (map SE_OccurredAt (St_Entries st)) \<and>
     mset (map (\<lambda>e. (SE_OccurredAt e, entry_net e)) (St_Entries st)) =
       mset (map (\<lambda>row. (Row_occurredAt row, signed_amount (Row_Entry row))) (window_rows a frm to w)) \<and>
     map SE_RunningBalance (St_Entries st) =
       map (\<lambda>k. St_OpeningBalanceKobo st + sum_list (take (Suc k) (map entry_net (St_Entries st))))
         [0..<length (St_Entries st)]"
proof -
  let ?o = "balance a (entries_before frm w)"
  let ?rows = "sort_slice (go_rows g) Row_occurredAt (window_rows a frm to w)"
  obtain b es where f: "foldl statement_row (?o, []) ?rows = (b, es)" by fastforce
  from statement_fold [OF f] have es: "map SE_OccurredAt es = map Row_occurredAt ?rows"
    "map entry_net es = map (\<lambda>row. signed_amount (Row_Entry row)) ?rows"
    "b = ?o + sum_list (map entry_net es)"
    "map SE_RunningBalance es = map (\<lambda>k. ?o + sum_list (take (Suc k) (map entry_net es))) [0..<length es]"
    by auto
  have "sum_list (map entry_net es) = sum_list (map (\<lambda>row. signed_amount (Row_Entry row)) (window_rows a frm to w))"
    unfolding es(2) by (rule sum_list_mset_cong) simp
  then have b: "b = balance a (entries_before to w)" using es(3) balance_window [OF assms] by simp
  have "map (\<lambda>e. (SE_OccurredAt e, entry_net e)) es = zip (map SE_OccurredAt es) (map entry_net es)"
    by (simp add: zip_map_map zip_same_conv_map)
  also have "\<dots> = map (\<lambda>row. (Row_occurredAt row, signed_amount (Row_Entry row))) ?rows"
    unfolding es(1,2) by (simp add: zip_map_map zip_same_conv_map)
  finally have "mset (map (\<lambda>e. (SE_OccurredAt e, entry_net e)) es) =
      mset (map (\<lambda>row. (Row_occurredAt row, signed_amount (Row_Entry row))) (window_rows a frm to w))"
    by (simp add: mset_map)
  moreover have "sorted (map SE_OccurredAt es)" using es(1) by simp
  ultimately show ?thesis using f b es(4) by (simp add: mem_GetStatement_unfold)
qed

text \<open>A concrete order of maps and ties, and a small ledger, for the applications below.\<close>

definition plain_order :: go_order where
  "plain_order = \<lparr>go_range = (\<lambda>w ks. []), go_customers = id, go_txns = id, go_rows = id\<rparr>"

definition demo_tx :: "string \<Rightarrow> int64 \<Rightarrow> time \<Rightarrow> transaction" where
  "demo_tx i amt occ = \<lparr>Tx_ID = i, Tx_VirtualAccountID = None, Tx_SessionID = None,
     Tx_AmountKobo = amt, Tx_Direction = ''credit'', Tx_Source = ''webhook'', Tx_Status = ''posted'',
     Tx_SenderName = None, Tx_SenderBank = None, Tx_Narration = None, Tx_Raw = JNull,
     Tx_OccurredAt = occ, Tx_CreatedAt = 1, Tx_NUBAN = ''''\<rparr>"

definition demo_post :: "string \<Rightarrow> int64 \<Rightarrow> time \<Rightarrow> mem \<Rightarrow> mem" where
  "demo_post i amt occ w =
     (case CreditCustomer i ''c'' amt of
        Inr es \<Rightarrow> snd (mem_PostTransaction 1 (demo_tx i amt occ) es w) | Inl err \<Rightarrow> w)"

definition demo_ledger :: mem where
  "demo_ledger = demo_post ''b'' 200 20 (demo_post ''a'' 5000 10 mem_init)"

lemma demo_ledger_rows: "txn_ledger (mem_txns demo_ledger) =
   [\<lparr>Row_Entry = \<lparr>LE_TransactionID = ''a'', LE_Account = AccountNombaSettlement,
        LE_Direction = ''debit'', LE_AmountKobo = 5000\<rparr>, Row_occurredAt = 10\<rparr>,
    \<lparr>Row_Entry = \<lparr>LE_TransactionID = ''a'', LE_Account = CustomerWalletAccount ''c'',
        LE_Direction = ''credit'', LE_AmountKobo = 5000\<rparr>, Row_occurredAt = 10\<rparr>,
    \<lparr>Row_Entry = \<lparr>LE_TransactionID = ''b'', LE_Account = AccountNombaSettlement,
        LE_Direction = ''debit'', LE_AmountKobo = 200\<rparr>, Row_occurredAt = 20\<rparr>,
    \<lparr>Row_Entry = \<lparr>LE_TransactionID = ''b'', LE_Account = CustomerWalletAccount ''c'',
        LE_Direction = ''credit'', LE_AmountKobo = 200\<rparr>, Row_occurredAt = 20\<rparr>]"
  by (simp add: demo_ledger_def demo_post_def demo_tx_def CreditCustomer_def Let_def
      mem_PostTransaction_def net_kobo_def mem_init_def IsZero_def)

theorem statement_consistent_witness:
  "\<exists>st. mem_GetStatement plain_order (CustomerWalletAccount ''c'') 15 30 demo_ledger = Inr st \<and>
     St_OpeningBalanceKobo st = 5000 \<and> St_ClosingBalanceKobo st = 5200"
  using statement_consistent [of 15 30 plain_order "CustomerWalletAccount ''c''" demo_ledger]
  by (auto simp: entries_before_def window_rows_def demo_ledger_rows signed_amount_def)

lemma credit_loop:
  "foldl (\<lambda>total row. if P row then total + LE_AmountKobo (Row_Entry row) else total) b rows =
     b + sum_list (map (\<lambda>row. LE_AmountKobo (Row_Entry row)) (filter P rows))"
  by (induction rows arbitrary: b) (auto simp: add.assoc)

text \<open>
  The daily credits of an account are the sum of the credits whose transactions occurred
  on the same UTC day as the given instant: the half-open window that the code computes
  contains exactly the instants with the same midnight.
\<close>

theorem daily_credits_same_day:
  "mem_GetDailyCredits a date w =
     Inr (sum_list (map (\<lambda>row. LE_AmountKobo (Row_Entry row))
       (filter (\<lambda>row. LE_Account (Row_Entry row) = a \<and> LE_Direction (Row_Entry row) = ''credit'' \<and>
                      day_start (Row_occurredAt row) = day_start date) (txn_ledger (mem_txns w)))))"
proof -
  have day: "(t = day_start date \<or> day_start date < t) \<and> t < day_start date + 24 * hour \<longleftrightarrow>
      day_start t = day_start date" for t
    by (rule same_day_iff)
  show ?thesis
    unfolding mem_GetDailyCredits_def Let_def day credit_loop by simp
qed

end
