(* ===== verification/Relay.thy ===== *)
theory Relay
  imports Memstore
begin

text \<open>
  \<^verbatim>\<open>internal/relay/relay.go\<close>: the tenant webhook relay. \<open>Dispatch\<close>, \<open>RetryPending\<close> and
  \<open>Replay\<close> start goroutines; a started goroutine is a \<open>relay_job\<close> put into the world by the
  dispatcher's \<open>dp_spawn\<close>, and \<open>deliver\<close> is what it runs. The outcome of the HTTP request is
  an argument of \<open>deliver\<close>, and so is the keyed hash.
\<close>

section \<open>The dispatcher\<close>

record 'w dispatcher =
  dp_store :: "'w relay_store"
  dp_spawn :: "relay_job \<Rightarrow> 'w \<Rightarrow> 'w"

record event_payload =
  EvP_EventType :: string
  EvP_OccurredAt :: time
  EvP_Transaction :: json

definition json_of_event_payload :: "event_payload \<Rightarrow> json" where
  "json_of_event_payload p = JObj
     [(''event_type'', JStr (EvP_EventType p)), (''occurred_at'', JTime (EvP_OccurredAt p)),
      (''transaction'', EvP_Transaction p)]"

definition maxAttempts :: int where
  "maxAttempts = 3"

definition retryDelay :: "int \<Rightarrow> duration" where
  "retryDelay attempt =
     (if attempt = 1 then 30 * second else if attempt = 2 then 5 * minute else 0)"

definition Dispatch :: "'w dispatcher \<Rightarrow> string \<Rightarrow> event_payload \<Rightarrow> 'w \<Rightarrow> 'w" where
  "Dispatch d tenantID payload w =
     (case rs_ListEndpoints (dp_store d) tenantID w of
        Inl err \<Rightarrow> w
      | Inr endpoints \<Rightarrow>
          let body = json_of_event_payload payload
          in foldl (\<lambda>w ep. if \<not> EP_Active ep then w
                 else dp_spawn d \<lparr>Job_Endpoint = ep, Job_EventType = EvP_EventType payload,
                                  Job_Body = body, Job_Attempt = 1\<rparr> w) w endpoints)"

definition RetryPending :: "'w dispatcher \<Rightarrow> time \<Rightarrow> 'w \<Rightarrow> 'w" where
  "RetryPending d now w =
     (case rs_ListPendingRetries (dp_store d) now 100 w of
        Inl err \<Rightarrow> w
      | Inr deliveries \<Rightarrow>
          foldl (\<lambda>w del. case rs_GetEndpoint (dp_store d) (Del_EndpointID del) w of
                   Inl err \<Rightarrow> w
                 | Inr None \<Rightarrow> w
                 | Inr (Some ep) \<Rightarrow> if \<not> EP_Active ep then w
                     else dp_spawn d \<lparr>Job_Endpoint = ep, Job_EventType = Del_EventType del,
                            Job_Body = Del_Payload del, Job_Attempt = Del_Attempt del + 1\<rparr> w)
            w deliveries)"

definition Replay :: "'w dispatcher \<Rightarrow> relay_delivery \<Rightarrow> 'w \<Rightarrow> go_error option \<times> 'w" where
  "Replay d delivery w =
     (case rs_GetEndpoint (dp_store d) (Del_EndpointID delivery) w of
        Inl err \<Rightarrow> (Some (Wrap ''relay: get endpoint for replay'' err), w)
      | Inr None \<Rightarrow> (Some (Errorf ''relay: endpoint not found or inactive''), w)
      | Inr (Some ep) \<Rightarrow>
          if \<not> EP_Active ep then (Some (Errorf ''relay: endpoint not found or inactive''), w)
          else (None, dp_spawn d \<lparr>Job_Endpoint = ep, Job_EventType = Del_EventType delivery,
                        Job_Body = Del_Payload delivery, Job_Attempt = Del_Attempt delivery + 1\<rparr> w))"

section \<open>One delivery attempt\<close>

datatype http_outcome =
    RequestError string
  | DoError string
  | Response int

definition sign :: "(string \<Rightarrow> json \<Rightarrow> string) \<Rightarrow> json \<Rightarrow> string \<Rightarrow> string" where
  "sign hmac body secretHash = ''sha256='' @ hmac secretHash body"

definition recordSuccess :: "'w dispatcher \<Rightarrow> (nat \<Rightarrow> time) \<Rightarrow> relay_endpoint \<Rightarrow> string \<Rightarrow> json
    \<Rightarrow> int \<Rightarrow> int \<Rightarrow> 'w \<Rightarrow> 'w" where
  "recordSuccess d now ep eventType body attempt statusCode w =
     snd (rs_CreateDelivery (dp_store d) (now 1)
       \<lparr>Del_ID = '''', Del_EndpointID = EP_ID ep, Del_EventType = eventType, Del_Payload = body,
        Del_Attempt = attempt, Del_Status = ''delivered'', Del_StatusCode = Some statusCode,
        Del_Error = None, Del_NextRetryAt = None, Del_DeliveredAt = Some (now 0),
        Del_CreatedAt = 0\<rparr> w)"

definition recordFailure :: "'w dispatcher \<Rightarrow> (nat \<Rightarrow> time) \<Rightarrow> relay_endpoint \<Rightarrow> string \<Rightarrow> json
    \<Rightarrow> int \<Rightarrow> int \<Rightarrow> string \<Rightarrow> 'w \<Rightarrow> 'w" where
  "recordFailure d now ep eventType body attempt statusCode errMsg w =
     (let (status, nextRetry) =
            (if attempt \<ge> maxAttempts then (''dead_letter'', None)
             else (''failed'', Some (now 0 + retryDelay attempt)))
      in snd (rs_CreateDelivery (dp_store d) (now 1)
       \<lparr>Del_ID = '''', Del_EndpointID = EP_ID ep, Del_EventType = eventType, Del_Payload = body,
        Del_Attempt = attempt, Del_Status = status,
        Del_StatusCode = (if statusCode \<noteq> 0 then Some statusCode else None),
        Del_Error = Some errMsg, Del_NextRetryAt = nextRetry, Del_DeliveredAt = None,
        Del_CreatedAt = 0\<rparr> w))"

text \<open>
  \<open>http url signature body attempt\<close> is what the network answers; \<open>hmac\<close> is HMAC-SHA256 in
  hexadecimal.
\<close>

definition deliver :: "'w dispatcher \<Rightarrow> (string \<Rightarrow> json \<Rightarrow> string)
    \<Rightarrow> (string \<Rightarrow> string \<Rightarrow> json \<Rightarrow> int \<Rightarrow> http_outcome) \<Rightarrow> (nat \<Rightarrow> time) \<Rightarrow> relay_job \<Rightarrow> 'w \<Rightarrow> 'w" where
  "deliver d hmac http now job w =
     (let ep = Job_Endpoint job; body = Job_Body job; attempt = Job_Attempt job;
          eventType = Job_EventType job;
          sig = sign hmac body (EP_SecretHash ep)
      in case http (EP_URL ep) sig body attempt of
           RequestError err \<Rightarrow> recordFailure d now ep eventType body attempt 0 err w
         | DoError err \<Rightarrow> recordFailure d now ep eventType body attempt 0 err w
         | Response code \<Rightarrow>
             if code \<ge> 200 \<and> code < 300
             then recordSuccess d now ep eventType body attempt code w
             else recordFailure d now ep eventType body attempt code
                    (''non-2xx response: '' @ show_int code) w)"

section \<open>The dispatcher of the harness world\<close>

definition mem_spawn :: "relay_job \<Rightarrow> mem \<Rightarrow> mem" where
  "mem_spawn job w = w\<lparr>mem_rt := (mem_rt w)\<lparr>rt_jobs := rt_jobs (mem_rt w) @ [job]\<rparr>\<rparr>"

definition mem_dispatcher :: "go_order \<Rightarrow> mem dispatcher" where
  "mem_dispatcher g = \<lparr>dp_store = mem_relay_store g, dp_spawn = mem_spawn\<rparr>"

text \<open>The scheduler runs one pending goroutine to its end.\<close>

definition run_job :: "go_order \<Rightarrow> (string \<Rightarrow> json \<Rightarrow> string)
    \<Rightarrow> (string \<Rightarrow> string \<Rightarrow> json \<Rightarrow> int \<Rightarrow> http_outcome) \<Rightarrow> (nat \<Rightarrow> time) \<Rightarrow> nat \<Rightarrow> mem \<Rightarrow> mem" where
  "run_job g hmac http now k w =
     (let jobs = rt_jobs (mem_rt w)
      in if k < length jobs
         then deliver (mem_dispatcher g) hmac http now (jobs ! k)
                (w\<lparr>mem_rt := (mem_rt w)\<lparr>rt_jobs := take k jobs @ drop (Suc k) jobs\<rparr>\<rparr>)
         else w)"

lemma deliver_leaves:
  assumes "\<And>now d'. leaves v (rs_CreateDelivery (dp_store d) now d')"
  shows "v (deliver d hmac http now job w) = v w"
  by (simp add: deliver_def recordSuccess_def recordFailure_def leavesD [OF assms] Let_def
      split: http_outcome.splits prod.splits)

lemma RetryPending_leaves:
  assumes "\<And>job w. v (dp_spawn d job w) = v w"
  shows "v (RetryPending d now w) = v w"
  unfolding RetryPending_def
  by (auto simp: assms split: sum.split option.split intro!: foldl_frame)

lemma Replay_leaves:
  assumes "\<And>job w. v (dp_spawn d job w) = v w"
  shows "leaves v (Replay d delivery)"
  by (rule leavesI) (auto simp: Replay_def assms split: sum.splits option.splits if_splits)

end
