(* ===== verification/Collections.thy ===== *)
theory Collections
  imports Runtime
begin

text \<open>
  \<^verbatim>\<open>internal/service/collection.go\<close>: expected payments (collections) of a customer, their
  cancellation, and the fulfilment check that the worker runs after a credit.
\<close>

record 'w collection_service =
  cl_collections :: "'w collection_store"
  cl_customers :: "'w customer_store"
  cl_accounts :: "'w virtual_account_store"

record create_collection_request =
  CCR_CustomerID :: string
  CCR_TenantID :: string
  CCR_ExpectedAmountKobo :: "int64 option"
  CCR_Reference :: string
  CCR_Description :: string
  CCR_ExpiresInSeconds :: int

text \<open>
  \<open>time.Duration(n) * time.Second\<close> is an \<open>int64\<close> product, so it wraps for a large count.
\<close>

definition duration_seconds :: "int \<Rightarrow> duration" where
  "duration_seconds n = sint (word_of_int n * word_of_int second :: int64)"

definition new_collection :: "(nat \<Rightarrow> time) \<Rightarrow> create_collection_request \<Rightarrow> string \<Rightarrow> collection" where
  "new_collection now req vaID =
     \<lparr>Col_ID = '''', Col_CustomerID = CCR_CustomerID req, Col_VirtualAccountID = Some vaID,
      Col_ExpectedAmountKobo =
        (case CCR_ExpectedAmountKobo req of
           Some a \<Rightarrow> if sint a > 0 then Some a else None
         | None \<Rightarrow> None),
      Col_Reference = CCR_Reference req, Col_Description = CCR_Description req,
      Col_Status = ''open'',
      Col_ExpiresAt = (if CCR_ExpiresInSeconds req > 0
                       then Some (now 0 + duration_seconds (CCR_ExpiresInSeconds req)) else None),
      Col_FulfilledByTxnID = None, Col_FulfilledAt = None, Col_CreatedAt = 0, Col_UpdatedAt = 0,
      Col_NUBAN = '''', Col_BankName = ''''\<rparr>"

definition Collection_Create :: "'w collection_service \<Rightarrow> (nat \<Rightarrow> time) \<Rightarrow> create_collection_request
    \<Rightarrow> 'w \<Rightarrow> (go_error + collection) \<times> 'w" where
  "Collection_Create s now req w =
     (if CCR_Reference req = '''' then (Inl (ValidationError ''reference'' ''required''), w)
      else case cs_GetCustomer (cl_customers s) (CCR_TenantID req) (CCR_CustomerID req) w of
        Inl err \<Rightarrow> (Inl (NotFoundError ''customer'' (CCR_CustomerID req)), w)
      | Inr None \<Rightarrow> (Inl (NotFoundError ''customer'' (CCR_CustomerID req)), w)
      | Inr (Some customer) \<Rightarrow>
          (case vs_GetActiveVA (cl_accounts s) (CCR_CustomerID req) w of
             Inl err \<Rightarrow> (Inl (Wrap ''collection: get VA'' err), w)
           | Inr None \<Rightarrow> (Inl (ValidationError ''customer_id''
                                 ''customer has no active virtual account''), w)
           | Inr (Some va) \<Rightarrow>
               (case ls_CreateCollection (cl_collections s) (now 1)
                       (new_collection now req (VA_ID va)) w of
                  (Inl err, w) \<Rightarrow> (Inl (Wrap ''collection: create'' err), w)
                | (Inr c, w) \<Rightarrow>
                    (Inr (c\<lparr>Col_NUBAN := VA_NUBAN va, Col_BankName := VA_BankName va\<rparr>), w))))"

definition Collection_Get :: "'w collection_service \<Rightarrow> string \<Rightarrow> 'w \<Rightarrow> go_error + collection" where
  "Collection_Get s collectionID w =
     (case ls_GetCollection (cl_collections s) collectionID w of
        Inl err \<Rightarrow> Inl (Wrap ''collection: get'' err)
      | Inr None \<Rightarrow> Inl (NotFoundError ''collection'' collectionID)
      | Inr (Some c) \<Rightarrow> Inr c)"

definition Collection_List :: "'w collection_service \<Rightarrow> string \<Rightarrow> int \<Rightarrow> string \<Rightarrow> 'w
    \<Rightarrow> go_error + (collection list \<times> string)" where
  "Collection_List s customerID limit cursor w =
     ls_ListCollections (cl_collections s) customerID limit cursor w"

definition Collection_Cancel :: "'w collection_service \<Rightarrow> time \<Rightarrow> string \<Rightarrow> string \<Rightarrow> 'w
    \<Rightarrow> go_error option \<times> 'w" where
  "Collection_Cancel s now collectionID tenantID w =
     (case ls_GetCollection (cl_collections s) collectionID w of
        Inl err \<Rightarrow> (Some (NotFoundError ''collection'' collectionID), w)
      | Inr None \<Rightarrow> (Some (NotFoundError ''collection'' collectionID), w)
      | Inr (Some c) \<Rightarrow>
          if Col_Status c \<noteq> ''open''
          then (Some (ValidationError ''status'' ''collection is not open''), w)
          else (case cs_GetCustomerByID (cl_customers s) (Col_CustomerID c) w of
             Inl err \<Rightarrow> (Some (NotFoundError ''collection'' collectionID), w)
           | Inr None \<Rightarrow> (Some (NotFoundError ''collection'' collectionID), w)
           | Inr (Some customer) \<Rightarrow>
               if Cust_TenantID customer \<noteq> tenantID
               then (Some (NotFoundError ''collection'' collectionID), w)
               else ls_CancelCollection (cl_collections s) now collectionID w))"

definition TryFulfill :: "'w collection_service \<Rightarrow> (nat \<Rightarrow> time) \<Rightarrow> string \<Rightarrow> string \<Rightarrow> int64 \<Rightarrow> 'w
    \<Rightarrow> go_error option \<times> 'w" where
  "TryFulfill s now vaID txnID amountKobo w =
     (case ls_FindOpenCollectionForVA (cl_collections s) (now 0) vaID amountKobo w of
        Inl err \<Rightarrow> (Some (Wrap ''collection: find open'' err), w)
      | Inr None \<Rightarrow> (None, w)
      | Inr (Some c) \<Rightarrow> ls_FulfillCollection (cl_collections s) (now 1) (Col_ID c) txnID w)"

lemma Collection_leaves:
  assumes "\<And>now c. leaves v (ls_CreateCollection (cl_collections s) now c)"
    and "\<And>now c. leaves v (ls_CancelCollection (cl_collections s) now c)"
  shows "leaves v (Collection_Create s now req)" and "leaves v (Collection_Cancel s now0 c t)"
  by (rule leavesI, auto simp: Collection_Create_def Collection_Cancel_def dest!: assms [THEN leaves_pair]
      split: sum.splits option.splits prod.splits if_splits)+

end
