(* ===== verification/Worker.thy ===== *)
theory Worker
  imports Matcher Relay Collections
begin

text \<open>
  \<^verbatim>\<open>internal/recon/worker.go\<close>: the reconciliation worker. The channel is a bounded list in
  the world; one iteration of \<open>Run\<close> takes its first element and processes it. The clock
  argument \<open>now\<close> gives the reading at each point of an operation that reads it.
\<close>

section \<open>Helpers\<close>

definition toPtr :: "virtual_account option \<Rightarrow> string option" where
  "toPtr va = map_option VA_ID va"

definition nullStr :: "string \<Rightarrow> string option" where
  "nullStr s = (if s = '''' then None else Some s)"

text \<open>\<open>%02d\<close> of a remainder: Go's \<open>%\<close> truncates, so it has the sign of the dividend.\<close>

definition pad02 :: "int \<Rightarrow> string" where
  "pad02 n = (let s = show_int n
              in if n < 0 then CHR ''-'' # replicate (2 - length s) (CHR ''0'') @ tl s
                 else replicate (2 - length s) (CHR ''0'') @ s)"

definition koboToNaira :: "int64 \<Rightarrow> string" where
  "koboToNaira kobo =
     (let k = sint kobo; naira = sgn k * (\<bar>k\<bar> div 100); rest = sgn k * (\<bar>k\<bar> mod 100)
      in show_int naira @ ''.'' @ pad02 rest)"

section \<open>Operations\<close>

record 'w worker =
  wk_matcher :: "'w matcher"
  wk_txns :: "'w transaction_store"
  wk_webhooks :: "'w webhook_event_store"
  wk_suspense :: "'w suspense_store"
  wk_customers :: "'w customer_store"
  wk_dispatcher :: "'w dispatcher option"
  wk_collections :: "'w collection_service option"

text \<open>\<open>if item.WebhookEventID != "" { _ = w.webhooks.MarkWebhookProcessed(...) }\<close>\<close>

definition mark :: "'w worker \<Rightarrow> time \<Rightarrow> work_item \<Rightarrow> string \<Rightarrow> 'w \<Rightarrow> 'w" where
  "mark wk now item status w =
     (if WI_WebhookEventID item \<noteq> ''''
      then snd (ws_MarkWebhookProcessed (wk_webhooks wk) now (WI_WebhookEventID item) status w)
      else w)"

text \<open>
  The first part of both credit paths: the match, and the tier check that reroutes a matched
  credit to suspense.
\<close>

definition route_credit :: "'w worker \<Rightarrow> time \<Rightarrow> provider_tx \<Rightarrow> 'w \<Rightarrow> go_error + match_result" where
  "route_credit wk now pt w =
     (case Match (wk_matcher wk) pt w of
        Inl err \<Rightarrow> Inl (Wrap ''match'' err)
      | Inr result \<Rightarrow>
          if MR_Suspense result = None \<and> MR_CustomerID result \<noteq> ''''
          then (case cs_GetCustomer (wk_customers wk) '''' (MR_CustomerID result) w of
             Inl err \<Rightarrow> Inr result
           | Inr None \<Rightarrow> Inr result
           | Inr (Some customer) \<Rightarrow>
               (case Cust_Identity customer of
                  None \<Rightarrow> Inr result
                | Some ident \<Rightarrow>
                    (case CheckTierLimitsForCustomer (wk_matcher wk) now
                            (CustomerWalletAccount (MR_CustomerID result))
                            (PT_AmountKobo pt) (Ident_KYCTier ident) w of
                       Inl err \<Rightarrow> Inl (Wrap ''tier check'' err)
                     | Inr reason \<Rightarrow>
                         if reason \<noteq> ''''
                         then (case CreditSuspense (PT_TransactionID pt) (PT_AmountKobo pt) of
                                 Inl err \<Rightarrow> Inl err
                               | Inr entries \<Rightarrow> Inr (result\<lparr>MR_Entries := entries,
                                   MR_Suspense := Some (open_item (PT_TransactionID pt) reason),
                                   MR_CustomerID := ''''\<rparr>))
                         else Inr result)))
          else Inr result)"

definition mk_tx :: "work_item \<Rightarrow> provider_tx \<Rightarrow> match_result \<Rightarrow> string \<Rightarrow> string \<Rightarrow> transaction" where
  "mk_tx item pt result direction status =
     \<lparr>Tx_ID = PT_TransactionID pt, Tx_VirtualAccountID = toPtr (MR_VA result),
      Tx_SessionID = nullStr (PT_SessionID pt), Tx_AmountKobo = PT_AmountKobo pt,
      Tx_Direction = direction, Tx_Source = WI_Source item, Tx_Status = status,
      Tx_SenderName = nullStr (PT_SenderName pt), Tx_SenderBank = nullStr (PT_SenderBank pt),
      Tx_Narration = nullStr (PT_Narration pt), Tx_Raw = PT_Raw pt,
      Tx_OccurredAt = PT_OccurredAt pt, Tx_CreatedAt = 0, Tx_NUBAN = ''''\<rparr>"

definition after_post :: "'w worker \<Rightarrow> (nat \<Rightarrow> time) \<Rightarrow> provider_tx \<Rightarrow> match_result \<Rightarrow> 'w \<Rightarrow> 'w" where
  "after_post wk now pt result w =
     (case MR_Suspense result of
        Some item \<Rightarrow> snd (ss_CreateSuspenseItem (wk_suspense wk) (now 2) item w)
      | None \<Rightarrow>
          (case (wk_collections wk, MR_VA result) of
             (Some svc, Some va) \<Rightarrow>
               snd (TryFulfill svc (\<lambda>k. now (3 + k)) (VA_ID va) (PT_TransactionID pt)
                      (PT_AmountKobo pt) w)
           | _ \<Rightarrow> w))"

definition dispatchRelay :: "'w worker \<Rightarrow> 'w dispatcher \<Rightarrow> match_result \<Rightarrow> provider_tx \<Rightarrow> string
    \<Rightarrow> 'w \<Rightarrow> 'w" where
  "dispatchRelay wk d result pt eventType w =
     (case cs_GetCustomer (wk_customers wk) '''' (MR_CustomerID result) w of
        Inl err \<Rightarrow> w
      | Inr None \<Rightarrow> w
      | Inr (Some customer) \<Rightarrow>
          let txJSON = JObj
            [(''amount_kobo'', JInt (sint (PT_AmountKobo pt))), (''id'', JStr (PT_TransactionID pt)),
             (''narration'', JStr (PT_Narration pt)), (''nuban'', JStr (PT_AccountNumber pt)),
             (''occurred_at'', JTime (PT_OccurredAt pt)), (''sender_bank'', JStr (PT_SenderBank pt)),
             (''sender_name'', JStr (PT_SenderName pt))]
          in Dispatch d (Cust_TenantID customer)
               \<lparr>EvP_EventType = eventType,
                EvP_OccurredAt = PT_OccurredAt pt - PT_OccurredAt pt mod second,
                EvP_Transaction = txJSON\<rparr> w)"

definition processCredit :: "'w worker \<Rightarrow> (nat \<Rightarrow> time) \<Rightarrow> work_item \<Rightarrow> provider_tx \<Rightarrow> 'w
    \<Rightarrow> go_error option \<times> 'w" where
  "processCredit wk now item pt w =
     (case route_credit wk (now 0) pt w of
        Inl err \<Rightarrow> (Some err, w)
      | Inr result \<Rightarrow>
          (case xs_PostTransaction (wk_txns wk) (now 1) (mk_tx item pt result ''credit'' ''posted'')
                  (MR_Entries result) w of
             (Inl err, w) \<Rightarrow> (Some (Wrap ''post transaction'' err), w)
           | (Inr False, w) \<Rightarrow> (None, mark wk (now 5) item ''ignored'' w)
           | (Inr True, w) \<Rightarrow>
               let w = after_post wk now pt result w;
                   w = mark wk (now 5) item ''processed'' w;
                   w = (case (wk_dispatcher wk, MR_VA result) of
                          (Some d, Some va) \<Rightarrow>
                            dispatchRelay wk d result pt (WP_EventType (WI_Payload item)) w
                        | _ \<Rightarrow> w)
               in (None, w)))"

definition processReversal :: "'w worker \<Rightarrow> (nat \<Rightarrow> time) \<Rightarrow> work_item \<Rightarrow> provider_tx \<Rightarrow> 'w
    \<Rightarrow> go_error option \<times> 'w" where
  "processReversal wk now item pt w =
     (case MatchReversal (wk_matcher wk) pt w of
        Inl err \<Rightarrow> (Some (Wrap ''reversal match'' err), w)
      | Inr result \<Rightarrow>
          (case xs_PostTransaction (wk_txns wk) (now 1) (mk_tx item pt result ''debit'' ''reversed'')
                  (MR_Entries result) w of
             (Inl err, w) \<Rightarrow> (Some (Wrap ''post reversal'' err), w)
           | (Inr created, w) \<Rightarrow> (None, mark wk (now 5) item ''processed'' w)))"

definition process :: "'w worker \<Rightarrow> (nat \<Rightarrow> time) \<Rightarrow> work_item \<Rightarrow> 'w \<Rightarrow> go_error option \<times> 'w" where
  "process wk now item w =
     (let pt = WP_Transaction (WI_Payload item); ev = WP_EventType (WI_Payload item)
      in if ev = ''payment_success'' then processCredit wk now item pt w
         else if ev = ''payment_reversal'' then processReversal wk now item pt w
         else if ev = ''payment_failed'' then (None, mark wk (now 5) item ''ignored'' w)
         else (None, mark wk (now 5) item ''ignored'' w))"

text \<open>One iteration of \<open>Run\<close> on the item taken from the channel.\<close>

definition run_item :: "'w worker \<Rightarrow> (nat \<Rightarrow> time) \<Rightarrow> work_item \<Rightarrow> 'w \<Rightarrow> 'w" where
  "run_item wk now item w =
     (case process wk now item w of
        (None, w) \<Rightarrow> w
      | (Some err, w) \<Rightarrow> mark wk (now 6) item ''failed'' w)"

section \<open>The synchronous path of the sweep\<close>

record process_result =
  PR_Skipped :: bool
  PR_Posted :: bool
  PR_Suspensed :: bool

definition zero_result :: process_result where
  "zero_result = \<lparr>PR_Skipped = False, PR_Posted = False, PR_Suspensed = False\<rparr>"

definition processCreditDirect :: "'w worker \<Rightarrow> (nat \<Rightarrow> time) \<Rightarrow> work_item \<Rightarrow> provider_tx \<Rightarrow> 'w
    \<Rightarrow> (go_error + bool \<times> bool) \<times> 'w" where
  "processCreditDirect wk now item pt w =
     (case route_credit wk (now 0) pt w of
        Inl err \<Rightarrow> (Inl err, w)
      | Inr result \<Rightarrow>
          (case xs_PostTransaction (wk_txns wk) (now 1) (mk_tx item pt result ''credit'' ''posted'')
                  (MR_Entries result) w of
             (Inl err, w) \<Rightarrow> (Inl (Wrap ''post transaction'' err), w)
           | (Inr False, w) \<Rightarrow> (Inr (False, False), w)
           | (Inr True, w) \<Rightarrow>
               (Inr (True, MR_Suspense result \<noteq> None), after_post wk now pt result w)))"

definition ProcessDirect :: "'w worker \<Rightarrow> (nat \<Rightarrow> time) \<Rightarrow> work_item \<Rightarrow> 'w
    \<Rightarrow> (go_error + process_result) \<times> 'w" where
  "ProcessDirect wk now item w =
     (let pt = WP_Transaction (WI_Payload item); ev = WP_EventType (WI_Payload item)
      in case xs_GetTransaction (wk_txns wk) (PT_TransactionID pt) w of
           Inl err \<Rightarrow> (Inl (Wrap ''ProcessDirect: check existing'' err), w)
         | Inr (Some existing) \<Rightarrow> (Inr (zero_result\<lparr>PR_Skipped := True\<rparr>), w)
         | Inr None \<Rightarrow>
             if ev = ''payment_success''
             then (case processCreditDirect wk now item pt w of
                     (Inl err, w) \<Rightarrow> (Inl err, w)
                   | (Inr (result, suspensed), w) \<Rightarrow>
                       (Inr (zero_result\<lparr>PR_Posted := result, PR_Suspensed := suspensed\<rparr>), w))
             else if ev = ''payment_reversal''
             then (case processReversal wk now item pt w of
                     (Some err, w) \<Rightarrow> (Inl err, w)
                   | (None, w) \<Rightarrow> (Inr (zero_result\<lparr>PR_Posted := True\<rparr>), w))
             else (Inr (zero_result\<lparr>PR_Skipped := True\<rparr>), w))"

definition NewWorkItemFromProviderTx :: "provider_tx \<Rightarrow> string \<Rightarrow> work_item" where
  "NewWorkItemFromProviderTx pt source =
     \<lparr>WI_WebhookEventID = '''',
      WI_Payload = \<lparr>WP_EventType = ''payment_success'', WP_Transaction = pt,
                    WP_Raw = json_of_pt pt\<rparr>,
      WI_Source = source\<rparr>"

section \<open>The queue\<close>

text \<open>
  \<open>Enqueue\<close> on the buffered channel of the given capacity, and \<open>Run\<close> taking the oldest item.
\<close>

definition Enqueue :: "nat \<Rightarrow> work_item \<Rightarrow> runtime \<Rightarrow> bool \<times> runtime" where
  "Enqueue queueSize item rt =
     (if length (rt_queue rt) < queueSize
      then (True, rt\<lparr>rt_queue := rt_queue rt @ [item]\<rparr>) else (False, rt))"

definition mem_worker_step :: "mem worker \<Rightarrow> (nat \<Rightarrow> time) \<Rightarrow> mem \<Rightarrow> mem" where
  "mem_worker_step wk now w =
     (case rt_queue (mem_rt w) of
        [] \<Rightarrow> w
      | item # rest \<Rightarrow> run_item wk now item (w\<lparr>mem_rt := (mem_rt w)\<lparr>rt_queue := rest\<rparr>\<rparr>))"

section \<open>What the worker does to the ledger\<close>

lemma route_credit_cases:
  assumes "route_credit wk now pt w = Inr r"
  obtains (matched) "Match (wk_matcher wk) pt w = Inr r"
    | (tier) r0 reason where "Match (wk_matcher wk) pt w = Inr r0" "MR_Suspense r0 = None"
        "reason = SuspenseReasonTierLimit" "MR_VA r = MR_VA r0" "MR_CustomerID r = ''''"
        "MR_Suspense r = Some (open_item (PT_TransactionID pt) reason)"
        "CreditSuspense (PT_TransactionID pt) (PT_AmountKobo pt) = Inr (MR_Entries r)"
  using assms
  by (auto simp: route_credit_def dest: check_reason split: sum.splits option.splits if_splits)

lemma route_well_formed:
  "route_credit wk now pt w = Inr r \<Longrightarrow> well_formed_entries (PT_TransactionID pt) (MR_Entries r)"
  by (erule route_credit_cases) (auto intro: Match_well_formed builders_well_formed)

lemma Tx_ID_mk_tx [simp]: "Tx_ID (mk_tx item pt r dir st) = PT_TransactionID pt"
  by (simp add: mk_tx_def)

locale recon_ledger = transaction_ledger X txns entries
  for X :: "'w transaction_store" and txns entries +
  fixes wk :: "'w worker"
  assumes wk_X: "wk_txns wk = X"
    and mark_leaves:
      "leaves (\<lambda>w. (txns w, entries w)) (ws_MarkWebhookProcessed (wk_webhooks wk) now i st)"
    and item_leaves:
      "leaves (\<lambda>w. (txns w, entries w)) (ss_CreateSuspenseItem (wk_suspense wk) now item)"
    and fulfill_leaves: "wk_collections wk = Some svc \<Longrightarrow>
      leaves (\<lambda>w. (txns w, entries w)) (ls_FulfillCollection (cl_collections svc) now c t)"
    and spawn_leaves: "wk_dispatcher wk = Some d \<Longrightarrow>
      txns (dp_spawn d job w) = txns w \<and> entries (dp_spawn d job w) = entries w"
begin

lemma mark_view: "txns (mark wk now item st w) = txns w \<and> entries (mark wk now item st w) = entries w"
  using leavesD [OF mark_leaves] by (simp add: mark_def)

lemma spawn_all_view:
  assumes "wk_dispatcher wk = Some d"
  shows "txns (foldl (\<lambda>w ep. if \<not> EP_Active ep then w else dp_spawn d (job ep) w) w eps) = txns w \<and>
    entries (foldl (\<lambda>w ep. if \<not> EP_Active ep then w else dp_spawn d (job ep) w) w eps) = entries w"
  by (induction eps arbitrary: w) (simp_all add: spawn_leaves [OF assms])

lemma Dispatch_view:
  "wk_dispatcher wk = Some d \<Longrightarrow>
     txns (Dispatch d t p w) = txns w \<and> entries (Dispatch d t p w) = entries w"
  by (cases "rs_ListEndpoints (dp_store d) t w") (simp_all add: Dispatch_def Let_def spawn_all_view)

lemma dispatchRelay_view:
  "wk_dispatcher wk = Some d \<Longrightarrow>
     txns (dispatchRelay wk d r pt ev w) = txns w \<and> entries (dispatchRelay wk d r pt ev w) = entries w"
  by (simp add: dispatchRelay_def Let_def Dispatch_view split: sum.splits option.splits)

lemma TryFulfill_view:
  "wk_collections wk = Some svc \<Longrightarrow>
     txns (snd (TryFulfill svc now va t amt w)) = txns w \<and>
     entries (snd (TryFulfill svc now va t amt w)) = entries w"
  using leavesD [OF fulfill_leaves] by (simp add: TryFulfill_def split: sum.splits option.splits)

lemma after_post_view:
  "txns (after_post wk now pt r w) = txns w \<and> entries (after_post wk now pt r w) = entries w"
  using leavesD [OF item_leaves]
  by (auto simp: after_post_def TryFulfill_view split: option.splits)

lemmas views = mark_view dispatchRelay_view after_post_view

text \<open>The ledger after a credit: what \<open>PostTransaction\<close> made of it.\<close>

lemma processCredit_post:
  assumes "processCredit wk now item pt w = (e, w')"
  obtains (failed) "w' = w" "e \<noteq> None"
    | (posted) r b w1 where "route_credit wk (now 0) pt w = Inr r" "e = None"
        "xs_PostTransaction X (now 1) (mk_tx item pt r ''credit'' ''posted'') (MR_Entries r) w = (Inr b, w1)"
        "txns w' = txns w1" "entries w' = entries w1"
proof (cases "route_credit wk (now 0) pt w")
  case (Inl err)
  with assms that(1) show ?thesis by (auto simp: processCredit_def)
next
  case (Inr r)
  obtain res w1 where post: "xs_PostTransaction X (now 1) (mk_tx item pt r ''credit'' ''posted'')
      (MR_Entries r) w = (res, w1)" by fastforce
  show ?thesis
  proof (cases res)
    case (Inl err)
    with assms Inr post that(1) post_error [of "now 1" _ _ w err w1] show ?thesis
      by (auto simp: processCredit_def wk_X)
  next
    case res: (Inr b)
    have "e = None \<and> txns w' = txns w1 \<and> entries w' = entries w1"
      using assms Inr post res
      by (auto simp: processCredit_def wk_X Let_def views split: bool.splits option.splits)
    with that(2) Inr post res show ?thesis by blast
  qed
qed

lemma processReversal_post:
  assumes "processReversal wk now item pt w = (e, w')"
  obtains (failed) "w' = w" "e \<noteq> None"
    | (posted) r b w1 where "MatchReversal (wk_matcher wk) pt w = Inr r" "e = None"
        "xs_PostTransaction X (now 1) (mk_tx item pt r ''debit'' ''reversed'') (MR_Entries r) w = (Inr b, w1)"
        "txns w' = txns w1" "entries w' = entries w1"
proof (cases "MatchReversal (wk_matcher wk) pt w")
  case (Inl err)
  with assms that(1) show ?thesis by (auto simp: processReversal_def)
next
  case (Inr r)
  obtain res w1 where post: "xs_PostTransaction X (now 1) (mk_tx item pt r ''debit'' ''reversed'')
      (MR_Entries r) w = (res, w1)" by fastforce
  show ?thesis
  proof (cases res)
    case (Inl err)
    with assms Inr post that(1) post_error [of "now 1" _ _ w err w1] show ?thesis
      by (auto simp: processReversal_def wk_X)
  next
    case res: (Inr b)
    have "e = None \<and> txns w' = txns w1 \<and> entries w' = entries w1"
      using assms Inr post res by (auto simp: processReversal_def wk_X views)
    with that(2) Inr post res show ?thesis by blast
  qed
qed

lemma processCredit_step:
  "processCredit wk now item pt w = (e, w') \<Longrightarrow>
     ledger_step (txns w, entries w) (txns w', entries w')"
  by (erule processCredit_post)
    (auto intro: ledger_step.stay dest!: post_step dest: route_well_formed)

lemma processReversal_step:
  "processReversal wk now item pt w = (e, w') \<Longrightarrow>
     ledger_step (txns w, entries w) (txns w', entries w')"
  by (erule processReversal_post)
    (auto intro: ledger_step.stay dest!: post_step dest: MatchReversal_well_formed)

lemma process_step:
  "process wk now item w = (e, w') \<Longrightarrow> ledger_step (txns w, entries w) (txns w', entries w')"
  by (auto simp: process_def Let_def views intro: ledger_step.stay processCredit_step
      processReversal_step split: if_splits)

lemma run_item_step: "ledger_step (txns w, entries w) (txns (run_item wk now item w), entries (run_item wk now item w))"
  using process_step [of now item w] by (auto simp: run_item_def views split: prod.splits option.splits)

end

context recon_ledger
begin

lemma process_none_iff_posts:
  assumes "process wk now item w = (None, w')"
    and "WP_EventType (WI_Payload item) \<in> {''payment_success'', ''payment_reversal''}"
  shows "fmlookup (txns w') (PT_TransactionID (WP_Transaction (WI_Payload item))) \<noteq> None"
proof (cases "WP_EventType (WI_Payload item) = ''payment_success''")
  case True
  with assms have "processCredit wk now item (WP_Transaction (WI_Payload item)) w = (None, w')"
    by (simp add: process_def Let_def)
  then show ?thesis by (rule processCredit_post) (auto dest: post_present)
next
  case False
  with assms have "processReversal wk now item (WP_Transaction (WI_Payload item)) w = (None, w')"
    by (simp add: process_def Let_def)
  then show ?thesis by (rule processReversal_post) (auto dest: post_present)
qed

text \<open>An identifier that is already posted is never posted again, on any path.\<close>

lemma processCredit_again:
  assumes "fmlookup (txns w) (PT_TransactionID pt) = Some t"
    and "processCredit wk now item pt w = (e, w')"
  shows "txns w' = txns w \<and> entries w' = entries w"
  using assms(2) by (rule processCredit_post) (auto dest!: post_seen [rotated] simp: assms(1))

lemma processReversal_again:
  assumes "fmlookup (txns w) (PT_TransactionID pt) = Some t"
    and "processReversal wk now item pt w = (e, w')"
  shows "txns w' = txns w \<and> entries w' = entries w"
  using assms(2) by (rule processReversal_post) (auto dest!: post_seen [rotated] simp: assms(1))

lemma run_item_again:
  assumes "fmlookup (txns w) (PT_TransactionID (WP_Transaction (WI_Payload item))) = Some t"
  shows "txns (run_item wk now item w) = txns w \<and> entries (run_item wk now item w) = entries w"
proof -
  obtain e w' where p: "process wk now item w = (e, w')" by fastforce
  then have "txns w' = txns w \<and> entries w' = entries w"
    using processCredit_again [OF assms] processReversal_again [OF assms]
    by (auto simp: process_def Let_def views split: if_splits)
  with p show ?thesis by (auto simp: run_item_def views split: option.splits)
qed

text \<open>The synchronous path: the flags it returns are what happened to the ledger.\<close>

lemma processCreditDirect_post:
  assumes "processCreditDirect wk now item pt w = (res, w')"
  obtains (failed) err where "w' = w" "res = Inl err"
    | (posted) r b w1 where "route_credit wk (now 0) pt w = Inr r"
        "res = Inr (b, b \<and> MR_Suspense r \<noteq> None)"
        "xs_PostTransaction X (now 1) (mk_tx item pt r ''credit'' ''posted'') (MR_Entries r) w = (Inr b, w1)"
        "txns w' = txns w1" "entries w' = entries w1"
proof (cases "route_credit wk (now 0) pt w")
  case (Inl err)
  with assms that(1) show ?thesis by (auto simp: processCreditDirect_def)
next
  case (Inr r)
  obtain p w1 where post: "xs_PostTransaction X (now 1) (mk_tx item pt r ''credit'' ''posted'')
      (MR_Entries r) w = (p, w1)" by fastforce
  show ?thesis
  proof (cases p)
    case (Inl err)
    with assms Inr post that(1) post_error [of "now 1" _ _ w err w1] show ?thesis
      by (auto simp: processCreditDirect_def wk_X)
  next
    case p: (Inr b)
    have "res = Inr (b, b \<and> MR_Suspense r \<noteq> None) \<and> txns w' = txns w1 \<and> entries w' = entries w1"
      using assms Inr post p
      by (auto simp: processCreditDirect_def wk_X views split: bool.splits)
    with that(2) Inr post p show ?thesis by blast
  qed
qed

lemma processCreditDirect_step:
  "processCreditDirect wk now item pt w = (res, w') \<Longrightarrow>
     ledger_step (txns w, entries w) (txns w', entries w')"
  by (erule processCreditDirect_post)
    (auto intro: ledger_step.stay dest!: post_step dest: route_well_formed)

lemma ProcessDirect_step:
  "ProcessDirect wk now item w = (res, w') \<Longrightarrow>
     ledger_step (txns w, entries w) (txns w', entries w')"
  by (auto simp: ProcessDirect_def Let_def intro: ledger_step.stay
      dest: processCreditDirect_step processReversal_step
      split: sum.splits option.splits prod.splits if_splits)

lemma ProcessDirect_present:
  assumes "fmlookup (txns w) (PT_TransactionID (WP_Transaction (WI_Payload item))) = Some t"
    and "ProcessDirect wk now item w = (res, w')"
  shows "w' = w \<and> (\<forall>pr. res = Inr pr \<longrightarrow> pr = zero_result\<lparr>PR_Skipped := True\<rparr>)"
  using assms
  by (auto simp: ProcessDirect_def Let_def wk_X dest: get_txn split: sum.splits option.splits)

lemma ProcessDirect_credit:
  assumes "ProcessDirect wk now item w = (Inr pr, w')"
    and "WP_EventType (WI_Payload item) = ''payment_success''"
  shows "fmlookup (txns w') (PT_TransactionID (WP_Transaction (WI_Payload item))) \<noteq> None"
    and "PR_Posted pr \<longleftrightarrow> fmlookup (txns w) (PT_TransactionID (WP_Transaction (WI_Payload item))) = None"
    and "PR_Skipped pr \<longleftrightarrow> fmlookup (txns w) (PT_TransactionID (WP_Transaction (WI_Payload item))) \<noteq> None"
    and "PR_Suspensed pr \<longrightarrow> PR_Posted pr"
proof -
  let ?pt = "WP_Transaction (WI_Payload item)"
  obtain existing where ex: "xs_GetTransaction X (PT_TransactionID ?pt) w = Inr existing"
    using assms(1) by (auto simp: ProcessDirect_def Let_def wk_X split: sum.splits)
  have lk: "fmlookup (txns w) (PT_TransactionID ?pt) = existing" using get_txn [OF ex] by simp
  have "fmlookup (txns w') (PT_TransactionID ?pt) \<noteq> None \<and> (PR_Posted pr \<longleftrightarrow> existing = None) \<and>
    (PR_Skipped pr \<longleftrightarrow> existing \<noteq> None) \<and> (PR_Suspensed pr \<longrightarrow> PR_Posted pr)"
  proof (cases existing)
    case (Some t)
    with assms ex lk show ?thesis
      by (auto simp: ProcessDirect_def Let_def wk_X zero_result_def)
  next
    case None
    then obtain b s where d: "processCreditDirect wk now item ?pt w = (Inr (b, s), w')"
      and pr: "pr = zero_result\<lparr>PR_Posted := b, PR_Suspensed := s\<rparr>"
      using assms ex
      by (auto simp: ProcessDirect_def Let_def wk_X split: sum.splits prod.splits)
    from d have "b \<and> fmlookup (txns w') (PT_TransactionID ?pt) \<noteq> None \<and> (s \<longrightarrow> b)"
      by (rule processCreditDirect_post)
        (use None lk in \<open>auto dest: post_present post_fresh\<close>)
    with pr None show ?thesis by (simp add: zero_result_def)
  qed
  then show "fmlookup (txns w') (PT_TransactionID ?pt) \<noteq> None"
    and "PR_Posted pr \<longleftrightarrow> fmlookup (txns w) (PT_TransactionID ?pt) = None"
    and "PR_Skipped pr \<longleftrightarrow> fmlookup (txns w) (PT_TransactionID ?pt) \<noteq> None"
    and "PR_Suspensed pr \<longrightarrow> PR_Posted pr"
    using lk by auto
qed

end

context recon_ledger
begin

lemma post_card:
  "xs_PostTransaction X now tx es w = (Inr b, w') \<Longrightarrow>
     card (fmdom' (txns w')) = card (fmdom' (txns w)) + (if b then 1 else 0)"
  using post_dup [of now tx es w w'] post_new [of now tx es w w']
  by (cases b) (auto simp: fmlookup_dom'_iff)

lemma ProcessDirect_card:
  "ProcessDirect wk now item w = (res, w') \<Longrightarrow>
     WP_EventType (WI_Payload item) = ''payment_success'' \<Longrightarrow>
     card (fmdom' (txns w')) = card (fmdom' (txns w)) +
       (case res of Inl err \<Rightarrow> 0 | Inr pr \<Rightarrow> if PR_Posted pr then 1 else 0)"
  by (auto simp: ProcessDirect_def Let_def zero_result_def elim!: processCreditDirect_post dest: post_card
      split: sum.splits option.splits prod.splits if_splits)

end

context recon_ledger
begin

text \<open>The effect of an item that was processed without an error, and of one that was not.\<close>

lemma processCredit_effect:
  assumes "processCredit wk now item pt w = (None, w')"
  obtains (dup) "fmlookup (txns w) (PT_TransactionID pt) \<noteq> None" "txns w' = txns w" "entries w' = entries w"
    | (new) r t where "fmlookup (txns w) (PT_TransactionID pt) = None"
        "route_credit wk (now 0) pt w = Inr r" "entries w' = entries w @ MR_Entries r"
        "txns w' = fmupd (PT_TransactionID pt) t (txns w)" "Tx_AmountKobo t = PT_AmountKobo pt"
  using assms
proof (rule processCredit_post)
  fix r b w1
  assume r: "route_credit wk (now 0) pt w = Inr r"
    and post: "xs_PostTransaction X (now 1) (mk_tx item pt r ''credit'' ''posted'') (MR_Entries r) w = (Inr b, w1)"
    and w': "txns w' = txns w1" "entries w' = entries w1"
  show thesis
  proof (cases b)
    case True
    with post_new [of "now 1" "mk_tx item pt r ''credit'' ''posted''" "MR_Entries r" w w1] post r w' new
    show thesis by (auto simp: mk_tx_def)
  next
    case False
    with post_dup [of "now 1" "mk_tx item pt r ''credit'' ''posted''" "MR_Entries r" w w1] post w' dup
    show thesis by simp
  qed
qed simp

lemma processReversal_effect:
  assumes "processReversal wk now item pt w = (None, w')"
  obtains (dup) "fmlookup (txns w) (PT_TransactionID pt) \<noteq> None" "txns w' = txns w" "entries w' = entries w"
    | (new) r t where "fmlookup (txns w) (PT_TransactionID pt) = None"
        "MatchReversal (wk_matcher wk) pt w = Inr r" "entries w' = entries w @ MR_Entries r"
        "txns w' = fmupd (PT_TransactionID pt) t (txns w)" "Tx_AmountKobo t = PT_AmountKobo pt"
  using assms
proof (rule processReversal_post)
  fix r b w1
  assume r: "MatchReversal (wk_matcher wk) pt w = Inr r"
    and post: "xs_PostTransaction X (now 1) (mk_tx item pt r ''debit'' ''reversed'') (MR_Entries r) w = (Inr b, w1)"
    and w': "txns w' = txns w1" "entries w' = entries w1"
  show thesis
  proof (cases b)
    case True
    with post_new [of "now 1" "mk_tx item pt r ''debit'' ''reversed''" "MR_Entries r" w w1] post r w' new
    show thesis by (auto simp: mk_tx_def)
  next
    case False
    with post_dup [of "now 1" "mk_tx item pt r ''debit'' ''reversed''" "MR_Entries r" w w1] post w' dup
    show thesis by simp
  qed
qed simp

lemma process_failed:
  "process wk now item w = (Some err, w') \<Longrightarrow> w' = w"
  by (auto simp: process_def Let_def split: if_splits elim: processCredit_post processReversal_post)

end

definition routed :: "'w worker \<Rightarrow> time \<Rightarrow> work_item \<Rightarrow> 'w \<Rightarrow> ledger_entry list" where
  "routed wk now item w =
     (let pt = WP_Transaction (WI_Payload item); ev = WP_EventType (WI_Payload item)
      in case (if ev = ''payment_success'' then route_credit wk now pt w
               else if ev = ''payment_reversal'' then MatchReversal (wk_matcher wk) pt w
               else Inl (Errorf '''')) of
           Inl err \<Rightarrow> [] | Inr r \<Rightarrow> MR_Entries r)"

context recon_ledger
begin

lemma process_spec:
  "case process wk now item w of
     (Some err, w') \<Rightarrow> w' = w
   | (None, w') \<Rightarrow>
       let i = PT_TransactionID (WP_Transaction (WI_Payload item))
       in if WP_EventType (WI_Payload item) \<in> {''payment_success'', ''payment_reversal''} \<and>
             fmlookup (txns w) i = None
          then entries w' = entries w @ routed wk (now 0) item w \<and>
               (\<exists>t. txns w' = fmupd i t (txns w) \<and>
                    Tx_AmountKobo t = PT_AmountKobo (WP_Transaction (WI_Payload item)))
          else txns w' = txns w \<and> entries w' = entries w"
proof -
  obtain e w' where p: "process wk now item w = (e, w')" by fastforce
  show ?thesis
  proof (cases e)
    case (Some err)
    with p process_failed show ?thesis by auto
  next
    case None
    with p show ?thesis
      by (auto simp: process_def Let_def routed_def views split: if_splits
          elim!: processCredit_effect processReversal_effect)
  qed
qed

end

section \<open>What the worker leaves alone\<close>

text \<open>
  The contract for a part \<open>v\<close> of the world that none of the worker's writes touches (for example
  the account directory): the worker does not touch it either.
\<close>

locale worker_frame =
  fixes v :: "'w \<Rightarrow> 'v" and wk :: "'w worker"
  assumes frame_post: "leaves v (xs_PostTransaction (wk_txns wk) now tx es)"
    and frame_mark: "leaves v (ws_MarkWebhookProcessed (wk_webhooks wk) now i st)"
    and frame_item: "leaves v (ss_CreateSuspenseItem (wk_suspense wk) now item)"
    and frame_fulfill: "wk_collections wk = Some svc \<Longrightarrow>
      leaves v (ls_FulfillCollection (cl_collections svc) now c t)"
    and frame_spawn: "wk_dispatcher wk = Some d \<Longrightarrow> v (dp_spawn d job w) = v w"
begin

lemma frame_marked: "v (mark wk now item st w) = v w"
  using leavesD [OF frame_mark] by (simp add: mark_def)

lemma frame_spawn_all:
  "wk_dispatcher wk = Some d \<Longrightarrow>
     v (foldl (\<lambda>w ep. if \<not> EP_Active ep then w else dp_spawn d (job ep) w) w eps) = v w"
  by (rule foldl_frame) (simp add: frame_spawn)

lemma frame_relay: "wk_dispatcher wk = Some d \<Longrightarrow> v (dispatchRelay wk d r pt ev w) = v w"
  by (simp add: dispatchRelay_def Dispatch_def frame_spawn_all Let_def split: sum.splits option.splits)

lemma frame_after: "v (after_post wk now pt r w) = v w"
  using leavesD [OF frame_item] leavesD [OF frame_fulfill]
  by (auto simp: after_post_def TryFulfill_def split: option.splits sum.splits)

lemma frame_credit: "leaves v (processCredit wk now item pt)"
  by (rule leavesI)
    (auto simp: processCredit_def frame_after frame_marked frame_relay Let_def
      dest: leaves_pair [OF frame_post] split: sum.splits prod.splits bool.splits option.splits)

lemma frame_reversal: "leaves v (processReversal wk now item pt)"
  by (rule leavesI)
    (auto simp: processReversal_def frame_marked dest: leaves_pair [OF frame_post]
      split: sum.splits prod.splits)

lemma frame_process: "leaves v (process wk now item)"
  by (rule leavesI)
    (auto simp: process_def Let_def frame_marked
      dest: leaves_pair [OF frame_credit] leaves_pair [OF frame_reversal] split: if_splits)

lemma frame_run: "v (run_item wk now item w) = v w"
  using leaves_pair [OF frame_process, of now item w]
  by (auto simp: run_item_def frame_marked split: prod.splits option.splits)

lemma frame_direct: "leaves v (ProcessDirect wk now item)"
  by (rule leavesI)
    (auto simp: ProcessDirect_def processCreditDirect_def frame_after Let_def
      dest: leaves_pair [OF frame_post] leaves_pair [OF frame_reversal]
      split: sum.splits option.splits prod.splits bool.splits if_splits)

end

section \<open>The worker over the in-memory stores\<close>

definition mem_matcher :: "go_order \<Rightarrow> mem matcher" where
  "mem_matcher g = \<lparr>mt_accounts = mem_virtual_account_store g, mt_txns = mem_transaction_store g,
     mt_tierLimits = (\<lambda>w. rt_limits (mem_rt w))\<rparr>"

text \<open>
  The harness builds the worker without a collection service; \<open>relay\<close> says whether a
  dispatcher has been set.
\<close>

definition mem_worker :: "go_order \<Rightarrow> bool \<Rightarrow> mem worker" where
  "mem_worker g relay = \<lparr>wk_matcher = mem_matcher g, wk_txns = mem_transaction_store g,
     wk_webhooks = mem_webhook_event_store g, wk_suspense = mem_suspense_store g,
     wk_customers = mem_customer_store g,
     wk_dispatcher = (if relay then Some (mem_dispatcher g) else None), wk_collections = None\<rparr>"

lemma mem_worker_sels [simp]:
  "wk_matcher (mem_worker g relay) = mem_matcher g"
  "wk_txns (mem_worker g relay) = mem_transaction_store g"
  "wk_webhooks (mem_worker g relay) = mem_webhook_event_store g"
  "wk_suspense (mem_worker g relay) = mem_suspense_store g"
  "wk_customers (mem_worker g relay) = mem_customer_store g"
  "wk_dispatcher (mem_worker g relay) = (if relay then Some (mem_dispatcher g) else None)"
  "wk_collections (mem_worker g relay) = None"
  by (simp_all add: mem_worker_def)

interpretation mem_recon: recon_ledger "mem_transaction_store g" mem_txn_map AllLedgerEntries
  "mem_worker g relay" for g relay
proof unfold_locales
  fix d job w
  assume "wk_dispatcher (mem_worker g relay) = Some d"
  then show "mem_txn_map (dp_spawn d job w) = mem_txn_map w \<and>
    AllLedgerEntries (dp_spawn d job w) = AllLedgerEntries w"
    by (auto simp: mem_dispatcher_def mem_spawn_def AllLedgerEntries_def split: if_splits)
qed (simp_all add: leaves_mem_view mem_webhook_event_store_def mem_suspense_store_def frame)

section \<open>Tier limits\<close>

lemma route_credit_kept:
  assumes "route_credit wk now pt w = Inr r" and "MR_Suspense r = None"
  shows "Match (wk_matcher wk) pt w = Inr r"
    and "MR_CustomerID r \<noteq> '''' \<Longrightarrow> cs_GetCustomer (wk_customers wk) '''' (MR_CustomerID r) w = Inr (Some c) \<Longrightarrow>
      Cust_Identity c = Some ident \<Longrightarrow>
      CheckTierLimitsForCustomer (wk_matcher wk) now (CustomerWalletAccount (MR_CustomerID r))
        (PT_AmountKobo pt) (Ident_KYCTier ident) w = Inr ''''"
  using assms
  by (auto simp: route_credit_def dest: arg_cong [of _ _ MR_Suspense]
      split: sum.splits option.splits if_splits)

text \<open>A routed credit moves the amount from settlement to one account.\<close>

lemma route_credit_entries:
  assumes "route_credit wk now pt w = Inr r"
  obtains (held) "MR_Suspense r \<noteq> None" "MR_CustomerID r = ''''"
      "MR_Entries r = two_entries (PT_TransactionID pt) AccountNombaSettlement AccountSuspense (PT_AmountKobo pt)"
    | (kept) "MR_Suspense r = None"
      "MR_Entries r = two_entries (PT_TransactionID pt) AccountNombaSettlement
         (CustomerWalletAccount (MR_CustomerID r)) (PT_AmountKobo pt)"
proof -
  have susp: "es = two_entries (PT_TransactionID pt) AccountNombaSettlement AccountSuspense (PT_AmountKobo pt)"
    if "CreditSuspense (PT_TransactionID pt) (PT_AmountKobo pt) = Inr es" for es
    using credit_suspense.build_Inr(2) [OF that] by (simp add: two_entries_def)
  from assms show thesis
  proof (cases rule: route_credit_cases)
    case matched
    then show ?thesis
    proof (cases "MR_Suspense r")
      case None
      with matched kept show ?thesis
        by (auto simp: Match_is_routing credited_account_def split: sum.splits if_splits)
    next
      case (Some it)
      with matched held show ?thesis
        by (auto simp: Match_is_routing credited_account_def split: sum.splits if_splits)
    qed
  next
    case (tier r0 reason)
    with susp held show ?thesis by auto
  qed
qed

text \<open>
  C12: Over the in-memory stores no credit takes a wallet past the limits of its owner's tier. If
  processing a new credit changed the balance of a customer's wallet, then the new balance is at
  most the tier's maximum, and the credits of the current day with this one at most the daily cap
  (a limit that is not positive does not bound).
\<close>

theorem tier_limits_respected:
  assumes "processCredit (mem_worker g relay) now item pt w = (None, w')"
    and "fmlookup (cus_customers (mem_customers w)) cid = Some c" and "cid \<noteq> ''''"
    and "Cust_Identity c = Some ident"
    and "fmlookup (rt_limits (mem_rt w)) (Ident_KYCTier ident) = Some l"
    and changed: "balance (CustomerWalletAccount cid) (AllLedgerEntries w') \<noteq>
      balance (CustomerWalletAccount cid) (AllLedgerEntries w)"
  shows "(if 0 < sint (TL_MaxBalanceKobo l)
          then sint (balance (CustomerWalletAccount cid) (AllLedgerEntries w')) \<le> sint (TL_MaxBalanceKobo l)
          else True) \<and>
         (if 0 < sint (TL_DailyCreditKobo l)
          then \<exists>d. mem_GetDailyCredits (CustomerWalletAccount cid) (now 0) w = Inr d \<and>
                   sint (d + PT_AmountKobo pt) \<le> sint (TL_DailyCreditKobo l)
          else True)"
  using assms(1)
proof (cases rule: mem_recon.processCredit_effect)
  case dup
  with changed show ?thesis by simp
next
  case (new r t)
  from new(2) show ?thesis
  proof (cases rule: route_credit_entries)
    case held
    with new(3) changed show ?thesis by (simp add: two_entries_int64)
  next
    case kept
    with new(3) changed have cid: "MR_CustomerID r = cid"
      and bal: "balance (CustomerWalletAccount cid) (AllLedgerEntries w') =
        balance (CustomerWalletAccount cid) (AllLedgerEntries w) + PT_AmountKobo pt"
      by (auto simp: two_entries_int64 split: if_splits)
    have "CheckTierLimitsForCustomer (mem_matcher g) (now 0) (CustomerWalletAccount cid)
        (PT_AmountKobo pt) (Ident_KYCTier ident) w = Inr ''''"
      using route_credit_kept(2) [OF new(2) kept(1), of c ident] assms(2,3,4) cid
      by (simp add: mem_customer_store_def mem_GetCustomer_def)
    from check_silent [OF this, of l] assms(5) bal show ?thesis
      by (simp add: mem_matcher_def mem_transaction_store_def mem_GetBalance_balance)
  qed
qed

text \<open>A world with one customer, one account and one limit, and a credit for that account.\<close>

definition demo_customer :: customer where
  "demo_customer = \<lparr>Cust_ID = ''c1'', Cust_TenantID = ''t1'', Cust_ExternalRef = ''x1'',
     Cust_DisplayName = ''Ada'', Cust_Status = '''',
     Cust_Identity = Some \<lparr>Ident_ID = '''', Ident_CustomerID = ''c1'', Ident_BVNMasked = Some ''22'',
       Ident_NINMasked = None, Ident_KYCTier = 1, Ident_VerificationStatus = '''', Ident_CreatedAt = 0,
       Ident_UpdatedAt = 0\<rparr>,
     Cust_CreatedAt = 1, Cust_UpdatedAt = 0\<rparr>"

definition demo_limit :: tier_limit where
  "demo_limit = \<lparr>TL_DailyCreditKobo = 1000, TL_MaxBalanceKobo = 1500\<rparr>"

definition demo_mem :: "string \<Rightarrow> mem" where
  "demo_mem st = mem_init\<lparr>
     mem_customers := \<lparr>cus_customers = fmupd ''c1'' demo_customer fmempty,
       cus_byExtRef = fmupd (ext_key ''t1'' ''x1'') ''c1'' fmempty\<rparr>,
     mem_vas := \<lparr>va_accounts = fmupd ''v1'' (demo_va st) fmempty,
       va_byNUBAN = fmupd ''0123456789'' ''v1'' fmempty, va_byRef = fmupd ''r1'' ''v1'' fmempty\<rparr>,
     mem_rt := runtime_init\<lparr>rt_limits := fmupd 1 demo_limit fmempty\<rparr>\<rparr>"

definition demo_credit :: "string \<Rightarrow> int64 \<Rightarrow> provider_tx" where
  "demo_credit i amt = zero_pt\<lparr>PT_TransactionID := i, PT_AccountRef := ''r1'', PT_AmountKobo := amt,
     PT_OccurredAt := 1000\<rparr>"

definition demo_work :: "string \<Rightarrow> provider_tx \<Rightarrow> work_item" where
  "demo_work ev pt = \<lparr>WI_WebhookEventID = '''', WI_Payload = \<lparr>WP_EventType = ev, WP_Transaction = pt,
     WP_Raw = JNull\<rparr>, WI_Source = ''webhook''\<rparr>"

lemma demo_mem_route:
  "route_credit (mem_worker plain_order False) now (demo_credit ''a'' 500) (demo_mem VAStatusActive) =
     Inr \<lparr>MR_VA = Some (demo_va VAStatusActive), MR_CustomerID = ''c1'',
          MR_Entries = two_entries ''a'' AccountNombaSettlement (CustomerWalletAccount ''c1'') 500,
          MR_Suspense = None\<rparr>"
proof -
  have m: "Match (mem_matcher plain_order) (demo_credit ''a'' 500) (demo_mem VAStatusActive) =
     Inr \<lparr>MR_VA = Some (demo_va VAStatusActive), MR_CustomerID = ''c1'',
          MR_Entries = two_entries ''a'' AccountNombaSettlement (CustomerWalletAccount ''c1'') 500,
          MR_Suspense = None\<rparr>"
    by (simp add: Match_is_routing first_hit_def lookup_order_def mem_matcher_def demo_credit_def
        zero_pt_def mem_virtual_account_store_def mem_GetVAByAccountRef_def demo_mem_def
        hold_reason_def demo_va_def credited_account_def)
  have "CheckTierLimitsForCustomer (mem_matcher plain_order) now (CustomerWalletAccount ''c1'') 500 1
      (demo_mem VAStatusActive) = Inr ''''"
    by (simp add: CheckTierLimitsForCustomer_def mem_matcher_def demo_mem_def runtime_init_def
        demo_limit_def mem_transaction_store_def mem_GetBalance_balance mem_GetDailyCredits_def
        AllLedgerEntries_def mem_init_def Let_def)
  then show ?thesis
    by (simp add: route_credit_def m mem_customer_store_def mem_GetCustomer_def)
      (simp add: demo_mem_def demo_customer_def demo_credit_def)
qed

theorem tier_limits_respected_witness:
  "\<exists>w'. processCredit (mem_worker plain_order False) (\<lambda>k. 1000) (demo_work ''payment_success'' (demo_credit ''a'' 500))
          (demo_credit ''a'' 500) (demo_mem VAStatusActive) = (None, w') \<and>
        sint (balance (CustomerWalletAccount ''c1'') (AllLedgerEntries w')) \<le> 1500"
proof -
  let ?w = "demo_mem VAStatusActive" and ?pt = "demo_credit ''a'' 500"
  let ?item = "demo_work ''payment_success'' ?pt"
  have id: "PT_TransactionID ?pt = ''a''" by (simp add: demo_credit_def)
  have empty: "mem_txns ?w = \<lparr>txn_txns = fmempty, txn_ledger = []\<rparr>"
    by (simp add: demo_mem_def mem_init_def)
  obtain e w' where p: "processCredit (mem_worker plain_order False) (\<lambda>k. 1000) ?item ?pt ?w = (e, w')"
    by fastforce
  have e: "e = None"
    using p by (auto simp: processCredit_def demo_mem_route mem_transaction_store_def
        mem_PostTransaction_def empty two_entries_def net_kobo_def Let_def split: prod.splits bool.splits)
  have "balance (CustomerWalletAccount ''c1'') (AllLedgerEntries w') = 500"
    using p unfolding e
  proof (cases rule: mem_recon.processCredit_effect)
    case dup
    then show ?thesis by (simp add: empty)
  next
    case (new r t)
    then show ?thesis by (auto simp: demo_mem_route two_entries_int64 AllLedgerEntries_def empty)
  qed
  moreover have "balance (CustomerWalletAccount ''c1'') (AllLedgerEntries ?w) = 0"
    by (simp add: AllLedgerEntries_def empty)
  ultimately show ?thesis
    using p e tier_limits_respected [of plain_order False "\<lambda>k. 1000" ?item ?pt ?w w' "''c1''" demo_customer]
    by (auto simp: demo_mem_def demo_customer_def demo_limit_def runtime_init_def)
qed

end
