(* ===== verification/Calendar.thy ===== *)
theory Calendar
  imports Runtime
begin

text \<open>
  The standard library's rendering and parsing of an instant in the layouts the program uses: the civil
  date of a day number (0 is 1 January of the year 1) and fixed-width decimal fields. The
  repositories use the layout with a fraction for the cursors of the audit log.
\<close>

text \<open>Years are counted from March, so that the leap day is the last day of a year.\<close>

definition civil_date :: "int \<Rightarrow> int \<times> int \<times> int" where
  "civil_date days =
     (let z = days + 306;
          era = z div 146097;
          doe = z mod 146097;
          yoe = (doe - doe div 1460 + doe div 36524 - doe div 146096) div 365;
          doy = doe - (365 * yoe + yoe div 4 - yoe div 100);
          mp = (5 * doy + 2) div 153;
          d = doy - (153 * mp + 2) div 5 + 1;
          m = (if mp < 10 then mp + 3 else mp - 9)
      in (yoe + era * 400 + (if m \<le> 2 then 1 else 0), m, d))"

definition pad_n :: "nat \<Rightarrow> int \<Rightarrow> string" where
  "pad_n n x = (let s = show_int x in replicate (n - length s) (CHR ''0'') @ s)"

text \<open>\<open>.999999999\<close>: nine digits without trailing zeros, nothing for a whole second.\<close>

definition fraction_digits :: "int \<Rightarrow> string" where
  "fraction_digits ns =
     (let ds = rev (dropWhile (\<lambda>c. c = CHR ''0'') (rev (pad_n 9 ns)))
      in if ds = [] then '''' else CHR ''.'' # ds)"

definition format_nano :: "time \<Rightarrow> string" where
  "format_nano t =
     (let (y, m, d) = civil_date (t div (24 * hour)); s = t mod (24 * hour)
      in pad_n 4 y @ ''-'' @ pad_n 2 m @ ''-'' @ pad_n 2 d @ ''T''
         @ pad_n 2 (s div hour) @ '':'' @ pad_n 2 (s mod hour div minute) @ '':''
         @ pad_n 2 (s mod minute div second) @ fraction_digits (s mod second) @ ''Z'')"

lemma civil_date_examples:
  "civil_date 0 = (1, 1, 1)"
  "civil_date 719162 = (1970, 1, 1)"
  "civil_date 730178 = (2000, 2, 29)"
  "civil_date 739250 = (2024, 12, 31)"
  by code_simp+

section \<open>time.Parse\<close>

text \<open>
  The standard library's parser for the two layouts the program uses: fixed-width fields (the
  hour may have one digit), an optional fraction of a second of which nine digits count, and,
  for RFC 3339, \<open>Z\<close> or a numeric offset. The result counts nanoseconds from
  0001-01-01T00:00:00Z. \<open>parse_civil\<close> reads the part before the zone.
\<close>

definition digits_n :: "nat \<Rightarrow> string \<Rightarrow> (nat \<times> string) option" where
  "digits_n n s = (if length (takeWhile is_digit (take n s)) = n
                   then Some (undec (take n s), drop n s) else None)"

definition digits_1_or_2 :: "string \<Rightarrow> (nat \<times> string) option" where
  "digits_1_or_2 s = (case digits_n 2 s of Some r \<Rightarrow> Some r | None \<Rightarrow> digits_n 1 s)"

definition expect :: "char \<Rightarrow> string \<Rightarrow> string option" where
  "expect c s = (if s \<noteq> [] \<and> hd s = c then Some (tl s) else None)"

definition leap :: "nat \<Rightarrow> bool" where
  "leap y \<longleftrightarrow> y mod 4 = 0 \<and> (y mod 100 \<noteq> 0 \<or> y mod 400 = 0)"

definition days_in_month :: "nat \<Rightarrow> nat \<Rightarrow> nat" where
  "days_in_month y m = (if m = 2 then (if leap y then 29 else 28)
                        else if m \<in> {4, 6, 9, 11} then 30 else 31)"

definition days_since_epoch :: "nat \<Rightarrow> nat \<Rightarrow> nat \<Rightarrow> int" where
  "days_since_epoch y m d =
     (let p = int y - 1
      in 365 * p + p div 4 - p div 100 + p div 400
         + int (sum_list (map (days_in_month y) [1..<m])) + int d - 1)"

definition fraction :: "string \<Rightarrow> int \<times> string" where
  "fraction s =
     (if length s \<ge> 2 \<and> hd s \<in> {CHR ''.'', CHR '',''} \<and> is_digit (s ! 1)
      then let ds = takeWhile is_digit (tl s)
           in (int (undec (take 9 (ds @ ''000000000''))), drop (length ds) (tl s))
      else (0, s))"

definition zone :: "string \<Rightarrow> (int \<times> string) option" where
  "zone s =
     (if s \<noteq> [] \<and> hd s = CHR ''Z'' then Some (0, tl s)
      else if s \<noteq> [] \<and> hd s \<in> {CHR ''+'', CHR ''-''}
      then do { (h, r) \<leftarrow> digits_n 2 (tl s); r \<leftarrow> expect (CHR '':'') r; (m, r) \<leftarrow> digits_n 2 r;
                if h \<le> 24 \<and> m \<le> 60
                then Some ((if hd s = CHR ''-'' then - 1 else 1) * (int h * hour + int m * minute), r)
                else None }
      else None)"

definition parse_civil :: "string \<Rightarrow> (time \<times> string) option" where
  "parse_civil s =
     do { (y, r) \<leftarrow> digits_n 4 s; r \<leftarrow> expect (CHR ''-'') r;
          (mo, r) \<leftarrow> digits_n 2 r; r \<leftarrow> expect (CHR ''-'') r;
          (d, r) \<leftarrow> digits_n 2 r; r \<leftarrow> expect (CHR ''T'') r;
          (h, r) \<leftarrow> digits_1_or_2 r; r \<leftarrow> expect (CHR '':'') r;
          (mi, r) \<leftarrow> digits_n 2 r; r \<leftarrow> expect (CHR '':'') r;
          (sec, r) \<leftarrow> digits_n 2 r;
          let (ns, r) = fraction r;
          if 1 \<le> mo \<and> mo \<le> 12 \<and> 1 \<le> d \<and> d \<le> days_in_month y mo \<and>
             h < 24 \<and> mi < 60 \<and> sec < 60
          then Some (days_since_epoch y mo d * (24 * hour) + int h * hour + int mi * minute
                     + int sec * second + ns, r)
          else None }"

definition parse_rfc3339 :: "string \<Rightarrow> time option" where
  "parse_rfc3339 s =
     do { (t, r) \<leftarrow> parse_civil s; (off, r) \<leftarrow> zone r; if r = [] then Some (t - off) else None }"

definition parse_local :: "string \<Rightarrow> time option" where
  "parse_local s = do { (t, r) \<leftarrow> parse_civil s; if r = [] then Some t else None }"

text \<open>The layouts \<^verbatim>\<open>2006-01-02\<close> and \<^verbatim>\<open>2006-01-02T15:04:05\<close>.\<close>

definition format_date :: "time \<Rightarrow> string" where
  "format_date t =
     (let (y, m, d) = civil_date (t div (24 * hour))
      in pad_n 4 y @ ''-'' @ pad_n 2 m @ ''-'' @ pad_n 2 d)"

definition format_seconds :: "time \<Rightarrow> string" where
  "format_seconds t =
     (let s = t mod (24 * hour)
      in format_date t @ ''T'' @ pad_n 2 (s div hour) @ '':'' @ pad_n 2 (s mod hour div minute)
         @ '':'' @ pad_n 2 (s mod minute div second))"

end
