(* ===== verification/Webhook.thy ===== *)
theory Webhook
  imports Worker Calendar
begin

text \<open>
  \<^verbatim>\<open>internal/api/handlers/webhook.go\<close>: the webhook ingestor. The handler reads the clock,
  verifies, parses, inserts the event and offers it to the worker's channel. A body is the
  document it decodes to; \<open>None\<close> stands for a request whose body cannot be read.
\<close>

section \<open>The handler\<close>

definition replayWindowSeconds :: int where
  "replayWindowSeconds = 300"

text \<open>
  \<open>time.Since\<close> saturates at the range of \<open>time.Duration\<close>; the conversion of the seconds to
  \<open>int64\<close> truncates toward zero.
\<close>

definition clip64 :: "int \<Rightarrow> int" where
  "clip64 n = max (- (2 ^ 63)) (min (2 ^ 63 - 1) n)"

definition timestampAge :: "time \<Rightarrow> string \<Rightarrow> int" where
  "timestampAge now ts =
     (case parse_rfc3339 ts of
        None \<Rightarrow> 0
      | Some t \<Rightarrow> let d = clip64 (now - t) in sgn d * (\<bar>d\<bar> div second))"

lemma age_window:
  "timestampAge now ts \<le> replayWindowSeconds \<longleftrightarrow>
     (case parse_rfc3339 ts of None \<Rightarrow> True | Some t \<Rightarrow> now - t < 301 * second)"
proof (cases "parse_rfc3339 ts")
  case (Some t)
  have "sgn (clip64 d) * (\<bar>clip64 d\<bar> div second) \<le> 300 \<longleftrightarrow> d < 301 * second" for d
    by (auto simp: clip64_def second_def sgn_if max_def min_def)
  with Some show ?thesis by (simp add: timestampAge_def replayWindowSeconds_def Let_def)
qed (simp add: timestampAge_def replayWindowSeconds_def)

record 'w webhook_handler =
  wh_prov :: "'w provider"
  wh_webhooks :: "'w webhook_event_store"
  wh_enqueue :: "work_item \<Rightarrow> 'w \<Rightarrow> bool \<times> 'w"

record http_headers =
  HH_signature :: string
  HH_signature_algorithm :: string
  HH_signature_version :: string
  HH_timestamp :: string

definition header_list :: "http_headers \<Rightarrow> (string \<times> string) list" where
  "header_list h = [(''nomba-signature'', HH_signature h),
     (''nomba-signature-algorithm'', HH_signature_algorithm h),
     (''nomba-signature-version'', HH_signature_version h), (''nomba-timestamp'', HH_timestamp h)]"

definition dedupe_key :: "webhook_payload \<Rightarrow> string" where
  "dedupe_key p = PT_TransactionID (WP_Transaction p) @ '':'' @ WP_EventType p"

definition received_event :: "webhook_payload \<Rightarrow> json \<Rightarrow> webhook_event" where
  "received_event p body =
     \<lparr>WE_ID = '''', WE_DedupeKey = dedupe_key p, WE_EventType = WP_EventType p,
      WE_SignatureValid = True, WE_Status = ''received'', WE_Payload = body, WE_CreatedAt = 0,
      WE_ProcessedAt = None\<rparr>"

text \<open>The result is the HTTP status code of the response.\<close>

definition HandleNombaWebhook :: "'w webhook_handler \<Rightarrow> (nat \<Rightarrow> time) \<Rightarrow> http_headers \<Rightarrow> json option
    \<Rightarrow> 'w \<Rightarrow> int \<times> 'w" where
  "HandleNombaWebhook h now headers request w =
     (case request of
        None \<Rightarrow> (400, w)
      | Some body \<Rightarrow>
     (case pv_VerifyWebhookSignature (wh_prov h) (header_list headers) body w of
        Some err \<Rightarrow> (401, w)
      | None \<Rightarrow>
          if HH_timestamp headers \<noteq> '''' \<and>
             timestampAge (now 0) (HH_timestamp headers) > replayWindowSeconds
          then (401, w)
          else case pv_ParseWebhook (wh_prov h) (now 1) body w of
            Inl err \<Rightarrow> (200, w)
          | Inr payload \<Rightarrow>
              (case ws_InsertWebhookEvent (wh_webhooks h) (now 2) (received_event payload body) w of
                 (Inl err, w) \<Rightarrow> (500, w)
               | (Inr (inserted, evt), w) \<Rightarrow>
                   if \<not> inserted then (200, w)
                   else (200, snd (wh_enqueue h
                          \<lparr>WI_WebhookEventID = WE_ID evt, WI_Payload = payload,
                           WI_Source = ''webhook''\<rparr> w)))))"

section \<open>Over the in-memory stores\<close>

definition mem_enqueue :: "nat \<Rightarrow> work_item \<Rightarrow> mem \<Rightarrow> bool \<times> mem" where
  "mem_enqueue cap item w =
     (let (ok, rt) = Enqueue cap item (mem_rt w) in (ok, w\<lparr>mem_rt := rt\<rparr>))"

definition mem_webhook_handler :: "go_order \<Rightarrow> nat \<Rightarrow> mem webhook_handler" where
  "mem_webhook_handler g cap = \<lparr>wh_prov = fake_provider g,
     wh_webhooks = mem_webhook_event_store g, wh_enqueue = mem_enqueue cap\<rparr>"

lemma webhook_leaves:
  assumes "\<And>now evt. leaves v (ws_InsertWebhookEvent (wh_webhooks h) now evt)"
    and "\<And>item. leaves v (wh_enqueue h item)"
  shows "leaves v (HandleNombaWebhook h now hs request)"
  by (rule leavesI)
    (auto simp: HandleNombaWebhook_def Let_def leavesD [OF assms(2)] dest!: assms [THEN leaves_pair]
      split: sum.splits option.splits prod.splits if_splits)

section \<open>The gate of the webhook\<close>

text \<open>
  The webhook handler lets nothing through that is not authentic and fresh. A body that cannot
  be read gets 400, a request whose signature the provider rejects, or whose timestamp is more than
  five minutes old, gets 401, and in these cases nothing at all is changed; every other request is
  answered 200, or 500 when the event could not be stored.
\<close>

lemma webhook_gate:
  "case request of
     None \<Rightarrow> HandleNombaWebhook h now headers request w = (400, w)
   | Some body \<Rightarrow>
       if pv_VerifyWebhookSignature (wh_prov h) (header_list headers) body w \<noteq> None \<or>
          HH_timestamp headers \<noteq> '''' \<and> 300 < timestampAge (now 0) (HH_timestamp headers)
       then HandleNombaWebhook h now headers request w = (401, w)
       else fst (HandleNombaWebhook h now headers request w) \<in> {200, 500}"
  by (auto simp: HandleNombaWebhook_def replayWindowSeconds_def Let_def
      split: option.splits sum.splits prod.splits)

lemma mem_webhook_fresh:
  assumes "fake_ParseWebhook (now 1) body = Inr p" and "HH_timestamp headers = ''''"
  shows "HandleNombaWebhook (mem_webhook_handler g cap) now headers (Some body) w =
      (case mem_InsertWebhookEvent (now 2) (received_event p body) w of
         (Inl err, v) \<Rightarrow> (500, v)
       | (Inr (inserted, evt), v) \<Rightarrow>
           if \<not> inserted then (200, v)
           else (200, snd (mem_enqueue cap \<lparr>WI_WebhookEventID = WE_ID evt, WI_Payload = p,
                             WI_Source = ''webhook''\<rparr> v)))"
  using assms
  by (simp add: HandleNombaWebhook_def mem_webhook_handler_def fake_provider_def
      mem_webhook_event_store_def split: sum.splits prod.splits)



end
