(* ===== verification/Sweep.thy ===== *)
theory Sweep
  imports Worker
begin

text \<open>
  \<^verbatim>\<open>internal/recon/sweep.go\<close>: the sweep over the provider's transaction list. The loop over
  the pages follows cursors until the provider returns an empty one; since the provider
  decides when that happens, the loop takes fuel and yields \<open>None\<close> when it runs out. The
  clock argument gives each processed item its own readings.
\<close>

section \<open>Operations\<close>

record 'w sweep_runner =
  sr_prov :: "'w provider"
  sr_txns :: "'w transaction_store"
  sr_sweeps :: "'w sweep_store"
  sr_worker :: "'w worker"
  sr_interval :: duration
  sr_overlap :: duration

record sweep_result =
  SR_WindowFrom :: time
  SR_WindowTo :: time
  SR_PagesFetched :: int
  SR_Found :: int
  SR_Posted :: int
  SR_Suspensed :: int
  SR_Skipped :: int
  SR_DurationMS :: int

definition computeWindowFrom :: "'w sweep_runner \<Rightarrow> time \<Rightarrow> 'w \<Rightarrow> go_error + time" where
  "computeWindowFrom s now w =
     (case sw_GetLastSweepTime (sr_sweeps s) w of
        Inl err \<Rightarrow> Inl err
      | Inr lst \<Rightarrow> if IsZero lst then Inr (now + - (sr_interval s + sr_overlap s))
                  else Inr (lst + - sr_overlap s))"

definition buildWorkItem :: "provider_tx \<Rightarrow> work_item" where
  "buildWorkItem pt =
     (let raw = json_of_pt pt; pt = pt\<lparr>PT_Raw := raw\<rparr>
      in \<lparr>WI_WebhookEventID = '''',
          WI_Payload = \<lparr>WP_EventType = ''payment_success'', WP_Transaction = pt, WP_Raw = raw\<rparr>,
          WI_Source = ''sweep''\<rparr>)"

definition requery_if_bare :: "'w sweep_runner \<Rightarrow> provider_tx \<Rightarrow> 'w \<Rightarrow> provider_tx \<times> 'w" where
  "requery_if_bare s pt w =
     (if PT_AccountNumber pt = '''' \<and> PT_AccountRef pt = '''' \<and> PT_SessionID pt \<noteq> ''''
      then (case pv_Requery (sr_prov s) (PT_SessionID pt) w of
              (Inl err, w) \<Rightarrow> (pt, w)
            | (Inr requeried, w) \<Rightarrow> (requeried, w))
      else (pt, w))"

definition tally :: "process_result \<Rightarrow> sweep_result \<Rightarrow> sweep_result" where
  "tally res r =
     (if PR_Skipped res then r\<lparr>SR_Skipped := SR_Skipped r + 1\<rparr>
      else if PR_Suspensed res
      then r\<lparr>SR_Suspensed := SR_Suspensed r + 1, SR_Posted := SR_Posted r + 1\<rparr>
      else if PR_Posted res then r\<lparr>SR_Posted := SR_Posted r + 1\<rparr>
      else r)"

text \<open>The body of the inner loop, and the loop over one page.\<close>

definition sweep_item :: "'w sweep_runner \<Rightarrow> (nat \<Rightarrow> time) \<Rightarrow> provider_tx
    \<Rightarrow> sweep_result \<times> 'w \<Rightarrow> sweep_result \<times> 'w" where
  "sweep_item s now pt st =
     (let (r, w) = st;
          (pt, w) = requery_if_bare s pt w
      in case ProcessDirect (sr_worker s) now (buildWorkItem pt) w of
           (Inl err, w) \<Rightarrow> (r, w)
         | (Inr res, w) \<Rightarrow> (tally res r, w))"

fun sweep_items :: "'w sweep_runner \<Rightarrow> (nat \<Rightarrow> nat \<Rightarrow> time) \<Rightarrow> provider_tx list
    \<Rightarrow> sweep_result \<times> 'w \<Rightarrow> sweep_result \<times> 'w" where
  "sweep_items s clk [] st = st"
| "sweep_items s clk (pt # pts) st =
     sweep_items s (\<lambda>n. clk (Suc n)) pts (sweep_item s (clk 0) pt st)"

fun sweep_pages :: "'w sweep_runner \<Rightarrow> nat \<Rightarrow> (nat \<Rightarrow> nat \<Rightarrow> time) \<Rightarrow> time \<Rightarrow> time \<Rightarrow> string
    \<Rightarrow> sweep_result \<times> 'w \<Rightarrow> (go_error option \<times> sweep_result \<times> 'w) option" where
  "sweep_pages s 0 clk windowFrom windowTo cursor st = None"
| "sweep_pages s (Suc fuel) clk windowFrom windowTo cursor st =
     (let (r, w) = st
      in case pv_ListTransactions (sr_prov s)
              \<lparr>LTR_DateFrom = windowFrom, LTR_DateTo = windowTo, LTR_Cursor = cursor,
               LTR_PageSize = 100, LTR_VirtualAccount = ''''\<rparr> w of
           (Inl err, w) \<Rightarrow> Some (Some (Wrap ''list transactions'' err), r, w)
         | (Inr page, w) \<Rightarrow>
             let pts = TP_Transactions page;
                 r = r\<lparr>SR_PagesFetched := SR_PagesFetched r + 1,
                       SR_Found := SR_Found r + int (length pts)\<rparr>;
                 (r, w) = sweep_items s clk pts (r, w)
             in if TP_NextCursor page = '''' then Some (None, r, w)
                else sweep_pages s fuel (\<lambda>n. clk (length pts + n)) windowFrom windowTo
                       (TP_NextCursor page) (r, w))"

text \<open>
  \<open>Run\<close>: \<open>start\<close> and \<open>finish\<close> are the two clock readings of the function itself, \<open>fin\<close> the one
  of the run log. The override is the optional variadic argument.
\<close>

definition sweep_window :: "'w sweep_runner \<Rightarrow> time \<Rightarrow> time option \<Rightarrow> 'w \<Rightarrow> go_error + time" where
  "sweep_window s start overrideFrom w =
     (case overrideFrom of
        Some t \<Rightarrow> if \<not> IsZero t then Inr t
                  else (case computeWindowFrom s start w of
                          Inl err \<Rightarrow> Inl (Wrap ''sweep: compute window'' err) | Inr t \<Rightarrow> Inr t)
      | None \<Rightarrow> (case computeWindowFrom s start w of
                  Inl err \<Rightarrow> Inl (Wrap ''sweep: compute window'' err) | Inr t \<Rightarrow> Inr t))"

definition start_result :: "time \<Rightarrow> time \<Rightarrow> sweep_result" where
  "start_result windowFrom windowTo =
     \<lparr>SR_WindowFrom = windowFrom, SR_WindowTo = windowTo, SR_PagesFetched = 0, SR_Found = 0,
      SR_Posted = 0, SR_Suspensed = 0, SR_Skipped = 0, SR_DurationMS = 0\<rparr>"

definition run_log :: "sweep_result \<Rightarrow> go_error option \<Rightarrow> sweep_run" where
  "run_log r runErr =
     \<lparr>Run_ID = '''', Run_WindowFrom = SR_WindowFrom r, Run_WindowTo = SR_WindowTo r,
      Run_PagesFetched = SR_PagesFetched r, Run_Found = SR_Found r, Run_Posted = SR_Posted r,
      Run_Suspensed = SR_Suspensed r, Run_DurationMS = Some (SR_DurationMS r),
      Run_Error = map_option error_string runErr, Run_RanAt = 0\<rparr>"

definition sweep_Run :: "'w sweep_runner \<Rightarrow> nat \<Rightarrow> time \<Rightarrow> time \<Rightarrow> (nat \<Rightarrow> nat \<Rightarrow> time)
    \<Rightarrow> time option \<Rightarrow> 'w \<Rightarrow> ((sweep_result option \<times> go_error option) \<times> 'w) option" where
  "sweep_Run s fuel start finish clk overrideFrom w =
     (case sweep_window s start overrideFrom w of
        Inl err \<Rightarrow> Some ((None, Some err), w)
      | Inr windowFrom \<Rightarrow>
          (case sweep_pages s fuel clk windowFrom start '''' (start_result windowFrom start, w) of
             None \<Rightarrow> None
           | Some (runErr, r, w) \<Rightarrow>
               let r = r\<lparr>SR_DurationMS := (finish - start) div 1000000\<rparr>;
                   w = snd (sw_CreateSweepRun (sr_sweeps s) finish (run_log r runErr) w)
               in Some ((Some r, runErr), w)))"

section \<open>Termination of the page loop\<close>

text \<open>
  More fuel never changes a result, and when the provider's cursors decrease along some rank
  (a provider that pages through a finite list does) the loop ends within that rank.
\<close>

lemma sweep_pages_mono:
  "sweep_pages s fuel clk a b c st = Some res \<Longrightarrow> fuel \<le> fuel' \<Longrightarrow>
     sweep_pages s fuel' clk a b c st = Some res"
proof (induction fuel arbitrary: fuel' clk c st)
  case (Suc fuel)
  obtain f' where f: "fuel' = Suc f'" "fuel \<le> f'" using Suc.prems(2) by (cases fuel') auto
  obtain r w where st: "st = (r, w)" by fastforce
  let ?req = "\<lparr>LTR_DateFrom = a, LTR_DateTo = b, LTR_Cursor = c, LTR_PageSize = 100,
               LTR_VirtualAccount = ''''\<rparr>"
  obtain p w1 where lst: "pv_ListTransactions (sr_prov s) ?req w = (p, w1)" by fastforce
  show ?case
  proof (cases p)
    case (Inl err)
    with Suc.prems(1) lst st f(1) show ?thesis by simp
  next
    case (Inr page)
    obtain r2 w2 where it: "sweep_items s clk (TP_Transactions page)
        (r\<lparr>SR_PagesFetched := SR_PagesFetched r + 1,
           SR_Found := SR_Found r + int (length (TP_Transactions page))\<rparr>, w1) = (r2, w2)"
      by fastforce
    from Suc.prems(1) lst st f(1) Inr it show ?thesis
      by (auto simp: Let_def intro: Suc.IH [OF _ f(2)] split: if_splits)
  qed
qed simp

definition cursors_decrease :: "'w provider \<Rightarrow> (string \<Rightarrow> nat) \<Rightarrow> bool" where
  "cursors_decrease p rank \<longleftrightarrow>
     (\<forall>req w page w'. pv_ListTransactions p req w = (Inr page, w') \<longrightarrow> TP_NextCursor page \<noteq> '''' \<longrightarrow>
        rank (TP_NextCursor page) < rank (LTR_Cursor req))"

lemma sweep_pages_ends:
  assumes dec: "cursors_decrease (sr_prov s) rank"
  shows "rank c < fuel \<Longrightarrow> \<exists>res. sweep_pages s fuel clk a b c st = Some res"
proof (induction fuel arbitrary: clk c st)
  case (Suc fuel)
  let ?req = "\<lparr>LTR_DateFrom = a, LTR_DateTo = b, LTR_Cursor = c, LTR_PageSize = 100,
               LTR_VirtualAccount = ''''\<rparr>"
  obtain r w where st: "st = (r, w)" by fastforce
  obtain p w1 where lst: "pv_ListTransactions (sr_prov s) ?req w = (p, w1)" by fastforce
  show ?case
  proof (cases p)
    case (Inl err)
    with lst st show ?thesis by simp
  next
    case (Inr page)
    show ?thesis
    proof (cases "TP_NextCursor page = ''''")
      case True
      with lst st Inr show ?thesis by (simp add: Let_def split: prod.splits)
    next
      case False
      with dec lst Inr have "rank (TP_NextCursor page) < rank (LTR_Cursor ?req)"
        unfolding cursors_decrease_def by blast
      then have "rank (TP_NextCursor page) < rank c" by simp
      with Suc.prems have "rank (TP_NextCursor page) < fuel" by simp
      from Suc.IH [OF this] lst st Inr False show ?thesis
        by (simp add: Let_def split: prod.splits)
    qed
  qed
qed simp

section \<open>What a sweep does to the ledger\<close>

text \<open>How far one run has got: the counts against the number of posted transactions.\<close>

definition counts_ok :: "nat \<Rightarrow> nat \<Rightarrow> nat \<Rightarrow> sweep_result \<Rightarrow> sweep_result \<Rightarrow> bool" where
  "counts_ok items before after r r' \<longleftrightarrow>
     SR_Posted r' - SR_Posted r = int after - int before \<and>
     SR_Posted r' + SR_Skipped r' - (SR_Posted r + SR_Skipped r) \<le> int items \<and>
     SR_Skipped r \<le> SR_Skipped r' \<and> SR_Posted r \<le> SR_Posted r' \<and>
     SR_Suspensed r' - SR_Suspensed r \<le> SR_Posted r' - SR_Posted r \<and>
     SR_Suspensed r \<le> SR_Suspensed r'"

lemma counts_ok_refl: "counts_ok 0 n n r r"
  by (simp add: counts_ok_def)

lemma counts_ok_trans:
  "counts_ok i a b r r' \<Longrightarrow> counts_ok j b c r' r'' \<Longrightarrow> counts_ok (i + j) a c r r''"
  by (simp add: counts_ok_def)

lemma tally_counts [simp]:
  "SR_PagesFetched (tally res r) = SR_PagesFetched r" "SR_Found (tally res r) = SR_Found r"
  "SR_WindowFrom (tally res r) = SR_WindowFrom r" "SR_WindowTo (tally res r) = SR_WindowTo r"
  by (simp_all add: tally_def)

lemma buildWorkItem_sels [simp]:
  "WP_EventType (WI_Payload (buildWorkItem pt)) = ''payment_success''"
  "PT_TransactionID (WP_Transaction (WI_Payload (buildWorkItem pt))) = PT_TransactionID pt"
  "PT_AmountKobo (WP_Transaction (WI_Payload (buildWorkItem pt))) = PT_AmountKobo pt"
  by (simp_all add: buildWorkItem_def Let_def)

lemma card_fmdom_upd: "fmlookup m i = None \<Longrightarrow> card (fmdom' (fmupd i t m)) = Suc (card (fmdom' m))"
  by (simp add: fmlookup_dom'_iff)

locale sweep_ledger = recon_ledger X txns entries wk
  for X :: "'w transaction_store" and txns entries and wk :: "'w worker" +
  fixes s :: "'w sweep_runner"
  assumes worker: "sr_worker s = wk"
    and list_leaves: "leaves (\<lambda>w. (txns w, entries w)) (pv_ListTransactions (sr_prov s) req)"
    and requery_leaves: "leaves (\<lambda>w. (txns w, entries w)) (pv_Requery (sr_prov s) sid)"
    and log_leaves: "leaves (\<lambda>w. (txns w, entries w)) (sw_CreateSweepRun (sr_sweeps s) now run)"
begin

lemma requery_view:
  "requery_if_bare s pt w = (pt', w') \<Longrightarrow> txns w' = txns w \<and> entries w' = entries w"
  using leavesD [OF requery_leaves, of "PT_SessionID pt" w]
  by (auto simp: requery_if_bare_def split: if_splits prod.splits sum.splits)

lemma sweep_item_step:
  assumes "sweep_item s now pt (r, w) = (r', w')"
  shows "ledger_step (txns w, entries w) (txns w', entries w')"
    and "counts_ok 1 (card (fmdom' (txns w))) (card (fmdom' (txns w'))) r r'"
proof -
  obtain pt1 w1 where rq: "requery_if_bare s pt w = (pt1, w1)" by fastforce
  obtain res w2 where pd: "ProcessDirect wk now (buildWorkItem pt1) w1 = (res, w2)" by fastforce
  have w2: "w' = w2" and r': "r' = (case res of Inl err \<Rightarrow> r | Inr pr \<Rightarrow> tally pr r)"
    using assms rq pd by (auto simp: sweep_item_def worker split: sum.splits)
  have same: "txns w1 = txns w" "entries w1 = entries w" using requery_view [OF rq] by simp_all
  from ProcessDirect_step [OF pd] show "ledger_step (txns w, entries w) (txns w', entries w')"
    by (simp add: same w2)
  show "counts_ok 1 (card (fmdom' (txns w))) (card (fmdom' (txns w'))) r r'"
  proof (cases res)
    case (Inl err)
    with ProcessDirect_card [OF pd] r' show ?thesis by (simp add: counts_ok_def same w2)
  next
    case (Inr pr)
    with ProcessDirect_card [OF pd] ProcessDirect_credit [of now "buildWorkItem pt1" w1 pr w2] pd r'
    show ?thesis by (auto simp: counts_ok_def tally_def same w2)
  qed
qed

lemma sweep_items_steps:
  "sweep_items s clk pts (r, w) = (r', w') \<Longrightarrow>
     ledger_steps (txns w, entries w) (txns w', entries w') \<and>
     counts_ok (length pts) (card (fmdom' (txns w))) (card (fmdom' (txns w'))) r r'"
proof (induction pts arbitrary: clk r w)
  case Nil
  then show ?case by (simp add: counts_ok_refl)
next
  case (Cons pt pts)
  obtain r1 w1 where one: "sweep_item s (clk 0) pt (r, w) = (r1, w1)" by fastforce
  from Cons.prems one have "sweep_items s (\<lambda>n. clk (Suc n)) pts (r1, w1) = (r', w')" by simp
  from Cons.IH [OF this] sweep_item_step [OF one] show ?case
    using counts_ok_trans [of 1 _ _ r r1 "length pts"]
    by (auto intro: ledger_steps_trans ledger_step_steps)
qed

end

context sweep_ledger
begin

lemma sweep_items_found:
  "sweep_items s clk pts (r, w) = (r', w') \<Longrightarrow>
     SR_Found r' = SR_Found r \<and> SR_WindowFrom r' = SR_WindowFrom r \<and> SR_WindowTo r' = SR_WindowTo r"
proof (induction pts arbitrary: clk r w)
  case (Cons pt pts)
  obtain r1 w1 where one: "sweep_item s (clk 0) pt (r, w) = (r1, w1)" by fastforce
  from Cons.prems one have rest: "sweep_items s (\<lambda>n. clk (Suc n)) pts (r1, w1) = (r', w')" by simp
  from one have "SR_Found r1 = SR_Found r \<and> SR_WindowFrom r1 = SR_WindowFrom r \<and>
      SR_WindowTo r1 = SR_WindowTo r"
    by (auto simp: sweep_item_def split: prod.splits sum.splits)
  with Cons.IH [OF rest] show ?case by simp
qed simp

lemma sweep_pages_steps:
  "sweep_pages s fuel clk a b c (r, w) = Some (e, r', w') \<Longrightarrow>
     ledger_steps (txns w, entries w) (txns w', entries w') \<and>
     (\<exists>n. int n = SR_Found r' - SR_Found r \<and>
          counts_ok n (card (fmdom' (txns w))) (card (fmdom' (txns w'))) r r') \<and>
     SR_WindowFrom r' = SR_WindowFrom r \<and> SR_WindowTo r' = SR_WindowTo r"
proof (induction fuel arbitrary: clk c r w)
  case (Suc fuel)
  let ?req = "\<lparr>LTR_DateFrom = a, LTR_DateTo = b, LTR_Cursor = c, LTR_PageSize = 100,
               LTR_VirtualAccount = ''''\<rparr>"
  obtain p w1 where lst: "pv_ListTransactions (sr_prov s) ?req w = (p, w1)" by fastforce
  with leavesD [OF list_leaves, of ?req w] have same: "txns w1 = txns w" "entries w1 = entries w"
    by simp_all
  show ?case
  proof (cases p)
    case (Inl err)
    with Suc.prems lst same show ?thesis by (auto intro: exI [of _ 0] simp: counts_ok_refl)
  next
    case (Inr page)
    let ?pts = "TP_Transactions page"
    let ?r = "r\<lparr>SR_PagesFetched := SR_PagesFetched r + 1, SR_Found := SR_Found r + int (length ?pts)\<rparr>"
    obtain r2 w2 where it: "sweep_items s clk ?pts (?r, w1) = (r2, w2)" by fastforce
    note st = sweep_items_steps [OF it] sweep_items_found [OF it]
    have one: "ledger_steps (txns w, entries w) (txns w2, entries w2) \<and>
      counts_ok (length ?pts) (card (fmdom' (txns w))) (card (fmdom' (txns w2))) r r2 \<and>
      SR_Found r2 = SR_Found r + int (length ?pts)"
      using st by (simp add: counts_ok_def same)
    show ?thesis
    proof (cases "TP_NextCursor page = ''''")
      case True
      with Suc.prems lst Inr it have "r' = r2 \<and> w' = w2" by (simp add: Let_def)
      with one st show ?thesis by (auto intro: exI [of _ "length ?pts"])
    next
      case False
      with Suc.prems lst Inr it have "sweep_pages s fuel (\<lambda>n. clk (length ?pts + n)) a b
          (TP_NextCursor page) (r2, w2) = Some (e, r', w')" by (simp add: Let_def)
      from Suc.IH [OF this] obtain n where n: "int n = SR_Found r' - SR_Found r2"
        "counts_ok n (card (fmdom' (txns w2))) (card (fmdom' (txns w'))) r2 r'"
        "ledger_steps (txns w2, entries w2) (txns w', entries w')"
        "SR_WindowFrom r' = SR_WindowFrom r2 \<and> SR_WindowTo r' = SR_WindowTo r2" by blast
      have "counts_ok (length ?pts + n) (card (fmdom' (txns w))) (card (fmdom' (txns w'))) r r'"
        using counts_ok_trans one n(2) by blast
      moreover have "int (length ?pts + n) = SR_Found r' - SR_Found r" using one n(1) by simp
      moreover have "ledger_steps (txns w, entries w) (txns w', entries w')"
        using one n(3) by (blast intro: ledger_steps_trans)
      moreover have "SR_WindowFrom r' = SR_WindowFrom r \<and> SR_WindowTo r' = SR_WindowTo r"
        using n(4) st by simp
      ultimately show ?thesis by blast
    qed
  qed
qed simp

lemma sweep_Run_steps:
  assumes "sweep_Run s fuel start finish clk ov w = Some ((r, e), w')"
  shows "ledger_steps (txns w, entries w) (txns w', entries w')"
    and "r = Some rs \<Longrightarrow> SR_WindowTo rs = start \<and>
           SR_Posted rs = int (card (fmdom' (txns w'))) - int (card (fmdom' (txns w))) \<and>
           0 \<le> SR_Skipped rs \<and> 0 \<le> SR_Suspensed rs \<and> SR_Suspensed rs \<le> SR_Posted rs \<and>
           SR_Posted rs + SR_Skipped rs \<le> SR_Found rs"
proof -
  have *: "ledger_steps (txns w, entries w) (txns w', entries w') \<and>
    (\<forall>rs. r = Some rs \<longrightarrow> SR_WindowTo rs = start \<and>
       SR_Posted rs = int (card (fmdom' (txns w'))) - int (card (fmdom' (txns w))) \<and>
       0 \<le> SR_Skipped rs \<and> 0 \<le> SR_Suspensed rs \<and> SR_Suspensed rs \<le> SR_Posted rs \<and>
       SR_Posted rs + SR_Skipped rs \<le> SR_Found rs)"
  proof (cases "sweep_window s start ov w")
    case (Inl err)
    with assms show ?thesis by (auto simp: sweep_Run_def)
  next
    case (Inr from_t)
    with assms obtain r1 w1 where pg: "sweep_pages s fuel clk from_t start ''''
        (start_result from_t start, w) = Some (e, r1, w1)"
      and r: "r = Some (r1\<lparr>SR_DurationMS := (finish - start) div 1000000\<rparr>)"
      and w': "txns w' = txns w1" "entries w' = entries w1"
      using leavesD [OF log_leaves]
      by (auto simp: sweep_Run_def Let_def split: option.splits)
    from sweep_pages_steps [OF pg] show ?thesis
      by (auto simp: r w' start_result_def counts_ok_def)
  qed
  then show "ledger_steps (txns w, entries w) (txns w', entries w')" by simp
  from * show "r = Some rs \<Longrightarrow> SR_WindowTo rs = start \<and>
     SR_Posted rs = int (card (fmdom' (txns w'))) - int (card (fmdom' (txns w))) \<and>
     0 \<le> SR_Skipped rs \<and> 0 \<le> SR_Suspensed rs \<and> SR_Suspensed rs \<le> SR_Posted rs \<and>
     SR_Posted rs + SR_Skipped rs \<le> SR_Found rs" by blast
qed

text \<open>
  A listed transaction that the worker can process without an error is in the ledger when
  the page is done.
\<close>

lemma sweep_items_keep:
  "sweep_items s clk pts (r, w) = (r', w') \<Longrightarrow> fmlookup (txns w) i \<noteq> None \<Longrightarrow>
     fmlookup (txns w') i \<noteq> None"
  using sweep_items_steps [of clk pts r w r' w'] ledger_steps_keeps by fastforce

lemma sweep_items_present:
  assumes "sweep_items s clk pts (r, w) = (r', w')" and "pt \<in> set pts"
    and bare: "\<not> (PT_AccountNumber pt = '''' \<and> PT_AccountRef pt = '''' \<and> PT_SessionID pt \<noteq> '''')"
    and ok: "\<And>now v. \<exists>pr v'. ProcessDirect wk now (buildWorkItem pt) v = (Inr pr, v')"
  shows "fmlookup (txns w') (PT_TransactionID pt) \<noteq> None"
  using assms(1,2)
proof (induction pts arbitrary: clk r w)
  case (Cons q pts)
  obtain r1 w1 where one: "sweep_item s (clk 0) q (r, w) = (r1, w1)" by fastforce
  from Cons.prems(1) one have rest: "sweep_items s (\<lambda>n. clk (Suc n)) pts (r1, w1) = (r', w')" by simp
  show ?case
  proof (cases "pt = q")
    case True
    obtain pr v' where pd: "ProcessDirect wk (clk 0) (buildWorkItem pt) w = (Inr pr, v')"
      using ok by blast
    with one bare True have "w1 = v'" by (auto simp: sweep_item_def requery_if_bare_def worker)
    with ProcessDirect_credit(1) [OF pd] have "fmlookup (txns w1) (PT_TransactionID pt) \<noteq> None" by simp
    then show ?thesis by (rule sweep_items_keep [OF rest])
  next
    case False
    with Cons.prems(2) have "pt \<in> set pts" by simp
    with Cons.IH [OF rest] show ?thesis by blast
  qed
qed simp

end

context sweep_ledger
begin

lemma sweep_item_known:
  assumes "sweep_item s now pt (r, w) = (r', w')" and "fmlookup (txns w) (PT_TransactionID pt) \<noteq> None"
    and "\<not> (PT_AccountNumber pt = '''' \<and> PT_AccountRef pt = '''' \<and> PT_SessionID pt \<noteq> '''')"
  shows "w' = w \<and> SR_Posted r' = SR_Posted r"
proof -
  obtain t where t: "fmlookup (txns w) (PT_TransactionID pt) = Some t" using assms(2) by auto
  obtain res v where pd: "ProcessDirect wk now (buildWorkItem pt) w = (res, v)" by fastforce
  with ProcessDirect_present [of w "buildWorkItem pt" t now res v] t assms show ?thesis
    by (auto simp: sweep_item_def requery_if_bare_def worker tally_def zero_result_def
        split: sum.splits if_splits)
qed

lemma sweep_items_known:
  assumes "sweep_items s clk pts (r, w) = (r', w')"
    and "\<forall>pt \<in> set pts. fmlookup (txns w) (PT_TransactionID pt) \<noteq> None \<and>
      \<not> (PT_AccountNumber pt = '''' \<and> PT_AccountRef pt = '''' \<and> PT_SessionID pt \<noteq> '''')"
  shows "w' = w \<and> SR_Posted r' = SR_Posted r"
  using assms
proof (induction pts arbitrary: clk r)
  case (Cons pt pts)
  obtain r1 w1 where one: "sweep_item s (clk 0) pt (r, w) = (r1, w1)" by fastforce
  with sweep_item_known [OF one] Cons.prems Cons.IH [of "\<lambda>n. clk (Suc n)" r1] show ?case by auto
qed simp

end

section \<open>What a sweep has seen\<close>

text \<open>
  The transactions that a run gets to see, as they are after the query for a bare one, page by page
  until the listing ends or fails: a reading of the loops above, not part of the program.
\<close>

fun items_seen :: "'w sweep_runner \<Rightarrow> (nat \<Rightarrow> nat \<Rightarrow> time) \<Rightarrow> provider_tx list
    \<Rightarrow> sweep_result \<times> 'w \<Rightarrow> provider_tx list" where
  "items_seen s clk [] st = []"
| "items_seen s clk (pt # pts) st =
     fst (requery_if_bare s pt (snd st)) # items_seen s (\<lambda>n. clk (Suc n)) pts (sweep_item s (clk 0) pt st)"

fun pages_seen :: "'w sweep_runner \<Rightarrow> nat \<Rightarrow> (nat \<Rightarrow> nat \<Rightarrow> time) \<Rightarrow> time \<Rightarrow> time \<Rightarrow> string
    \<Rightarrow> sweep_result \<times> 'w \<Rightarrow> provider_tx list" where
  "pages_seen s 0 clk windowFrom windowTo cursor st = []"
| "pages_seen s (Suc fuel) clk windowFrom windowTo cursor st =
     (case pv_ListTransactions (sr_prov s)
              \<lparr>LTR_DateFrom = windowFrom, LTR_DateTo = windowTo, LTR_Cursor = cursor,
               LTR_PageSize = 100, LTR_VirtualAccount = ''''\<rparr> (snd st) of
        (Inl err, w) \<Rightarrow> []
      | (Inr page, w) \<Rightarrow>
          (let pts = TP_Transactions page;
               r = (fst st)\<lparr>SR_PagesFetched := SR_PagesFetched (fst st) + 1,
                            SR_Found := SR_Found (fst st) + int (length pts)\<rparr>
           in items_seen s clk pts (r, w) @
              (if TP_NextCursor page = '''' then []
               else pages_seen s fuel (\<lambda>n. clk (length pts + n)) windowFrom windowTo
                      (TP_NextCursor page) (sweep_items s clk pts (r, w)))))"

definition missing :: "(string, transaction) fmap \<Rightarrow> provider_tx list \<Rightarrow> provider_tx list" where
  "missing m pts = filter (\<lambda>pt. fmlookup m (PT_TransactionID pt) = None) pts"

lemma missing_simps [simp]:
  "missing m [] = []" "missing m (xs @ ys) = missing m xs @ missing m ys"
  "missing m (pt # pts) = (if fmlookup m (PT_TransactionID pt) = None then pt # missing m pts else missing m pts)"
  by (simp_all add: missing_def)

lemma missing_mono:
  assumes "\<And>i. fmlookup m i \<noteq> None \<Longrightarrow> fmlookup m' i \<noteq> None"
  shows "length (missing m' pts) \<le> length (missing m pts)"
  unfolding missing_def
proof (induction pts)
  case (Cons pt pts)
  with assms [of "PT_TransactionID pt"] show ?case by (cases "fmlookup m (PT_TransactionID pt)") auto
qed simp

context sweep_ledger
begin

lemma sweep_item_missing:
  assumes "sweep_item s now pt (r, w) = (r', w')"
  shows "SR_Found r' = SR_Found r \<and>
    int (length (missing (txns w') [fst (requery_if_bare s pt w)])) \<le>
      1 - (SR_Posted r' + SR_Skipped r' - SR_Posted r - SR_Skipped r)"
proof -
  obtain pt1 w1 where rq: "requery_if_bare s pt w = (pt1, w1)" by fastforce
  obtain res w2 where pd: "ProcessDirect wk now (buildWorkItem pt1) w1 = (res, w2)" by fastforce
  have r': "r' = (case res of Inl err \<Rightarrow> r | Inr pr \<Rightarrow> tally pr r)" "w' = w2"
    using assms rq pd by (auto simp: sweep_item_def worker split: sum.splits)
  show ?thesis
  proof (cases res)
    case (Inr pr)
    with ProcessDirect_credit [of now "buildWorkItem pt1" w1 pr w2] pd r' rq
    show ?thesis by (auto simp: tally_def)
  qed (use r' in simp)
qed

lemma sweep_items_missing:
  "sweep_items s clk pts (r, w) = (r', w') \<Longrightarrow>
     int (length (missing (txns w') (items_seen s clk pts (r, w)))) \<le>
       int (length pts) - (SR_Posted r' + SR_Skipped r' - SR_Posted r - SR_Skipped r)"
proof (induction pts arbitrary: clk r w)
  case (Cons pt pts)
  obtain r1 w1 where one: "sweep_item s (clk 0) pt (r, w) = (r1, w1)" by fastforce
  from Cons.prems one have rest: "sweep_items s (\<lambda>n. clk (Suc n)) pts (r1, w1) = (r', w')" by simp
  have "length (missing (txns w') [fst (requery_if_bare s pt w)]) \<le>
      length (missing (txns w1) [fst (requery_if_bare s pt w)])"
    by (rule missing_mono) (rule sweep_items_keep [OF rest])
  with sweep_item_missing [OF one] Cons.IH [OF rest] one show ?case
    by (auto split: if_splits)
qed simp

lemma sweep_pages_missing:
  "sweep_pages s fuel clk a b c (r, w) = Some (e, r', w') \<Longrightarrow>
     int (length (missing (txns w') (pages_seen s fuel clk a b c (r, w)))) \<le>
       (SR_Found r' - SR_Found r) - (SR_Posted r' + SR_Skipped r' - SR_Posted r - SR_Skipped r)"
proof (induction fuel arbitrary: clk c r w)
  case (Suc fuel)
  let ?req = "\<lparr>LTR_DateFrom = a, LTR_DateTo = b, LTR_Cursor = c, LTR_PageSize = 100,
               LTR_VirtualAccount = ''''\<rparr>"
  obtain p w1 where lst: "pv_ListTransactions (sr_prov s) ?req w = (p, w1)" by fastforce
  show ?case
  proof (cases p)
    case (Inl err)
    with Suc.prems lst show ?thesis by auto
  next
    case (Inr page)
    let ?pts = "TP_Transactions page"
    let ?r = "r\<lparr>SR_PagesFetched := SR_PagesFetched r + 1, SR_Found := SR_Found r + int (length ?pts)\<rparr>"
    obtain r2 w2 where it: "sweep_items s clk ?pts (?r, w1) = (r2, w2)" by fastforce
    note first = sweep_items_missing [OF it] sweep_items_found [OF it]
    show ?thesis
    proof (cases "TP_NextCursor page = ''''")
      case True
      with Suc.prems lst Inr it have "r' = r2 \<and> w' = w2" by (simp add: Let_def)
      with first lst Inr it True show ?thesis by (simp add: Let_def)
    next
      case False
      with Suc.prems lst Inr it have rest: "sweep_pages s fuel (\<lambda>n. clk (length ?pts + n)) a b
          (TP_NextCursor page) (r2, w2) = Some (e, r', w')" by (simp add: Let_def)
      have "length (missing (txns w') pts) \<le> length (missing (txns w2) pts)" for pts
        using sweep_pages_steps [OF rest] ledger_steps_keeps by (intro missing_mono) fastforce
      then have "length (missing (txns w') (items_seen s clk ?pts (?r, w1))) \<le>
          length (missing (txns w2) (items_seen s clk ?pts (?r, w1)))" .
      with Suc.IH [OF rest] first lst Inr it False show ?thesis by (simp add: Let_def)
    qed
  qed
qed simp

lemma sweep_Run_missing:
  assumes "sweep_Run s fuel start finish clk ov w = Some ((Some r, e), w')"
  shows "int (length (missing (txns w') (pages_seen s fuel clk (SR_WindowFrom r) start ''''
      (start_result (SR_WindowFrom r) start, w)))) \<le> SR_Found r - SR_Posted r - SR_Skipped r"
proof -
  from assms obtain a where win: "sweep_window s start ov w = Inr a"
    by (auto simp: sweep_Run_def split: sum.splits)
  with assms obtain r1 w1 where pg: "sweep_pages s fuel clk a start '''' (start_result a start, w) = Some (e, r1, w1)"
    and r: "r = r1\<lparr>SR_DurationMS := (finish - start) div 1000000\<rparr>" and w': "txns w' = txns w1"
    using leavesD [OF log_leaves] by (auto simp: sweep_Run_def Let_def split: option.splits)
  from sweep_pages_steps [OF pg] have "SR_WindowFrom r = a" by (simp add: r start_result_def)
  with sweep_pages_missing [OF pg] show ?thesis by (simp add: r w' start_result_def)
qed

end

section \<open>What a sweep leaves alone\<close>

locale sweep_frame = worker_frame v wk
  for v :: "'w \<Rightarrow> 'v" and wk :: "'w worker" +
  fixes s :: "'w sweep_runner"
  assumes frame_worker: "sr_worker s = wk"
    and frame_list: "leaves v (pv_ListTransactions (sr_prov s) req)"
    and frame_requery: "leaves v (pv_Requery (sr_prov s) sid)"
    and frame_log: "leaves v (sw_CreateSweepRun (sr_sweeps s) now run)"
begin

lemma frame_sweep_item: "v (snd (sweep_item s now pt st)) = v (snd st)"
proof -
  obtain r w where st: "st = (r, w)" by fastforce
  obtain pt1 w1 where rq: "requery_if_bare s pt w = (pt1, w1)" by fastforce
  have "v w1 = v w"
    using rq leaves_pair [OF frame_requery, of "PT_SessionID pt" w]
    by (auto simp: requery_if_bare_def split: if_splits prod.splits sum.splits)
  moreover obtain res w2 where pd: "ProcessDirect wk now (buildWorkItem pt1) w1 = (res, w2)" by fastforce
  ultimately show ?thesis
    using leaves_pair [OF frame_direct pd] st rq pd
    by (simp add: sweep_item_def frame_worker split: sum.splits)
qed

lemma frame_sweep_items: "v (snd (sweep_items s clk pts st)) = v (snd st)"
  by (induction pts arbitrary: clk st) (simp_all add: frame_sweep_item)

lemma frame_sweep_pages:
  "sweep_pages s fuel clk a b c (r, w) = Some (e, r', w') \<Longrightarrow> v w' = v w"
proof (induction fuel arbitrary: clk c r w)
  case (Suc fuel)
  let ?req = "\<lparr>LTR_DateFrom = a, LTR_DateTo = b, LTR_Cursor = c, LTR_PageSize = 100,
               LTR_VirtualAccount = ''''\<rparr>"
  obtain p w1 where lst: "pv_ListTransactions (sr_prov s) ?req w = (p, w1)" by fastforce
  note w1 = leaves_pair [OF frame_list lst]
  show ?case
  proof (cases p)
    case (Inl err)
    with Suc.prems lst w1 show ?thesis by simp
  next
    case (Inr page)
    obtain r2 w2 where it: "sweep_items s clk (TP_Transactions page)
        (r\<lparr>SR_PagesFetched := SR_PagesFetched r + 1,
           SR_Found := SR_Found r + int (length (TP_Transactions page))\<rparr>, w1) = (r2, w2)"
      by fastforce
    have "v w2 = v w1" using frame_sweep_items [of clk "TP_Transactions page"] it by (metis snd_conv)
    with Suc.prems lst Inr it w1 Suc.IH [of "\<lambda>n. clk (length (TP_Transactions page) + n)"
        "TP_NextCursor page" r2 w2]
    show ?thesis by (auto simp: Let_def split: if_splits)
  qed
qed simp

lemma frame_sweep_Run:
  "sweep_Run s fuel start finish clk ov w = Some (res, w') \<Longrightarrow> v w' = v w"
  using leavesD [OF frame_log]
  by (auto simp: sweep_Run_def Let_def dest: frame_sweep_pages split: sum.splits option.splits)

end

section \<open>The sweep of the harness\<close>

definition mem_sweep_runner :: "go_order \<Rightarrow> bool \<Rightarrow> duration \<Rightarrow> duration \<Rightarrow> mem sweep_runner" where
  "mem_sweep_runner g relay interval overlap =
     \<lparr>sr_prov = fake_provider g, sr_txns = mem_transaction_store g, sr_sweeps = mem_sweep_store,
      sr_worker = mem_worker g relay, sr_interval = interval, sr_overlap = overlap\<rparr>"

lemma mem_sweep_runner_sels [simp]:
  "sr_prov (mem_sweep_runner g relay iv ol) = fake_provider g"
  "sr_txns (mem_sweep_runner g relay iv ol) = mem_transaction_store g"
  "sr_sweeps (mem_sweep_runner g relay iv ol) = mem_sweep_store"
  "sr_worker (mem_sweep_runner g relay iv ol) = mem_worker g relay"
  "sr_interval (mem_sweep_runner g relay iv ol) = iv"
  "sr_overlap (mem_sweep_runner g relay iv ol) = ol"
  by (simp_all add: mem_sweep_runner_def)

interpretation mem_sweep: sweep_ledger "mem_transaction_store g" mem_txn_map AllLedgerEntries
  "mem_worker g relay" "mem_sweep_runner g relay iv ol" for g relay iv ol
  by unfold_locales
    (simp_all add: leaves_mem_view fake_provider_def mem_sweep_store_def frame)

text \<open>The in-memory lookups never fail, so the matcher errs only on a non-positive amount.\<close>

lemma mem_find_va_ok: "\<exists>r. find_va (mem_matcher g) a b pt w = Inr r"
  by (auto simp: find_va_def mem_matcher_def mem_virtual_account_store_def mem_GetVAByAccountRef_def
      mem_GetVAByNUBAN_def split: option.splits)

lemma mem_Match_ok:
  assumes "0 < sint (PT_AmountKobo pt)"
  shows "\<exists>r. Match (mem_matcher g) pt w = Inr r"
proof -
  obtain va where va: "find_va (mem_matcher g) ''matcher: lookup by accountRef''
      ''matcher: lookup by NUBAN'' pt w = Inr va" using mem_find_va_ok by blast
  have "\<exists>es. CreditCustomer (PT_TransactionID pt) c (PT_AmountKobo pt) = Inr es" for c
    using credit_customer.accepts_iff assms by blast
  with to_suspense_ok [OF assms] show ?thesis
    by (auto simp: Match_def va checkTierLimits_def Let_def split: option.splits sum.splits)
      (metis Inl_Inr_False)+
qed

lemma mem_check_ok: "\<exists>reason. CheckTierLimitsForCustomer (mem_matcher g) now a amt tier w = Inr reason"
  by (auto simp: CheckTierLimitsForCustomer_def mem_matcher_def mem_transaction_store_def Let_def
      mem_GetBalance_def mem_GetDailyCredits_def split: option.splits)

lemma mem_route_ok:
  assumes "0 < sint (PT_AmountKobo pt)"
  shows "\<exists>r. route_credit (mem_worker g relay) now pt w = Inr r"
proof -
  obtain r where r: "Match (mem_matcher g) pt w = Inr r" using mem_Match_ok [OF assms] by blast
  obtain es where es: "CreditSuspense (PT_TransactionID pt) (PT_AmountKobo pt) = Inr es"
    using credit_suspense.accepts_iff assms by blast
  have "\<exists>reason. CheckTierLimitsForCustomer (mem_matcher g) now a (PT_AmountKobo pt) k w = Inr reason"
    for a k by (rule mem_check_ok)
  then show ?thesis
    by (auto simp: route_credit_def r es split: sum.splits option.splits)
      (metis Inl_Inr_False)+
qed

lemma mem_Post_ok:
  "well_formed_entries (Tx_ID tx) es \<Longrightarrow> \<exists>b w'. mem_PostTransaction now tx es w = (Inr b, w')"
  by (auto simp: mem_PostTransaction_def Let_def net_kobo_well_formed split: option.splits)

lemma mem_ProcessDirect_ok:
  assumes "0 < sint (PT_AmountKobo pt)"
  shows "\<exists>pr w'. ProcessDirect (mem_worker g relay) now (buildWorkItem pt) w = (Inr pr, w')"
proof -
  let ?pt = "WP_Transaction (WI_Payload (buildWorkItem pt))"
  obtain r where r: "route_credit (mem_worker g relay) (now 0) ?pt w = Inr r"
    using mem_route_ok [of ?pt g relay "now 0" w] assms by auto
  obtain b w1 where post: "mem_PostTransaction (now 1)
      (mk_tx (buildWorkItem pt) ?pt r ''credit'' ''posted'') (MR_Entries r) w = (Inr b, w1)"
    using mem_Post_ok [of "mk_tx (buildWorkItem pt) ?pt r ''credit'' ''posted''" "MR_Entries r"]
      route_well_formed [OF r] by fastforce
  show ?thesis
    using r post
    by (cases b) (auto simp: ProcessDirect_def processCreditDirect_def mem_transaction_store_def
        mem_GetTransaction_def Let_def split: option.splits)
qed

text \<open>
  The fake provider answers with one page: every seeded transaction of the window, in some
  order.
\<close>

lemma mem_sweep_pages:
  "sweep_pages (mem_sweep_runner g relay iv ol) (Suc fuel) clk a b c (r, w) =
     (let pts = filter (\<lambda>t. (PT_OccurredAt t = a \<or> PT_OccurredAt t > a) \<and> PT_OccurredAt t < b)
                  (range_vals (go_range g w) (fk_transactions (rt_fake (mem_rt w))));
          (r, w) = sweep_items (mem_sweep_runner g relay iv ol) clk pts
                     (r\<lparr>SR_PagesFetched := SR_PagesFetched r + 1,
                        SR_Found := SR_Found r + int (length pts)\<rparr>, w)
      in Some (None, r, w))"
  by (simp add: fake_provider_def fake_ListTransactions_def Let_def split: prod.splits)

lemma mem_sweep_Run_ok:
  "\<exists>rs w'. sweep_Run (mem_sweep_runner g relay iv ol) (Suc fuel) start finish clk ov w = Some ((Some rs, None), w')"
proof -
  have "\<exists>a. sweep_window (mem_sweep_runner g relay iv ol) start ov w = Inr a"
    by (auto simp: sweep_window_def computeWindowFrom_def mem_sweep_store_def
        mem_GetLastSweepTime_def split: option.splits)
  then show ?thesis
    by (auto simp: sweep_Run_def mem_sweep_pages Let_def simp del: sweep_pages.simps split: prod.splits)
qed

section \<open>Properties of the sweep\<close>

lemma sweep_Run_ends:
  assumes "cursors_decrease (sr_prov s) rank" and "rank '''' < fuel" and "fuel \<le> fuel'"
  shows "\<exists>res. sweep_Run s fuel start finish clk ov w = Some res \<and>
               sweep_Run s fuel' start finish clk ov w = Some res"
proof (cases "sweep_window s start ov w")
  case (Inl err)
  then show ?thesis by (simp add: sweep_Run_def)
next
  case (Inr a)
  obtain res where r: "sweep_pages s fuel clk a start '''' (start_result a start, w) = Some res"
    using sweep_pages_ends [OF assms(1,2)] by blast
  with sweep_pages_mono [OF r assms(3)] Inr show ?thesis
    by (cases res) (simp add: sweep_Run_def Let_def)
qed

text \<open>
  C37: A sweep ends. If the provider's page cursors go down along some rank, as those of a finite
  listing do, then the loop ends within that many pages: with more fuel than the rank of the empty
  cursor the run returns, and any two such amounts of fuel give the same result.
\<close>

theorem sweep_terminates:
  assumes "cursors_decrease (sr_prov s) rank" and "rank '''' < fuel" and "fuel \<le> fuel'"
  shows "\<exists>res. sweep_Run s fuel start finish clk ov w = Some res \<and>
               sweep_Run s fuel' start finish clk ov w = Some res"
  using sweep_Run_ends [OF assms] .

text \<open>A provider whose listing has two pages.\<close>

definition two_pages :: "unit provider" where
  "two_pages = \<lparr>pv_CreateVA = (\<lambda>r w. (Inl (Errorf ''''), w)), pv_UpdateVA = (\<lambda>i n w. (None, w)),
     pv_CloseVA = (\<lambda>i w. (None, w)), pv_SuspendVA = (\<lambda>i w. (None, w)),
     pv_ListVAs = (\<lambda>c w. (Inr ([], ''''), w)),
     pv_ListTransactions = (\<lambda>r w. (Inr \<lparr>TP_Transactions = [],
        TP_NextCursor = (if LTR_Cursor r = '''' then ''2'' else '''')\<rparr>, w)),
     pv_Requery = (\<lambda>i w. (Inl (Errorf ''''), w)), pv_Transfer = (\<lambda>r w. (fake_Transfer r, w)),
     pv_ResolveAccount = (\<lambda>b a w. (fake_ResolveAccount b a, w)),
     pv_VerifyWebhookSignature = (\<lambda>h b w. None), pv_ParseWebhook = (\<lambda>now b w. fake_ParseWebhook now b)\<rparr>"

definition idle_sweeps :: "unit sweep_store" where
  "idle_sweeps = \<lparr>sw_CreateSweepRun = (\<lambda>t r w. (None, w)), sw_GetLastSweepTime = (\<lambda>w. Inr 0),
     sw_ListSweepRuns = (\<lambda>l w. Inr [])\<rparr>"

definition demo_runner :: "unit worker \<Rightarrow> unit transaction_store \<Rightarrow> unit sweep_runner" where
  "demo_runner wk X = \<lparr>sr_prov = two_pages, sr_txns = X, sr_sweeps = idle_sweeps, sr_worker = wk,
     sr_interval = hour, sr_overlap = minute\<rparr>"

theorem sweep_terminates_witness:
  "\<forall>wk X. \<exists>res. sweep_Run (demo_runner wk X) 2 (30 * hour) (30 * hour) (\<lambda>n k. 0) None () = Some res"
proof -
  have "cursors_decrease (sr_prov (demo_runner wk X)) (\<lambda>c. if c = '''' then 1 else 0)" for wk X
    by (simp add: cursors_decrease_def demo_runner_def two_pages_def)
  from sweep_terminates [OF this, of 2 2] show ?thesis by auto
qed

lemma mem_Run_unfold:
  assumes "sweep_Run (mem_sweep_runner g relay iv ol) (Suc fuel) start finish clk (Some frm) w = Some (res, w')"
    and "frm \<noteq> 0"
  obtains r1 w1 where
    "sweep_items (mem_sweep_runner g relay iv ol) clk
       (filter (\<lambda>t. (PT_OccurredAt t = frm \<or> PT_OccurredAt t > frm) \<and> PT_OccurredAt t < start)
          (range_vals (go_range g w) (fk_transactions (rt_fake (mem_rt w)))))
       ((start_result frm start)\<lparr>SR_PagesFetched := 1,
          SR_Found := int (length (filter (\<lambda>t. (PT_OccurredAt t = frm \<or> PT_OccurredAt t > frm) \<and>
             PT_OccurredAt t < start) (range_vals (go_range g w) (fk_transactions (rt_fake (mem_rt w))))))\<rparr>, w)
     = (r1, w1)"
    "mem_view w' = mem_view w1"
    "res = (Some (r1\<lparr>SR_DurationMS := (finish - start) div 1000000\<rparr>), None)"
  using assms that
  by (auto simp: sweep_Run_def sweep_window_def IsZero_def mem_sweep_pages Let_def start_result_def
      mem_sweep_store_def AllLedgerEntries_def frame simp del: sweep_pages.simps split: prod.splits)

text \<open>
  The sweep of the harness recovers what the webhooks missed. Whatever the order in which the
  provider lists them, every transaction that the provider holds with a time in the window, a
  positive amount, and an account to look up (or no session to query instead) is in the ledger when
  the sweep is done, which needs one page and ends without an error.
\<close>

theorem mem_sweep_recovers:
  assumes "sweep_Run (mem_sweep_runner g relay iv ol) (Suc fuel) start finish clk (Some frm) w =
      Some ((res, e), w')" and "frm \<noteq> 0"
    and "fmlookup (fk_transactions (rt_fake (mem_rt w))) i = Some pt"
    and "frm \<le> PT_OccurredAt pt" "PT_OccurredAt pt < start"
    and "0 < sint (PT_AmountKobo pt)"
    and "PT_AccountNumber pt \<noteq> '''' \<or> PT_AccountRef pt \<noteq> '''' \<or> PT_SessionID pt = ''''"
  shows "e = None \<and> fmlookup (mem_txn_map w') (PT_TransactionID pt) \<noteq> None"
  using assms(1,2)
proof (rule mem_Run_unfold)
  let ?pts = "filter (\<lambda>t. (PT_OccurredAt t = frm \<or> PT_OccurredAt t > frm) \<and> PT_OccurredAt t < start)
     (range_vals (go_range g w) (fk_transactions (rt_fake (mem_rt w))))"
  fix r1 w1
  assume it: "sweep_items (mem_sweep_runner g relay iv ol) clk ?pts
      ((start_result frm start)\<lparr>SR_PagesFetched := 1, SR_Found := int (length ?pts)\<rparr>, w) = (r1, w1)"
    and w': "mem_view w' = mem_view w1"
    and res: "(res, e) = (Some (r1\<lparr>SR_DurationMS := (finish - start) div 1000000\<rparr>), None)"
  have "pt \<in> set ?pts" using assms(3,4,5) by (auto simp: in_range_vals)
  with mem_sweep.sweep_items_present [OF it _ _ mem_ProcessDirect_ok [OF assms(6)]] assms(7) w' res
  show ?thesis by auto
qed

text \<open>
  A sweep over a window that is fully recorded is idle: if every transaction that the provider
  lists for the window is in the ledger already (as after a first sweep of it), the second sweep
  posts nothing and leaves ledger and transactions exactly as they are.
\<close>

theorem resweep_idle:
  assumes "sweep_Run (mem_sweep_runner g relay iv ol) (Suc fuel) start finish clk (Some frm) w =
      Some ((Some r, e), w')" and "frm \<noteq> 0"
    and "\<forall>i pt. fmlookup (fk_transactions (rt_fake (mem_rt w))) i = Some pt \<longrightarrow>
      frm \<le> PT_OccurredAt pt \<and> PT_OccurredAt pt < start \<longrightarrow>
      fmlookup (mem_txn_map w) (PT_TransactionID pt) \<noteq> None \<and>
      (PT_AccountNumber pt \<noteq> '''' \<or> PT_AccountRef pt \<noteq> '''' \<or> PT_SessionID pt = '''')"
  shows "SR_Posted r = 0 \<and> mem_view w' = mem_view w"
  using assms(1,2)
proof (rule mem_Run_unfold)
  let ?pts = "filter (\<lambda>t. (PT_OccurredAt t = frm \<or> PT_OccurredAt t > frm) \<and> PT_OccurredAt t < start)
     (range_vals (go_range g w) (fk_transactions (rt_fake (mem_rt w))))"
  fix r1 w1
  assume it: "sweep_items (mem_sweep_runner g relay iv ol) clk ?pts
      ((start_result frm start)\<lparr>SR_PagesFetched := 1, SR_Found := int (length ?pts)\<rparr>, w) = (r1, w1)"
    and w': "mem_view w' = mem_view w1"
    and res: "(Some r, e) = (Some (r1\<lparr>SR_DurationMS := (finish - start) div 1000000\<rparr>), None)"
  have "\<forall>pt \<in> set ?pts. fmlookup (mem_txn_map w) (PT_TransactionID pt) \<noteq> None \<and>
      \<not> (PT_AccountNumber pt = '''' \<and> PT_AccountRef pt = '''' \<and> PT_SessionID pt \<noteq> '''')"
  proof
    fix pt
    assume "pt \<in> set ?pts"
    then obtain i where "fmlookup (fk_transactions (rt_fake (mem_rt w))) i = Some pt"
      and "frm \<le> PT_OccurredAt pt \<and> PT_OccurredAt pt < start" by (auto simp: in_range_vals)
    with assms(3) show "fmlookup (mem_txn_map w) (PT_TransactionID pt) \<noteq> None \<and>
      \<not> (PT_AccountNumber pt = '''' \<and> PT_AccountRef pt = '''' \<and> PT_SessionID pt \<noteq> '''')" by blast
  qed
  from mem_sweep.sweep_items_known [OF it this] w' res show ?thesis by (simp add: start_result_def)
qed

text \<open>
  In the harness the default windows of consecutive sweeps leave no gap: after a run, failed or
  not, the next window starts the overlap before the instant where the last one ended.
\<close>

theorem windows_overlap:
  assumes "sweep_Run (mem_sweep_runner g relay iv ol) fuel start finish clk ov w = Some ((Some r, e), w')"
    and "start \<noteq> 0"
  shows "computeWindowFrom (mem_sweep_runner g relay iv ol) now w' = Inr (SR_WindowTo r - ol)"
proof -
  have "SR_WindowTo r = start" using mem_sweep.sweep_Run_steps(2) [OF assms(1)] by simp
  with assms show ?thesis
    by (auto simp: sweep_Run_def computeWindowFrom_def mem_sweep_store_def mem_CreateSweepRun_def
        mem_GetLastSweepTime_def run_log_def IsZero_def Let_def dest: arg_cong [of _ r SR_WindowTo]
        split: sum.splits option.splits)
qed

definition demo_seeded :: mem where
  "demo_seeded = snd (with_fake (\<lambda>f. ((), fake_SeedTransaction (demo_credit ''a'' 500) f)) (demo_mem VAStatusActive))"

lemma demo_seeded_fake:
  "fk_transactions (rt_fake (mem_rt demo_seeded)) = fmupd ''a'' (demo_credit ''a'' 500) fmempty"
  by (simp add: demo_seeded_def with_fake_def fake_SeedTransaction_def demo_mem_def runtime_init_def
      fake_New_def demo_credit_def zero_pt_def)

theorem mem_sweep_recovers_witness:
  "\<exists>r e w'. sweep_Run (mem_sweep_runner plain_order False hour minute) 1 5000 6000 (\<lambda>n k. 5500)
       (Some 500) demo_seeded = Some ((r, e), w') \<and> e = None \<and> fmlookup (mem_txn_map w') ''a'' \<noteq> None"
proof -
  obtain rs w' where run: "sweep_Run (mem_sweep_runner plain_order False hour minute) (Suc 0) 5000 6000
      (\<lambda>n k. 5500) (Some 500) demo_seeded = Some ((Some rs, None), w')"
    using mem_sweep_Run_ok by blast
  from mem_sweep_recovers [OF this, of "''a''" "demo_credit ''a'' 500"] demo_seeded_fake
  have "fmlookup (mem_txn_map w') ''a'' \<noteq> None" by (simp add: demo_credit_def zero_pt_def)
  with run show ?thesis by auto
qed

definition demo_known :: mem where
  "demo_known = demo_seeded\<lparr>mem_txns := \<lparr>txn_txns = fmupd ''a'' (demo_tx ''a'' 500 1000) fmempty,
     txn_ledger = map (\<lambda>e. \<lparr>Row_Entry = e, Row_occurredAt = 1000\<rparr>)
       (two_entries ''a'' AccountNombaSettlement (CustomerWalletAccount ''c1'') 500)\<rparr>\<rparr>"

theorem resweep_idle_witness:
  "\<exists>r w'. sweep_Run (mem_sweep_runner plain_order False hour minute) 1 5000 6000 (\<lambda>n k. 5500)
       (Some 500) demo_known = Some ((Some r, None), w') \<and> SR_Posted r = 0 \<and>
     AllLedgerEntries w' = two_entries ''a'' AccountNombaSettlement (CustomerWalletAccount ''c1'') 500"
proof -
  obtain r w' where run: "sweep_Run (mem_sweep_runner plain_order False hour minute) (Suc 0) 5000 6000
      (\<lambda>n k. 5500) (Some 500) demo_known = Some ((Some r, None), w')"
    using mem_sweep_Run_ok by blast
  have "fk_transactions (rt_fake (mem_rt demo_known)) = fmupd ''a'' (demo_credit ''a'' 500) fmempty"
    by (simp add: demo_known_def demo_seeded_fake)
  with resweep_idle [OF run] have "SR_Posted r = 0 \<and> mem_view w' = mem_view demo_known"
    by (simp add: demo_known_def demo_credit_def zero_pt_def)
  with run show ?thesis by (auto simp: demo_known_def AllLedgerEntries_def comp_def)
qed

theorem windows_overlap_witness:
  "\<exists>r w'. sweep_Run (mem_sweep_runner plain_order False hour minute) 1 5000 6000 (\<lambda>n k. 5500)
       None demo_seeded = Some ((Some r, None), w') \<and>
     computeWindowFrom (mem_sweep_runner plain_order False hour minute) 9000 w' = Inr (5000 - minute)"
proof -
  obtain r w' where run: "sweep_Run (mem_sweep_runner plain_order False hour minute) (Suc 0) 5000 6000
      (\<lambda>n k. 5500) None demo_seeded = Some ((Some r, None), w')"
    using mem_sweep_Run_ok by blast
  moreover have "SR_WindowTo r = 5000" using mem_sweep.sweep_Run_steps(2) [OF run] by simp
  ultimately show ?thesis using windows_overlap [OF run] by auto
qed

end
