(* ===== verification/Nomba.thy ===== *)
theory Nomba
  imports Doubles Webhook Sweep
begin

text \<open>
  \<^verbatim>\<open>internal/provider/nomba/client.go\<close> and \<^verbatim>\<open>adapter.go\<close>: the provider of the production
  server as an HTTP client with a cached token, the conversion of amounts and times, the parsing of
  webhooks and the check of their signatures. Documents that come from outside hold strings, also
  for times, and no member twice.
\<close>

section \<open>The client\<close>

text \<open>
  The network is an external system: \<open>nc_http\<close> answers a request and may change the state of
  the world, \<open>nc_now\<close> is the clock. \<open>nc_parse_url\<close> is the URL parser of the standard library,
  \<open>nc_text\<close> the bytes of a response body as text. The HMAC-SHA256 of the standard library and the
  rendering of a double by \<open>json.Marshal\<close> are parameters of the adapter.
\<close>

record http_request =
  Rq_Method :: string
  Rq_URL :: string
  Rq_Headers :: "(string \<times> string) list"
  Rq_Body :: json

record http_response =
  Rs_StatusCode :: int
  Rs_Body :: json

record 'n nomba_world =
  nw_accessToken :: string
  nw_expiresAt :: time
  nw_net :: 'n

record 'n nomba_client =
  nc_baseURL :: string
  nc_clientID :: string
  nc_clientSecret :: string
  nc_accountID :: string
  nc_http :: "http_request \<Rightarrow> 'n \<Rightarrow> (go_error + http_response) \<times> 'n"
  nc_now :: "'n \<Rightarrow> time"
  nc_parse_url :: "string \<Rightarrow> go_error option"
  nc_text :: "json \<Rightarrow> string"

definition tokenEndpoint :: string where
  "tokenEndpoint = ''/v1/auth/token/issue''"

definition tokenTTL :: time where
  "tokenTTL = 28 * minute"

text \<open>\<open>do\<close>, given the token of an authenticated request.\<close>

definition request_headers :: "'n nomba_client \<Rightarrow> string option \<Rightarrow> (string \<times> string) list" where
  "request_headers c tok =
     [(''Content-Type'', ''application/json''), (''Accept'', ''application/json'')]
     @ (if nc_accountID c \<noteq> '''' then [(''accountId'', nc_accountID c)] else [])
     @ (case tok of None \<Rightarrow> [] | Some t \<Rightarrow> [(''Authorization'', ''Bearer '' @ t)])"

definition api_error :: "'n nomba_client \<Rightarrow> http_response \<Rightarrow> go_error" where
  "api_error c resp = APIError (Rs_StatusCode resp) (nc_text c (Rs_Body resp))"

definition send :: "'n nomba_client \<Rightarrow> string \<Rightarrow> string \<Rightarrow> json \<Rightarrow> string option \<Rightarrow> 'n nomba_world
    \<Rightarrow> (go_error + json) \<times> 'n nomba_world" where
  "send c meth path body tok w =
     (case nc_http c \<lparr>Rq_Method = meth, Rq_URL = nc_baseURL c @ path,
               Rq_Headers = request_headers c tok, Rq_Body = body\<rparr> (nw_net w) of
        (Inl err, n) \<Rightarrow> (Inl err, w\<lparr>nw_net := n\<rparr>)
      | (Inr resp, n) \<Rightarrow>
          (if Rs_StatusCode resp \<ge> 400 then Inl (api_error c resp) else Inr (Rs_Body resp),
           w\<lparr>nw_net := n\<rparr>))"

section \<open>Decoding\<close>

definition decode_error :: go_error where
  "decode_error = Errorf ''json: cannot unmarshal''"

definition decoded :: "string \<Rightarrow> ('n nomba_world \<Rightarrow> (go_error + json) \<times> 'n nomba_world) \<Rightarrow> string
    \<Rightarrow> (json \<Rightarrow> 'a option) \<Rightarrow> 'n nomba_world \<Rightarrow> (go_error + 'a) \<times> 'n nomba_world" where
  "decoded what op failed dec w =
     (case op w of
        (Inl err, w) \<Rightarrow> (Inl (Wrap what err), w)
      | (Inr body, w) \<Rightarrow>
          (case dec body of None \<Rightarrow> Inl (Wrap failed decode_error) | Some x \<Rightarrow> Inr x, w))"

section \<open>The token\<close>

record token_response =
  TkR_Code :: string
  TkR_Description :: string
  TkR_AccessToken :: string

definition decode_token :: "json \<Rightarrow> token_response option" where
  "decode_token body =
     do { fs \<leftarrow> jobject body; code \<leftarrow> jstring (jmember ''code'' fs);
          desc \<leftarrow> jstring (jmember ''description'' fs); d \<leftarrow> jobject (jmember ''data'' fs);
          tok \<leftarrow> jstring (jmember ''access_token'' d);
          Some \<lparr>TkR_Code = code, TkR_Description = desc, TkR_AccessToken = tok\<rparr> }"

definition token_request :: "'n nomba_client \<Rightarrow> json" where
  "token_request c = JObj [(''client_id'', JStr (nc_clientID c)),
     (''client_secret'', JStr (nc_clientSecret c)), (''grant_type'', JStr ''client_credentials'')]"

definition unauthenticated :: "'n nomba_client \<Rightarrow> string \<Rightarrow> string \<Rightarrow> json \<Rightarrow> 'n nomba_world
    \<Rightarrow> (go_error + json) \<times> 'n nomba_world" where
  "unauthenticated c meth path body w =
     (case nc_parse_url c (nc_baseURL c @ path) of
        Some err \<Rightarrow> (Inl err, w)
      | None \<Rightarrow> send c meth path body None w)"

definition fetchToken :: "'n nomba_client \<Rightarrow> 'n nomba_world \<Rightarrow> (go_error + string) \<times> 'n nomba_world" where
  "fetchToken c w =
     (case decoded ''nomba: fetch token'' (unauthenticated c ''POST'' tokenEndpoint (token_request c))
             ''nomba: decode token response'' decode_token w of
        (Inl err, w) \<Rightarrow> (Inl err, w)
      | (Inr tr, w) \<Rightarrow>
          (if TkR_AccessToken tr = ''''
           then Inl (Errorf (''nomba: empty access token (code='' @ TkR_Code tr @ '' desc=''
                  @ TkR_Description tr @ '')''))
           else Inr (TkR_AccessToken tr), w))"

text \<open>
  \<open>accessToken\<close> as one caller runs it when no other refreshes; the concurrent protocol is the
  subject of the theory on the single flight.
\<close>

definition accessToken :: "'n nomba_client \<Rightarrow> 'n nomba_world \<Rightarrow> (go_error + string) \<times> 'n nomba_world" where
  "accessToken c w =
     (if nw_accessToken w \<noteq> '''' \<and> nc_now c (nw_net w) < nw_expiresAt w
      then (Inr (nw_accessToken w), w)
      else case fetchToken c w of
        (Inl err, w) \<Rightarrow> (Inl err, w)
      | (Inr tok, w) \<Rightarrow>
          (Inr tok, w\<lparr>nw_accessToken := tok, nw_expiresAt := nc_now c (nw_net w) + tokenTTL\<rparr>))"

definition authDo :: "'n nomba_client \<Rightarrow> string \<Rightarrow> string \<Rightarrow> json \<Rightarrow> 'n nomba_world
    \<Rightarrow> (go_error + json) \<times> 'n nomba_world" where
  "authDo c meth path body w =
     (case nc_parse_url c (nc_baseURL c @ path) of
        Some err \<Rightarrow> (Inl err, w)
      | None \<Rightarrow>
          (case accessToken c w of
             (Inl err, w) \<Rightarrow> (Inl err, w)
           | (Inr tok, w) \<Rightarrow> send c meth path body (Some tok) w))"

section \<open>The adapter\<close>

record 'n adapter =
  ad_client :: "'n nomba_client"
  ad_subAccountID :: string
  ad_webhookSecret :: string
  ad_hmac :: "string \<Rightarrow> string \<Rightarrow> string"
  ad_float_json :: "rat \<Rightarrow> json"
  ad_conv :: "rat option \<Rightarrow> int64"

definition json_of_create :: "va_request \<Rightarrow> json" where
  "json_of_create req = JObj
     ([(''accountRef'', JStr (CVR_AccountRef req)), (''accountName'', JStr (CVR_AccountName req))]
      @ (if CVR_BVN req \<noteq> '''' then [(''bvn'', JStr (CVR_BVN req))] else []))"

definition decode_create :: "json \<Rightarrow> va_response option" where
  "decode_create body =
     do { fs \<leftarrow> jobject body; code \<leftarrow> jstring (jmember ''code'' fs);
          d \<leftarrow> jobject (jmember ''data'' fs);
          number \<leftarrow> jstring (jmember ''bankAccountNumber'' d); bank \<leftarrow> jstring (jmember ''bankName'' d);
          name \<leftarrow> jstring (jmember ''bankAccountName'' d);
          holder \<leftarrow> jstring (jmember ''accountHolderId'' d); ref \<leftarrow> jstring (jmember ''accountRef'' d);
          Some \<lparr>VAR_AccountRef = ref, VAR_NUBAN = number, VAR_BankName = bank,
                VAR_AccountName = name, VAR_AccountHolderID = holder\<rparr> }"

definition sub_path :: "'n adapter \<Rightarrow> string \<Rightarrow> string" where
  "sub_path a p = (if ad_subAccountID a \<noteq> '''' then p @ ''/'' @ ad_subAccountID a else p)"

definition nomba_CreateVA :: "'n adapter \<Rightarrow> va_request \<Rightarrow> 'n nomba_world
    \<Rightarrow> (go_error + va_response) \<times> 'n nomba_world" where
  "nomba_CreateVA a req =
     decoded ''nomba: create VA''
       (authDo (ad_client a) ''POST'' (sub_path a ''/v1/accounts/virtual'') (json_of_create req))
       ''nomba: decode create VA'' decode_create"

text \<open>The calls whose response body is not read.\<close>

definition simple_call :: "'n adapter \<Rightarrow> string \<Rightarrow> string \<Rightarrow> string \<Rightarrow> json \<Rightarrow> 'n nomba_world
    \<Rightarrow> go_error option \<times> 'n nomba_world" where
  "simple_call a what meth path body w =
     (case authDo (ad_client a) meth path body w of
        (Inl err, w) \<Rightarrow> (Some (Wrap what err), w)
      | (Inr _, w) \<Rightarrow> (None, w))"

definition nomba_UpdateVA :: "'n adapter \<Rightarrow> string \<Rightarrow> string \<Rightarrow> 'n nomba_world
    \<Rightarrow> go_error option \<times> 'n nomba_world" where
  "nomba_UpdateVA a identifier newName =
     simple_call a ''nomba: update VA'' ''PUT'' (''/v1/accounts/virtual/'' @ identifier)
       (JObj [(''accountName'', JStr newName)])"

definition nomba_CloseVA :: "'n adapter \<Rightarrow> string \<Rightarrow> 'n nomba_world
    \<Rightarrow> go_error option \<times> 'n nomba_world" where
  "nomba_CloseVA a identifier =
     simple_call a ''nomba: close VA'' ''DELETE'' (''/v1/accounts/virtual/'' @ identifier) JNull"

definition nomba_SuspendVA :: "'n adapter \<Rightarrow> string \<Rightarrow> 'n nomba_world
    \<Rightarrow> go_error option \<times> 'n nomba_world" where
  "nomba_SuspendVA a accountID =
     simple_call a ''nomba: suspend VA'' ''PUT'' (''/v1/accounts/suspend/'' @ accountID) JNull"

section \<open>Query strings\<close>

text \<open>\<open>url.QueryEscape\<close> and \<open>url.Values.Encode\<close> (sorted by key).\<close>

definition hex_digit :: "nat \<Rightarrow> char" where
  "hex_digit n = ''0123456789ABCDEF'' ! n"

definition query_char :: "char \<Rightarrow> string" where
  "query_char c =
     (if c \<in> set ''ABCDEFGHIJKLMNOPQRSTUVWXYZabcdefghijklmnopqrstuvwxyz0123456789-_.~'' then [c]
      else if c = CHR '' '' then ''+''
      else [CHR ''%'', hex_digit (of_char c div 16), hex_digit (of_char c mod 16)])"

definition QueryEscape :: "string \<Rightarrow> string" where
  "QueryEscape s = concat (map query_char s)"

fun join :: "string \<Rightarrow> string list \<Rightarrow> string" where
  "join sep [] = ''''"
| "join sep [s] = s"
| "join sep (s # t # ts) = s @ sep @ join sep (t # ts)"

definition encode_values :: "(string \<times> string) list \<Rightarrow> string" where
  "encode_values kvs =
     join ''&'' (map (\<lambda>(k, v). QueryEscape k @ ''='' @ QueryEscape v) (sort_key fst kvs))"

section \<open>Listings\<close>

definition decode_va :: "json \<Rightarrow> nomba_va option" where
  "decode_va j =
     do { fs \<leftarrow> jobject j; ref \<leftarrow> jstring (jmember ''accountRef'' fs);
          number \<leftarrow> jstring (jmember ''bankAccountNumber'' fs); bank \<leftarrow> jstring (jmember ''bankName'' fs);
          name \<leftarrow> jstring (jmember ''bankAccountName'' fs); expired \<leftarrow> jbool (jmember ''expired'' fs);
          created \<leftarrow> jstring (jmember ''createdAt'' fs);
          Some \<lparr>NVA_AccountRef = ref, NVA_NUBAN = number, NVA_BankName = bank, NVA_AccountName = name,
                NVA_Status = (if expired then ''expired'' else ''active''), NVA_CreatedAt = created\<rparr> }"

definition decode_vas :: "json \<Rightarrow> (nomba_va list \<times> string) option" where
  "decode_vas body =
     do { fs \<leftarrow> jobject body; code \<leftarrow> jstring (jmember ''code'' fs);
          d \<leftarrow> jobject (jmember ''data'' fs); rs \<leftarrow> jarray (jlast ''results'' d);
          vas \<leftarrow> collect decode_va rs; cursor \<leftarrow> jstring (jmember ''cursor'' d);
          Some (vas, cursor) }"

definition nomba_ListVAs :: "'n adapter \<Rightarrow> string \<Rightarrow> 'n nomba_world
    \<Rightarrow> (go_error + nomba_va list \<times> string) \<times> 'n nomba_world" where
  "nomba_ListVAs a cursor =
     decoded ''nomba: list VAs''
       (authDo (ad_client a) ''POST''
          (''/v1/accounts/virtual/list?limit=100''
           @ (if cursor \<noteq> '''' then ''&cursor='' @ QueryEscape cursor else '''')) (JObj []))
       ''nomba: decode list VAs'' decode_vas"

record nomba_transaction =
  nt_TransactionID :: string
  nt_SessionID :: string
  nt_Amount :: string
  nt_Type :: string
  nt_Status :: string
  nt_TimeCreated :: string
  nt_RecipientAccountNumber :: string
  nt_SenderName :: string
  nt_BankName :: string
  nt_Narration :: string
  nt_EntryType :: string

definition decode_tx :: "json \<Rightarrow> nomba_transaction option" where
  "decode_tx j =
     do { fs \<leftarrow> jobject j; i \<leftarrow> jstring (jmember ''id'' fs); sid \<leftarrow> jstring (jmember ''sessionId'' fs);
          amt \<leftarrow> jnumber (jmember ''amount'' fs); ty \<leftarrow> jstring (jmember ''type'' fs);
          st \<leftarrow> jstring (jmember ''status'' fs); tc \<leftarrow> jstring (jmember ''timeCreated'' fs);
          rec \<leftarrow> jstring (jmember ''recipientAccountNumber'' fs);
          sn \<leftarrow> jstring (jmember ''senderName'' fs); bk \<leftarrow> jstring (jmember ''bankName'' fs);
          narr \<leftarrow> jstring (jmember ''narration'' fs); en \<leftarrow> jstring (jmember ''entryType'' fs);
          Some \<lparr>nt_TransactionID = i, nt_SessionID = sid, nt_Amount = amt, nt_Type = ty,
                nt_Status = st, nt_TimeCreated = tc, nt_RecipientAccountNumber = rec,
                nt_SenderName = sn, nt_BankName = bk, nt_Narration = narr, nt_EntryType = en\<rparr> }"

text \<open>\<open>json.Marshal\<close> writes a \<open>json.Number\<close> as the literal it holds, and 0 for the empty one.\<close>

definition number_json :: "string \<Rightarrow> json" where
  "number_json s =
     (if s = '''' then JInt 0
      else if list_all is_digit s then JInt (int (undec s))
      else if hd s = CHR ''-'' \<and> list_all is_digit (tl s) then JInt (- int (undec (tl s)))
      else JDec s)"

definition json_of_tx :: "nomba_transaction \<Rightarrow> json" where
  "json_of_tx t = JObj
     [(''id'', JStr (nt_TransactionID t)), (''sessionId'', JStr (nt_SessionID t)),
      (''amount'', number_json (nt_Amount t)), (''type'', JStr (nt_Type t)),
      (''status'', JStr (nt_Status t)), (''timeCreated'', JStr (nt_TimeCreated t)),
      (''recipientAccountNumber'', JStr (nt_RecipientAccountNumber t)),
      (''senderName'', JStr (nt_SenderName t)), (''bankName'', JStr (nt_BankName t)),
      (''narration'', JStr (nt_Narration t)), (''entryType'', JStr (nt_EntryType t))]"

definition parseNombaTime :: "string \<Rightarrow> time option" where
  "parseNombaTime s =
     (if s = '''' then Some 0
      else case parse_rfc3339 s of Some t \<Rightarrow> Some t | None \<Rightarrow> parse_local s)"

definition nairaToKobo :: "(rat option \<Rightarrow> int64) \<Rightarrow> string \<Rightarrow> go_error + int64" where
  "nairaToKobo conv n =
     (if n = '''' then Inr 0
      else case Float64 n of
        None \<Rightarrow> Inl (Errorf (''strconv.ParseFloat: parsing '' @ n @ '': value out of range''))
      | Some f \<Rightarrow> Inr (int64_of conv (fl_add (fl_mult (Some f) 100) (1 / 2))))"

definition convertTransaction :: "'n adapter \<Rightarrow> nomba_transaction \<Rightarrow> go_error + provider_tx" where
  "convertTransaction a t =
     (case parseNombaTime (nt_TimeCreated t) of
        None \<Rightarrow> Inl (Errorf (''nomba: parse time '' @ nt_TimeCreated t))
      | Some occurredAt \<Rightarrow>
          (case nairaToKobo (ad_conv a) (nt_Amount t) of
             Inl err \<Rightarrow> Inl (Wrap (''nomba: parse amount '' @ nt_Amount t) err)
           | Inr amountKobo \<Rightarrow>
               Inr \<lparr>PT_TransactionID = nt_TransactionID t, PT_SessionID = nt_SessionID t,
                    PT_AccountNumber = nt_RecipientAccountNumber t, PT_AccountRef = '''',
                    PT_AmountKobo = amountKobo, PT_Type = nt_Type t, PT_Status = nt_Status t,
                    PT_SenderName = nt_SenderName t, PT_SenderBank = nt_BankName t,
                    PT_Narration = nt_Narration t, PT_OccurredAt = occurredAt,
                    PT_Raw = json_of_tx t\<rparr>))"

definition decode_txs :: "json \<Rightarrow> (nomba_transaction list \<times> string) option" where
  "decode_txs body =
     do { fs \<leftarrow> jobject body; code \<leftarrow> jstring (jmember ''code'' fs);
          d \<leftarrow> jobject (jmember ''data'' fs); rs \<leftarrow> jarray (jlast ''results'' d);
          txs \<leftarrow> collect decode_tx rs; cursor \<leftarrow> jstring (jmember ''cursor'' d);
          Some (txs, cursor) }"

definition list_path :: "'n adapter \<Rightarrow> list_request \<Rightarrow> string" where
  "list_path a req =
     (let q = (if LTR_Cursor req \<noteq> '''' then [(''cursor'', LTR_Cursor req)] else [])
              @ (if LTR_PageSize req > 0 then [(''limit'', show_int (LTR_PageSize req))] else [])
      in if LTR_VirtualAccount req \<noteq> ''''
         then ''/v1/transactions/virtual?'' @ encode_values (q @
                [(''virtual_account'', LTR_VirtualAccount req),
                 (''dateFrom'', format_date (LTR_DateFrom req)), (''dateTo'', format_date (LTR_DateTo req))])
         else sub_path a ''/v1/transactions/accounts'' @ ''?'' @ encode_values (q @
                [(''dateFrom'', format_seconds (LTR_DateFrom req)),
                 (''dateTo'', format_seconds (LTR_DateTo req))]))"

text \<open>The entries that are listed: credits of virtual accounts that can be converted.\<close>

definition ingest :: "'n adapter \<Rightarrow> nomba_transaction list \<Rightarrow> provider_tx list" where
  "ingest a txs = concat (map (\<lambda>t. if nt_Type t \<noteq> ''vact_transfer'' then []
     else case convertTransaction a t of Inl err \<Rightarrow> [] | Inr pt \<Rightarrow> [pt]) txs)"

definition nomba_ListTransactions :: "'n adapter \<Rightarrow> list_request \<Rightarrow> 'n nomba_world
    \<Rightarrow> (go_error + tx_page) \<times> 'n nomba_world" where
  "nomba_ListTransactions a req w =
     (case decoded ''nomba: list transactions'' (authDo (ad_client a) ''GET'' (list_path a req) JNull)
             ''nomba: decode transactions'' decode_txs w of
        (Inl err, w) \<Rightarrow> (Inl err, w)
      | (Inr (txs, cursor), w) \<Rightarrow>
          (Inr \<lparr>TP_Transactions = ingest a txs, TP_NextCursor = cursor\<rparr>, w))"

definition decode_requery :: "json \<Rightarrow> nomba_transaction option" where
  "decode_requery body =
     do { fs \<leftarrow> jobject body; code \<leftarrow> jstring (jmember ''code'' fs); decode_tx (jmember ''data'' fs) }"

definition nomba_Requery :: "'n adapter \<Rightarrow> string \<Rightarrow> 'n nomba_world
    \<Rightarrow> (go_error + provider_tx) \<times> 'n nomba_world" where
  "nomba_Requery a sessionID w =
     (case decoded ''nomba: requery''
             (authDo (ad_client a) ''GET'' (''/v1/transactions/requery/'' @ sessionID) JNull)
             ''nomba: decode requery'' decode_requery w of
        (Inl err, w) \<Rightarrow> (Inl err, w)
      | (Inr t, w) \<Rightarrow> (convertTransaction a t, w))"

section \<open>Outbound transfers\<close>

definition naira_of_kobo :: "int64 \<Rightarrow> rat" where
  "naira_of_kobo k = nearest64 (nearest64 (of_int (sint k)) / 100)"

definition json_of_transfer :: "'n adapter \<Rightarrow> transfer_request \<Rightarrow> json" where
  "json_of_transfer a req = JObj
     ([(''amount'', ad_float_json a (naira_of_kobo (TR_AmountKobo req))),
       (''accountNumber'', JStr (TR_DestinationAccountNumber req)),
       (''accountName'', JStr (TR_DestinationAccountName req)),
       (''bankCode'', JStr (TR_DestinationBankCode req)),
       (''merchantTxRef'', JStr (TR_Reference req))]
      @ (if TR_Narration req \<noteq> '''' then [(''narration'', JStr (TR_Narration req))] else []))"

definition decode_transfer :: "json \<Rightarrow> transfer_response option" where
  "decode_transfer body =
     do { fs \<leftarrow> jobject body; code \<leftarrow> jstring (jmember ''code'' fs);
          d \<leftarrow> jobject (jmember ''data'' fs); i \<leftarrow> jstring (jmember ''id'' d);
          amt \<leftarrow> jstring (jmember ''amount'' d); st \<leftarrow> jstring (jmember ''status'' d);
          Some \<lparr>TRsp_TransactionID = i, TRsp_SessionID = '''', TRsp_Status = st\<rparr> }"

definition nomba_Transfer :: "'n adapter \<Rightarrow> transfer_request \<Rightarrow> 'n nomba_world
    \<Rightarrow> (go_error + transfer_response) \<times> 'n nomba_world" where
  "nomba_Transfer a req =
     decoded ''nomba: transfer''
       (authDo (ad_client a) ''POST'' (sub_path a ''/v2/transfers/bank'') (json_of_transfer a req))
       ''nomba: decode transfer'' decode_transfer"

definition decode_lookup :: "string \<Rightarrow> json \<Rightarrow> account_resolution option" where
  "decode_lookup bankCode body =
     do { fs \<leftarrow> jobject body; code \<leftarrow> jstring (jmember ''code'' fs);
          d \<leftarrow> jobject (jmember ''data'' fs); name \<leftarrow> jstring (jmember ''accountName'' d);
          number \<leftarrow> jstring (jmember ''accountNumber'' d);
          Some \<lparr>AR_AccountName = name, AR_AccountNumber = number, AR_BankCode = bankCode\<rparr> }"

definition nomba_ResolveAccount :: "'n adapter \<Rightarrow> string \<Rightarrow> string \<Rightarrow> 'n nomba_world
    \<Rightarrow> (go_error + account_resolution) \<times> 'n nomba_world" where
  "nomba_ResolveAccount a bankCode accountNumber =
     decoded ''nomba: resolve account''
       (authDo (ad_client a) ''POST'' ''/v1/transfers/bank/lookup''
          (JObj [(''accountNumber'', JStr accountNumber), (''bankCode'', JStr bankCode)]))
       ''nomba: decode resolve account'' (decode_lookup bankCode)"

section \<open>Webhooks\<close>

record nomba_webhook =
  nh_EventType :: string
  nh_RequestID :: string
  nh_WalletID :: string
  nh_UserID :: string
  nh_TransactionID :: string
  nh_SessionID :: string
  nh_Type :: string
  nh_Time :: string
  nh_ResponseCode :: string
  nh_AliasAccountNumber :: string
  nh_AliasAccountReference :: string
  nh_AliasAccountName :: string
  nh_TransactionAmount :: rat
  nh_Narration :: string
  nh_SenderName :: string
  nh_BankName :: string

definition decode_webhook :: "json \<Rightarrow> nomba_webhook option" where
  "decode_webhook body =
     do { fs \<leftarrow> jobject body; ev \<leftarrow> jstring (jmember ''event_type'' fs);
          rq \<leftarrow> jstring (jmember ''requestId'' fs); d \<leftarrow> jobject (jmember ''data'' fs);
          m \<leftarrow> jobject (jmember ''merchant'' d);
          wallet \<leftarrow> jstring (jmember ''walletId'' m); user \<leftarrow> jstring (jmember ''userId'' m);
          t \<leftarrow> jobject (jmember ''transaction'' d);
          i \<leftarrow> jstring (jmember ''transactionId'' t); sid \<leftarrow> jstring (jmember ''sessionId'' t);
          ty \<leftarrow> jstring (jmember ''type'' t); tm \<leftarrow> jstring (jmember ''time'' t);
          rc \<leftarrow> jstring (jmember ''responseCode'' t);
          number \<leftarrow> jstring (jmember ''aliasAccountNumber'' t);
          ref \<leftarrow> jstring (jmember ''aliasAccountReference'' t);
          name \<leftarrow> jstring (jmember ''aliasAccountName'' t);
          amt \<leftarrow> jfloat (jmember ''transactionAmount'' t);
          narr \<leftarrow> jstring (jmember ''narration'' t);
          c \<leftarrow> jobject (jmember ''customer'' d); sn \<leftarrow> jstring (jmember ''senderName'' c);
          bk \<leftarrow> jstring (jmember ''bankName'' c);
          Some \<lparr>nh_EventType = ev, nh_RequestID = rq, nh_WalletID = wallet, nh_UserID = user,
                nh_TransactionID = i, nh_SessionID = sid, nh_Type = ty, nh_Time = tm,
                nh_ResponseCode = rc, nh_AliasAccountNumber = number, nh_AliasAccountReference = ref,
                nh_AliasAccountName = name, nh_TransactionAmount = amt, nh_Narration = narr,
                nh_SenderName = sn, nh_BankName = bk\<rparr> }"

text \<open>\<open>base64.StdEncoding\<close>.\<close>

definition base64_alphabet :: string where
  "base64_alphabet = ''ABCDEFGHIJKLMNOPQRSTUVWXYZabcdefghijklmnopqrstuvwxyz0123456789+/''"

fun base64 :: "string \<Rightarrow> string" where
  "base64 (a # b # c # s) =
     (let n = of_char a * 65536 + of_char b * 256 + of_char c :: nat
      in [base64_alphabet ! (n div 262144), base64_alphabet ! (n div 4096 mod 64),
          base64_alphabet ! (n div 64 mod 64), base64_alphabet ! (n mod 64)] @ base64 s)"
| "base64 [a, b] =
     (let n = of_char a * 65536 + of_char b * 256 :: nat
      in [base64_alphabet ! (n div 262144), base64_alphabet ! (n div 4096 mod 64),
          base64_alphabet ! (n div 64 mod 64), CHR ''=''])"
| "base64 [a] =
     (let n = of_char a * 65536 :: nat
      in [base64_alphabet ! (n div 262144), base64_alphabet ! (n div 4096 mod 64),
          CHR ''='', CHR ''=''])"
| "base64 [] = ''''"

definition header :: "string \<Rightarrow> (string \<times> string) list \<Rightarrow> string" where
  "header k hs = (case map_of hs k of None \<Rightarrow> '''' | Some v \<Rightarrow> v)"

definition hashingPayload :: "nomba_webhook \<Rightarrow> string \<Rightarrow> string" where
  "hashingPayload p ts =
     (let responseCode = (if nh_ResponseCode p = ''null'' then '''' else nh_ResponseCode p)
      in join '':'' [nh_EventType p, nh_RequestID p, nh_UserID p, nh_WalletID p, nh_TransactionID p,
                     nh_Type p, nh_Time p, responseCode, ts])"

definition nomba_VerifyWebhookSignature :: "'n adapter \<Rightarrow> (string \<times> string) list \<Rightarrow> json
    \<Rightarrow> go_error option" where
  "nomba_VerifyWebhookSignature a headers body =
     (let sig = header ''nomba-signature'' headers; ts = header ''nomba-timestamp'' headers
      in if sig = '''' \<or> ts = ''''
         then Some (Errorf ''missing nomba-signature or nomba-timestamp header'')
         else case decode_webhook body of
           None \<Rightarrow> Some (Wrap ''nomba: parse webhook body for signature'' decode_error)
         | Some p \<Rightarrow>
             if base64 (ad_hmac a (ad_webhookSecret a) (hashingPayload p ts)) \<noteq> sig
             then Some (Errorf ''webhook signature mismatch'') else None)"

definition normaliseEventType :: "string \<Rightarrow> string" where
  "normaliseEventType raw =
     (let s = ToLower raw
      in if s \<in> {''payment_success'', ''successful_transaction''} then ''payment_success''
         else if s \<in> {''payment_reversal'', ''reversal''} then ''payment_reversal''
         else if s \<in> {''payment_failed'', ''failed_transaction''} then ''payment_failed''
         else raw)"

definition nomba_ParseWebhook :: "'n adapter \<Rightarrow> json \<Rightarrow> go_error + webhook_payload" where
  "nomba_ParseWebhook a body =
     (case decode_webhook body of
        None \<Rightarrow> Inl (Wrap ''nomba: parse webhook'' decode_error)
      | Some p \<Rightarrow>
          Inr \<lparr>WP_EventType = normaliseEventType (nh_EventType p),
               WP_Transaction = \<lparr>PT_TransactionID = nh_TransactionID p, PT_SessionID = nh_SessionID p,
                  PT_AccountNumber = nh_AliasAccountNumber p, PT_AccountRef = nh_AliasAccountReference p,
                  PT_AmountKobo = int64_of (ad_conv a) (fl_mult (Some (nh_TransactionAmount p)) 100),
                  PT_Type = nh_Type p, PT_Status = '''', PT_SenderName = nh_SenderName p,
                  PT_SenderBank = nh_BankName p, PT_Narration = nh_Narration p,
                  PT_OccurredAt = (case parse_rfc3339 (nh_Time p) of Some t \<Rightarrow> t | None \<Rightarrow> 0),
                  PT_Raw = body\<rparr>,
               WP_Raw = body\<rparr>)"

definition nomba_provider :: "'n adapter \<Rightarrow> 'n nomba_world provider" where
  "nomba_provider a =
     \<lparr>pv_CreateVA = nomba_CreateVA a, pv_UpdateVA = nomba_UpdateVA a, pv_CloseVA = nomba_CloseVA a,
      pv_SuspendVA = nomba_SuspendVA a, pv_ListVAs = nomba_ListVAs a,
      pv_ListTransactions = nomba_ListTransactions a, pv_Requery = nomba_Requery a,
      pv_Transfer = nomba_Transfer a, pv_ResolveAccount = nomba_ResolveAccount a,
      pv_VerifyWebhookSignature = (\<lambda>hs body w. nomba_VerifyWebhookSignature a hs body),
      pv_ParseWebhook = (\<lambda>now body w. nomba_ParseWebhook a body)\<rparr>"

section \<open>Decoding a webhook body\<close>

definition webhook_body :: "nomba_webhook \<Rightarrow> json \<Rightarrow> json" where
  "webhook_body p amount = JObj
     [(''event_type'', JStr (nh_EventType p)), (''requestId'', JStr (nh_RequestID p)),
      (''data'', JObj
        [(''merchant'', JObj [(''walletId'', JStr (nh_WalletID p)), (''userId'', JStr (nh_UserID p))]),
         (''transaction'', JObj
           [(''transactionId'', JStr (nh_TransactionID p)), (''sessionId'', JStr (nh_SessionID p)),
            (''type'', JStr (nh_Type p)), (''time'', JStr (nh_Time p)),
            (''responseCode'', JStr (nh_ResponseCode p)),
            (''aliasAccountNumber'', JStr (nh_AliasAccountNumber p)),
            (''aliasAccountReference'', JStr (nh_AliasAccountReference p)),
            (''aliasAccountName'', JStr (nh_AliasAccountName p)), (''transactionAmount'', amount),
            (''narration'', JStr (nh_Narration p))]),
         (''customer'', JObj [(''senderName'', JStr (nh_SenderName p)), (''bankName'', JStr (nh_BankName p))])])]"

lemma lower_keys:
  "ToLower ''event_type'' = ''event_type''" "ToLower ''requestId'' = ''requestid''"
  "ToLower ''data'' = ''data''" "ToLower ''merchant'' = ''merchant''"
  "ToLower ''walletId'' = ''walletid''" "ToLower ''userId'' = ''userid''"
  "ToLower ''transaction'' = ''transaction''" "ToLower ''transactionId'' = ''transactionid''"
  "ToLower ''sessionId'' = ''sessionid''" "ToLower ''type'' = ''type''" "ToLower ''time'' = ''time''"
  "ToLower ''responseCode'' = ''responsecode''" "ToLower ''aliasAccountNumber'' = ''aliasaccountnumber''"
  "ToLower ''aliasAccountReference'' = ''aliasaccountreference''"
  "ToLower ''aliasAccountName'' = ''aliasaccountname''"
  "ToLower ''transactionAmount'' = ''transactionamount''" "ToLower ''narration'' = ''narration''"
  "ToLower ''customer'' = ''customer''" "ToLower ''senderName'' = ''sendername''"
  "ToLower ''bankName'' = ''bankname''"
  by code_simp+

lemma decode_webhook_body:
  assumes "jfloat amount = Some x"
  shows "decode_webhook (webhook_body p amount) = Some (p\<lparr>nh_TransactionAmount := x\<rparr>)"
  using assms
  by (cases p; cases "amount = JNull")
    (auto simp: decode_webhook_def webhook_body_def jmember_def jlast_def lower_keys)

section \<open>What a signature covers\<close>

lemma verify_iff:
  "nomba_VerifyWebhookSignature a hs body = None \<longleftrightarrow>
     header ''nomba-signature'' hs \<noteq> '''' \<and> header ''nomba-timestamp'' hs \<noteq> '''' \<and>
     (\<exists>p. decode_webhook body = Some p \<and>
        header ''nomba-signature'' hs =
          base64 (ad_hmac a (ad_webhookSecret a) (hashingPayload p (header ''nomba-timestamp'' hs))))"
  by (auto simp: nomba_VerifyWebhookSignature_def Let_def split: option.splits)

lemma verify_cong:
  assumes "nomba_VerifyWebhookSignature a hs body = None" and "decode_webhook body = Some p"
    and "decode_webhook body' = Some q" and "\<And>ts. hashingPayload q ts = hashingPayload p ts"
  shows "nomba_VerifyWebhookSignature a hs body' = None"
proof -
  have "nomba_VerifyWebhookSignature a hs body' = nomba_VerifyWebhookSignature a hs body"
    by (simp only: nomba_VerifyWebhookSignature_def assms(2,3,4) option.case)
  with assms(1) show ?thesis by simp
qed

text \<open>
  The same text to hash, cut at other colons: the transaction identifier takes the type along,
  and the time, which has colons of its own, fills the two fields that this sets free.
\<close>

definition resplit :: "nomba_webhook \<Rightarrow> string \<Rightarrow> string \<Rightarrow> nomba_webhook" where
  "resplit p t1 t2 = p\<lparr>nh_TransactionID := nh_TransactionID p @ '':'' @ nh_Type p,
     nh_Type := t1, nh_Time := t2\<rparr>"

lemma resplit_hash: "nh_Time p = t1 @ '':'' @ t2 \<Longrightarrow> hashingPayload (resplit p t1 t2) ts = hashingPayload p ts"
  by (simp add: hashingPayload_def resplit_def)

lemma hash_ignores:
  "hashingPayload (p\<lparr>nh_AliasAccountNumber := x\<rparr>) ts = hashingPayload p ts"
  "hashingPayload (p\<lparr>nh_AliasAccountReference := x\<rparr>) ts = hashingPayload p ts"
  "hashingPayload (p\<lparr>nh_TransactionAmount := y\<rparr>) ts = hashingPayload p ts"
  by (simp_all add: hashingPayload_def)

text \<open>
  C29: The signature does not bind the notification. Whoever has seen one authentic webhook can,
  with its headers, make another one that verifies and parses, has the same event type, another
  deduplication key, and any amount and any account that he likes: the amount and the account are
  not part of the hashed text, and the colons that join its fields also occur in the fields.
\<close>

theorem signature_not_binding:
  assumes "nomba_VerifyWebhookSignature a hs body = None" and "nomba_ParseWebhook a body = Inr pl"
    and "decode_webhook body = Some p" and "nh_Time p = t1 @ '':'' @ t2"
    and "jfloat amount = Some x"
  shows "\<exists>body' pl'. nomba_VerifyWebhookSignature a hs body' = None \<and>
    nomba_ParseWebhook a body' = Inr pl' \<and>
    WP_EventType pl' = WP_EventType pl \<and> dedupe_key pl' \<noteq> dedupe_key pl \<and>
    PT_AccountNumber (WP_Transaction pl') = number \<and> PT_AccountRef (WP_Transaction pl') = ref \<and>
    PT_AmountKobo (WP_Transaction pl') = int64_of (ad_conv a) (fl_mult (Some x) 100)"
proof -
  let ?q = "(resplit p t1 t2)\<lparr>nh_AliasAccountNumber := number, nh_AliasAccountReference := ref,
      nh_TransactionAmount := x\<rparr>"
  let ?body = "webhook_body ?q amount"
  have dec: "decode_webhook ?body = Some ?q" using decode_webhook_body [OF assms(5), of ?q] by simp
  have "hashingPayload ?q ts = hashingPayload p ts" for ts
    by (simp only: hash_ignores resplit_hash [OF assms(4)])
  with assms(1,3) dec have "nomba_VerifyWebhookSignature a hs ?body = None" by (rule verify_cong)
  moreover obtain pl' where pl': "nomba_ParseWebhook a ?body = Inr pl'" "WP_EventType pl' = WP_EventType pl"
    "PT_TransactionID (WP_Transaction pl') = nh_TransactionID p @ '':'' @ nh_Type p"
    "PT_AccountNumber (WP_Transaction pl') = number" "PT_AccountRef (WP_Transaction pl') = ref"
    "PT_AmountKobo (WP_Transaction pl') = int64_of (ad_conv a) (fl_mult (Some x) 100)"
    using dec assms(2,3) by (auto simp: nomba_ParseWebhook_def resplit_def)
  moreover have "dedupe_key pl' \<noteq> dedupe_key pl"
    using assms(2,3) pl' by (auto simp: nomba_ParseWebhook_def dedupe_key_def)
  ultimately show ?thesis by blast
qed

definition demo_webhook :: nomba_webhook where
  "demo_webhook = \<lparr>nh_EventType = ''payment_success'', nh_RequestID = ''rq1'', nh_WalletID = ''w1'',
     nh_UserID = ''u1'', nh_TransactionID = ''T1'', nh_SessionID = ''s1'', nh_Type = ''vact_transfer'',
     nh_Time = ''2026-07-01T10:00:00Z'', nh_ResponseCode = '''', nh_AliasAccountNumber = ''0123456789'',
     nh_AliasAccountReference = '''', nh_AliasAccountName = ''Ada'', nh_TransactionAmount = 0,
     nh_Narration = '''', nh_SenderName = '''', nh_BankName = ''''\<rparr>"

definition demo_adapter :: "unit adapter" where
  "demo_adapter = \<lparr>ad_client = \<lparr>nc_baseURL = '''', nc_clientID = '''', nc_clientSecret = '''',
       nc_accountID = '''', nc_http = (\<lambda>r n. (Inl (Errorf ''''), n)), nc_now = (\<lambda>n. 0),
       nc_parse_url = (\<lambda>u. None), nc_text = (\<lambda>j. '''')\<rparr>,
     ad_subAccountID = '''', ad_webhookSecret = ''k'', ad_hmac = (\<lambda>k m. ''mac''),
     ad_float_json = (\<lambda>q. JDec ''15.55''), ad_conv = (\<lambda>x. 0)\<rparr>"

definition demo_signed :: "(string \<times> string) list" where
  "demo_signed = [(''nomba-signature'', base64 ''mac''), (''nomba-timestamp'', ''2026-07-01T10:00:01Z'')]"

theorem signature_not_binding_witness:
  "\<exists>body' pl'. nomba_VerifyWebhookSignature demo_adapter demo_signed body' = None \<and>
    nomba_ParseWebhook demo_adapter body' = Inr pl' \<and>
    PT_AccountNumber (WP_Transaction pl') = ''9999999999''"
proof -
  let ?body = "webhook_body demo_webhook (JInt 0)"
  have dec: "decode_webhook ?body = Some (demo_webhook\<lparr>nh_TransactionAmount := 0\<rparr>)"
    by (rule decode_webhook_body) simp
  have "base64 ''mac'' \<noteq> ''''" by simp
  with dec have v: "nomba_VerifyWebhookSignature demo_adapter demo_signed ?body = None"
    by (simp add: verify_iff header_def demo_signed_def demo_adapter_def)
  obtain pl where p: "nomba_ParseWebhook demo_adapter ?body = Inr pl"
    using dec by (simp add: nomba_ParseWebhook_def)
  have t: "nh_Time (demo_webhook\<lparr>nh_TransactionAmount := 0\<rparr>) = ''2026-07-01T10'' @ '':'' @ ''00:00Z''"
    by (simp add: demo_webhook_def)
  have "jfloat (JInt 0) = Some 0" by simp
  from signature_not_binding [OF v p dec t this, of "''9999999999''"] show ?thesis by blast
qed

text \<open>
  C28: The gate of the webhook. With the provider's adapter the handler gets past 400 and 401 exactly
  for a request with a signature and a timestamp, whose signature is the keyed hash of the
  notification and the timestamp under the webhook secret, and whose timestamp is less than 301 seconds
  old if it reads as a time; a timestamp that does not is not held against the request. The others
  change nothing.
\<close>

theorem authentic_webhook:
  assumes "pv_VerifyWebhookSignature (wh_prov h) = (\<lambda>hs body w. nomba_VerifyWebhookSignature a hs body)"
    and "HandleNombaWebhook h now headers request w = (code, w')"
  shows "(code \<notin> {400, 401} \<longleftrightarrow>
      HH_signature headers \<noteq> '''' \<and> HH_timestamp headers \<noteq> '''' \<and>
      (\<exists>body p. request = Some body \<and> decode_webhook body = Some p \<and>
         HH_signature headers =
           base64 (ad_hmac a (ad_webhookSecret a) (hashingPayload p (HH_timestamp headers)))) \<and>
      (\<forall>t. parse_rfc3339 (HH_timestamp headers) = Some t \<longrightarrow> now 0 - t < 301 * second)) \<and>
    (code \<in> {400, 401} \<longrightarrow> w' = w)"
proof (cases request)
  case None
  with assms(2) show ?thesis by (simp add: HandleNombaWebhook_def)
next
  case (Some body)
  have hd: "header ''nomba-signature'' (header_list headers) = HH_signature headers"
    "header ''nomba-timestamp'' (header_list headers) = HH_timestamp headers"
    by (simp_all add: header_def header_list_def)
  let ?fresh = "\<forall>t. parse_rfc3339 (HH_timestamp headers) = Some t \<longrightarrow> now 0 - t < 301 * second"
  have fresh: "timestampAge (now 0) (HH_timestamp headers) \<le> replayWindowSeconds \<longleftrightarrow> ?fresh"
    by (simp add: age_window split: option.split)
  have "code \<notin> {400, 401} \<longleftrightarrow> nomba_VerifyWebhookSignature a (header_list headers) body = None \<and>
      (HH_timestamp headers = '''' \<or> ?fresh)"
    using assms Some unfolding fresh [symmetric]
    by (auto simp: HandleNombaWebhook_def split: option.splits sum.splits prod.splits if_splits)
  moreover have "w' = w" if "code \<in> {400, 401}"
    using assms Some that
    by (auto simp: HandleNombaWebhook_def split: option.splits sum.splits prod.splits if_splits)
  ultimately show ?thesis using Some by (auto simp: verify_iff hd)
qed

section \<open>Captured notifications\<close>

text \<open>
  The same text to hash once more: the transaction identifier takes the type along, everything behind
  it moves up by one field, and the timestamp gives its first part to the response code.
\<close>

definition shift_fields :: "nomba_webhook \<Rightarrow> string \<Rightarrow> nomba_webhook" where
  "shift_fields p u = p\<lparr>nh_TransactionID := nh_TransactionID p @ '':'' @ nh_Type p, nh_Type := nh_Time p,
     nh_Time := (if nh_ResponseCode p = ''null'' then '''' else nh_ResponseCode p), nh_ResponseCode := u\<rparr>"

lemma shift_fields_hash:
  "u \<noteq> ''null'' \<Longrightarrow> hashingPayload (shift_fields p u) v = hashingPayload p (u @ '':'' @ v)"
  by (simp add: hashingPayload_def shift_fields_def)

text \<open>
  A captured notification never goes stale. From one authentic webhook anyone can make another one
  that passes the gate at every later time: the end of its timestamp, behind a colon, is sent as the
  timestamp, which then does not read as a time and counts as just sent, and what is left moves into
  the body. The signature is the old one, the deduplication key is new, and the amount and the account
  are again free; whenever it is sent, the handler stores and queues the notification.
\<close>

theorem captured_webhook_never_stale:
  assumes "pv_VerifyWebhookSignature (wh_prov h) = (\<lambda>hs body w. nomba_VerifyWebhookSignature a hs body)"
    and "pv_ParseWebhook (wh_prov h) = (\<lambda>now body w. nomba_ParseWebhook a body)"
    and "nomba_VerifyWebhookSignature a (header_list headers) body = None"
    and "nomba_ParseWebhook a body = Inr pl" and "HH_timestamp headers = u @ '':'' @ v"
    and "u \<noteq> ''null''" and "v \<noteq> ''''" and "parse_rfc3339 v = None" and "jfloat amount = Some x"
  shows "\<exists>body' pl'. nomba_ParseWebhook a body' = Inr pl' \<and>
    WP_EventType pl' = WP_EventType pl \<and> dedupe_key pl' \<noteq> dedupe_key pl \<and>
    PT_AccountNumber (WP_Transaction pl') = number \<and>
    PT_AmountKobo (WP_Transaction pl') = int64_of (ad_conv a) (fl_mult (Some x) 100) \<and>
    (\<forall>now w. HandleNombaWebhook h now (headers\<lparr>HH_timestamp := v\<rparr>) (Some body') w =
       (case ws_InsertWebhookEvent (wh_webhooks h) (now 2) (received_event pl' body') w of
          (Inl err, w) \<Rightarrow> (500, w)
        | (Inr (inserted, evt), w) \<Rightarrow>
            if \<not> inserted then (200, w)
            else (200, snd (wh_enqueue h \<lparr>WI_WebhookEventID = WE_ID evt, WI_Payload = pl',
                   WI_Source = ''webhook''\<rparr> w))))"
proof -
  have hd: "header ''nomba-signature'' (header_list hs) = HH_signature hs"
    "header ''nomba-timestamp'' (header_list hs) = HH_timestamp hs" for hs
    by (simp_all add: header_def header_list_def)
  from assms(3) obtain p where p: "decode_webhook body = Some p" "HH_signature headers \<noteq> ''''"
    "HH_signature headers = base64 (ad_hmac a (ad_webhookSecret a) (hashingPayload p (u @ '':'' @ v)))"
    by (auto simp: verify_iff hd assms(5))
  let ?q = "(shift_fields p u)\<lparr>nh_AliasAccountNumber := number, nh_TransactionAmount := x\<rparr>"
  let ?body = "webhook_body ?q amount"
  have dec: "decode_webhook ?body = Some ?q" using decode_webhook_body [OF assms(9), of ?q] by simp
  have "hashingPayload ?q v = hashingPayload p (u @ '':'' @ v)"
    by (simp only: hash_ignores shift_fields_hash [OF assms(6)])
  with p dec have v: "nomba_VerifyWebhookSignature a (header_list (headers\<lparr>HH_timestamp := v\<rparr>)) ?body = None"
    using assms(7) by (simp add: verify_iff hd)
  obtain pl' where pl': "nomba_ParseWebhook a ?body = Inr pl'" "WP_EventType pl' = WP_EventType pl"
    "PT_TransactionID (WP_Transaction pl') = nh_TransactionID p @ '':'' @ nh_Type p"
    "PT_AccountNumber (WP_Transaction pl') = number"
    "PT_AmountKobo (WP_Transaction pl') = int64_of (ad_conv a) (fl_mult (Some x) 100)"
    using dec assms(4) p(1) by (auto simp: nomba_ParseWebhook_def shift_fields_def)
  have "dedupe_key pl' \<noteq> dedupe_key pl"
    using assms(4) p(1) pl' by (auto simp: nomba_ParseWebhook_def dedupe_key_def)
  moreover have "\<not> replayWindowSeconds < timestampAge t v" for t
    using assms(8) by (simp add: timestampAge_def replayWindowSeconds_def)
  ultimately show ?thesis
    using pl' v assms(1,2) by (intro exI [of _ ?body] exI [of _ pl']) (simp add: HandleNombaWebhook_def)
qed

text \<open>The adapter in front of the in-memory stores.\<close>

definition demo_gate :: "mem webhook_handler" where
  "demo_gate = \<lparr>wh_prov = (fake_provider plain_order)
       \<lparr>pv_VerifyWebhookSignature := \<lambda>hs body w. nomba_VerifyWebhookSignature demo_adapter hs body,
        pv_ParseWebhook := \<lambda>now body w. nomba_ParseWebhook demo_adapter body\<rparr>,
     wh_webhooks = mem_webhook_event_store plain_order, wh_enqueue = mem_enqueue 1\<rparr>"

definition demo_gate_headers :: http_headers where
  "demo_gate_headers = \<lparr>HH_signature = base64 ''mac'', HH_signature_algorithm = '''',
     HH_signature_version = '''', HH_timestamp = ''2026-07-01T10:00:01Z''\<rparr>"

lemma demo_gate_verifies:
  "nomba_VerifyWebhookSignature demo_adapter (header_list demo_gate_headers) (webhook_body demo_webhook (JInt 0)) = None"
proof -
  have "decode_webhook (webhook_body demo_webhook (JInt 0)) = Some (demo_webhook\<lparr>nh_TransactionAmount := 0\<rparr>)"
    by (rule decode_webhook_body) simp
  moreover have "base64 ''mac'' \<noteq> ''''" by simp
  ultimately show ?thesis
    by (simp add: verify_iff header_def header_list_def demo_gate_headers_def demo_adapter_def)
qed

text \<open>A notification that is five seconds old passes, and an hour later it does not.\<close>

theorem authentic_webhook_witness:
  "\<exists>t. parse_rfc3339 (HH_timestamp demo_gate_headers) = Some t \<and>
     fst (HandleNombaWebhook demo_gate (\<lambda>k. t + 5 * second) demo_gate_headers
       (Some (webhook_body demo_webhook (JInt 0))) mem_init) \<notin> {400, 401} \<and>
     HandleNombaWebhook demo_gate (\<lambda>k. t + hour) demo_gate_headers
       (Some (webhook_body demo_webhook (JInt 0))) mem_init = (401, mem_init)"
proof -
  let ?H = "\<lambda>now. HandleNombaWebhook demo_gate now demo_gate_headers (Some (webhook_body demo_webhook (JInt 0))) mem_init"
  have "parse_rfc3339 ''2026-07-01T10:00:01Z'' \<noteq> None" by code_simp
  then obtain t where t: "parse_rfc3339 (HH_timestamp demo_gate_headers) = Some t"
    by (auto simp: demo_gate_headers_def)
  have v: "pv_VerifyWebhookSignature (wh_prov demo_gate) = (\<lambda>hs body w. nomba_VerifyWebhookSignature demo_adapter hs body)"
    by (simp add: demo_gate_def)
  obtain c1 w1 where r1: "?H (\<lambda>k. t + 5 * second) = (c1, w1)" by fastforce
  obtain c2 w2 where r2: "?H (\<lambda>k. t + hour) = (c2, w2)" by fastforce
  have dec: "decode_webhook (webhook_body demo_webhook (JInt 0)) = Some (demo_webhook\<lparr>nh_TransactionAmount := 0\<rparr>)"
    by (rule decode_webhook_body) simp
  have sig: "HH_signature demo_gate_headers = base64 (ad_hmac demo_adapter (ad_webhookSecret demo_adapter)
      (hashingPayload (demo_webhook\<lparr>nh_TransactionAmount := 0\<rparr>) (HH_timestamp demo_gate_headers)))"
    "HH_signature demo_gate_headers \<noteq> ''''" "HH_timestamp demo_gate_headers \<noteq> ''''"
    by (simp_all add: demo_gate_headers_def demo_adapter_def)
  from authentic_webhook [OF v r1] t dec sig have "c1 \<notin> {400, 401}" by (auto simp: second_def)
  moreover from authentic_webhook [OF v r2] t have "c2 \<in> {400, 401}" "w2 = mem_init"
    by (auto simp: second_def hour_def minute_def)
  moreover from r2 have "c2 \<noteq> 400" using demo_gate_verifies
    by (auto simp: HandleNombaWebhook_def demo_gate_def split: if_splits sum.splits prod.splits)
  ultimately show ?thesis using t r1 r2 by auto
qed

theorem captured_webhook_never_stale_witness:
  "\<exists>body' pl'. PT_AccountNumber (WP_Transaction pl') = ''9999999999'' \<and>
     (\<forall>now w. HandleNombaWebhook demo_gate now (demo_gate_headers\<lparr>HH_timestamp := ''01Z''\<rparr>) (Some body') w =
       (case ws_InsertWebhookEvent (wh_webhooks demo_gate) (now 2) (received_event pl' body') w of
          (Inl err, w) \<Rightarrow> (500, w)
        | (Inr (inserted, evt), w) \<Rightarrow>
            if \<not> inserted then (200, w)
            else (200, snd (wh_enqueue demo_gate \<lparr>WI_WebhookEventID = WE_ID evt, WI_Payload = pl',
                   WI_Source = ''webhook''\<rparr> w))))"
proof -
  have dec: "decode_webhook (webhook_body demo_webhook (JInt 0)) = Some (demo_webhook\<lparr>nh_TransactionAmount := 0\<rparr>)"
    by (rule decode_webhook_body) simp
  then obtain pl where pl: "nomba_ParseWebhook demo_adapter (webhook_body demo_webhook (JInt 0)) = Inr pl"
    by (simp add: nomba_ParseWebhook_def)
  have ts: "HH_timestamp demo_gate_headers = ''2026-07-01T10:00'' @ '':'' @ ''01Z''" by (simp add: demo_gate_headers_def)
  have unread: "parse_rfc3339 ''01Z'' = None" by code_simp
  have "pv_VerifyWebhookSignature (wh_prov demo_gate) = (\<lambda>hs body w. nomba_VerifyWebhookSignature demo_adapter hs body)"
    "pv_ParseWebhook (wh_prov demo_gate) = (\<lambda>now body w. nomba_ParseWebhook demo_adapter body)"
    by (simp_all add: demo_gate_def)
  from captured_webhook_never_stale [OF this demo_gate_verifies pl ts _ _ unread, of "JInt 0" 0 "''9999999999''"]
  show ?thesis by auto
qed

section \<open>Amounts\<close>

lemma float64_naira:
  assumes "n \<le> 2 ^ 50"
  obtains f where "float64 (of_nat n / 100) = Some f"
proof (cases "n = 0")
  case False
  have "1 \<le> rat_of_nat n" "rat_of_nat n \<le> 2 ^ 50"
    using False of_nat_mono [OF assms, where 'a = rat] by simp_all
  then have "1 / 100 \<le> rat_of_nat n / 100" "rat_of_nat n / 100 \<le> 2 ^ 60" by simp_all
  then show thesis by (rule float64_money) (rule that)
qed (use that in simp)

lemma nairaToKobo_exact:
  assumes "n \<le> 2 ^ 50" and "parse_number s = Some (of_nat n / 100)"
  shows "nairaToKobo conv s = Inr (of_nat n)"
proof -
  obtain f where f: "float64 (of_nat n / 100) = Some f" using float64_naira [OF assms(1)] .
  have "s \<noteq> ''''" using assms(2) by (auto simp: parse_number_def number_int_def)
  with f assms(2) kobo_rounded [OF assms(1) f] show ?thesis
    by (simp add: nairaToKobo_def Float64_def)
qed

lemma convert_amount:
  assumes "n \<le> 2 ^ 50" and "parse_number (nt_Amount t) = Some (of_nat n / 100)"
    and "parseNombaTime (nt_TimeCreated t) = Some u"
  shows "convertTransaction a t = Inr \<lparr>PT_TransactionID = nt_TransactionID t,
     PT_SessionID = nt_SessionID t, PT_AccountNumber = nt_RecipientAccountNumber t, PT_AccountRef = '''',
     PT_AmountKobo = of_nat n, PT_Type = nt_Type t, PT_Status = nt_Status t,
     PT_SenderName = nt_SenderName t, PT_SenderBank = nt_BankName t, PT_Narration = nt_Narration t,
     PT_OccurredAt = u, PT_Raw = json_of_tx t\<rparr>"
  using assms by (simp add: convertTransaction_def nairaToKobo_exact)

text \<open>
  C33: The two ways a credit comes in disagree on its amount. Up to \<open>2 ^ 50\<close> kobo, the listing
  and the requery turn any literal for \<open>n\<close> kobo in naira into exactly \<open>n\<close>; the webhook, which
  truncates instead of rounding, turns the same literal into \<open>n\<close> or \<open>n - 1\<close>.
\<close>

theorem amounts_of_naira:
  assumes "n \<le> 2 ^ 50" and "parse_number s = Some (of_nat n / 100)"
    and "nt_Amount t = s" and "parseNombaTime (nt_TimeCreated t) = Some u"
    and "nomba_ParseWebhook a (webhook_body p (JDec s)) = r"
  shows "\<exists>pt pl. convertTransaction a t = Inr pt \<and> PT_AmountKobo pt = of_nat n \<and> r = Inr pl \<and>
    PT_AmountKobo (WP_Transaction pl) \<in> {of_nat n, of_nat n - 1}"
proof -
  obtain f where f: "float64 (of_nat n / 100) = Some f" using float64_naira [OF assms(1)] .
  then have "jfloat (JDec s) = Some f" using assms(2) by simp
  from decode_webhook_body [OF this] kobo_truncated [OF assms(1) f] assms(5)
  have "\<exists>pl. r = Inr pl \<and> PT_AmountKobo (WP_Transaction pl) \<in> {of_nat n, of_nat n - 1}"
    by (auto simp: nomba_ParseWebhook_def)
  with convert_amount [OF assms(1), of t u a] assms(2,3,4) show ?thesis by simp
qed

lemma twenty_nine:
  "parse_number ''0.29'' = Some (of_nat 29 / 100)"
  "fl_mult (float64 (29 / 100)) 100 = Some (8162774324609023 / 281474976710656)"
proof -
  have "naira_text 29 = ''0.29''" by (simp add: naira_text_def dec_nat.simps [of 0] digit_values)
  with parse_naira_text [of 29] show "parse_number ''0.29'' = Some (of_nat 29 / 100)" by simp
  have "nearest64 (29 / 100) = 5224175567749775 / 18014398509481984"
    by (subst nearest64_at [of "- 2"]) (simp_all add: power_int_minus_divide half_even_def Let_def)
  then have "float64 (29 / 100) = Some (5224175567749775 / 18014398509481984)"
    by (rule float64_at) simp
  moreover have "nearest64 (130604389193744375 / 4503599627370496) = 8162774324609023 / 281474976710656"
    by (subst nearest64_at [of 4]) (simp_all add: power_int_minus_divide half_even_def Let_def)
  then have "float64 (130604389193744375 / 4503599627370496) = Some (8162774324609023 / 281474976710656)"
    by (rule float64_at) simp
  ultimately show "fl_mult (float64 (29 / 100)) 100 = Some (8162774324609023 / 281474976710656)"
    by (simp add: fl_mult_def)
qed

text \<open>
  The webhook really is short by one kobo: a credit of 0.29 naira is announced as 28 kobo, and
  the same credit listed is 29 kobo.
\<close>

theorem webhook_short:
  "\<exists>pt pl. nomba_ParseWebhook a (webhook_body p (JDec ''0.29'')) = Inr pl \<and>
     PT_AmountKobo (WP_Transaction pl) = 28 \<and>
     convertTransaction a (t\<lparr>nt_Amount := ''0.29'', nt_TimeCreated := ''''\<rparr>) = Inr pt \<and>
     PT_AmountKobo pt = 29"
proof -
  obtain f where f: "float64 (of_nat 29 / 100) = Some f" using float64_naira [of 29] by auto
  have "decode_webhook (webhook_body p (JDec ''0.29'')) = Some (p\<lparr>nh_TransactionAmount := f\<rparr>)"
    using f twenty_nine(1) by (intro decode_webhook_body) simp
  moreover have "int64_of (ad_conv a) (fl_mult (Some f) 100) = 28"
    using f twenty_nine(2) by (simp add: int64_of_def trunc_def fits64_def)
  moreover have "convertTransaction a (t\<lparr>nt_Amount := ''0.29'', nt_TimeCreated := ''''\<rparr>) =
      Inr pt \<Longrightarrow> PT_AmountKobo pt = 29" for pt
    using convert_amount [of 29 "t\<lparr>nt_Amount := ''0.29'', nt_TimeCreated := ''''\<rparr>" 0 a] twenty_nine(1)
    by (auto simp: parseNombaTime_def)
  ultimately show ?thesis
    using convert_amount [of 29 "t\<lparr>nt_Amount := ''0.29'', nt_TimeCreated := ''''\<rparr>" 0 a] twenty_nine(1)
    by (simp add: nomba_ParseWebhook_def parseNombaTime_def)
qed

theorem amounts_of_naira_witness:
  "\<exists>pt pl. convertTransaction demo_adapter \<lparr>nt_TransactionID = ''T1'', nt_SessionID = '''',
       nt_Amount = naira_text 1555, nt_Type = '''', nt_Status = '''', nt_TimeCreated = '''',
       nt_RecipientAccountNumber = '''', nt_SenderName = '''', nt_BankName = '''', nt_Narration = '''',
       nt_EntryType = ''''\<rparr> = Inr pt \<and> PT_AmountKobo pt = 1555 \<and>
     nomba_ParseWebhook demo_adapter (webhook_body demo_webhook (JDec (naira_text 1555))) = Inr pl \<and>
     PT_AmountKobo (WP_Transaction pl) \<in> {1555, 1554}"
  using amounts_of_naira [of 1555 "naira_text 1555" "\<lparr>nt_TransactionID = ''T1'', nt_SessionID = '''',
       nt_Amount = naira_text 1555, nt_Type = '''', nt_Status = '''', nt_TimeCreated = '''',
       nt_RecipientAccountNumber = '''', nt_SenderName = '''', nt_BankName = '''', nt_Narration = '''',
       nt_EntryType = ''''\<rparr>" 0 demo_adapter demo_webhook, OF _ parse_naira_text _ _ refl]
  by (simp add: parseNombaTime_def)

text \<open>
  C34: The amount of an outbound transfer reaches the provider unchanged. Up to \<open>2 ^ 50\<close> kobo, if
  \<open>json.Marshal\<close> writes the double of the amount in naira as a literal that reads back as the same
  double, then the literal read to the nearest kobo is the amount of the request.
\<close>

theorem transfer_amount_exact:
  assumes "0 \<le> sint (TR_AmountKobo req)" and "sint (TR_AmountKobo req) \<le> 2 ^ 50"
    and "jnumber (ad_float_json a (naira_of_kobo (TR_AmountKobo req))) = Some s" and "s \<noteq> ''''"
    and "Float64 s = Some (naira_of_kobo (TR_AmountKobo req))"
  shows "\<exists>fs. json_of_transfer a req = JObj fs \<and> jnumber (jfield ''amount'' fs) = Some s \<and>
    nairaToKobo conv s = Inr (TR_AmountKobo req)"
proof -
  define n where "n = nat (sint (TR_AmountKobo req))"
  with assms(1,2) have n: "n \<le> 2 ^ 50" "sint (TR_AmountKobo req) = int n" by simp_all
  then have "sint (TR_AmountKobo req) = sint (of_nat n :: int64)"
    using sint_of_int_fits [of "int n"] by (simp add: fits64_def)
  then have k: "TR_AmountKobo req = of_nat n" by (rule signed_word_eqI)
  obtain f where f: "float64 (of_nat n / 100) = Some f" using float64_naira [OF n(1)] .
  have "n < 2 ^ 53" using n(1) by simp
  then have "naira_of_kobo (TR_AmountKobo req) = f"
    using f n(2) by (auto simp: naira_of_kobo_def nearest64_int float64_def Let_def split: if_splits)
  with assms(4,5) have "nairaToKobo conv s = Inr (TR_AmountKobo req)"
    using kobo_rounded [OF n(1) f] by (simp add: nairaToKobo_def k)
  moreover have "jfield ''amount'' (the_fields) = ad_float_json a (naira_of_kobo (TR_AmountKobo req))"
    if "json_of_transfer a req = JObj the_fields" for the_fields
    using that by (auto simp: json_of_transfer_def jfield_def)
  ultimately show ?thesis using assms(3) by (simp add: json_of_transfer_def jfield_def)
qed

theorem transfer_amount_exact_witness:
  "nairaToKobo (\<lambda>x. 0) ''15.55'' = Inr 1555"
proof -
  let ?req = "\<lparr>TR_AmountKobo = 1555, TR_DestinationBankCode = '''', TR_DestinationAccountNumber = '''',
    TR_DestinationAccountName = '''', TR_Narration = '''', TR_Reference = ''''\<rparr>"
  have "naira_text 1555 = ''15.55''"
    by (simp add: naira_text_def dec_nat.simps [of 15] dec_nat.simps [of "Suc 0"] digit_values)
  with parse_naira_text [of 1555] have p: "parse_number ''15.55'' = Some (1555 / 100)" by simp
  obtain f where f: "float64 (1555 / 100) = Some f" using float64_naira [of 1555] by auto
  have "nearest64 1555 = 1555" using nearest64_int [of 1555] by simp
  with f have "naira_of_kobo 1555 = f" by (simp add: naira_of_kobo_def float64_def Let_def split: if_splits)
  with p f have "Float64 ''15.55'' = Some (naira_of_kobo 1555)" by (simp add: Float64_def)
  then show ?thesis
    using transfer_amount_exact [of ?req demo_adapter "''15.55''" "\<lambda>x. 0"] by (auto simp: demo_adapter_def)
qed

section \<open>The token of a request\<close>

lemma accessToken_spec:
  "accessToken c w = (r, w') \<Longrightarrow>
     (case r of Inl err \<Rightarrow> nw_accessToken w' = nw_accessToken w \<and> nw_expiresAt w' = nw_expiresAt w
      | Inr tok \<Rightarrow> tok \<noteq> '''' \<and> nw_accessToken w' = tok \<and>
          (w' = w \<and> nc_now c (nw_net w) < nw_expiresAt w \<or>
           nw_expiresAt w' = nc_now c (nw_net w') + tokenTTL))"
  by (auto simp: accessToken_def fetchToken_def decoded_def unauthenticated_def send_def
      split: if_splits sum.splits prod.splits option.splits)

end
