(* ===== verification/TokenFlight.thy ===== *)
theory TokenFlight
  imports Nomba
begin

text \<open>
  The access token of the provider client under concurrent callers
  (\<^verbatim>\<open>internal/provider/nomba/client.go\<close>, \<open>accessToken\<close>): the critical sections of the mutex, the
  request between them, and the channel on which the other callers wait, as a step relation over
  any number of callers. The clock reading of a section is arbitrary.
\<close>

section \<open>The protocol\<close>

text \<open>
  A caller between two critical sections. \<open>Fetching\<close> has announced its refresh and is in the
  request, \<open>Fetched\<close> has the answer, \<open>Closing\<close> has published it and holds the channel that it read
  from the shared cache, \<open>Waiting\<close> waits on a channel, \<open>Woken\<close> has been released and will read the
  cache. \<open>Panicked\<close> is the end of a caller that closes no channel or a closed one.
\<close>

datatype caller =
    Idle
  | Waiting nat
  | Woken
  | Fetching
  | Fetched "go_error + string"
  | Closing "nat option" "go_error + string"
  | Returned "go_error + string"
  | Panicked

record flight =
  fl_accessToken :: string
  fl_expiresAt :: time
  fl_inflight :: "nat option"
  fl_closed :: "nat set"
  fl_made :: nat
  fl_callers :: "nat \<Rightarrow> caller"

abbreviation at :: "flight \<Rightarrow> nat \<Rightarrow> caller" where
  "at s i \<equiv> fl_callers s i"

definition goto :: "nat \<Rightarrow> caller \<Rightarrow> flight \<Rightarrow> flight" where
  "goto i c s = s\<lparr>fl_callers := (fl_callers s)(i := c)\<rparr>"

definition cached :: "time \<Rightarrow> flight \<Rightarrow> bool" where
  "cached now s \<longleftrightarrow> fl_accessToken s \<noteq> '''' \<and> now < fl_expiresAt s"

text \<open>The critical section in which the refreshing caller publishes its result.\<close>

definition publish :: "time \<Rightarrow> go_error + string \<Rightarrow> flight \<Rightarrow> flight" where
  "publish now r s =
     (case r of Inl err \<Rightarrow> s\<lparr>fl_inflight := None\<rparr>
      | Inr tok \<Rightarrow> s\<lparr>fl_inflight := None, fl_accessToken := tok, fl_expiresAt := now + tokenTTL\<rparr>)"

inductive flight_step :: "flight \<Rightarrow> flight \<Rightarrow> bool" where
  f_hit: "at s i = Idle \<Longrightarrow> cached now s \<Longrightarrow> flight_step s (goto i (Returned (Inr (fl_accessToken s))) s)"
| f_wait: "at s i = Idle \<Longrightarrow> \<not> cached now s \<Longrightarrow> fl_inflight s = Some ch \<Longrightarrow>
     flight_step s (goto i (Waiting ch) s)"
| f_start: "at s i = Idle \<Longrightarrow> \<not> cached now s \<Longrightarrow> fl_inflight s = None \<Longrightarrow>
     flight_step s (goto i Fetching (s\<lparr>fl_inflight := Some (fl_made s), fl_made := fl_made s + 1\<rparr>))"
| f_answer: "at s i = Fetching \<Longrightarrow> r \<noteq> Inr '''' \<Longrightarrow> flight_step s (goto i (Fetched r) s)"
| f_publish: "at s i = Fetched r \<Longrightarrow>
     flight_step s (goto i (Closing (fl_inflight s) r) (publish now r s))"
| f_close: "at s i = Closing (Some ch) r \<Longrightarrow> ch \<notin> fl_closed s \<Longrightarrow>
     flight_step s (goto i (Returned r) (s\<lparr>fl_closed := insert ch (fl_closed s)\<rparr>))"
| f_close_panic: "at s i = Closing c r \<Longrightarrow> (\<forall>ch. c = Some ch \<longrightarrow> ch \<in> fl_closed s) \<Longrightarrow>
     flight_step s (goto i Panicked s)"
| f_wake: "at s i = Waiting ch \<Longrightarrow> ch \<in> fl_closed s \<Longrightarrow> flight_step s (goto i Woken s)"
| f_cancel: "at s i = Waiting ch \<Longrightarrow> flight_step s (goto i (Returned (Inl err)) s)"
| f_read: "at s i = Woken \<Longrightarrow> flight_step s (goto i (Returned (Inr (fl_accessToken s))) s)"
| f_again: "at s i = Returned r \<Longrightarrow> flight_step s (goto i Idle s)"

definition flight_init :: flight where
  "flight_init = \<lparr>fl_accessToken = '''', fl_expiresAt = 0, fl_inflight = None, fl_closed = {},
     fl_made = 0, fl_callers = (\<lambda>i. Idle)\<rparr>"

abbreviation flight_steps :: "flight \<Rightarrow> flight \<Rightarrow> bool" where
  "flight_steps \<equiv> flight_step\<^sup>*\<^sup>*"

section \<open>The invariant\<close>

definition refreshing :: "caller \<Rightarrow> bool" where
  "refreshing c \<longleftrightarrow> c = Fetching \<or> (\<exists>r. c = Fetched r)"

definition flight_inv :: "flight \<Rightarrow> bool" where
  "flight_inv s \<longleftrightarrow>
     (\<forall>i j. refreshing (at s i) \<longrightarrow> refreshing (at s j) \<longrightarrow> i = j) \<and>
     ((\<exists>i. refreshing (at s i)) \<longleftrightarrow> fl_inflight s \<noteq> None) \<and>
     (\<forall>ch. fl_inflight s = Some ch \<longrightarrow> ch < fl_made s \<and> ch \<notin> fl_closed s \<and>
        (\<forall>i r. at s i \<noteq> Closing (Some ch) r)) \<and>
     (\<forall>i c r. at s i = Closing c r \<longrightarrow> (\<exists>ch. c = Some ch \<and> ch < fl_made s \<and> ch \<notin> fl_closed s \<and>
        (\<forall>j r'. at s j = Closing (Some ch) r' \<longrightarrow> j = i))) \<and>
     (\<forall>i ch. at s i = Waiting ch \<longrightarrow>
        fl_inflight s = Some ch \<or> ch \<in> fl_closed s \<or> (\<exists>j r. at s j = Closing (Some ch) r)) \<and>
     (\<forall>ch \<in> fl_closed s. ch < fl_made s) \<and>
     (\<forall>i. at s i \<noteq> Panicked)"

lemma refreshing_simps [simp]:
  "refreshing Fetching" "refreshing (Fetched r)" "\<not> refreshing Idle" "\<not> refreshing (Waiting ch)"
  "\<not> refreshing Woken" "\<not> refreshing (Closing c r)" "\<not> refreshing (Returned r)" "\<not> refreshing Panicked"
  by (simp_all add: refreshing_def)

lemma publish_simps [simp]:
  "fl_inflight (publish now r s) = None" "fl_closed (publish now r s) = fl_closed s"
  "fl_made (publish now r s) = fl_made s" "fl_callers (publish now r s) = fl_callers s"
  by (simp_all add: publish_def split: sum.splits)

lemma flight_init_inv: "flight_inv flight_init"
  by (simp add: flight_inv_def flight_init_def)

lemma at_goto [simp]: "at (goto i c s) j = (if j = i then c else at s j)"
  by (simp add: goto_def)

lemma goto_simps [simp]:
  "fl_accessToken (goto i c s) = fl_accessToken s" "fl_expiresAt (goto i c s) = fl_expiresAt s"
  "fl_inflight (goto i c s) = fl_inflight s" "fl_closed (goto i c s) = fl_closed s"
  "fl_made (goto i c s) = fl_made s"
  by (simp_all add: goto_def)

lemma flight_invD:
  assumes "flight_inv s"
  shows "refreshing (at s i) \<Longrightarrow> refreshing (at s j) \<Longrightarrow> i = j"
    and "refreshing (at s i) \<Longrightarrow> \<exists>ch. fl_inflight s = Some ch"
    and "fl_inflight s = Some ch \<Longrightarrow> \<exists>i. refreshing (at s i)"
    and "fl_inflight s = Some ch \<Longrightarrow> ch < fl_made s \<and> ch \<notin> fl_closed s \<and> at s i \<noteq> Closing (Some ch) r"
    and "at s i = Closing c r \<Longrightarrow> \<exists>ch. c = Some ch \<and> ch < fl_made s \<and> ch \<notin> fl_closed s"
    and "at s i = Closing c r \<Longrightarrow> at s j = Closing c r' \<Longrightarrow> j = i"
    and "at s i = Waiting ch \<Longrightarrow>
      fl_inflight s = Some ch \<or> ch \<in> fl_closed s \<or> (\<exists>j r. at s j = Closing (Some ch) r)"
    and "ch \<in> fl_closed s \<Longrightarrow> ch < fl_made s" and "at s i \<noteq> Panicked"
  using assms unfolding flight_inv_def by blast+

lemma flight_invI:
  assumes "\<And>i j. refreshing (at s i) \<Longrightarrow> refreshing (at s j) \<Longrightarrow> i = j"
    and "\<And>i. refreshing (at s i) \<Longrightarrow> \<exists>ch. fl_inflight s = Some ch"
    and "\<And>ch. fl_inflight s = Some ch \<Longrightarrow> \<exists>i. refreshing (at s i)"
    and "\<And>ch i r. fl_inflight s = Some ch \<Longrightarrow> ch < fl_made s \<and> ch \<notin> fl_closed s \<and> at s i \<noteq> Closing (Some ch) r"
    and "\<And>i c r. at s i = Closing c r \<Longrightarrow> \<exists>ch. c = Some ch \<and> ch < fl_made s \<and> ch \<notin> fl_closed s"
    and "\<And>i j c r r'. at s i = Closing c r \<Longrightarrow> at s j = Closing c r' \<Longrightarrow> j = i"
    and "\<And>i ch. at s i = Waiting ch \<Longrightarrow>
      fl_inflight s = Some ch \<or> ch \<in> fl_closed s \<or> (\<exists>j r. at s j = Closing (Some ch) r)"
    and "\<And>ch. ch \<in> fl_closed s \<Longrightarrow> ch < fl_made s" and "\<And>i. at s i \<noteq> Panicked"
  shows "flight_inv s"
  unfolding flight_inv_def
  by (intro conjI; use assms in blast)

text \<open>A caller moves on without starting or ending a refresh and without closing.\<close>

definition plain :: "caller \<Rightarrow> bool" where
  "plain c \<longleftrightarrow> (\<forall>d r. c \<noteq> Closing d r) \<and> c \<noteq> Panicked"

lemma plain_simps [simp]:
  "plain Idle" "plain (Waiting ch)" "plain Woken" "plain (Returned r)" "plain Fetching" "plain (Fetched r)"
  by (simp_all add: plain_def)

lemma plain_inv:
  assumes "flight_inv s" and "plain (at s i)" and "plain c" and "refreshing c = refreshing (at s i)"
    and "\<And>ch. c = Waiting ch \<Longrightarrow> fl_inflight s = Some ch"
  shows "flight_inv (goto i c s)"
proof -
  have r: "refreshing (at (goto i c s) j) = refreshing (at s j)" for j
    using assms(4) by simp
  have c: "at (goto i c s) j = Closing d x \<longleftrightarrow> at s j = Closing d x" for j d x
    using assms(2,3) by (auto simp: plain_def)
  show ?thesis
    by (rule flight_invI; (unfold r c goto_simps)?)
      (use flight_invD [OF assms(1)] assms(3,5) in \<open>auto simp: plain_def split: if_splits\<close>)
qed

lemma start_inv:
  assumes "flight_inv s" and "at s i = Idle" and "fl_inflight s = None"
  shows "flight_inv (goto i Fetching (s\<lparr>fl_inflight := Some (fl_made s), fl_made := fl_made s + 1\<rparr>))"
    (is "flight_inv ?s")
proof -
  have none: "\<not> refreshing (at s j)" for j using flight_invD(2) [OF assms(1), of j] assms(3) by auto
  have r: "refreshing (at ?s j) \<longleftrightarrow> j = i" for j using none by simp
  have c: "at ?s j = Closing d x \<longleftrightarrow> at s j = Closing d x" for j d x using assms(2) by simp
  have f: "fl_inflight ?s = Some (fl_made s)" "fl_closed ?s = fl_closed s" "fl_made ?s = fl_made s + 1"
    by simp_all
  show ?thesis
  proof (rule flight_invI, unfold r c f)
    fix ch j x
    assume "Some (fl_made s) = Some ch"
    then show "ch < fl_made s + 1 \<and> ch \<notin> fl_closed s \<and> at s j \<noteq> Closing (Some ch) x"
      using flight_invD(5,8) [OF assms(1)] assms(2) by (fastforce split: if_splits)
  next
    fix j d x
    assume "at s j = Closing d x"
    then show "\<exists>ch. d = Some ch \<and> ch < fl_made s + 1 \<and> ch \<notin> fl_closed s"
      using flight_invD(5) [OF assms(1)] by fastforce
  next
    fix j ch
    assume "at ?s j = Waiting ch"
    then show "Some (fl_made s) = Some ch \<or> ch \<in> fl_closed s \<or> (\<exists>j x. at s j = Closing (Some ch) x)"
      using flight_invD(7) [OF assms(1)] assms(3) by (auto split: if_splits)
  next
    fix ch
    assume "ch \<in> fl_closed s"
    then show "ch < fl_made s + 1" using flight_invD(8) [OF assms(1)] by fastforce
  qed (use flight_invD(6,9) [OF assms(1)] in \<open>auto split: if_splits\<close>)
qed

lemma publish_inv:
  assumes "flight_inv s" and "at s i = Fetched r"
  shows "flight_inv (goto i (Closing (fl_inflight s) r) (publish now r s))" (is "flight_inv ?s")
proof -
  obtain ch where ch: "fl_inflight s = Some ch" using flight_invD(2) [OF assms(1), of i] assms(2) by auto
  note own = flight_invD(4) [OF assms(1) ch]
  have only: "\<not> refreshing (at s j)" if "j \<noteq> i" for j
    using flight_invD(1) [OF assms(1), of j i] assms(2) that by auto
  have f: "fl_inflight ?s = None" "fl_closed ?s = fl_closed s" "fl_made ?s = fl_made s" by simp_all
  show ?thesis
  proof (rule flight_invI, unfold f)
    fix j d x
    assume "at ?s j = Closing d x"
    then show "\<exists>c. d = Some c \<and> c < fl_made s \<and> c \<notin> fl_closed s"
      using flight_invD(5) [OF assms(1)] own by (auto simp: ch split: if_splits)
  next
    fix j k d x y
    assume "at ?s j = Closing d x" "at ?s k = Closing d y"
    then show "k = j"
      using flight_invD(6) [OF assms(1)] own by (auto simp: ch split: if_splits)
  next
    fix j c
    assume "at ?s j = Waiting c"
    then have "at s j = Waiting c" by (auto split: if_splits)
    from flight_invD(7) [OF assms(1) this]
    show "None = Some c \<or> c \<in> fl_closed s \<or> (\<exists>j x. at ?s j = Closing (Some c) x)"
    proof (elim disjE exE)
      assume "fl_inflight s = Some c"
      then have "at ?s i = Closing (Some c) r" by simp
      then show ?thesis by blast
    next
      fix k x
      assume "at s k = Closing (Some c) x"
      with assms(2) have "at ?s k = Closing (Some c) x" by auto
      then show ?thesis by blast
    qed simp
  qed (use flight_invD(8,9) [OF assms(1)] only in \<open>auto split: if_splits\<close>)
qed

lemma close_inv:
  assumes "flight_inv s" and "at s i = Closing (Some ch) r"
  shows "flight_inv (goto i (Returned r) (s\<lparr>fl_closed := insert ch (fl_closed s)\<rparr>))" (is "flight_inv ?s")
proof -
  have r: "refreshing (at ?s j) = refreshing (at s j)" for j using assms(2) by simp
  have f: "fl_inflight ?s = fl_inflight s" "fl_closed ?s = insert ch (fl_closed s)" "fl_made ?s = fl_made s"
    by simp_all
  show ?thesis
  proof (rule flight_invI, unfold r f)
    fix c j x
    assume c: "fl_inflight s = Some c"
    then show "c < fl_made s \<and> c \<notin> insert ch (fl_closed s) \<and> at ?s j \<noteq> Closing (Some c) x"
      using flight_invD(4) [OF assms(1) c] assms(2) by (auto split: if_splits)
  next
    fix j d x
    assume "at ?s j = Closing d x"
    then have j: "j \<noteq> i" "at s j = Closing d x" by (auto split: if_splits)
    obtain c where c: "d = Some c" "c < fl_made s" "c \<notin> fl_closed s"
      using flight_invD(5) [OF assms(1) j(2)] by blast
    have "c \<noteq> ch"
    proof
      assume "c = ch"
      with c(1) have "i = j" by (intro flight_invD(6) [OF assms(1) j(2)]) (simp add: assms(2))
      with j(1) show False by simp
    qed
    with c show "\<exists>c. d = Some c \<and> c < fl_made s \<and> c \<notin> insert ch (fl_closed s)" by simp
  next
    fix j c
    assume "at ?s j = Waiting c"
    then have "at s j = Waiting c" by (auto split: if_splits)
    from flight_invD(7) [OF assms(1) this]
    show "fl_inflight s = Some c \<or> c \<in> insert ch (fl_closed s) \<or> (\<exists>j x. at ?s j = Closing (Some c) x)"
    proof (elim disjE exE)
      fix k x
      assume k: "at s k = Closing (Some c) x"
      show ?thesis
      proof (cases "k = i")
        case True
        with k assms(2) show ?thesis by simp
      next
        case False
        with k have "at ?s k = Closing (Some c) x" by simp
        then show ?thesis by blast
      qed
    qed simp_all
  next
    fix c
    assume "c \<in> insert ch (fl_closed s)"
    then show "c < fl_made s" using flight_invD(5) [OF assms(1,2)] flight_invD(8) [OF assms(1)] by auto
  qed (use flight_invD(1,2,3,6,9) [OF assms(1)] in \<open>auto split: if_splits\<close>)
qed

lemma flight_step_inv: "flight_step s s' \<Longrightarrow> flight_inv s \<Longrightarrow> flight_inv s'"
proof (induction rule: flight_step.induct)
  case (f_start s i now)
  then show ?case by (intro start_inv)
next
  case (f_publish s i r now)
  then show ?case by (intro publish_inv)
next
  case (f_close s i ch r)
  then show ?case by (intro close_inv)
next
  case (f_close_panic s i c r)
  with flight_invD(5) [OF f_close_panic.prems f_close_panic.hyps(1)] show ?case by auto
qed (auto intro!: plain_inv)

lemma flight_steps_inv: "flight_steps s s' \<Longrightarrow> flight_inv s \<Longrightarrow> flight_inv s'"
  by (induction rule: rtranclp_induct) (auto dest: flight_step_inv)

section \<open>Properties\<close>

text \<open>
  C30: The refresh of the access token is a single flight (NFR-8): in every reachable state of any
  number of concurrent callers at most one of them is in a token request, and no caller ever panics
  by closing a channel twice or a channel that is not there.
\<close>

theorem single_flight:
  assumes "flight_steps flight_init s"
  shows "(\<forall>i j. refreshing (at s i) \<longrightarrow> refreshing (at s j) \<longrightarrow> i = j) \<and> (\<forall>i. at s i \<noteq> Panicked)"
  using flight_invD(1,9) [OF flight_steps_inv [OF assms flight_init_inv]] by blast

lemma start_callers:
  "flight_steps flight_init
     (goto 1 (Waiting 0) (goto 0 Fetching (flight_init\<lparr>fl_inflight := Some 0, fl_made := 1\<rparr>)))"
proof -
  let ?s = "goto 0 Fetching (flight_init\<lparr>fl_inflight := Some 0, fl_made := 1\<rparr>)"
  have miss: "\<not> cached 0 flight_init" "\<not> cached 0 ?s" by (simp_all add: cached_def flight_init_def)
  have "flight_step flight_init (goto 0 Fetching
      (flight_init\<lparr>fl_inflight := Some (fl_made flight_init), fl_made := fl_made flight_init + 1\<rparr>))"
    by (rule f_start [OF _ miss(1)]) (simp_all add: flight_init_def)
  then have "flight_step flight_init ?s" by (simp add: flight_init_def)
  moreover have "flight_step ?s (goto 1 (Waiting 0) ?s)"
    by (rule f_wait [OF _ miss(2)]) (simp_all add: flight_init_def)
  ultimately show ?thesis by (meson converse_rtranclp_into_rtranclp r_into_rtranclp)
qed

theorem single_flight_witness:
  "\<exists>s. flight_steps flight_init s \<and> at s 0 = Fetching \<and> at s 1 = Waiting 0 \<and>
     (\<forall>i. refreshing (at s i) \<longrightarrow> i = 0)"
proof -
  let ?s = "goto 1 (Waiting 0) (goto 0 Fetching (flight_init\<lparr>fl_inflight := Some 0, fl_made := 1\<rparr>))"
  have at0: "at ?s 0 = Fetching" "at ?s 1 = Waiting 0" by simp_all
  have "i = 0" if "refreshing (at ?s i)" for i
    by (rule single_flight [OF start_callers, THEN conjunct1, rule_format, OF that])
      (simp only: at0 refreshing_simps)
  with at0 show ?thesis using start_callers by blast
qed

lemma close_wakes:
  assumes "flight_inv s" and "at s k = Closing (Some ch) r" and "at s i = Waiting ch"
  shows "\<exists>s'. flight_steps s s' \<and> at s' i = Woken"
proof -
  let ?s = "goto k (Returned r) (s\<lparr>fl_closed := insert ch (fl_closed s)\<rparr>)"
  have "ch \<notin> fl_closed s" using flight_invD(5) [OF assms(1,2)] by simp
  with assms(2) have "flight_step s ?s" by (rule f_close)
  moreover have "at ?s i = Waiting ch" "ch \<in> fl_closed ?s" using assms by auto
  then have "flight_step ?s (goto i Woken ?s)" by (rule f_wake)
  ultimately show ?thesis by (intro exI [of _ "goto i Woken ?s"]) (auto intro: converse_rtranclp_into_rtranclp)
qed

lemma publish_wakes:
  assumes "flight_inv s" and "at s k = Fetched r" and "fl_inflight s = Some ch" and "at s i = Waiting ch"
  shows "\<exists>s'. flight_steps s s' \<and> at s' i = Woken"
proof -
  let ?s = "goto k (Closing (fl_inflight s) r) (publish 0 r s)"
  have st: "flight_step s ?s" using assms(2) by (rule f_publish)
  have "flight_inv ?s" using flight_step_inv [OF st assms(1)] .
  moreover have "at ?s k = Closing (Some ch) r" "at ?s i = Waiting ch" using assms by auto
  ultimately obtain s' where "flight_steps ?s s'" "at s' i = Woken" using close_wakes by blast
  with st show ?thesis by (meson converse_rtranclp_into_rtranclp)
qed

text \<open>
  C32: No waiter is lost. In every reachable state, a caller that waits for a refresh can be
  released: the refresh it waits for is under way, or its channel is about to be closed, or closed.
\<close>

theorem waiter_released:
  assumes "flight_steps flight_init s" and wait: "at s i = Waiting ch"
  shows "\<exists>s'. flight_steps s s' \<and> at s' i = Woken"
proof -
  have inv: "flight_inv s" using flight_steps_inv [OF assms(1) flight_init_inv] .
  consider "fl_inflight s = Some ch" | "ch \<in> fl_closed s" | k r where "at s k = Closing (Some ch) r"
    using flight_invD(7) [OF inv wait] by blast
  then show ?thesis
  proof cases
    case 1
    then obtain k where k: "refreshing (at s k)" using flight_invD(3) [OF inv] by blast
    show ?thesis
    proof (cases "at s k = Fetching")
      case True
      let ?s = "goto k (Fetched (Inl (Errorf ''''))) s"
      have st: "flight_step s ?s" using True by (rule f_answer) simp
      have "at ?s i = Waiting ch" using True wait by auto
      with 1 publish_wakes [OF flight_step_inv [OF st inv], of k "Inl (Errorf '''')" ch i]
      obtain s' where "flight_steps ?s s'" "at s' i = Woken" by auto
      with st show ?thesis by (meson converse_rtranclp_into_rtranclp)
    next
      case False
      with k obtain r where "at s k = Fetched r" by (auto simp: refreshing_def)
      from publish_wakes [OF inv this 1 wait] show ?thesis .
    qed
  next
    case 2
    with wait have "flight_step s (goto i Woken s)" by (rule f_wake)
    then show ?thesis by (intro exI [of _ "goto i Woken s"]) auto
  next
    case 3
    from close_wakes [OF inv this wait] show ?thesis .
  qed
qed

theorem waiter_released_witness:
  "\<exists>s'. flight_steps (goto 1 (Waiting 0) (goto 0 Fetching
     (flight_init\<lparr>fl_inflight := Some 0, fl_made := 1\<rparr>))) s' \<and> at s' 1 = Woken"
  using waiter_released [OF start_callers, of 1 0] by simp

text \<open>
  A waiter does not learn that the refresh failed. There is a run in which the caller that
  refreshes gets the error of the token request, and the caller that waited for it returns the
  empty token without an error, with which it sends its request.
\<close>

theorem waiter_gets_no_token:
  "\<exists>s. flight_steps flight_init s \<and> at s 0 = Returned (Inl err) \<and> at s 1 = Returned (Inr '''')"
proof -
  define s1 where "s1 = goto 1 (Waiting 0) (goto 0 Fetching (flight_init\<lparr>fl_inflight := Some 0, fl_made := 1\<rparr>))"
  define s2 where "s2 = goto 0 (Fetched (Inl err)) s1"
  define s3 where "s3 = goto 0 (Closing (fl_inflight s2) (Inl err)) (publish 0 (Inl err) s2)"
  define s4 where "s4 = goto 0 (Returned (Inl err)) (s3\<lparr>fl_closed := insert 0 (fl_closed s3)\<rparr>)"
  define s5 where "s5 = goto 1 Woken s4"
  define s6 where "s6 = goto 1 (Returned (Inr (fl_accessToken s5))) s5"
  have "flight_steps flight_init s1" unfolding s1_def by (rule start_callers)
  moreover have "flight_step s1 s2" unfolding s2_def by (rule f_answer) (simp_all add: s1_def)
  moreover have "flight_step s2 s3" unfolding s3_def by (rule f_publish) (simp add: s2_def)
  moreover have "flight_step s3 s4" unfolding s4_def
    by (rule f_close) (simp_all add: s3_def s2_def s1_def flight_init_def)
  moreover have "flight_step s4 s5" unfolding s5_def
    by (rule f_wake [where ch = 0]) (simp_all add: s4_def s3_def s2_def s1_def)
  moreover have "flight_step s5 s6" unfolding s6_def by (rule f_read) (simp add: s5_def)
  ultimately have "flight_steps flight_init s6" by (meson rtranclp.rtrancl_into_rtrancl)
  moreover have "fl_accessToken s5 = ''''"
    by (simp add: s5_def s4_def s3_def s2_def s1_def publish_def flight_init_def)
  then have "at s6 0 = Returned (Inl err) \<and> at s6 1 = Returned (Inr '''')"
    by (simp add: s6_def s5_def s4_def)
  ultimately show ?thesis by blast
qed

end
