(* ===== verification/Customers.thy ===== *)
theory Customers
  imports Memstore
begin

text \<open>
  \<^verbatim>\<open>internal/service/customer.go\<close>: creating customers and changing their KYC tier.
\<close>

section \<open>Audit documents\<close>

text \<open>\<open>json.Marshal\<close> on the domain structs, which have no tags.\<close>

definition json_opt :: "string option \<Rightarrow> json" where
  "json_opt s = (case s of None \<Rightarrow> JNull | Some s \<Rightarrow> JStr s)"

definition json_of_identity :: "identity option \<Rightarrow> json" where
  "json_of_identity i = (case i of None \<Rightarrow> JNull | Some i \<Rightarrow> JObj
     [(''ID'', JStr (Ident_ID i)), (''CustomerID'', JStr (Ident_CustomerID i)),
      (''BVNMasked'', json_opt (Ident_BVNMasked i)), (''NINMasked'', json_opt (Ident_NINMasked i)),
      (''KYCTier'', JInt (Ident_KYCTier i)),
      (''VerificationStatus'', JStr (Ident_VerificationStatus i)),
      (''CreatedAt'', JTime (Ident_CreatedAt i)), (''UpdatedAt'', JTime (Ident_UpdatedAt i))])"

definition json_of_customer :: "customer \<Rightarrow> json" where
  "json_of_customer c = JObj
     [(''ID'', JStr (Cust_ID c)), (''TenantID'', JStr (Cust_TenantID c)),
      (''ExternalRef'', JStr (Cust_ExternalRef c)), (''DisplayName'', JStr (Cust_DisplayName c)),
      (''Status'', JStr (Cust_Status c)), (''Identity'', json_of_identity (Cust_Identity c)),
      (''CreatedAt'', JTime (Cust_CreatedAt c)), (''UpdatedAt'', JTime (Cust_UpdatedAt c))]"

definition before_after :: "json \<Rightarrow> json \<Rightarrow> json" where
  "before_after before after = JObj [(''after'', after), (''before'', before)]"

definition audit_of :: "string \<Rightarrow> string \<Rightarrow> string \<Rightarrow> string \<Rightarrow> string \<Rightarrow> json \<Rightarrow> audit_entry" where
  "audit_of tenantID actor action entityType entityID ba =
     \<lparr>Aud_ID = '''', Aud_TenantID = Some tenantID, Aud_Actor = actor, Aud_Action = action,
      Aud_EntityType = entityType, Aud_EntityID = entityID, Aud_BeforeAfter = ba, Aud_At = 0\<rparr>"

section \<open>Operations\<close>

record 'w customer_service =
  cu_customers :: "'w customer_store"
  cu_audit :: "'w audit_store"

definition CreateCustomer :: "'w customer_service \<Rightarrow> (nat \<Rightarrow> time) \<Rightarrow> string \<Rightarrow> string \<Rightarrow> string
    \<Rightarrow> identity_input \<Rightarrow> string \<Rightarrow> 'w \<Rightarrow> (go_error + customer) \<times> 'w" where
  "CreateCustomer s now tenantID externalRef displayName ident actor w =
     (case Validate ident of
        Some err \<Rightarrow> (Inl (ValidationError ''identity'' (error_string err)), w)
      | None \<Rightarrow>
          (case cs_GetCustomerByExternalRef (cu_customers s) tenantID externalRef w of
             Inl err \<Rightarrow> (Inl (Wrap ''customer service: check existing'' err), w)
           | Inr (Some existing) \<Rightarrow> (Inr existing, w)
           | Inr None \<Rightarrow>
               (case cs_CreateCustomer (cu_customers s) (now 0) tenantID externalRef displayName ident w of
                  (Inl err, w) \<Rightarrow> (Inl (Wrap ''customer service: create'' err), w)
                | (Inr customer, w) \<Rightarrow>
                    let after = json_of_customer customer;
                        w = snd (as_Append (cu_audit s) (now 1)
                              (audit_of tenantID actor ''create_customer'' ''customer''
                                 (Cust_ID customer) after) w)
                    in (Inr customer, w))))"

definition GetCustomer :: "'w customer_service \<Rightarrow> string \<Rightarrow> string \<Rightarrow> 'w
    \<Rightarrow> go_error + customer option" where
  "GetCustomer s tenantID customerID w = cs_GetCustomer (cu_customers s) tenantID customerID w"

text \<open>
  After the store has been updated the code reads the old tier through the pointer that it
  got before: \<open>cs_View\<close>.
\<close>

definition UpdateKYCTier :: "'w customer_service \<Rightarrow> (nat \<Rightarrow> time) \<Rightarrow> string \<Rightarrow> string \<Rightarrow> int
    \<Rightarrow> string \<Rightarrow> 'w \<Rightarrow> (go_error + customer option) \<times> 'w" where
  "UpdateKYCTier s now tenantID customerID newTier actor w =
     (if newTier < 1 \<or> newTier > 3
      then (Inl (ValidationError ''kyc_tier'' ''must be 1, 2, or 3''), w)
      else case cs_GetCustomer (cu_customers s) tenantID customerID w of
        Inl err \<Rightarrow> (Inl err, w)
      | Inr None \<Rightarrow> (Inr None, w)
      | Inr (Some customer) \<Rightarrow>
          let before = json_of_identity (Cust_Identity customer)
          in case cs_UpdateKYCTier (cu_customers s) (now 0) customerID newTier actor w of
               (Some err, w) \<Rightarrow> (Inl (Wrap ''customer service: update tier'' err), w)
             | (None, w) \<Rightarrow>
                 let customer = cs_View (cu_customers s) customer w
                 in case Cust_Identity customer of
                      None \<Rightarrow> (Inl (Panic ''nil pointer dereference''), w)
                    | Some ident \<Rightarrow>
                        let oldTier = Ident_KYCTier ident;
                            ident = ident\<lparr>Ident_KYCTier := newTier\<rparr>;
                            customer = customer\<lparr>Cust_Identity := Some ident\<rparr>;
                            after = json_of_identity (Some ident);
                            ba = before_after (JObj [(''tier'', JInt oldTier)])
                                   (JObj [(''full_after'', after), (''full_before'', before),
                                          (''tier'', JInt newTier)]);
                            w = snd (as_Append (cu_audit s) (now 1)
                                  (audit_of tenantID actor ''kyc_tier_change'' ''identity''
                                     (Ident_ID ident) ba) w)
                        in (Inr (Some customer), w))"

section \<open>Over the in-memory store\<close>

definition mem_customer_service :: "go_order \<Rightarrow> mem customer_service" where
  "mem_customer_service g = \<lparr>cu_customers = mem_customer_store g, cu_audit = mem_audit_store\<rparr>"

lemma CreateCustomer_leaves:
  assumes "\<And>now t x dn i. leaves v (cs_CreateCustomer (cu_customers s) now t x dn i)"
    and "\<And>now a. leaves v (as_Append (cu_audit s) now a)"
  shows "leaves v (CreateCustomer s now t x dn i actor)"
  by (rule leavesI)
    (auto simp: CreateCustomer_def Let_def leavesD [OF assms(2)] dest!: assms [THEN leaves_pair]
      split: sum.splits option.splits prod.splits)

lemma UpdateKYCTier_leaves:
  assumes "\<And>now c k a. leaves v (cs_UpdateKYCTier (cu_customers s) now c k a)"
    and "\<And>now a. leaves v (as_Append (cu_audit s) now a)"
  shows "leaves v (UpdateKYCTier s now t c k actor)"
  by (rule leavesI)
    (auto simp: UpdateKYCTier_def Let_def leavesD [OF assms(2)] dest!: assms [THEN leaves_pair]
      split: sum.splits option.splits prod.splits if_splits)

end
