(* ===== verification/Provisioning.thy ===== *)
theory Provisioning
  imports Customers
begin

text \<open>
  \<^verbatim>\<open>internal/service/provisioning.go\<close>: the lifecycle of virtual accounts. Every operation
  talks to the provider and to the stores; the random bytes of an account reference are an
  argument.
\<close>

section \<open>Names and references\<close>

definition hex_digit :: "nat \<Rightarrow> char" where
  "hex_digit n = (if n < 10 then char_of (48 + n) else char_of (87 + n))"

definition hex_encode :: "8 word list \<Rightarrow> string" where
  "hex_encode bs = concat (map (\<lambda>b. [hex_digit (unat b div 16), hex_digit (unat b mod 16)]) bs)"

definition buildAccountRef :: "8 word list \<Rightarrow> string \<Rightarrow> string \<Rightarrow> string" where
  "buildAccountRef rnd tenantID customerID =
     (let t = filter (\<lambda>c. c \<noteq> CHR ''-'') tenantID;
          c = filter (\<lambda>c. c \<noteq> CHR ''-'') customerID;
          t = (if length t > 8 then take 8 t else t);
          c = (if length c > 20 then take 20 c else c)
      in ''t'' @ t @ ''c'' @ c @ hex_encode rnd)"

definition buildAccountName :: "customer \<Rightarrow> string" where
  "buildAccountName c =
     (let name = Cust_DisplayName c;
          name = (if length name < 8 then name @ replicate (8 - length name) (CHR '' '') else name)
      in if length name > 64 then take 64 name else name)"

definition json_of_va :: "virtual_account \<Rightarrow> json" where
  "json_of_va va = JObj
     [(''ID'', JStr (VA_ID va)), (''CustomerID'', JStr (VA_CustomerID va)),
      (''NombaAccountRef'', JStr (VA_NombaAccountRef va)), (''NUBAN'', JStr (VA_NUBAN va)),
      (''BankName'', JStr (VA_BankName va)), (''AccountName'', JStr (VA_AccountName va)),
      (''NombaHolderID'', JStr (VA_NombaHolderID va)), (''Status'', JStr (VA_Status va)),
      (''CreatedAt'', JTime (VA_CreatedAt va)), (''UpdatedAt'', JTime (VA_UpdatedAt va)),
      (''CustomerDisplayName'', JStr (VA_CustomerDisplayName va)),
      (''TenantName'', JStr (VA_TenantName va))]"

section \<open>Operations\<close>

record 'w provisioning_service =
  pr_customers :: "'w customer_store"
  pr_accounts :: "'w virtual_account_store"
  pr_audit :: "'w audit_store"
  pr_prov :: "'w provider"

text \<open>\<open>(nil, false, nil)\<close>, which a caller maps to 404, is \<open>Inr (None, False)\<close>.\<close>

definition ProvisionVA :: "'w provisioning_service \<Rightarrow> (nat \<Rightarrow> time) \<Rightarrow> 8 word list \<Rightarrow> string \<Rightarrow> string
    \<Rightarrow> string \<Rightarrow> 'w \<Rightarrow> (go_error + virtual_account option \<times> bool) \<times> 'w" where
  "ProvisionVA s now rnd tenantID customerID actor w =
     (case cs_GetCustomer (pr_customers s) tenantID customerID w of
        Inl err \<Rightarrow> (Inl err, w)
      | Inr None \<Rightarrow> (Inr (None, False), w)
      | Inr (Some customer) \<Rightarrow>
          (case vs_GetActiveVA (pr_accounts s) customerID w of
             Inl err \<Rightarrow> (Inl (Wrap ''provisioning: get active VA'' err), w)
           | Inr (Some existing) \<Rightarrow> (Inr (Some existing, False), w)
           | Inr None \<Rightarrow>
               (case pv_CreateVA (pr_prov s)
                       \<lparr>CVR_AccountRef = buildAccountRef rnd tenantID customerID,
                        CVR_AccountName = buildAccountName customer, CVR_BVN = ''''\<rparr> w of
                  (Inl err, w) \<Rightarrow> (Inl (Wrap ''provisioning: provider create VA'' err), w)
                | (Inr vaResp, w) \<Rightarrow>
                    (case vs_CreateVirtualAccount (pr_accounts s) (now 0)
                            \<lparr>VA_ID = '''', VA_CustomerID = customerID,
                             VA_NombaAccountRef = VAR_AccountRef vaResp, VA_NUBAN = VAR_NUBAN vaResp,
                             VA_BankName = VAR_BankName vaResp, VA_AccountName = VAR_AccountName vaResp,
                             VA_NombaHolderID = VAR_AccountHolderID vaResp,
                             VA_Status = VAStatusActive, VA_CreatedAt = 0, VA_UpdatedAt = 0,
                             VA_CustomerDisplayName = '''', VA_TenantName = ''''\<rparr> w of
                       (Inl err, w) \<Rightarrow> (Inl (Wrap ''provisioning: persist VA'' err), w)
                     | (Inr va, w) \<Rightarrow>
                         let w = snd (as_Append (pr_audit s) (now 1)
                               (audit_of tenantID actor ''provision_va'' ''virtual_account''
                                  (VA_ID va) (json_of_va va)) w)
                         in (Inr (Some va, True), w)))))"

definition GetVA :: "'w provisioning_service \<Rightarrow> string \<Rightarrow> string \<Rightarrow> 'w
    \<Rightarrow> go_error + virtual_account option" where
  "GetVA s tenantID customerID w =
     (case cs_GetCustomer (pr_customers s) tenantID customerID w of
        Inl err \<Rightarrow> Inl err
      | Inr None \<Rightarrow> Inr None
      | Inr (Some customer) \<Rightarrow> vs_GetActiveVA (pr_accounts s) customerID w)"

definition mustGetActiveVA :: "'w provisioning_service \<Rightarrow> string \<Rightarrow> string \<Rightarrow> 'w
    \<Rightarrow> go_error + virtual_account option" where
  "mustGetActiveVA s tenantID customerID w =
     (case cs_GetCustomer (pr_customers s) tenantID customerID w of
        Inl err \<Rightarrow> Inl err
      | Inr None \<Rightarrow> Inr None
      | Inr (Some customer) \<Rightarrow>
          (case vs_GetActiveVA (pr_accounts s) customerID w of Inl err \<Rightarrow> Inl err | Inr va \<Rightarrow> Inr va))"

definition RenameVA :: "'w provisioning_service \<Rightarrow> (nat \<Rightarrow> time) \<Rightarrow> string \<Rightarrow> string \<Rightarrow> string
    \<Rightarrow> string \<Rightarrow> 'w \<Rightarrow> (go_error + virtual_account option) \<times> 'w" where
  "RenameVA s now tenantID customerID newName actor w =
     (case mustGetActiveVA s tenantID customerID w of
        Inl err \<Rightarrow> (Inl err, w)
      | Inr None \<Rightarrow> (Inr None, w)
      | Inr (Some va) \<Rightarrow>
          let oldName = VA_AccountName va
          in case pv_UpdateVA (pr_prov s) (VA_NombaAccountRef va) newName w of
               (Some err, w) \<Rightarrow> (Inl (Wrap ''provisioning: provider update VA'' err), w)
             | (None, w) \<Rightarrow>
                 (case vs_RenameVA (pr_accounts s) (now 0) (VA_ID va) newName actor w of
                    (Some err, w) \<Rightarrow> (Inl (Wrap ''provisioning: rename VA locally'' err), w)
                  | (None, w) \<Rightarrow>
                      let va = (vs_View (pr_accounts s) va w)\<lparr>VA_AccountName := newName\<rparr>;
                          w = snd (as_Append (pr_audit s) (now 1)
                                (audit_of tenantID actor ''rename_va'' ''virtual_account'' (VA_ID va)
                                   (before_after (JObj [(''account_name'', JStr oldName)])
                                      (JObj [(''account_name'', JStr newName)]))) w)
                      in (Inr (Some va), w)))"

definition CloseVA :: "'w provisioning_service \<Rightarrow> (nat \<Rightarrow> time) \<Rightarrow> string \<Rightarrow> string \<Rightarrow> string
    \<Rightarrow> 'w \<Rightarrow> go_error option \<times> 'w" where
  "CloseVA s now tenantID customerID actor w =
     (case mustGetActiveVA s tenantID customerID w of
        Inl err \<Rightarrow> (Some err, w)
      | Inr None \<Rightarrow> (None, w)
      | Inr (Some va) \<Rightarrow>
          if \<not> ValidTransition (VA_Status va) VAStatusClosed
          then (Some (StateError (VA_Status va) VAStatusClosed), w)
          else
            let w = snd (pv_CloseVA (pr_prov s) (VA_NombaAccountRef va) w)
            in case vs_UpdateVAStatus (pr_accounts s) (now 0) (VA_ID va) VAStatusClosed actor w of
                 (Some err, w) \<Rightarrow> (Some (Wrap ''provisioning: close VA'' err), w)
               | (None, w) \<Rightarrow>
                   let va = vs_View (pr_accounts s) va w;
                       before = JObj [(''status'', JStr (VA_Status va))];
                       after = JObj [(''status'', JStr VAStatusClosed)];
                       w = snd (as_Append (pr_audit s) (now 1)
                             (audit_of tenantID actor ''close_va'' ''virtual_account'' (VA_ID va)
                                (before_after before after)) w)
                   in (None, w))"

definition SuspendVA :: "'w provisioning_service \<Rightarrow> (nat \<Rightarrow> time) \<Rightarrow> string \<Rightarrow> string \<Rightarrow> string
    \<Rightarrow> 'w \<Rightarrow> go_error option \<times> 'w" where
  "SuspendVA s now tenantID customerID actor w =
     (case mustGetActiveVA s tenantID customerID w of
        Inl err \<Rightarrow> (Some err, w)
      | Inr None \<Rightarrow> (None, w)
      | Inr (Some va) \<Rightarrow>
          if \<not> ValidTransition (VA_Status va) VAStatusSuspended
          then (Some (StateError (VA_Status va) VAStatusSuspended), w)
          else
            let w = snd (pv_SuspendVA (pr_prov s) (VA_NombaHolderID va) w)
            in case vs_UpdateVAStatus (pr_accounts s) (now 0) (VA_ID va) VAStatusSuspended actor w of
                 (Some err, w) \<Rightarrow> (Some (Wrap ''provisioning: suspend VA'' err), w)
               | (None, w) \<Rightarrow>
                   (None, snd (as_Append (pr_audit s) (now 1)
                     (audit_of tenantID actor ''suspend_va'' ''virtual_account'' (VA_ID va) JNull) w)))"

definition UnsuspendVA :: "'w provisioning_service \<Rightarrow> (nat \<Rightarrow> time) \<Rightarrow> string \<Rightarrow> string \<Rightarrow> string
    \<Rightarrow> 'w \<Rightarrow> go_error option \<times> 'w" where
  "UnsuspendVA s now tenantID customerID actor w =
     (case cs_GetCustomer (pr_customers s) tenantID customerID w of
        Inl err \<Rightarrow> (Some err, w)
      | Inr None \<Rightarrow> (None, w)
      | Inr (Some customer) \<Rightarrow>
          (case vs_GetVAByCustomerAndStatus (pr_accounts s) customerID VAStatusSuspended w of
             Inl err \<Rightarrow> (Some err, w)
           | Inr None \<Rightarrow> (None, w)
           | Inr (Some va) \<Rightarrow>
               if \<not> ValidTransition (VA_Status va) VAStatusActive
               then (Some (StateError (VA_Status va) VAStatusActive), w)
               else case vs_UpdateVAStatus (pr_accounts s) (now 0) (VA_ID va) VAStatusActive actor w of
                      (Some err, w) \<Rightarrow> (Some (Wrap ''provisioning: unsuspend VA'' err), w)
                    | (None, w) \<Rightarrow>
                        (None, snd (as_Append (pr_audit s) (now 1)
                          (audit_of tenantID actor ''unsuspend_va'' ''virtual_account'' (VA_ID va)
                             JNull) w))))"

section \<open>The lifecycle that the operations implement\<close>

text \<open>
  Every operation of the service makes at most one legal step in the account directory,
  whatever the provider answers.
\<close>

locale provisioning = va_directory VS accts cid inv room
  for VS :: "'w virtual_account_store" and accts cid inv room +
  fixes s :: "'w provisioning_service"
  assumes pr_VS: "pr_accounts s = VS"
    and create_va_leaves: "leaves (\<lambda>w. (accts w, inv w, room w)) (pv_CreateVA (pr_prov s) req)"
    and update_va_leaves: "leaves (\<lambda>w. (accts w, inv w, room w)) (pv_UpdateVA (pr_prov s) i n)"
    and close_va_leaves: "leaves (\<lambda>w. (accts w, inv w, room w)) (pv_CloseVA (pr_prov s) i)"
    and suspend_va_leaves: "leaves (\<lambda>w. (accts w, inv w, room w)) (pv_SuspendVA (pr_prov s) i)"
    and audit_leaves: "leaves (\<lambda>w. (accts w, inv w, room w)) (as_Append (pr_audit s) now a)"
begin

lemma audit_accts:
  "accts (snd (as_Append (pr_audit s) now a w)) = accts w \<and>
   inv (snd (as_Append (pr_audit s) now a w)) = inv w"
  using leavesD [OF audit_leaves, of now a w] by simp

lemma mustGetActiveVA_Some:
  assumes "mustGetActiveVA s t c w = Inr (Some va)" and "inv w"
  shows "fmlookup (accts w) (VA_ID va) = Some va \<and> VA_CustomerID va = cid c \<and> VA_Status va = VAStatusActive"
  using assms get_active [of w c va]
  by (auto simp: mustGetActiveVA_def pr_VS split: sum.splits option.splits)

lemma ProvisionVA_step:
  assumes pv: "ProvisionVA s now rnd t c actor w = (res, w')" and inv: "inv w" and room: "room w"
  shows "inv w' \<and> va_step (accts w) (accts w')"
proof (cases "\<exists>cust. cs_GetCustomer (pr_customers s) t c w = Inr (Some cust) \<and>
    vs_GetActiveVA VS c w = Inr None")
  case False
  with pv have "w' = w"
    by (auto simp: ProvisionVA_def pr_VS split: sum.splits option.splits)
  with inv show ?thesis by (simp add: va_stay)
next
  case True
  then obtain cust where g: "cs_GetCustomer (pr_customers s) t c w = Inr (Some cust)"
    "vs_GetActiveVA VS c w = Inr None" by blast
  let ?req = "\<lparr>CVR_AccountRef = buildAccountRef rnd t c, CVR_AccountName = buildAccountName cust,
               CVR_BVN = ''''\<rparr>"
  obtain p w1 where p: "pv_CreateVA (pr_prov s) ?req w = (p, w1)" by fastforce
  with leavesD [OF create_va_leaves, of ?req w] inv room
  have w1: "accts w1 = accts w" "inv w1" "room w1" by simp_all
  show ?thesis
  proof (cases p)
    case (Inl err)
    with pv g p w1 show ?thesis by (auto simp: ProvisionVA_def pr_VS intro: va_stay)
  next
    case (Inr rsp)
    let ?va = "\<lparr>VA_ID = '''', VA_CustomerID = c, VA_NombaAccountRef = VAR_AccountRef rsp,
      VA_NUBAN = VAR_NUBAN rsp, VA_BankName = VAR_BankName rsp, VA_AccountName = VAR_AccountName rsp,
      VA_NombaHolderID = VAR_AccountHolderID rsp, VA_Status = VAStatusActive, VA_CreatedAt = 0,
      VA_UpdatedAt = 0, VA_CustomerDisplayName = '''', VA_TenantName = ''''\<rparr>"
    obtain q w2 where q: "vs_CreateVirtualAccount VS (now 0) ?va w1 = (q, w2)" by fastforce
    show ?thesis
    proof (cases q)
      case (Inl err)
      with pv g p Inr q create_error [of "now 0" ?va w1 err w2] w1 show ?thesis
        by (auto simp: ProvisionVA_def pr_VS intro: va_stay)
    next
      case q': (Inr va')
      from create [of "now 0" ?va w1 va' w2] q q' w1
      obtain row where cr: "inv w2" "accts w2 = fmupd (VA_ID va') row (accts w)" "VA_ID row = VA_ID va'"
        "fmlookup (accts w) (VA_ID va') = None" "VA_CustomerID row = cid c" "VA_Status row = VAStatusActive"
        by auto
      from pv g p Inr q q' have "accts w' = accts w2 \<and> inv w' = inv w2"
        by (auto simp: ProvisionVA_def pr_VS Let_def audit_accts)
      with cr get_active_none [OF inv g(2)] show ?thesis by (auto intro: va_open)
    qed
  qed
qed

lemma CloseVA_step:
  assumes cl: "CloseVA s now t c actor w = (e, w')" and inv: "inv w"
  shows "inv w' \<and> va_step (accts w) (accts w')"
proof (cases "\<exists>va. mustGetActiveVA s t c w = Inr (Some va)")
  case False
  with cl have "w' = w" by (auto simp: CloseVA_def split: sum.splits option.splits)
  with inv show ?thesis by (simp add: va_stay)
next
  case True
  then obtain va where g: "mustGetActiveVA s t c w = Inr (Some va)" by blast
  note va = mustGetActiveVA_Some [OF g inv]
  obtain p w1 where p: "pv_CloseVA (pr_prov s) (VA_NombaAccountRef va) w = (p, w1)" by fastforce
  with leavesD [OF close_va_leaves, of "VA_NombaAccountRef va" w] inv
  have w1: "accts w1 = accts w" "inv w1" by simp_all
  obtain q w2 where q: "vs_UpdateVAStatus VS (now 0) (VA_ID va) VAStatusClosed actor w1 = (q, w2)"
    by fastforce
  have eq: "accts w' = accts w2 \<and> inv w' = inv w2"
    using cl g p q va by (auto simp: CloseVA_def pr_VS Let_def audit_accts split: option.splits)
  from update_status [OF q w1(2), of va] w1(1) va eq show ?thesis
    by (cases q) (auto intro: va_stay intro!: va_move)
qed

lemma SuspendVA_step:
  assumes su: "SuspendVA s now t c actor w = (e, w')" and inv: "inv w"
  shows "inv w' \<and> va_step (accts w) (accts w')"
proof (cases "\<exists>va. mustGetActiveVA s t c w = Inr (Some va)")
  case False
  with su have "w' = w" by (auto simp: SuspendVA_def split: sum.splits option.splits)
  with inv show ?thesis by (simp add: va_stay)
next
  case True
  then obtain va where g: "mustGetActiveVA s t c w = Inr (Some va)" by blast
  note va = mustGetActiveVA_Some [OF g inv]
  obtain p w1 where p: "pv_SuspendVA (pr_prov s) (VA_NombaHolderID va) w = (p, w1)" by fastforce
  with leavesD [OF suspend_va_leaves, of "VA_NombaHolderID va" w] inv
  have w1: "accts w1 = accts w" "inv w1" by simp_all
  obtain q w2 where q: "vs_UpdateVAStatus VS (now 0) (VA_ID va) VAStatusSuspended actor w1 = (q, w2)"
    by fastforce
  have eq: "accts w' = accts w2 \<and> inv w' = inv w2"
    using su g p q va by (auto simp: SuspendVA_def pr_VS Let_def audit_accts split: option.splits)
  from update_status [OF q w1(2), of va] w1(1) va eq show ?thesis
    by (cases q) (auto intro: va_stay intro!: va_move)
qed

lemma UnsuspendVA_step:
  assumes us: "UnsuspendVA s now t c actor w = (e, w')" and inv: "inv w"
  shows "inv w' \<and> va_step (accts w) (accts w')"
proof (cases "\<exists>cust va. cs_GetCustomer (pr_customers s) t c w = Inr (Some cust) \<and>
    vs_GetVAByCustomerAndStatus VS c VAStatusSuspended w = Inr (Some va)")
  case False
  with us have "w' = w" by (auto simp: UnsuspendVA_def pr_VS split: sum.splits option.splits)
  with inv show ?thesis by (simp add: va_stay)
next
  case True
  then obtain cust va where g: "cs_GetCustomer (pr_customers s) t c w = Inr (Some cust)"
    "vs_GetVAByCustomerAndStatus VS c VAStatusSuspended w = Inr (Some va)" by blast
  note va = get_status [OF inv g(2)]
  obtain q w2 where q: "vs_UpdateVAStatus VS (now 0) (VA_ID va) VAStatusActive actor w = (q, w2)"
    by fastforce
  have eq: "accts w' = accts w2 \<and> inv w' = inv w2"
    using us g q va by (auto simp: UnsuspendVA_def pr_VS Let_def audit_accts split: option.splits)
  from update_status [OF q inv, of va] va eq show ?thesis
    by (cases q) (auto intro: va_stay intro!: va_move)
qed

lemma RenameVA_step:
  assumes rn: "RenameVA s now t c n actor w = (res, w')" and inv: "inv w"
  shows "inv w' \<and> va_step (accts w) (accts w')"
proof (cases "\<exists>va. mustGetActiveVA s t c w = Inr (Some va)")
  case False
  with rn have "w' = w" by (auto simp: RenameVA_def split: sum.splits option.splits)
  with inv show ?thesis by (simp add: va_stay)
next
  case True
  then obtain va where g: "mustGetActiveVA s t c w = Inr (Some va)" by blast
  note va = mustGetActiveVA_Some [OF g inv]
  obtain p w1 where p: "pv_UpdateVA (pr_prov s) (VA_NombaAccountRef va) n w = (p, w1)" by fastforce
  with leavesD [OF update_va_leaves, of "VA_NombaAccountRef va" n w] inv
  have w1: "accts w1 = accts w" "inv w1" by simp_all
  show ?thesis
  proof (cases p)
    case (Some err)
    with rn g p w1 show ?thesis by (auto simp: RenameVA_def Let_def intro: va_stay)
  next
    case None
    obtain q w2 where q: "vs_RenameVA VS (now 0) (VA_ID va) n actor w1 = (q, w2)" by fastforce
    have eq: "accts w' = accts w2 \<and> inv w' = inv w2"
      using rn g p None q by (auto simp: RenameVA_def pr_VS Let_def audit_accts split: option.splits)
    from rename [OF q w1(2), of va] w1(1) va eq show ?thesis
      by (cases q) (auto intro: va_stay intro!: va_rename)
  qed
qed

end

section \<open>Over the in-memory stores and the fake provider\<close>

definition mem_provisioning :: "go_order \<Rightarrow> mem provisioning_service" where
  "mem_provisioning g = \<lparr>pr_customers = mem_customer_store g,
     pr_accounts = mem_virtual_account_store g, pr_audit = mem_audit_store,
     pr_prov = fake_provider g\<rparr>"

lemma mem_provisioning_sels [simp]:
  "pr_customers (mem_provisioning g) = mem_customer_store g"
  "pr_accounts (mem_provisioning g) = mem_virtual_account_store g"
  "pr_audit (mem_provisioning g) = mem_audit_store"
  "pr_prov (mem_provisioning g) = fake_provider g"
  by (simp_all add: mem_provisioning_def)

interpretation mem_prov: provisioning "mem_virtual_account_store g" mem_accts "\<lambda>c. c" mem_va_inv mem_room
  "mem_provisioning g" for g
  by unfold_locales
    (simp_all add: leaves_def fake_provider_def with_fake_def mem_audit_store_def mem_Append_def
      mem_va_inv_def issued_def mem_room_def mem_split)

section \<open>What the lifecycle leaves alone\<close>

text \<open>
  A part of the world that the stores and the provider leave alone under the calls of an operation
  is left alone by the operation.
\<close>

lemma ProvisionVA_keeps:
  assumes "\<And>req. keeps Q (pv_CreateVA (pr_prov s) req)"
    and "\<And>now va. keeps Q (vs_CreateVirtualAccount (pr_accounts s) now va)"
    and "\<And>now a. keeps Q (as_Append (pr_audit s) now a)"
  shows "keeps Q (ProvisionVA s now rnd t c actor)"
  by (rule keepsI)
    (auto simp: ProvisionVA_def Let_def intro!: keepsD [OF assms(3)] dest!: assms [THEN keeps_pair]
      split: sum.splits option.splits prod.splits)

lemma RenameVA_keeps:
  assumes "\<And>i n. keeps Q (pv_UpdateVA (pr_prov s) i n)"
    and "\<And>now i n a. keeps Q (vs_RenameVA (pr_accounts s) now i n a)"
    and "\<And>now a. keeps Q (as_Append (pr_audit s) now a)"
  shows "keeps Q (RenameVA s now t c n actor)"
  by (rule keepsI)
    (auto simp: RenameVA_def Let_def intro!: keepsD [OF assms(3)] dest!: assms [THEN keeps_pair]
      split: sum.splits option.splits prod.splits)

lemma status_keeps:
  assumes "\<And>i. keeps Q (pv_CloseVA (pr_prov s) i)" and "\<And>i. keeps Q (pv_SuspendVA (pr_prov s) i)"
    and "\<And>now i st a. keeps Q (vs_UpdateVAStatus (pr_accounts s) now i st a)"
    and "\<And>now a. keeps Q (as_Append (pr_audit s) now a)"
  shows "keeps Q (CloseVA s now t c actor)" and "keeps Q (SuspendVA s now t c actor)"
    and "keeps Q (UnsuspendVA s now t c actor)"
  by (rule keepsI,
      auto simp: CloseVA_def SuspendVA_def UnsuspendVA_def Let_def
        intro!: keepsD [OF assms(4)] keepsD [OF assms(1)] keepsD [OF assms(2)]
        dest!: assms(3) [THEN keeps_pair]
      split: sum.splits option.splits prod.splits if_splits)+

lemma ProvisionVA_leaves:
  assumes "\<And>req. leaves v (pv_CreateVA (pr_prov s) req)"
    and "\<And>now va. leaves v (vs_CreateVirtualAccount (pr_accounts s) now va)"
    and "\<And>now a. leaves v (as_Append (pr_audit s) now a)"
  shows "leaves v (ProvisionVA s now rnd t c actor)"
  using assms by (simp add: leaves_keeps ProvisionVA_keeps)

lemma RenameVA_leaves:
  assumes "\<And>i n. leaves v (pv_UpdateVA (pr_prov s) i n)"
    and "\<And>now i n a. leaves v (vs_RenameVA (pr_accounts s) now i n a)"
    and "\<And>now a. leaves v (as_Append (pr_audit s) now a)"
  shows "leaves v (RenameVA s now t c n actor)"
  using assms by (simp add: leaves_keeps RenameVA_keeps)

lemma status_leaves:
  assumes "\<And>i. leaves v (pv_CloseVA (pr_prov s) i)" and "\<And>i. leaves v (pv_SuspendVA (pr_prov s) i)"
    and "\<And>now i st a. leaves v (vs_UpdateVAStatus (pr_accounts s) now i st a)"
    and "\<And>now a. leaves v (as_Append (pr_audit s) now a)"
  shows "leaves v (CloseVA s now t c actor)" and "leaves v (SuspendVA s now t c actor)"
    and "leaves v (UnsuspendVA s now t c actor)"
  using assms by (simp_all add: leaves_keeps status_keeps)

end
