(* ===== verification/Suspense.thy ===== *)
theory Suspense
  imports Customers
begin

text \<open>
  \<^verbatim>\<open>internal/service/suspense.go\<close>: the resolution of suspense items, by reassigning the funds
  to a customer or by flagging them for a refund.
\<close>

section \<open>Operations\<close>

record 'w suspense_service =
  sp_suspense :: "'w suspense_store"
  sp_txns :: "'w transaction_store"
  sp_customers :: "'w customer_store"
  sp_accounts :: "'w virtual_account_store"
  sp_audit :: "'w audit_store"

record resolve_request =
  RR_Resolution :: string
  RR_TargetCustomerID :: string
  RR_Notes :: string
  RR_Actor :: string
  RR_TenantID :: string

definition resolutionTxID :: "string \<Rightarrow> string" where
  "resolutionTxID itemID = ''vn:res:'' @ itemID"

definition resolution_tx :: "(nat \<Rightarrow> time) \<Rightarrow> suspense_item \<Rightarrow> resolve_request \<Rightarrow> transaction
    \<Rightarrow> string option \<Rightarrow> transaction" where
  "resolution_tx now item req origTx vaID =
     \<lparr>Tx_ID = resolutionTxID (SI_ID item), Tx_VirtualAccountID = vaID, Tx_SessionID = None,
      Tx_AmountKobo = Tx_AmountKobo origTx, Tx_Direction = ''credit'', Tx_Source = ''internal'',
      Tx_Status = ''posted'', Tx_SenderName = None, Tx_SenderBank = None,
      Tx_Narration = Some (''suspense resolution: reassign to customer '' @ RR_TargetCustomerID req),
      Tx_Raw = JObj [(''suspense_item_id'', JStr (SI_ID item)),
                     (''type'', JStr ''suspense_resolution'')],
      Tx_OccurredAt = now 0, Tx_CreatedAt = 0, Tx_NUBAN = ''''\<rparr>"

text \<open>The part of \<open>resolveByReassign\<close> after the ledger post: the item's status and the audit row.\<close>

definition reassign_finish :: "'w suspense_service \<Rightarrow> (nat \<Rightarrow> time) \<Rightarrow> suspense_item
    \<Rightarrow> resolve_request \<Rightarrow> 'w \<Rightarrow> go_error option \<times> 'w" where
  "reassign_finish s now item req w =
     (case ss_ResolveSuspenseItem (sp_suspense s) (now 2) (SI_ID item) ''reassigned''
             (RR_Actor req) (RR_Notes req) w of
        (Some err, w) \<Rightarrow> (Some (Wrap ''suspense: update status'' err), w)
      | (None, w) \<Rightarrow>
          (None, snd (as_Append (sp_audit s) (now 3)
            (audit_of (RR_TenantID req) (RR_Actor req) ''suspense_resolve''
               ''suspense_item'' (SI_ID item)
               (before_after (JObj [(''status'', JStr ''open'')])
                  (JObj [(''notes'', JStr (RR_Notes req)), (''status'', JStr ''reassigned''),
                         (''target_customer'', JStr (RR_TargetCustomerID req))]))) w)))"

definition resolveByReassign :: "'w suspense_service \<Rightarrow> (nat \<Rightarrow> time) \<Rightarrow> suspense_item
    \<Rightarrow> resolve_request \<Rightarrow> 'w \<Rightarrow> go_error option \<times> 'w" where
  "resolveByReassign s now item req w =
     (if RR_TargetCustomerID req = ''''
      then (Some (ValidationError ''target_customer_id'' ''required for reassign''), w)
      else case cs_GetCustomer (sp_customers s) (RR_TenantID req) (RR_TargetCustomerID req) w of
        Inl err \<Rightarrow> (Some (Wrap ''suspense: get target customer'' err), w)
      | Inr None \<Rightarrow> (Some (NotFoundError ''customer'' (RR_TargetCustomerID req)), w)
      | Inr (Some customer) \<Rightarrow>
          (case xs_GetTransaction (sp_txns s) (SI_TransactionID item) w of
             Inl err \<Rightarrow> (Some (Wrap ''suspense: get original transaction'' err), w)
           | Inr None \<Rightarrow> (Some (Errorf ''suspense: get original transaction: %!w(<nil>)''), w)
           | Inr (Some origTx) \<Rightarrow>
               (case SuspenseToCustomer (resolutionTxID (SI_ID item)) (RR_TargetCustomerID req)
                       (Tx_AmountKobo origTx) of
                  Inl err \<Rightarrow> (Some err, w)
                | Inr entries \<Rightarrow>
                    let vaID = (case vs_GetActiveVA (sp_accounts s) (RR_TargetCustomerID req) w of
                                  Inr (Some va) \<Rightarrow> Some (VA_ID va) | _ \<Rightarrow> None)
                    in case xs_PostTransaction (sp_txns s) (now 1)
                              (resolution_tx now item req origTx vaID) entries w of
                         (Inl err, w) \<Rightarrow> (Some (Wrap ''suspense: post resolution entries'' err), w)
                       | (Inr created, w) \<Rightarrow> reassign_finish s now item req w)))"

definition resolveByRefundFlag :: "'w suspense_service \<Rightarrow> (nat \<Rightarrow> time) \<Rightarrow> suspense_item
    \<Rightarrow> resolve_request \<Rightarrow> 'w \<Rightarrow> go_error option \<times> 'w" where
  "resolveByRefundFlag s now item req w =
     (case ss_ResolveSuspenseItem (sp_suspense s) (now 2) (SI_ID item) ''refund_flagged''
             (RR_Actor req) (RR_Notes req) w of
        (Some err, w) \<Rightarrow> (Some (Wrap ''suspense: update status'' err), w)
      | (None, w) \<Rightarrow>
          (None, snd (as_Append (sp_audit s) (now 3)
            (audit_of (RR_TenantID req) (RR_Actor req) ''suspense_resolve'' ''suspense_item''
               (SI_ID item)
               (before_after (JObj [(''status'', JStr ''open'')])
                  (JObj [(''notes'', JStr (RR_Notes req)),
                         (''status'', JStr ''refund_flagged'')]))) w)))"

definition Resolve :: "'w suspense_service \<Rightarrow> (nat \<Rightarrow> time) \<Rightarrow> string \<Rightarrow> resolve_request \<Rightarrow> 'w
    \<Rightarrow> go_error option \<times> 'w" where
  "Resolve s now itemID req w =
     (case ss_GetSuspenseItem (sp_suspense s) itemID w of
        Inl err \<Rightarrow> (Some (Wrap ''suspense: get item'' err), w)
      | Inr None \<Rightarrow> (Some (NotFoundError ''suspense_item'' itemID), w)
      | Inr (Some item) \<Rightarrow>
          if SI_Status item \<noteq> ''open''
          then (Some (ValidationError ''status'' ''suspense item is already resolved''), w)
          else if RR_Resolution req = ''reassign'' then resolveByReassign s now item req w
          else if RR_Resolution req = ''refund_flagged'' then resolveByRefundFlag s now item req w
          else (Some (ValidationError ''resolution''
                        (''must be '' @ [CHR 0x27] @ ''reassign'' @ [CHR 0x27] @ '' or ''
                         @ [CHR 0x27] @ ''refund_flagged'' @ [CHR 0x27])), w))"

definition ListItems :: "'w suspense_service \<Rightarrow> string \<Rightarrow> int \<Rightarrow> string \<Rightarrow> 'w
    \<Rightarrow> go_error + (suspense_item list \<times> string)" where
  "ListItems s tenantID limit cursor w =
     ss_ListSuspenseItems (sp_suspense s) tenantID limit cursor w"

definition GetItem :: "'w suspense_service \<Rightarrow> string \<Rightarrow> 'w \<Rightarrow> go_error + suspense_item option" where
  "GetItem s itemID w = ss_GetSuspenseItem (sp_suspense s) itemID w"

section \<open>What a resolution does to the ledger\<close>

lemma Tx_ID_resolution_tx [simp]:
  "Tx_ID (resolution_tx now item req t va) = resolutionTxID (SI_ID item)"
  by (simp add: resolution_tx_def)

lemma resolutionTxID_inject [simp]: "resolutionTxID a = resolutionTxID b \<longleftrightarrow> a = b"
  by (simp add: resolutionTxID_def)

locale suspense_ledger = transaction_ledger X txns entries
  for X :: "'w transaction_store" and txns entries +
  fixes s :: "'w suspense_service"
  assumes sp_X: "sp_txns s = X"
    and resolve_leaves: "leaves (\<lambda>w. (txns w, entries w))
      (ss_ResolveSuspenseItem (sp_suspense s) now i res actor notes)"
    and audit_leaves: "leaves (\<lambda>w. (txns w, entries w)) (as_Append (sp_audit s) now a)"
begin

lemma resolve_view:
  "ss_ResolveSuspenseItem (sp_suspense s) now i res actor nts w = (e, w') \<Longrightarrow>
     txns w' = txns w \<and> entries w' = entries w"
  using leavesD [OF resolve_leaves, of now i res actor nts w] by simp

lemma audit_view:
  "txns (snd (as_Append (sp_audit s) now a w)) = txns w \<and>
   entries (snd (as_Append (sp_audit s) now a w)) = entries w"
  using leavesD [OF audit_leaves, of now a w] by simp

lemma finish_view:
  "reassign_finish s now item req w = (e, w') \<Longrightarrow> txns w' = txns w \<and> entries w' = entries w"
  by (auto simp: reassign_finish_def audit_view dest!: resolve_view split: prod.splits option.splits)

text \<open>
  A reassignment that reaches the ledger posts the constructor's entries under the item's own
  resolution identifier; otherwise the ledger is untouched.
\<close>

lemma reassign_post:
  assumes "resolveByReassign s now item req w = (e, w')"
  obtains (failed) "w' = w" "e \<noteq> None"
    | (posted) t es va b w1 where
        "fmlookup (txns w) (SI_TransactionID item) = Some t"
        "SuspenseToCustomer (resolutionTxID (SI_ID item)) (RR_TargetCustomerID req)
           (Tx_AmountKobo t) = Inr es"
        "xs_PostTransaction X (now 1) (resolution_tx now item req t va) es w = (Inr b, w1)"
        "reassign_finish s now item req w1 = (e, w')"
proof (cases "\<exists>c t es. RR_TargetCustomerID req \<noteq> '''' \<and>
    cs_GetCustomer (sp_customers s) (RR_TenantID req) (RR_TargetCustomerID req) w = Inr (Some c) \<and>
    xs_GetTransaction X (SI_TransactionID item) w = Inr (Some t) \<and>
    SuspenseToCustomer (resolutionTxID (SI_ID item)) (RR_TargetCustomerID req) (Tx_AmountKobo t) = Inr es")
  case False
  with assms have "w' = w \<and> e \<noteq> None"
    by (auto simp: resolveByReassign_def sp_X split: if_splits sum.splits option.splits)
  with failed show ?thesis by blast
next
  case True
  then obtain c t es where g: "RR_TargetCustomerID req \<noteq> ''''"
    "cs_GetCustomer (sp_customers s) (RR_TenantID req) (RR_TargetCustomerID req) w = Inr (Some c)"
    "xs_GetTransaction X (SI_TransactionID item) w = Inr (Some t)"
    "SuspenseToCustomer (resolutionTxID (SI_ID item)) (RR_TargetCustomerID req) (Tx_AmountKobo t) = Inr es"
    by blast
  define va where "va = (case vs_GetActiveVA (sp_accounts s) (RR_TargetCustomerID req) w of
                           Inr (Some va) \<Rightarrow> Some (VA_ID va) | _ \<Rightarrow> None)"
  obtain r w1 where post: "xs_PostTransaction X (now 1) (resolution_tx now item req t va) es w = (r, w1)"
    by fastforce
  have eq: "resolveByReassign s now item req w =
      (case r of Inl err \<Rightarrow> (Some (Wrap ''suspense: post resolution entries'' err), w1)
       | Inr b \<Rightarrow> reassign_finish s now item req w1)"
    using g post by (simp add: resolveByReassign_def sp_X va_def [symmetric] split: sum.splits)
  show ?thesis
  proof (cases r)
    case (Inl err)
    with assms eq post_error [of "now 1" _ es w err w1] post failed show ?thesis by auto
  next
    case (Inr b)
    with assms eq posted [OF _ g(4), of va b w1] post get_txn [OF g(3)] show ?thesis by auto
  qed
qed

lemma reassign_step:
  "resolveByReassign s now item req w = (e, w') \<Longrightarrow>
     ledger_step (txns w, entries w) (txns w', entries w')"
  by (erule reassign_post)
    (auto intro: ledger_step.stay dest!: post_step finish_view dest: suspense_to_customer.well_formed)

lemma refund_view:
  "resolveByRefundFlag s now item req w = (e, w') \<Longrightarrow> txns w' = txns w \<and> entries w' = entries w"
  by (auto simp: resolveByRefundFlag_def audit_view dest!: resolve_view
      split: prod.splits option.splits)

lemma Resolve_step:
  "Resolve s now i req w = (e, w') \<Longrightarrow> ledger_step (txns w, entries w) (txns w', entries w')"
  by (auto simp: Resolve_def intro: ledger_step.stay dest!: reassign_step refund_view
      split: sum.splits option.splits if_splits)

end

lemma Resolve_leaves:
  assumes "\<And>now tx es. leaves v (xs_PostTransaction (sp_txns s) now tx es)"
    and "\<And>now i r a n. leaves v (ss_ResolveSuspenseItem (sp_suspense s) now i r a n)"
    and "\<And>now a. leaves v (as_Append (sp_audit s) now a)"
  shows "leaves v (Resolve s now i req)"
proof (rule leavesI)
  fix w r w'
  assume *: "Resolve s now i req w = (r, w')"
  have fin: "v u' = v u" if "reassign_finish s now item req u = (x, u')" for item u x u'
    using that by (auto simp: reassign_finish_def leavesD [OF assms(3)] dest!: assms(2) [THEN leaves_pair]
        split: prod.splits option.splits)
  have re: "v u' = v u" if "resolveByReassign s now item req u = (x, u')" for item u x u'
    using that by (auto simp: resolveByReassign_def Let_def dest!: assms(1) [THEN leaves_pair] fin
        split: prod.splits option.splits sum.splits if_splits)
  have rf: "v u' = v u" if "resolveByRefundFlag s now item req u = (x, u')" for item u x u'
    using that by (auto simp: resolveByRefundFlag_def leavesD [OF assms(3)]
        dest!: assms(2) [THEN leaves_pair] split: prod.splits option.splits)
  from * show "v w' = v w"
    by (auto simp: Resolve_def dest!: re rf split: prod.splits option.splits sum.splits if_splits)
qed

end
