(* ===== verification/Harness.thy ===== *)
theory Harness
  imports Sweep Provisioning Suspense Webhook
begin

text \<open>
  The whole program over the in-memory stores and the fake provider, as the harness and the
  demo server wire it (\<^verbatim>\<open>harness/harness_test.go\<close>, \<^verbatim>\<open>cmd/server/main.go\<close>): every entry point
  is a step of one relation on worlds, so that an invariant of the relation holds in every
  interleaving of requests, worker iterations, sweeps and relay goroutines.
\<close>

section \<open>Steps\<close>

definition mem_suspense_service :: "go_order \<Rightarrow> mem suspense_service" where
  "mem_suspense_service g = \<lparr>sp_suspense = mem_suspense_store g, sp_txns = mem_transaction_store g,
     sp_customers = mem_customer_store g, sp_accounts = mem_virtual_account_store g,
     sp_audit = mem_audit_store\<rparr>"

lemma mem_suspense_service_sels [simp]:
  "sp_suspense (mem_suspense_service g) = mem_suspense_store g"
  "sp_txns (mem_suspense_service g) = mem_transaction_store g"
  "sp_customers (mem_suspense_service g) = mem_customer_store g"
  "sp_accounts (mem_suspense_service g) = mem_virtual_account_store g"
  "sp_audit (mem_suspense_service g) = mem_audit_store"
  by (simp_all add: mem_suspense_service_def)

interpretation mem_susp: suspense_ledger "mem_transaction_store g" mem_txn_map AllLedgerEntries
  "mem_suspense_service g" for g
  by unfold_locales
    (simp_all add: leaves_mem_view mem_suspense_store_def mem_audit_store_def frame)

definition mem_load_limits :: "range_order \<Rightarrow> json \<Rightarrow> mem \<Rightarrow> go_error option \<times> mem" where
  "mem_load_limits r raw w = (let (e, rt) = Load r raw (mem_rt w) in (e, w\<lparr>mem_rt := rt\<rparr>))"

inductive mem_step :: "go_order \<Rightarrow> nat \<Rightarrow> bool \<Rightarrow> duration \<Rightarrow> duration \<Rightarrow> mem \<Rightarrow> mem \<Rightarrow> bool"
  for g cap relay iv ol where
  webhook: "HandleNombaWebhook (mem_webhook_handler g cap) now hs request w = (code, w') \<Longrightarrow>
              mem_step g cap relay iv ol w w'"
| worker: "mem_worker_step (mem_worker g relay) now w = w' \<Longrightarrow> mem_step g cap relay iv ol w w'"
| sweep: "sweep_Run (mem_sweep_runner g relay iv ol) fuel start finish clk ov w = Some (res, w') \<Longrightarrow>
              mem_step g cap relay iv ol w w'"
| create_customer:
    "CreateCustomer (mem_customer_service g) now t x dn ident actor w = (res1, w') \<Longrightarrow>
              mem_step g cap relay iv ol w w'"
| update_tier: "UpdateKYCTier (mem_customer_service g) now t c tier actor w = (res2, w') \<Longrightarrow>
              mem_step g cap relay iv ol w w'"
| provision: "ProvisionVA (mem_provisioning g) now rnd t c actor w = (res3, w') \<Longrightarrow>
              mem_step g cap relay iv ol w w'"
| rename_va: "RenameVA (mem_provisioning g) now t c n actor w = (res4, w') \<Longrightarrow>
              mem_step g cap relay iv ol w w'"
| close_va: "CloseVA (mem_provisioning g) now t c actor w = (e, w') \<Longrightarrow> mem_step g cap relay iv ol w w'"
| suspend_va: "SuspendVA (mem_provisioning g) now t c actor w = (e, w') \<Longrightarrow> mem_step g cap relay iv ol w w'"
| unsuspend_va: "UnsuspendVA (mem_provisioning g) now t c actor w = (e, w') \<Longrightarrow>
              mem_step g cap relay iv ol w w'"
| resolve: "Resolve (mem_suspense_service g) now i req w = (e, w') \<Longrightarrow> mem_step g cap relay iv ol w w'"
| relay_job: "run_job g hmac http now k w = w' \<Longrightarrow> mem_step g cap relay iv ol w w'"
| retry: "RetryPending (mem_dispatcher g) t0 w = w' \<Longrightarrow> mem_step g cap relay iv ol w w'"
| limits: "mem_load_limits r raw w = (e, w') \<Longrightarrow> mem_step g cap relay iv ol w w'"
| seed: "with_fake (\<lambda>f. ((), fake_SeedTransaction pt f)) w = ((), w') \<Longrightarrow> mem_step g cap relay iv ol w w'"

abbreviation mem_reachable :: "go_order \<Rightarrow> nat \<Rightarrow> bool \<Rightarrow> duration \<Rightarrow> duration \<Rightarrow> mem \<Rightarrow> bool" where
  "mem_reachable g cap relay iv ol \<equiv> (mem_step g cap relay iv ol)\<^sup>*\<^sup>* mem_init"

section \<open>The ledger under every step\<close>

lemmas mem_store_defs =
  mem_customer_store_def mem_virtual_account_store_def mem_transaction_store_def
  mem_webhook_event_store_def mem_suspense_store_def mem_sweep_store_def mem_audit_store_def
  mem_relay_store_def

lemma mem_leaves [simp]:
  "leaves mem_txns (mem_CreateCustomer now t x dn ident)"
  "leaves mem_txns (mem_UpdateKYCTier now i tier actor)"
  "leaves mem_txns (mem_CreateVirtualAccount now va)"
  "leaves mem_txns (mem_UpdateVAStatus now i st actor)"
  "leaves mem_txns (mem_RenameVA now i st actor)"
  "leaves mem_txns (mem_InsertWebhookEvent now evt)"
  "leaves mem_txns (mem_CreateDelivery now del)"
  "leaves mem_txns (mem_Append now a)"
  "leaves mem_txns (mem_enqueue cap item)"
  "leaves mem_txns (mem_load_limits r raw)"
  "leaves mem_txns (with_fake op)"
  "leaves mem_txns (\<lambda>w. with_fake (opw w) w)"
  "leaves mem_txns (\<lambda>w. (c, w))"
  by (simp_all add: leaves_def frame mem_enqueue_def mem_load_limits_def mem_split)

lemmas mem_service_defs = mem_webhook_handler_def mem_customer_service_def mem_dispatcher_def
  fake_provider_def

lemma mem_service_leaves [simp]:
  "leaves mem_txns (HandleNombaWebhook (mem_webhook_handler g cap) nows hs request)"
  "leaves mem_txns (CreateCustomer (mem_customer_service g) nows t x dn ident actor)"
  "leaves mem_txns (UpdateKYCTier (mem_customer_service g) nows t c tier actor)"
  "leaves mem_txns (ProvisionVA (mem_provisioning g) nows rnd t c actor)"
  "leaves mem_txns (RenameVA (mem_provisioning g) nows t c n actor)"
  "leaves mem_txns (CloseVA (mem_provisioning g) nows t c actor)"
  "leaves mem_txns (SuspendVA (mem_provisioning g) nows t c actor)"
  "leaves mem_txns (UnsuspendVA (mem_provisioning g) nows t c actor)"
  by (rule webhook_leaves CreateCustomer_leaves UpdateKYCTier_leaves ProvisionVA_leaves
      RenameVA_leaves status_leaves;
      simp add: mem_service_defs mem_store_defs)+

lemma run_job_txns: "mem_txns (run_job g hmac http now k w) = mem_txns w"
proof -
  have "mem_txns (deliver (mem_dispatcher g) hmac http now job v) = mem_txns v" for job v
    by (rule deliver_leaves) (simp add: mem_service_defs mem_store_defs)
  then show ?thesis by (simp add: run_job_def Let_def)
qed

lemma RetryPending_txns: "mem_txns (RetryPending (mem_dispatcher g) t0 w) = mem_txns w"
  by (rule RetryPending_leaves) (simp add: mem_dispatcher_def mem_spawn_def)

lemma mem_stay:
  "leaves mem_txns op \<Longrightarrow> op w = (r, w') \<Longrightarrow> ledger_steps (mem_view w) (mem_view w')"
  by (metis leaves_pair mem_view_cong ledger_steps_refl)

lemma mem_worker_step_ledger:
  "ledger_step (mem_view w) (mem_view (mem_worker_step (mem_worker g relay) now w))"
proof (cases "rt_queue (mem_rt w)")
  case Nil
  then show ?thesis by (simp add: mem_worker_step_def ledger_step.stay)
next
  case (Cons item rest)
  let ?w = "w\<lparr>mem_rt := (mem_rt w)\<lparr>rt_queue := rest\<rparr>\<rparr>"
  have "ledger_step (mem_view ?w) (mem_view (run_item (mem_worker g relay) now item ?w))"
    by (rule mem_recon.run_item_step)
  moreover have "mem_view ?w = mem_view w" by (simp add: AllLedgerEntries_def)
  ultimately show ?thesis using Cons by (simp add: mem_worker_step_def)
qed

lemma mem_step_ledger:
  assumes "mem_step g cap relay iv ol w w'"
  shows "ledger_steps (mem_view w) (mem_view w')"
  using assms
proof (cases rule: mem_step.cases)
  case (worker now)
  with mem_worker_step_ledger [of w g relay now] show ?thesis by (auto intro: ledger_step_steps)
next
  case (sweep fuel start finish clk ov res)
  obtain r e where "res = (r, e)" by fastforce
  with sweep show ?thesis using mem_sweep.sweep_Run_steps(1) by blast
next
  case (resolve now i req e)
  then show ?thesis by (rule ledger_step_steps [OF mem_susp.Resolve_step])
next
  case (relay_job hmac http now k)
  with mem_view_cong [OF run_job_txns [of g hmac http now k w]] show ?thesis by simp
next
  case (retry t0)
  with mem_view_cong [OF RetryPending_txns [of g t0 w]] show ?thesis by simp
qed (auto dest: mem_stay [rotated] simp del: prod.inject)

lemma reachable_ledger:
  "(mem_step g cap relay iv ol)\<^sup>*\<^sup>* w w' \<Longrightarrow> ledger_steps (mem_view w) (mem_view w')"
  by (induction rule: rtranclp_induct) (auto intro: ledger_steps_trans mem_step_ledger)

lemma mem_init_view [simp]: "mem_view mem_init = (fmempty, [])"
  by (simp add: mem_init_def AllLedgerEntries_def)

lemma reachable_inv:
  "mem_reachable g cap relay iv ol w \<Longrightarrow> ledger_inv (mem_txn_map w) (AllLedgerEntries w)"
  using reachable_ledger [of g cap relay iv ol mem_init w] ledger_steps_inv [of _ "mem_view w"]
  by fastforce

section \<open>The account directory under every step\<close>

interpretation mem_frame: sweep_frame "\<lambda>w. (mem_vas w, idSeq w)" "mem_worker g relay"
  "mem_sweep_runner g relay iv ol" for g relay iv ol
  by unfold_locales
    (auto simp: leaves_def mem_store_defs mem_PostTransaction_def mem_MarkWebhookProcessed_def
      mem_CreateSuspenseItem_def mem_CreateSweepRun_def mem_dispatcher_def mem_spawn_def
      fake_provider_def mem_split split: if_splits)

lemma mem_va_inv_mono:
  assumes "mem_vas w' = mem_vas w" and "idSeq w' = idSeq w \<or> mem_room w \<and> idSeq w' = idSeq w + 1"
    and "mem_va_inv w"
  shows "mem_va_inv w'"
  using assms(2)
proof
  assume "idSeq w' = idSeq w"
  with assms(1,3) issued_cong [of w' w] show ?thesis by (simp add: mem_va_inv_def)
next
  assume step: "mem_room w \<and> idSeq w' = idSeq w + 1"
  obtain i v where n: "nextID ''va'' w = (i, v)" by fastforce
  then have v: "idSeq v = idSeq w + 1" by (auto simp: nextID_def Let_def)
  have "issued ''va'' w' = issued ''va'' v" using v step by (intro issued_cong) simp
  with nextID_fresh(2) [OF n] step assms(1,3) show ?thesis by (auto simp: mem_va_inv_def)
qed

lemma mem_directory_stay:
  "mem_vas w' = mem_vas w \<Longrightarrow> idSeq w' = idSeq w \<or> mem_room w \<and> idSeq w' = idSeq w + 1 \<Longrightarrow>
     mem_va_inv w \<Longrightarrow> mem_va_inv w' \<and> va_step (mem_accts w) (mem_accts w')"
  by (simp add: mem_va_inv_mono va_stay)

lemma mem_directory_leaves:
  "op w = (r, w') \<Longrightarrow> leaves (\<lambda>w. (mem_vas w, idSeq w)) op \<Longrightarrow> mem_va_inv w \<Longrightarrow>
     mem_va_inv w' \<and> va_step (mem_accts w) (mem_accts w')"
  by (drule (1) leaves_pair [rotated]) (simp add: mem_directory_stay)

lemma mem_directory_op_leaves [simp]:
  "leaves (\<lambda>w. (mem_vas w, idSeq w)) (HandleNombaWebhook (mem_webhook_handler g cap) now hs request)"
  "leaves (\<lambda>w. (mem_vas w, idSeq w)) (UpdateKYCTier (mem_customer_service g) now t c tier actor)"
  "leaves (\<lambda>w. (mem_vas w, idSeq w)) (Resolve (mem_suspense_service g) now i req)"
  "leaves (\<lambda>w. (mem_vas w, idSeq w)) (mem_load_limits r raw)"
  "leaves (\<lambda>w. (mem_vas w, idSeq w)) (with_fake op)"
  by (rule webhook_leaves UpdateKYCTier_leaves Resolve_leaves |
      simp add: leaves_def mem_service_defs mem_store_defs mem_InsertWebhookEvent_def mem_enqueue_def
        mem_UpdateKYCTier_def mem_Append_def mem_PostTransaction_def mem_ResolveSuspenseItem_def
        mem_load_limits_def with_fake_def mem_split)+

lemma CreateCustomer_directory:
  assumes "CreateCustomer (mem_customer_service g) now t x dn ident actor w = (res, w')"
  shows "mem_vas w' = mem_vas w \<and> (idSeq w' = idSeq w \<or> idSeq w' = idSeq w + 1)"
  using assms
  by (auto simp: CreateCustomer_def mem_service_defs mem_store_defs mem_CreateCustomer_def nextID_def
      mem_Append_def Let_def split: option.splits sum.splits)

lemma deliver_directory:
  "mem_vas (deliver (mem_dispatcher g) hmac http now job w) = mem_vas w \<and>
   idSeq (deliver (mem_dispatcher g) hmac http now job w) = idSeq w + 1"
  by (simp add: deliver_def recordSuccess_def recordFailure_def mem_dispatcher_def mem_store_defs
      mem_CreateDelivery_def nextID_def Let_def split: http_outcome.splits)

lemma mem_step_directory:
  assumes "mem_step g cap relay iv ol w w'" and inv: "mem_va_inv w" and room: "mem_room w"
  shows "mem_va_inv w' \<and> va_step (mem_accts w) (mem_accts w')"
  using assms(1)
proof (cases rule: mem_step.cases)
  case (worker now)
  have "mem_vas w' = mem_vas w \<and> idSeq w' = idSeq w"
    using mem_frame.frame_run [of g relay now]
    by (auto simp: worker [symmetric] mem_worker_step_def split: list.splits)
  with inv show ?thesis by (simp add: mem_directory_stay)
next
  case (sweep fuel start finish clk ov res)
  from mem_frame.frame_sweep_Run [OF this] inv show ?thesis by (simp add: mem_directory_stay)
next
  case (create_customer now t x dn ident actor res1)
  with CreateCustomer_directory inv room show ?thesis by (metis mem_directory_stay)
next
  case (relay_job hmac http now k)
  have "mem_vas w' = mem_vas w \<and> (idSeq w' = idSeq w \<or> idSeq w' = idSeq w + 1)"
    by (simp add: relay_job [symmetric] run_job_def deliver_directory Let_def)
  with inv room show ?thesis by (metis mem_directory_stay)
next
  case (retry t0)
  have "mem_vas (RetryPending (mem_dispatcher g) t0 w) = mem_vas w \<and>
    idSeq (RetryPending (mem_dispatcher g) t0 w) = idSeq w"
    using RetryPending_leaves [of "\<lambda>w. (mem_vas w, idSeq w)" "mem_dispatcher g" t0 w]
    by (simp add: mem_dispatcher_def mem_spawn_def)
  with retry inv show ?thesis by (simp add: mem_directory_stay)
qed (rule mem_prov.ProvisionVA_step [OF _ inv room] mem_prov.RenameVA_step [OF _ inv]
      mem_prov.CloseVA_step [OF _ inv] mem_prov.SuspendVA_step [OF _ inv]
      mem_prov.UnsuspendVA_step [OF _ inv], assumption |
     rule mem_directory_leaves [OF _ _ inv], assumption, simp)+

text \<open>The runs of the harness on which the identifier counter does not wrap around.\<close>

abbreviation mem_runs :: "go_order \<Rightarrow> nat \<Rightarrow> bool \<Rightarrow> duration \<Rightarrow> duration \<Rightarrow> mem \<Rightarrow> mem \<Rightarrow> bool" where
  "mem_runs g cap relay iv ol \<equiv> (\<lambda>w w'. mem_step g cap relay iv ol w w' \<and> mem_room w)\<^sup>*\<^sup>*"

lemma mem_runs_directory:
  "mem_runs g cap relay iv ol w w' \<Longrightarrow> mem_va_inv w \<Longrightarrow>
     mem_va_inv w' \<and> va_steps (mem_accts w) (mem_accts w')"
proof (induction rule: rtranclp_induct)
  case (step y z)
  with mem_step_directory [of g cap relay iv ol y z] show ?case
    by (auto intro: rtranclp.rtrancl_into_rtrancl)
qed simp

text \<open>
  The lifecycle of virtual accounts, over every run of the harness: an account is never removed
  and never changes its identifier, its customer, its reference at the provider or its NUBAN, and
  once it is closed it stays closed, whatever requests, webhooks, sweeps and relay jobs are
  interleaved.
\<close>

theorem account_lifecycle:
  assumes "mem_runs g cap relay iv ol w w'" and "mem_va_inv w" and "fmlookup (mem_accts w) i = Some va"
  shows "\<exists>va'. fmlookup (mem_accts w') i = Some va' \<and> VA_ID va' = VA_ID va \<and>
     VA_CustomerID va' = VA_CustomerID va \<and> VA_NombaAccountRef va' = VA_NombaAccountRef va \<and>
     VA_NUBAN va' = VA_NUBAN va \<and>
     (if VA_Status va = VAStatusClosed then VA_Status va' = VAStatusClosed else True)"
  using va_steps_keeps [OF _ assms(3)] mem_runs_directory [OF assms(1,2)]
  by (auto simp: same_account_def)

text \<open>
  The in-memory store lets a customer have two ACTIVE accounts: when a customer whose account is
  suspended has been given a new one, unsuspending the old account succeeds and both are ACTIVE.
  (The database refuses this, see \<open>production_one_active\<close>.)
\<close>

theorem unsuspend_makes_two_active:
  assumes "UnsuspendVA (mem_provisioning g) now t c actor w = (e, w')" and "mem_va_inv w"
    and "mem_GetCustomer t c w = Inr (Some cust)"
    and "fmlookup (mem_accts w) i = Some a" "VA_CustomerID a = c" "VA_Status a = VAStatusActive"
    and "fmlookup (mem_accts w) j = Some b" "VA_CustomerID b = c" "VA_Status b = VAStatusSuspended"
  shows "e = None \<and> fmlookup (mem_accts w') i = Some a \<and>
    (\<exists>k v. k \<noteq> i \<and> fmlookup (mem_accts w') k = Some v \<and> VA_CustomerID v = c \<and> VA_Status v = VAStatusActive)"
proof -
  obtain v where find: "List.find (\<lambda>va. VA_CustomerID va = c \<and> VA_Status va = VAStatusSuspended)
      (range_vals (go_range g w) (mem_accts w)) = Some v"
    using range_find_None [of "\<lambda>va. VA_CustomerID va = c \<and> VA_Status va = VAStatusSuspended"
        "go_range g w" "mem_accts w"] assms(7,8,9)
    by (cases "List.find (\<lambda>va. VA_CustomerID va = c \<and> VA_Status va = VAStatusSuspended)
      (range_vals (go_range g w) (mem_accts w))") blast+
  from range_find [OF this] assms(2) have v: "fmlookup (mem_accts w) (VA_ID v) = Some v"
    "VA_CustomerID v = c" "VA_Status v = VAStatusSuspended" by (auto simp: mem_va_inv_def)
  with assms(1,3) find have "e = None"
    and w': "mem_accts w' = fmupd (VA_ID v) (v\<lparr>VA_Status := VAStatusActive\<rparr>) (mem_accts w)"
    by (auto simp: UnsuspendVA_def mem_store_defs mem_GetVAByCustomerAndStatus_def
        mem_UpdateVAStatus_def mem_set_va_def mem_Append_def)
  moreover have "VA_ID v \<noteq> i" using v(1,3) assms(4,6) by auto
  ultimately show ?thesis using v assms(4) by (auto intro: exI [of _ "VA_ID v"])
qed

text \<open>A world with a closed, a suspended and an active account.\<close>

definition demo_accounts :: "(string \<times> string) list \<Rightarrow> mem" where
  "demo_accounts l = (demo_mem VAStatusActive)\<lparr>idSeq := 9, mem_vas :=
     \<lparr>va_accounts = fmap_of_list (map (\<lambda>(i, st). (i, (demo_va st)\<lparr>VA_ID := i\<rparr>)) l),
      va_byNUBAN = fmempty, va_byRef = fmempty\<rparr>\<rparr>"

lemma demo_issued: "idSeq w = 9 \<Longrightarrow> n \<le> 9 \<Longrightarrow> ''va-'' @ pad04 n \<in> issued ''va'' w"
  by (auto simp: issued_def)

lemma demo_ids: "''va-'' @ pad04 1 = ''va-0001''" "''va-'' @ pad04 2 = ''va-0002''"
  by (simp_all add: pad04_def dec_nat.simps digit_values numeral_3_eq_3)

lemma demo_accounts_inv:
  "mem_va_inv (demo_accounts [(''va-0001'', st1), (''va-0002'', st2)])"
proof -
  let ?w = "demo_accounts [(''va-0001'', st1), (''va-0002'', st2)]"
  have "idSeq ?w = 9" by (simp add: demo_accounts_def)
  from demo_issued [OF this, of 1] demo_issued [OF this, of 2]
  have "{''va-0001'', ''va-0002''} \<subseteq> issued ''va'' ?w" by (simp add: demo_ids del: append_Cons One_nat_def)
  then show ?thesis by (auto simp: mem_va_inv_def demo_accounts_def demo_va_def split: if_splits)
qed

theorem account_lifecycle_witness:
  "\<exists>e w' va'. UnsuspendVA (mem_provisioning plain_order) (\<lambda>k. 1) ''t1'' ''c1'' ''ops''
      (demo_accounts [(''va-0001'', VAStatusClosed), (''va-0002'', VAStatusSuspended)]) = (e, w') \<and>
    fmlookup (mem_accts w') ''va-0001'' = Some va' \<and> VA_Status va' = VAStatusClosed"
proof -
  let ?w = "demo_accounts [(''va-0001'', VAStatusClosed), (''va-0002'', VAStatusSuspended)]"
  obtain e w' where us: "UnsuspendVA (mem_provisioning plain_order) (\<lambda>k. 1) ''t1'' ''c1'' ''ops'' ?w = (e, w')"
    by fastforce
  then have "mem_step plain_order 1 False 0 0 ?w w'" by (rule unsuspend_va)
  moreover have "mem_room ?w" by (simp add: mem_room_def demo_accounts_def)
  ultimately have "mem_runs plain_order 1 False 0 0 ?w w'" by (intro r_into_rtranclp) simp
  from account_lifecycle [OF this demo_accounts_inv, of "''va-0001''"] us show ?thesis
    by (auto simp: demo_accounts_def demo_va_def)
qed

theorem unsuspend_makes_two_active_witness:
  "\<exists>w' k v. UnsuspendVA (mem_provisioning plain_order) (\<lambda>k. 1) ''t1'' ''c1'' ''ops''
      (demo_accounts [(''va-0001'', VAStatusSuspended), (''va-0002'', VAStatusActive)]) = (None, w') \<and>
    k \<noteq> ''va-0002'' \<and> fmlookup (mem_accts w') k = Some v \<and> VA_Status v = VAStatusActive"
proof -
  let ?w = "demo_accounts [(''va-0001'', VAStatusSuspended), (''va-0002'', VAStatusActive)]"
  obtain e w' where us: "UnsuspendVA (mem_provisioning plain_order) (\<lambda>k. 1) ''t1'' ''c1'' ''ops'' ?w = (e, w')"
    by fastforce
  have cust: "mem_GetCustomer ''t1'' ''c1'' ?w = Inr (Some demo_customer)"
    by (simp add: mem_GetCustomer_def demo_accounts_def demo_mem_def demo_customer_def)
  show ?thesis
    using us unsuspend_makes_two_active [OF us demo_accounts_inv cust, of "''va-0002''"
        "(demo_va VAStatusActive)\<lparr>VA_ID := ''va-0002''\<rparr>" "''va-0001''"
        "(demo_va VAStatusSuspended)\<lparr>VA_ID := ''va-0001''\<rparr>"]
    by (auto simp: demo_accounts_def demo_va_def)
qed

end
