(* ===== verification/Withdrawals.thy ===== *)
theory Withdrawals
  imports Runtime
begin

text \<open>
  \<^verbatim>\<open>internal/service/withdrawal.go\<close>: outbound transfers. The provider is called before the
  ledger is written, and the balance is checked before both.
\<close>

section \<open>Operations\<close>

record 'w withdrawal_service =
  wi_withdrawals :: "'w withdrawal_store"
  wi_txns :: "'w transaction_store"
  wi_customers :: "'w customer_store"
  wi_accounts :: "'w virtual_account_store"
  wi_prov :: "'w provider"

record withdrawal_request =
  WR_CustomerID :: string
  WR_TenantID :: string
  WR_AmountKobo :: int64
  WR_DestinationBankCode :: string
  WR_DestinationAccountNumber :: string
  WR_DestinationAccountName :: string
  WR_Narration :: string

definition json_of_request :: "withdrawal_request \<Rightarrow> json" where
  "json_of_request r = JObj
     [(''CustomerID'', JStr (WR_CustomerID r)), (''TenantID'', JStr (WR_TenantID r)),
      (''AmountKobo'', JInt (sint (WR_AmountKobo r))),
      (''DestinationBankCode'', JStr (WR_DestinationBankCode r)),
      (''DestinationAccountNumber'', JStr (WR_DestinationAccountNumber r)),
      (''DestinationAccountName'', JStr (WR_DestinationAccountName r)),
      (''Narration'', JStr (WR_Narration r))]"

definition validate_request :: "withdrawal_request \<Rightarrow> go_error option" where
  "validate_request req =
     (if sint (WR_AmountKobo req) \<le> 0
      then Some (ValidationError ''amount_kobo'' ''must be positive'')
      else if WR_DestinationBankCode req = ''''
      then Some (ValidationError ''destination_bank_code'' ''required'')
      else if WR_DestinationAccountNumber req = ''''
      then Some (ValidationError ''destination_account_number'' ''required'')
      else if WR_DestinationAccountName req = ''''
      then Some (ValidationError ''destination_account_name'' ''required'')
      else None)"

definition insufficient :: "int64 \<Rightarrow> int64 \<Rightarrow> go_error" where
  "insufficient have need = ValidationError ''amount_kobo''
     (''insufficient balance: have '' @ show_int (sint have) @ '' kobo, need ''
      @ show_int (sint need) @ '' kobo'')"

definition new_withdrawal :: "withdrawal_request \<Rightarrow> string option \<Rightarrow> withdrawal" where
  "new_withdrawal req vaID =
     \<lparr>Wd_ID = '''', Wd_CustomerID = WR_CustomerID req, Wd_VirtualAccountID = vaID,
      Wd_AmountKobo = WR_AmountKobo req, Wd_DestinationBankCode = WR_DestinationBankCode req,
      Wd_DestinationAccountNumber = WR_DestinationAccountNumber req,
      Wd_DestinationAccountName = WR_DestinationAccountName req, Wd_Narration = WR_Narration req,
      Wd_Status = ''processing'', Wd_ProviderTransactionID = None, Wd_ProviderSessionID = None,
      Wd_FailureReason = None, Wd_Raw = json_of_request req, Wd_CreatedAt = 0, Wd_UpdatedAt = 0\<rparr>"

definition transfer_of :: "withdrawal_request \<Rightarrow> string \<Rightarrow> transfer_request" where
  "transfer_of req ref =
     \<lparr>TR_AmountKobo = WR_AmountKobo req, TR_DestinationBankCode = WR_DestinationBankCode req,
      TR_DestinationAccountNumber = WR_DestinationAccountNumber req,
      TR_DestinationAccountName = WR_DestinationAccountName req, TR_Narration = WR_Narration req,
      TR_Reference = ref\<rparr>"

definition withdrawalTxID :: "string \<Rightarrow> string" where
  "withdrawalTxID wdID = ''vn:wd:'' @ wdID"

definition withdrawal_tx :: "time \<Rightarrow> withdrawal_request \<Rightarrow> string option \<Rightarrow> string \<Rightarrow> transaction" where
  "withdrawal_tx now req vaID wdID =
     \<lparr>Tx_ID = withdrawalTxID wdID, Tx_VirtualAccountID = vaID, Tx_SessionID = None,
      Tx_AmountKobo = WR_AmountKobo req, Tx_Direction = ''debit'', Tx_Source = ''internal'',
      Tx_Status = ''posted'', Tx_SenderName = None, Tx_SenderBank = None,
      Tx_Narration = Some (WR_Narration req), Tx_Raw = json_of_request req,
      Tx_OccurredAt = now, Tx_CreatedAt = 0, Tx_NUBAN = ''''\<rparr>"

text \<open>
  The result is the pair of values that the code returns: the withdrawal (if any) and the
  error (if any); after a failed transfer it returns both. \<open>settle\<close> is the part of \<open>Initiate\<close>
  after a successful transfer.
\<close>

definition settle :: "'w withdrawal_service \<Rightarrow> (nat \<Rightarrow> time) \<Rightarrow> withdrawal_request \<Rightarrow> string option
    \<Rightarrow> withdrawal \<Rightarrow> transfer_response \<Rightarrow> 'w \<Rightarrow> (withdrawal option \<times> go_error option) \<times> 'w" where
  "settle s now req vaID wd resp w =
     (case WithdrawCustomer (withdrawalTxID (Wd_ID wd)) (WR_CustomerID req) (WR_AmountKobo req) of
        Inl err \<Rightarrow> ((None, Some err), w)
      | Inr entries \<Rightarrow>
          (case xs_PostTransaction (wi_txns s) (now 3) (withdrawal_tx (now 2) req vaID (Wd_ID wd))
                  entries w of
             (Inl err, w) \<Rightarrow> ((None, Some (Wrap ''withdrawal: post ledger'' err)), w)
           | (Inr created, w) \<Rightarrow>
               let w = snd (wd_UpdateWithdrawalStatus (wi_withdrawals s) (now 4) (Wd_ID wd)
                     ''completed'' (Some (TRsp_TransactionID resp)) (Some (TRsp_SessionID resp)) None w)
               in ((Some (wd\<lparr>Wd_Status := ''completed'',
                            Wd_ProviderTransactionID := Some (TRsp_TransactionID resp),
                            Wd_ProviderSessionID := Some (TRsp_SessionID resp)\<rparr>), None), w)))"

definition Initiate :: "'w withdrawal_service \<Rightarrow> (nat \<Rightarrow> time) \<Rightarrow> withdrawal_request \<Rightarrow> 'w
    \<Rightarrow> (withdrawal option \<times> go_error option) \<times> 'w" where
  "Initiate s now req w =
     (case validate_request req of
        Some err \<Rightarrow> ((None, Some err), w)
      | None \<Rightarrow>
     (case cs_GetCustomer (wi_customers s) (WR_TenantID req) (WR_CustomerID req) w of
        Inl err \<Rightarrow> ((None, Some (NotFoundError ''customer'' (WR_CustomerID req))), w)
      | Inr None \<Rightarrow> ((None, Some (NotFoundError ''customer'' (WR_CustomerID req))), w)
      | Inr (Some customer) \<Rightarrow>
     (case xs_GetBalance (wi_txns s) (CustomerWalletAccount (WR_CustomerID req)) w of
        Inl err \<Rightarrow> ((None, Some (Wrap ''withdrawal: get balance'' err)), w)
      | Inr bal \<Rightarrow>
          if sint bal < sint (WR_AmountKobo req)
          then ((None, Some (insufficient bal (WR_AmountKobo req))), w)
          else
            let vaID = (case vs_GetActiveVA (wi_accounts s) (WR_CustomerID req) w of
                          Inr (Some va) \<Rightarrow> Some (VA_ID va) | _ \<Rightarrow> None)
            in case wd_CreateWithdrawal (wi_withdrawals s) (now 0) (new_withdrawal req vaID) w of
                 (Inl err, w) \<Rightarrow> ((None, Some (Wrap ''withdrawal: create record'' err)), w)
               | (Inr wd, w) \<Rightarrow>
                   (case pv_Transfer (wi_prov s) (transfer_of req (Wd_ID wd)) w of
                      (Inl err, w) \<Rightarrow>
                        let reason = error_string err;
                            w = snd (wd_UpdateWithdrawalStatus (wi_withdrawals s) (now 1) (Wd_ID wd)
                                  ''failed'' None None (Some reason) w)
                        in ((Some (wd\<lparr>Wd_Status := ''failed'', Wd_FailureReason := Some reason\<rparr>),
                             Some (Wrap ''withdrawal: provider transfer'' err)), w)
                    | (Inr resp, w) \<Rightarrow> settle s now req vaID wd resp w))))"

definition ResolveAccount :: "'w withdrawal_service \<Rightarrow> string \<Rightarrow> string \<Rightarrow> 'w
    \<Rightarrow> (go_error + account_resolution) \<times> 'w" where
  "ResolveAccount s bankCode accountNumber w =
     (case pv_ResolveAccount (wi_prov s) bankCode accountNumber w of
        (Inl err, w) \<Rightarrow> (Inl (Wrap ''withdrawal: resolve account'' err), w)
      | (Inr res, w) \<Rightarrow> (Inr res, w))"

section \<open>What a withdrawal does to the ledger\<close>

lemma Tx_ID_withdrawal_tx [simp]: "Tx_ID (withdrawal_tx now req va i) = withdrawalTxID i"
  by (simp add: withdrawal_tx_def)

lemma validate_request_None:
  "validate_request req = None \<Longrightarrow> 0 < sint (WR_AmountKobo req)"
  by (auto simp: validate_request_def split: if_splits)

locale withdrawal_ledger = transaction_ledger X txns entries
  for X :: "'w transaction_store" and txns entries +
  fixes s :: "'w withdrawal_service"
  assumes wi_X: "wi_txns s = X"
    and create_leaves: "leaves (\<lambda>w. (txns w, entries w)) (wd_CreateWithdrawal (wi_withdrawals s) now wd)"
    and update_leaves: "leaves (\<lambda>w. (txns w, entries w))
      (wd_UpdateWithdrawalStatus (wi_withdrawals s) now i st a b c)"
    and transfer_leaves: "leaves (\<lambda>w. (txns w, entries w)) (pv_Transfer (wi_prov s) req)"
begin

lemma update_view:
  "txns (snd (wd_UpdateWithdrawalStatus (wi_withdrawals s) now i st a b c w)) = txns w \<and>
   entries (snd (wd_UpdateWithdrawalStatus (wi_withdrawals s) now i st a b c w)) = entries w"
  using leavesD [OF update_leaves, of now i st a b c w] by simp

lemma settle_post:
  assumes "settle s now req va wd resp w = ((r, e), w')"
  obtains (unposted) "r = None" "e \<noteq> None" "w' = w"
    | (posted) es b w1 where
        "WithdrawCustomer (withdrawalTxID (Wd_ID wd)) (WR_CustomerID req) (WR_AmountKobo req) = Inr es"
        "xs_PostTransaction X (now 3) (withdrawal_tx (now 2) req va (Wd_ID wd)) es w = (Inr b, w1)"
        "txns w' = txns w1" "entries w' = entries w1" "e = None"
        "\<exists>wd'. r = Some wd' \<and> Wd_Status wd' = ''completed''"
proof (cases "WithdrawCustomer (withdrawalTxID (Wd_ID wd)) (WR_CustomerID req) (WR_AmountKobo req)")
  case (Inl err)
  with assms unposted show ?thesis by (auto simp: settle_def)
next
  case (Inr es)
  obtain p w1 where post: "xs_PostTransaction X (now 3) (withdrawal_tx (now 2) req va (Wd_ID wd)) es w
      = (p, w1)" by fastforce
  show ?thesis
  proof (cases p)
    case (Inl err)
    with assms Inr post post_error [of "now 3" _ es w err w1] unposted show ?thesis
      by (auto simp: settle_def wi_X)
  next
    case (Inr b)
    with assms \<open>_ = Inr es\<close> post posted [of es b w1] show ?thesis
      by (auto simp: settle_def wi_X Let_def update_view)
  qed
qed

text \<open>
  \<open>Initiate\<close> leaves the ledger alone, except when the balance covered the amount and the
  provider accepted the transfer: then it posts the withdrawal's entries.
\<close>

lemma Initiate_post:
  assumes "Initiate s now req w = ((r, e), w')"
  obtains (unposted) "txns w' = txns w" "entries w' = entries w" "e \<noteq> None"
    | (posted) wd :: withdrawal and va es b w1 w2 where
        "validate_request req = None"
        "sint (WR_AmountKobo req) \<le> sint (balance (CustomerWalletAccount (WR_CustomerID req)) (entries w))"
        "txns w1 = txns w" "entries w1 = entries w"
        "WithdrawCustomer (withdrawalTxID (Wd_ID wd)) (WR_CustomerID req) (WR_AmountKobo req) = Inr es"
        "xs_PostTransaction X (now 3) (withdrawal_tx (now 2) req va (Wd_ID wd)) es w1 = (Inr b, w2)"
        "txns w' = txns w2" "entries w' = entries w2" "e = None"
        "\<exists>wd'. r = Some wd' \<and> Wd_Status wd' = ''completed''"
proof (cases "\<exists>c bal. validate_request req = None \<and>
    cs_GetCustomer (wi_customers s) (WR_TenantID req) (WR_CustomerID req) w = Inr (Some c) \<and>
    xs_GetBalance X (CustomerWalletAccount (WR_CustomerID req)) w = Inr bal \<and>
    sint (WR_AmountKobo req) \<le> sint bal")
  case False
  have "w' = w \<and> e \<noteq> None"
  proof (cases "validate_request req")
    case None
    with False assms show ?thesis
      by (auto simp: Initiate_def wi_X split: if_splits sum.splits option.splits)
  next
    case (Some err)
    then have "Initiate s now req w = ((None, Some err), w)" by (simp add: Initiate_def)
    with assms(1) have "((r, e), w') = ((None, Some err), w)" by simp
    then show ?thesis by blast
  qed
  with unposted show ?thesis by blast
next
  case True
  then obtain c bal where g: "validate_request req = None"
    "cs_GetCustomer (wi_customers s) (WR_TenantID req) (WR_CustomerID req) w = Inr (Some c)"
    "xs_GetBalance X (CustomerWalletAccount (WR_CustomerID req)) w = Inr bal"
    "sint (WR_AmountKobo req) \<le> sint bal" by blast
  define va where "va = (case vs_GetActiveVA (wi_accounts s) (WR_CustomerID req) w of
                           Inr (Some va) \<Rightarrow> Some (VA_ID va) | _ \<Rightarrow> None)"
  obtain cr w1 where cr: "wd_CreateWithdrawal (wi_withdrawals s) (now 0) (new_withdrawal req va) w
      = (cr, w1)" by fastforce
  with leavesD [OF create_leaves, of "now 0" "new_withdrawal req va" w]
  have v1: "txns w1 = txns w" "entries w1 = entries w" by simp_all
  show ?thesis
  proof (cases cr)
    case (Inl err)
    with assms g cr v1 unposted show ?thesis
      by (auto simp: Initiate_def wi_X va_def [symmetric])
  next
    case (Inr wd)
    obtain tr w2 where tr: "pv_Transfer (wi_prov s) (transfer_of req (Wd_ID wd)) w1 = (tr, w2)"
      by fastforce
    with leavesD [OF transfer_leaves, of "transfer_of req (Wd_ID wd)" w1] v1
    have v2: "txns w2 = txns w" "entries w2 = entries w" by simp_all
    show ?thesis
    proof (cases tr)
      case (Inl err)
      with assms g cr \<open>cr = _\<close> tr v2 unposted show ?thesis
        by (auto simp: Initiate_def wi_X Let_def update_view va_def [symmetric])
    next
      case (Inr resp)
      with assms g cr \<open>cr = _\<close> tr have st: "settle s now req va wd resp w2 = ((r, e), w')"
        by (simp add: Initiate_def wi_X va_def [symmetric])
      from get_balance [OF g(3)] g(4) v2 have bal:
        "sint (WR_AmountKobo req) \<le> sint (balance (CustomerWalletAccount (WR_CustomerID req)) (entries w))"
        by simp
      from st show ?thesis
      proof (rule settle_post)
        assume "r = None" "e \<noteq> None" "w' = w2"
        with v2 unposted show ?thesis by blast
      next
        fix es b w3
        assume "WithdrawCustomer (withdrawalTxID (Wd_ID wd)) (WR_CustomerID req) (WR_AmountKobo req) = Inr es"
          "xs_PostTransaction X (now 3) (withdrawal_tx (now 2) req va (Wd_ID wd)) es w2 = (Inr b, w3)"
          "txns w' = txns w3" "entries w' = entries w3" "e = None"
          "\<exists>wd'. r = Some wd' \<and> Wd_Status wd' = ''completed''"
        with posted [OF g(1) bal v2] show ?thesis by blast
      qed
    qed
  qed
qed

lemma Initiate_step:
  "Initiate s now req w = ((r, e), w') \<Longrightarrow> ledger_step (txns w, entries w) (txns w', entries w')"
  by (erule Initiate_post)
    (auto intro: ledger_step.stay dest!: post_step dest: withdraw_customer.well_formed)

text \<open>
  Run by itself, a withdrawal cannot overdraw the wallet: the exact balance stays
  non-negative if it was.
\<close>

lemma Initiate_covers:
  assumes "Initiate s now req w = ((r, e), w')"
    and fits: "fits64 (exact_balance a (entries w))"
    and a: "a = CustomerWalletAccount (WR_CustomerID req)"
    and pos: "0 \<le> exact_balance a (entries w)"
  shows "0 \<le> exact_balance a (entries w')"
  using assms(1)
proof (rule Initiate_post)
  assume "entries w' = entries w"
  with pos show ?thesis by simp
next
  fix wd va es b w1 w2
  assume p: "sint (WR_AmountKobo req) \<le> sint (balance (CustomerWalletAccount (WR_CustomerID req)) (entries w))"
    "txns w1 = txns w" "entries w1 = entries w"
    "WithdrawCustomer (withdrawalTxID (Wd_ID wd)) (WR_CustomerID req) (WR_AmountKobo req) = Inr es"
    "xs_PostTransaction X (now 3) (withdrawal_tx (now 2) req va (Wd_ID wd)) es w1 = (Inr b, w2)"
    "entries w' = entries w2"
  have le: "sint (WR_AmountKobo req) \<le> exact_balance a (entries w)"
    using p(1) sint_balance [OF fits] a by simp
  have mv: "exact_balance a es = - sint (WR_AmountKobo req)"
    using withdraw_customer.exact_moves [OF p(4), of a] a by simp
  show ?thesis
    using p(3,5,6) le mv pos post_dup [of "now 3" "withdrawal_tx (now 2) req va (Wd_ID wd)" es w1 w2]
      post_new [of "now 3" "withdrawal_tx (now 2) req va (Wd_ID wd)" es w1 w2]
    by (cases b) auto
qed

end

lemma Initiate_leaves:
  assumes "\<And>now tx es. leaves v (xs_PostTransaction (wi_txns s) now tx es)"
    and "\<And>now wd. leaves v (wd_CreateWithdrawal (wi_withdrawals s) now wd)"
    and "\<And>now i st a b c. leaves v (wd_UpdateWithdrawalStatus (wi_withdrawals s) now i st a b c)"
    and "\<And>req. leaves v (pv_Transfer (wi_prov s) req)"
  shows "leaves v (Initiate s now req)"
proof (rule leavesI)
  fix w r w'
  assume *: "Initiate s now req w = (r, w')"
  have "v u' = v u" if "settle s now req va wd rsp u = (x, u')" for va wd rsp u x u'
    using that by (auto simp: settle_def Let_def leavesD [OF assms(3)] dest!: assms(1) [THEN leaves_pair]
        split: prod.splits sum.splits)
  with * show "v w' = v w"
    by (auto simp: Initiate_def Let_def leavesD [OF assms(3)] dest!: assms(2,4) [THEN leaves_pair]
        split: prod.splits option.splits sum.splits if_splits)
qed

end
