(* ===== verification/Postgres.thy ===== *)
theory Postgres
  imports Worker Sweep Suspense Withdrawals Calendar
begin

text \<open>
  \<^verbatim>\<open>internal/store/postgres/*.go\<close>: the repositories of the production server, as the
  statements they send, over tables with the constraints of \<^verbatim>\<open>internal/store/migrations\<close>. The
  database and its driver are not part of the repository; what the repositories rely on is the
  environment \<open>pg_env\<close>: which statements fail, which texts are UUIDs, which bytes are JSONB,
  the random identifiers, and the order in which a table is scanned. A failing statement, and a
  failing commit, changes nothing.
\<close>

section \<open>Tables\<close>

text \<open>
  One field per table, keyed by the primary key (\<open>identities\<close> by its unique
  \<open>customer_id\<close>, \<open>user_credentials\<close> by its unique e-mail). The provider's side of the
  world is a parameter type \<open>'e\<close>: nothing in the database depends on it.
\<close>

record 'e pg =
  pg_drawn :: nat
  pg_tenants :: "(string, tenant) fmap"
  pg_keys :: "(string, api_key) fmap"
  pg_customers :: "(string, customer) fmap"
  pg_identities :: "(string, identity) fmap"
  pg_vas :: directory
  pg_txns :: "(string, transaction) fmap"
  pg_entries :: "ledger_entry list"
  pg_events :: "(string, webhook_event) fmap"
  pg_suspense :: "(string, suspense_item) fmap"
  pg_runs :: "(string, sweep_run) fmap"
  pg_audit :: "(string, audit_entry) fmap"
  pg_endpoints :: "(string, relay_endpoint) fmap"
  pg_deliveries :: "(string, relay_delivery) fmap"
  pg_settings :: "(string, json) fmap"
  pg_creds :: "(string, user_credential) fmap"
  pg_withdrawals :: "(string, withdrawal) fmap"
  pg_collections :: "(string, collection) fmap"
  pg_rt :: runtime
  pg_remote :: 'e

text \<open>
  \<open>pe_fault\<close> says that the named statement fails on these text parameters, \<open>pe_cut\<close> that the
  iteration over its rows breaks off after that many rows. \<open>pe_uuid\<close> is the canonical form of a
  text that is a UUID, \<open>pe_timestamp\<close> the instant of a text that is a timestamp. \<open>pe_now\<close> is the
  database's clock for the statements whose interface passes no reading, \<open>pe_ties\<close> the order of
  statement rows of the same instant.
\<close>

record 'e pg_env =
  pe_fault :: "string \<Rightarrow> string list \<Rightarrow> 'e pg \<Rightarrow> bool"
  pe_cut :: "string \<Rightarrow> string list \<Rightarrow> 'e pg \<Rightarrow> nat option"
  pe_uuid :: "string \<Rightarrow> string option"
  pe_random :: "nat \<Rightarrow> string"
  pe_jsonb :: "json \<Rightarrow> json option"
  pe_scan :: "'e pg \<Rightarrow> range_order"
  pe_ties :: "ledger_entry list \<Rightarrow> ledger_entry list"
  pe_now :: "'e pg \<Rightarrow> time"
  pe_timestamp :: "string \<Rightarrow> time option"

definition pg_error :: "string \<Rightarrow> go_error" where
  "pg_error stmt = Errorf (''postgres: '' @ stmt)"

text \<open>A \<open>timestamptz\<close> holds microseconds.\<close>

definition micros :: "time \<Rightarrow> time" where
  "micros t = t - t mod 1000"

text \<open>The value of a nullable UUID column; \<open>None\<close> where the parameter is not a UUID.\<close>

definition uuid_opt :: "'e pg_env \<Rightarrow> string option \<Rightarrow> string option option" where
  "uuid_opt e v = (case v of None \<Rightarrow> Some None | Some s \<Rightarrow> map_option Some (pe_uuid e s))"

definition gen_uuid :: "'e pg_env \<Rightarrow> 'e pg \<Rightarrow> string \<times> 'e pg" where
  "gen_uuid e w = (pe_random e (pg_drawn w), w\<lparr>pg_drawn := pg_drawn w + 1\<rparr>)"

abbreviation rows_of :: "'e pg_env \<Rightarrow> 'e pg \<Rightarrow> (string, 'v) fmap \<Rightarrow> 'v list" where
  "rows_of e w m \<equiv> range_vals (pe_scan e w) m"

text \<open>
  A query of many rows: an error of \<open>Query\<close>, or the rows that \<open>Next\<close> yields together with
  whether \<open>rows.Err()\<close> is set afterwards. A parameter that does not parse is reported when the
  rows are read.
\<close>

definition pg_query :: "'e pg_env \<Rightarrow> string \<Rightarrow> string list \<Rightarrow> bool \<Rightarrow> 'e pg \<Rightarrow> 'a list
    \<Rightarrow> go_error + 'a list \<times> bool" where
  "pg_query e stmt args parses w rows =
     (if pe_fault e stmt args w then Inl (pg_error stmt)
      else case (if parses then pe_cut e stmt args w else Some 0) of
             None \<Rightarrow> Inr (rows, False)
           | Some k \<Rightarrow> Inr (take k rows, True))"

text \<open>A query of one row.\<close>

definition pg_row :: "'e pg_env \<Rightarrow> string \<Rightarrow> string list \<Rightarrow> bool \<Rightarrow> 'e pg \<Rightarrow> 'a option
    \<Rightarrow> go_error + 'a option" where
  "pg_row e stmt args parses w row =
     (if pe_fault e stmt args w \<or> \<not> parses then Inl (pg_error stmt) else Inr row)"

definition wrap_err :: "string \<Rightarrow> go_error + 'a \<Rightarrow> go_error + 'a" where
  "wrap_err msg r = (case r of Inl err \<Rightarrow> Inl (Wrap msg err) | Inr x \<Rightarrow> Inr x)"

section \<open>Keyset pagination\<close>

definition page_limit :: "int \<Rightarrow> int" where
  "page_limit limit = (if limit \<le> 0 \<or> limit > 100 then 50 else limit)"

text \<open>
  The window that the paging queries ask for: the newest \<open>limit + 1\<close> rows strictly older than
  the row the cursor names (none when it names no row), and what the repositories make of the
  rows they get.
\<close>

definition keyset :: "('a \<Rightarrow> time) \<Rightarrow> (string, 'a) fmap \<Rightarrow> int \<Rightarrow> string \<Rightarrow> 'a list \<Rightarrow> 'a list" where
  "keyset key tbl limit cursor rows =
     take (nat (limit + 1)) (sort_key (\<lambda>x. - key x)
       (if cursor = '''' then rows
        else case fmlookup tbl cursor of None \<Rightarrow> [] | Some c \<Rightarrow> filter (\<lambda>x. key x < key c) rows))"

definition cut_page :: "('a \<Rightarrow> string) \<Rightarrow> int \<Rightarrow> 'a list \<Rightarrow> 'a list \<times> string" where
  "cut_page ident limit out =
     (if int (length out) > limit
      then (take (nat limit) out, ident (out ! (nat limit - 1))) else (out, ''''))"

text \<open>The same for the queries that break ties by the identifier.\<close>

definition older :: "('a \<Rightarrow> time) \<Rightarrow> ('a \<Rightarrow> string) \<Rightarrow> 'a \<Rightarrow> 'a \<Rightarrow> bool" where
  "older key ident x c \<longleftrightarrow> key x < key c \<or> key x = key c \<and> ident x < ident c"

definition keyset_id :: "('a \<Rightarrow> time) \<Rightarrow> ('a \<Rightarrow> string) \<Rightarrow> (string, 'a) fmap \<Rightarrow> int \<Rightarrow> string
    \<Rightarrow> 'a list \<Rightarrow> 'a list" where
  "keyset_id key ident tbl limit cursor rows =
     take (nat (limit + 1)) (sort_key (\<lambda>x. - key x) (rev (sort_key ident
       (if cursor = '''' then rows
        else case fmlookup tbl cursor of None \<Rightarrow> [] | Some c \<Rightarrow> filter (\<lambda>x. older key ident x c) rows))))"

section \<open>TransactionRepo\<close>

definition assertBalanced :: "ledger_entry list \<Rightarrow> go_error option" where
  "assertBalanced entries =
     (let (debits, credits) =
            foldl (\<lambda>(debits, credits) e.
                if LE_Direction e = ''debit'' then (debits + LE_AmountKobo e, credits)
                else if LE_Direction e = ''credit'' then (debits, credits + LE_AmountKobo e)
                else (debits, credits)) (0, 0 :: int64) entries
      in if debits \<noteq> credits
         then Some (Errorf (''ledger: unbalanced entries '' @ [CHR 0xE2, CHR 0x80, CHR 0x94]
                @ '' debits='' @ show_int (sint debits) @ '' credits='' @ show_int (sint credits)))
         else None)"

text \<open>The row of a transaction, when the parameters parse and the column checks pass.\<close>

definition txn_row :: "'e pg_env \<Rightarrow> time \<Rightarrow> transaction \<Rightarrow> transaction option" where
  "txn_row e now tx =
     do { va \<leftarrow> uuid_opt e (Tx_VirtualAccountID tx);
          raw \<leftarrow> pe_jsonb e (Tx_Raw tx);
          if sint (Tx_AmountKobo tx) > 0 \<and> Tx_Direction tx \<in> {''credit'', ''debit''}
             \<and> Tx_Source tx \<in> {''webhook'', ''sweep'', ''internal''}
             \<and> Tx_Status tx \<in> {''posted'', ''reversed'', ''pending''}
          then Some (tx\<lparr>Tx_VirtualAccountID := va, Tx_Raw := raw,
                        Tx_OccurredAt := micros (Tx_OccurredAt tx), Tx_CreatedAt := micros now,
                        Tx_NUBAN := ''''\<rparr>)
          else None }"

definition va_exists :: "'e pg \<Rightarrow> string option \<Rightarrow> bool" where
  "va_exists w v = (case v of None \<Rightarrow> True | Some i \<Rightarrow> fmlookup (pg_vas w) i \<noteq> None)"

definition entry_ok :: "(string, transaction) fmap \<Rightarrow> ledger_entry \<Rightarrow> bool" where
  "entry_ok txns x \<longleftrightarrow> fmlookup txns (LE_TransactionID x) \<noteq> None
     \<and> LE_Direction x \<in> {''debit'', ''credit''} \<and> sint (LE_AmountKobo x) > 0"

definition pg_PostTransaction :: "'e pg_env \<Rightarrow> time \<Rightarrow> transaction \<Rightarrow> ledger_entry list \<Rightarrow> 'e pg
    \<Rightarrow> (go_error + bool) \<times> 'e pg" where
  "pg_PostTransaction e now tx entries w =
     (case assertBalanced entries of
        Some err \<Rightarrow> (Inl err, w)
      | None \<Rightarrow>
          if pe_fault e ''begin'' [] w
          then (Inl (Wrap ''transaction repo: begin'' (pg_error ''begin'')), w)
          else
            let refused = (Inl (Wrap ''transaction repo: insert transaction'' (pg_error ''insert'')), w)
            in if pe_fault e ''insert transaction'' [Tx_ID tx] w then refused
               else case txn_row e now tx of
                 None \<Rightarrow> refused
               | Some row \<Rightarrow>
                   if fmlookup (pg_txns w) (Tx_ID tx) \<noteq> None then (Inr False, w)
                   else if \<not> va_exists w (Tx_VirtualAccountID row) then refused
                   else
                     let txns = fmupd (Tx_ID tx) row (pg_txns w)
                     in if \<exists>x \<in> set entries. \<not> entry_ok txns x
                             \<or> pe_fault e ''insert ledger entry'' [LE_Account x] w
                        then (Inl (Wrap ''transaction repo: insert ledger entry''
                                     (pg_error ''insert'')), w)
                        else if pe_fault e ''commit'' [] w
                        then (Inl (Wrap ''transaction repo: commit'' (pg_error ''commit'')), w)
                        else (Inr True, w\<lparr>pg_txns := txns, pg_entries := pg_entries w @ entries\<rparr>))"

definition pg_GetTransaction :: "'e pg_env \<Rightarrow> string \<Rightarrow> 'e pg \<Rightarrow> go_error + transaction option" where
  "pg_GetTransaction e txID w =
     wrap_err ''transaction repo: get''
       (pg_row e ''get transaction'' [txID] True w (fmlookup (pg_txns w) txID))"

text \<open>The account and the customer of a transaction, as the joins find them.\<close>

definition txn_va :: "'e pg \<Rightarrow> transaction \<Rightarrow> virtual_account option" where
  "txn_va w t = do { i \<leftarrow> Tx_VirtualAccountID t; fmlookup (pg_vas w) i }"

definition txn_customer :: "'e pg \<Rightarrow> transaction \<Rightarrow> customer option" where
  "txn_customer w t = do { va \<leftarrow> txn_va w t; fmlookup (pg_customers w) (VA_CustomerID va) }"

definition txn_tenant :: "'e pg \<Rightarrow> transaction \<Rightarrow> string option" where
  "txn_tenant w t = map_option Cust_TenantID (txn_customer w t)"

definition va_nuban :: "virtual_account option \<Rightarrow> string" where
  "va_nuban va = (case va of None \<Rightarrow> '''' | Some v \<Rightarrow> VA_NUBAN v)"

definition pg_GetTransactionForTenant :: "'e pg_env \<Rightarrow> string \<Rightarrow> string \<Rightarrow> 'e pg
    \<Rightarrow> go_error + transaction option" where
  "pg_GetTransactionForTenant e tenantID txID w =
     wrap_err ''transaction repo: get for tenant''
       (pg_row e ''get transaction for tenant'' [txID, tenantID] (pe_uuid e tenantID \<noteq> None) w
          (case fmlookup (pg_txns w) txID of
             None \<Rightarrow> None
           | Some t \<Rightarrow> if txn_customer w t \<noteq> None \<and> txn_tenant w t = pe_uuid e tenantID
                       then Some (t\<lparr>Tx_NUBAN := va_nuban (txn_va w t)\<rparr>) else None))"

definition pg_ListTransactions :: "'e pg_env \<Rightarrow> string \<Rightarrow> int \<Rightarrow> string \<Rightarrow> 'e pg
    \<Rightarrow> go_error + (transaction list \<times> string)" where
  "pg_ListTransactions e vaID limit cursor w =
     (let limit = page_limit limit
      in case pg_query e ''list transactions'' [vaID, cursor] (pe_uuid e vaID \<noteq> None) w
                (keyset Tx_OccurredAt (pg_txns w) limit cursor
                   (filter (\<lambda>t. Tx_VirtualAccountID t = pe_uuid e vaID) (rows_of e w (pg_txns w)))) of
           Inl err \<Rightarrow> Inl (Wrap ''transaction repo: list'' err)
         | Inr (txns, broken) \<Rightarrow> Inr (cut_page Tx_ID limit txns))"

definition pg_ListTenantTransactions :: "'e pg_env \<Rightarrow> string \<Rightarrow> int \<Rightarrow> string \<Rightarrow> 'e pg
    \<Rightarrow> go_error + (transaction list \<times> string)" where
  "pg_ListTenantTransactions e tenantID limit cursor w =
     (let limit = page_limit limit
      in case pg_query e ''list tenant transactions'' [tenantID, cursor] (pe_uuid e tenantID \<noteq> None) w
                (map (\<lambda>t. t\<lparr>Tx_NUBAN := va_nuban (txn_va w t), Tx_Raw := JNull, Tx_CreatedAt := 0\<rparr>)
                  (keyset Tx_OccurredAt (pg_txns w) limit cursor
                     (filter (\<lambda>t. txn_customer w t \<noteq> None \<and> txn_tenant w t = pe_uuid e tenantID)
                        (rows_of e w (pg_txns w))))) of
           Inl err \<Rightarrow> Inl (Wrap ''transaction repo: list tenant'' err)
         | Inr (txns, broken) \<Rightarrow> Inr (cut_page Tx_ID limit txns))"

text \<open>A \<open>SUM\<close> over \<open>bigint\<close> is exact; scanning it into an \<open>int64\<close> fails when it does not fit.\<close>

definition scan_sum :: "string \<Rightarrow> int \<Rightarrow> go_error + int64" where
  "scan_sum stmt n = (if fits64 n then Inr (word_of_int n) else Inl (pg_error stmt))"

definition pg_GetBalance :: "'e pg_env \<Rightarrow> string \<Rightarrow> 'e pg \<Rightarrow> go_error + int64" where
  "pg_GetBalance e account w =
     wrap_err ''transaction repo: get balance''
       (if pe_fault e ''get balance'' [account] w then Inl (pg_error ''get balance'')
        else scan_sum ''get balance'' (exact_balance account (pg_entries w)))"

text \<open>\<open>ledger_entries le JOIN transactions t\<close>: the instant of an entry's transaction.\<close>

definition entry_time :: "'e pg \<Rightarrow> ledger_entry \<Rightarrow> time option" where
  "entry_time w x = map_option Tx_OccurredAt (fmlookup (pg_txns w) (LE_TransactionID x))"

definition in_window :: "time option \<Rightarrow> time option \<Rightarrow> time option \<Rightarrow> bool" where
  "in_window lo hi t = (case t of None \<Rightarrow> False
     | Some t \<Rightarrow> (\<forall>l \<in> set_option lo. l \<le> t) \<and> (\<forall>h \<in> set_option hi. t < h))"

definition pg_GetDailyCredits :: "'e pg_env \<Rightarrow> string \<Rightarrow> time \<Rightarrow> 'e pg \<Rightarrow> go_error + int64" where
  "pg_GetDailyCredits e account date w =
     (let dayStart = day_start date; dayEnd = dayStart + 24 * hour
      in wrap_err ''transaction repo: daily credits''
           (if pe_fault e ''daily credits'' [account] w then Inl (pg_error ''daily credits'')
            else scan_sum ''daily credits''
              (sum_list (map (\<lambda>x. sint (LE_AmountKobo x))
                 (filter (\<lambda>x. LE_Account x = account \<and> LE_Direction x = ''credit''
                              \<and> in_window (Some dayStart) (Some dayEnd) (entry_time w x))
                    (pg_entries w))))))"

definition describe :: "transaction \<Rightarrow> string" where
  "describe t =
     (case Tx_SenderName t of
        Some n \<Rightarrow> if n \<noteq> '''' then (case Tx_SenderBank t of
             Some b \<Rightarrow> if b \<noteq> '''' then n @ '' / '' @ b else n | None \<Rightarrow> n)
           else (case Tx_Narration t of Some s \<Rightarrow> s | None \<Rightarrow> '''')
      | None \<Rightarrow> (case Tx_Narration t of Some s \<Rightarrow> s | None \<Rightarrow> ''''))"

definition pg_statement_row :: "'e pg \<Rightarrow> int64 \<times> statement_entry list \<Rightarrow> ledger_entry
    \<Rightarrow> int64 \<times> statement_entry list" where
  "pg_statement_row w st x =
     (let (running, entries) = st; t = the (fmlookup (pg_txns w) (LE_TransactionID x));
          credit = (LE_Direction x = ''credit''); amt = LE_AmountKobo x;
          running = (if credit then running + amt else running - amt)
      in (running, entries @ [\<lparr>SE_OccurredAt = Tx_OccurredAt t, SE_Description = describe t,
            SE_DebitKobo = (if credit then 0 else amt), SE_CreditKobo = (if credit then amt else 0),
            SE_RunningBalance = running\<rparr>]))"

definition pg_GetStatement :: "'e pg_env \<Rightarrow> string
    \<Rightarrow> time \<Rightarrow> time \<Rightarrow> 'e pg \<Rightarrow> go_error + statement" where
  "pg_GetStatement e account frm to w =
     (case (if pe_fault e ''statement opening'' [account] w then Inl (pg_error ''statement opening'')
            else scan_sum ''statement opening'' (exact_balance account
              (filter (\<lambda>x. in_window None (Some (micros frm)) (entry_time w x)) (pg_entries w)))) of
        Inl err \<Rightarrow> Inl (Wrap ''transaction repo: statement opening'' err)
      | Inr opening \<Rightarrow>
          (case pg_query e ''statement entries'' [account] True w
                  (sort_slice (pe_ties e) (\<lambda>x. the (entry_time w x))
                     (filter (\<lambda>x. LE_Account x = account
                                  \<and> in_window (Some (micros frm)) (Some (micros to)) (entry_time w x))
                        (pg_entries w))) of
             Inl err \<Rightarrow> Inl (Wrap ''transaction repo: statement entries'' err)
           | Inr (rows, broken) \<Rightarrow>
               let (running, entries) = foldl (pg_statement_row w) (opening, []) rows
               in Inr \<lparr>St_OpeningBalanceKobo = opening, St_ClosingBalanceKobo = running,
                       St_From = frm, St_To = to, St_Entries = entries\<rparr>))"

section \<open>CustomerRepo\<close>

definition pg_CreateCustomer :: "'e pg_env \<Rightarrow> time \<Rightarrow> string \<Rightarrow> string \<Rightarrow> string \<Rightarrow> identity_input
    \<Rightarrow> 'e pg \<Rightarrow> (go_error + customer) \<times> 'e pg" where
  "pg_CreateCustomer e now tenantID externalRef displayName ident w =
     (if pe_fault e ''begin'' [] w
      then (Inl (Wrap ''customer repo: begin tx'' (pg_error ''begin'')), w)
      else
        let (i, w) = gen_uuid e w;
            refused = (Inl (Wrap ''customer repo: insert customer'' (pg_error ''insert'')), w)
        in case pe_uuid e tenantID of
             None \<Rightarrow> refused
           | Some t \<Rightarrow>
               if pe_fault e ''insert customer'' [externalRef, displayName] w
                  \<or> fmlookup (pg_tenants w) t = None \<or> fmlookup (pg_customers w) i \<noteq> None
                  \<or> (\<exists>c \<in> set (rows_of e w (pg_customers w)).
                        Cust_TenantID c = t \<and> Cust_ExternalRef c = externalRef)
               then refused
               else
                 let (j, w) = gen_uuid e w;
                     c = \<lparr>Cust_ID = i, Cust_TenantID = t, Cust_ExternalRef = externalRef,
                          Cust_DisplayName = displayName, Cust_Status = ''active'',
                          Cust_Identity = None, Cust_CreatedAt = micros now,
                          Cust_UpdatedAt = micros now\<rparr>;
                     ident = \<lparr>Ident_ID = j, Ident_CustomerID = i,
                          Ident_BVNMasked = In_BVNMasked ident, Ident_NINMasked = In_NINMasked ident,
                          Ident_KYCTier = In_KYCTier ident, Ident_VerificationStatus = ''pending'',
                          Ident_CreatedAt = micros now, Ident_UpdatedAt = micros now\<rparr>
                 in if pe_fault e ''insert identity'' [i] w
                       \<or> Ident_KYCTier ident \<notin> {1, 2, 3}
                       \<or> Ident_BVNMasked ident = None \<and> Ident_NINMasked ident = None
                       \<or> (\<exists>x \<in> set (rows_of e w (pg_identities w)). Ident_ID x = j)
                    then (Inl (Wrap ''customer repo: insert identity'' (pg_error ''insert'')), w)
                    else if pe_fault e ''commit'' [] w
                    then (Inl (Wrap ''customer repo: commit'' (pg_error ''commit'')), w)
                    else (Inr (c\<lparr>Cust_Identity := Some ident\<rparr>),
                          w\<lparr>pg_customers := fmupd i c (pg_customers w),
                            pg_identities := fmupd i ident (pg_identities w)\<rparr>))"

text \<open>
  \<open>scanCustomer\<close> scans the columns of the left-joined identity into plain strings, which fails
  on the \<open>NULL\<close>s of a customer without one.
\<close>

definition scanCustomer :: "'e pg_env \<Rightarrow> string \<Rightarrow> string list \<Rightarrow> bool \<Rightarrow> 'e pg \<Rightarrow> customer option
    \<Rightarrow> go_error + customer option" where
  "scanCustomer e stmt args parses w row =
     (case pg_row e stmt args parses w row of
        Inl err \<Rightarrow> Inl err
      | Inr None \<Rightarrow> Inr None
      | Inr (Some c) \<Rightarrow>
          (case fmlookup (pg_identities w) (Cust_ID c) of
             None \<Rightarrow> Inl (pg_error ''scan'')
           | Some ident \<Rightarrow> Inr (Some (c\<lparr>Cust_Identity := Some ident\<rparr>))))"

definition pg_customer_row :: "'e pg_env \<Rightarrow> string \<Rightarrow> 'e pg \<Rightarrow> customer option" where
  "pg_customer_row e customerID w = do { i \<leftarrow> pe_uuid e customerID; fmlookup (pg_customers w) i }"

definition pg_GetCustomer :: "'e pg_env \<Rightarrow> string \<Rightarrow> string \<Rightarrow> 'e pg \<Rightarrow> go_error + customer option" where
  "pg_GetCustomer e tenantID customerID w =
     scanCustomer e ''get customer'' [customerID, tenantID]
       (pe_uuid e customerID \<noteq> None \<and> pe_uuid e tenantID \<noteq> None) w
       (case pg_customer_row e customerID w of
          None \<Rightarrow> None
        | Some c \<Rightarrow> if pe_uuid e tenantID = Some (Cust_TenantID c) then Some c else None)"

definition pg_GetCustomerByID :: "'e pg_env \<Rightarrow> string \<Rightarrow> 'e pg \<Rightarrow> go_error + customer option" where
  "pg_GetCustomerByID e customerID w =
     scanCustomer e ''get customer by id'' [customerID] (pe_uuid e customerID \<noteq> None) w
       (pg_customer_row e customerID w)"

definition pg_GetCustomerByExternalRef :: "'e pg_env \<Rightarrow> string \<Rightarrow> string \<Rightarrow> 'e pg
    \<Rightarrow> go_error + customer option" where
  "pg_GetCustomerByExternalRef e tenantID externalRef w =
     scanCustomer e ''get customer by ref'' [externalRef, tenantID] (pe_uuid e tenantID \<noteq> None) w
       (List.find (\<lambda>c. Cust_ExternalRef c = externalRef \<and> pe_uuid e tenantID = Some (Cust_TenantID c))
          (rows_of e w (pg_customers w)))"

text \<open>\<open>kyc_tier\<close> is a \<open>SMALLINT\<close> with a check; updating no row is not an error.\<close>

definition pg_UpdateKYCTier :: "'e pg_env \<Rightarrow> time \<Rightarrow> string \<Rightarrow> int \<Rightarrow> string \<Rightarrow> 'e pg
    \<Rightarrow> go_error option \<times> 'e pg" where
  "pg_UpdateKYCTier e now customerID newTier actor w =
     (let refused = (Some (Wrap ''customer repo: update kyc tier'' (pg_error ''update'')), w)
      in if pe_fault e ''update kyc tier'' [customerID] w \<or> newTier < - 32768 \<or> newTier > 32767
         then refused
         else case pe_uuid e customerID of
           None \<Rightarrow> refused
         | Some i \<Rightarrow>
             (case fmlookup (pg_identities w) i of
                None \<Rightarrow> (None, w)
              | Some ident \<Rightarrow>
                  if newTier \<notin> {1, 2, 3} then refused
                  else (None, w\<lparr>pg_identities := fmupd i
                          (ident\<lparr>Ident_KYCTier := newTier, Ident_UpdatedAt := micros now\<rparr>)
                          (pg_identities w)\<rparr>)))"

definition cursor_parses :: "'e pg_env \<Rightarrow> string \<Rightarrow> bool" where
  "cursor_parses e cursor \<longleftrightarrow> cursor = '''' \<or> pe_uuid e cursor \<noteq> None"

definition cursor_id :: "'e pg_env \<Rightarrow> string \<Rightarrow> string" where
  "cursor_id e cursor = (case pe_uuid e cursor of None \<Rightarrow> cursor | Some c \<Rightarrow> c)"

definition listed_customer :: "time \<Rightarrow> 'e pg \<Rightarrow> customer \<Rightarrow> customer" where
  "listed_customer now w c =
     c\<lparr>Cust_Identity := Some (case fmlookup (pg_identities w) (Cust_ID c) of
         Some ident \<Rightarrow> ident
       | None \<Rightarrow> \<lparr>Ident_ID = '''', Ident_CustomerID = '''', Ident_BVNMasked = None,
                  Ident_NINMasked = None, Ident_KYCTier = 0, Ident_VerificationStatus = '''',
                  Ident_CreatedAt = micros now, Ident_UpdatedAt = micros now\<rparr>)\<rparr>"

definition pg_ListCustomers :: "'e pg_env \<Rightarrow> string \<Rightarrow> int \<Rightarrow> string \<Rightarrow> 'e pg
    \<Rightarrow> go_error + (customer list \<times> string)" where
  "pg_ListCustomers e tenantID limit cursor w =
     (let limit = page_limit limit
      in case pg_query e ''list customers'' [tenantID, cursor]
                (pe_uuid e tenantID \<noteq> None \<and> cursor_parses e cursor) w
                (map (listed_customer (pe_now e w) w)
                  (keyset_id Cust_CreatedAt Cust_ID (pg_customers w) limit (cursor_id e cursor)
                     (filter (\<lambda>c. pe_uuid e tenantID = Some (Cust_TenantID c))
                        (rows_of e w (pg_customers w))))) of
           Inl err \<Rightarrow> Inl (Wrap ''customer repo: list'' err)
         | Inr (out, broken) \<Rightarrow>
             if broken then Inl (Wrap ''customer repo: list iter'' (pg_error ''rows''))
             else Inr (cut_page Cust_ID limit out))"

section \<open>VARepo\<close>

definition pg_va_unique :: "'e pg_env \<Rightarrow> virtual_account \<Rightarrow> 'e pg \<Rightarrow> bool" where
  "pg_va_unique e row w \<longleftrightarrow>
     fmlookup (pg_vas w) (VA_ID row) = None \<and>
     (\<forall>v \<in> set (rows_of e w (pg_vas w)).
        VA_NombaAccountRef v \<noteq> VA_NombaAccountRef row \<and> VA_NUBAN v \<noteq> VA_NUBAN row \<and>
        \<not> (VA_Status row = VAStatusActive \<and> VA_Status v = VAStatusActive
           \<and> VA_CustomerID v = VA_CustomerID row))"

definition va_statuses :: "string set" where
  "va_statuses = {VAStatusPending, VAStatusActive, VAStatusSuspended, VAStatusClosed}"

definition pg_CreateVirtualAccount :: "'e pg_env \<Rightarrow> time \<Rightarrow> virtual_account \<Rightarrow> 'e pg
    \<Rightarrow> (go_error + virtual_account) \<times> 'e pg" where
  "pg_CreateVirtualAccount e now va w =
     (let (i, w) = gen_uuid e w;
          refused = (Inl (Wrap ''va repo: create'' (pg_error ''insert'')), w)
      in case pe_uuid e (VA_CustomerID va) of
           None \<Rightarrow> refused
         | Some c \<Rightarrow>
             let row = va\<lparr>VA_ID := i, VA_CustomerID := c, VA_CreatedAt := micros now,
                          VA_UpdatedAt := micros now, VA_CustomerDisplayName := '''',
                          VA_TenantName := ''''\<rparr>
             in if pe_fault e ''insert va'' [VA_NombaAccountRef va, VA_NUBAN va] w
                   \<or> VA_Status va \<notin> va_statuses \<or> \<not> pg_va_unique e row w
                   \<or> fmlookup (pg_customers w) c = None
                then refused
                else (Inr (va\<lparr>VA_ID := i, VA_CreatedAt := micros now, VA_UpdatedAt := micros now\<rparr>),
                      w\<lparr>pg_vas := fmupd i row (pg_vas w)\<rparr>))"

definition pg_find_va :: "'e pg_env \<Rightarrow> (virtual_account \<Rightarrow> bool) \<Rightarrow> 'e pg \<Rightarrow> virtual_account option" where
  "pg_find_va e P w = List.find P (rows_of e w (pg_vas w))"

definition pg_GetVAByCustomerAndStatus :: "'e pg_env \<Rightarrow> string \<Rightarrow> string \<Rightarrow> 'e pg
    \<Rightarrow> go_error + virtual_account option" where
  "pg_GetVAByCustomerAndStatus e customerID status w =
     pg_row e ''get va by status'' [customerID, status] (pe_uuid e customerID \<noteq> None) w
       (pg_find_va e (\<lambda>v. Some (VA_CustomerID v) = pe_uuid e customerID \<and> VA_Status v = status) w)"

definition pg_GetActiveVA :: "'e pg_env \<Rightarrow> string \<Rightarrow> 'e pg \<Rightarrow> go_error + virtual_account option" where
  "pg_GetActiveVA e customerID w =
     pg_row e ''get active va'' [customerID] (pe_uuid e customerID \<noteq> None) w
       (pg_find_va e (\<lambda>v. Some (VA_CustomerID v) = pe_uuid e customerID
                          \<and> VA_Status v = VAStatusActive) w)"

definition pg_GetLatestVA :: "'e pg_env \<Rightarrow> string \<Rightarrow> 'e pg \<Rightarrow> go_error + virtual_account option" where
  "pg_GetLatestVA e customerID w =
     pg_row e ''get latest va'' [customerID] (pe_uuid e customerID \<noteq> None) w
       (case sort_key (\<lambda>v. - VA_CreatedAt v)
               (filter (\<lambda>v. Some (VA_CustomerID v) = pe_uuid e customerID) (rows_of e w (pg_vas w))) of
          [] \<Rightarrow> None | v # _ \<Rightarrow> Some v)"

definition pg_GetVAByNUBAN :: "'e pg_env \<Rightarrow> string \<Rightarrow> 'e pg \<Rightarrow> go_error + virtual_account option" where
  "pg_GetVAByNUBAN e nuban w =
     pg_row e ''get va by nuban'' [nuban] True w (pg_find_va e (\<lambda>v. VA_NUBAN v = nuban) w)"

definition pg_GetVAByAccountRef :: "'e pg_env \<Rightarrow> string \<Rightarrow> 'e pg
    \<Rightarrow> go_error + virtual_account option" where
  "pg_GetVAByAccountRef e accountRef w =
     pg_row e ''get va by ref'' [accountRef] True w
       (pg_find_va e (\<lambda>v. VA_NombaAccountRef v = accountRef) w)"

text \<open>An update of one account row by its identifier; no row is not an error.\<close>

definition pg_UpdateVAStatus :: "'e pg_env \<Rightarrow> time \<Rightarrow> string \<Rightarrow> string \<Rightarrow> string \<Rightarrow> 'e pg
    \<Rightarrow> go_error option \<times> 'e pg" where
  "pg_UpdateVAStatus e now vaID status actor w =
     (let refused = (Some (Wrap ''va repo: update status'' (pg_error ''update'')), w)
      in if pe_fault e ''update va status'' [vaID, status] w then refused
         else case pe_uuid e vaID of
           None \<Rightarrow> refused
         | Some i \<Rightarrow>
             (case fmlookup (pg_vas w) i of
                None \<Rightarrow> (None, w)
              | Some va \<Rightarrow>
                  if status \<notin> va_statuses
                     \<or> status = VAStatusActive
                       \<and> (\<exists>v \<in> set (rows_of e w (pg_vas w)). VA_ID v \<noteq> i \<and> VA_Status v = VAStatusActive
                             \<and> VA_CustomerID v = VA_CustomerID va)
                  then refused
                  else (None, w\<lparr>pg_vas := fmupd i (va\<lparr>VA_Status := status, VA_UpdatedAt := micros now\<rparr>)
                          (pg_vas w)\<rparr>)))"

definition pg_RenameVA :: "'e pg_env \<Rightarrow> time \<Rightarrow> string \<Rightarrow> string \<Rightarrow> string \<Rightarrow> 'e pg
    \<Rightarrow> go_error option \<times> 'e pg" where
  "pg_RenameVA e now vaID newName actor w =
     (let refused = (Some (Wrap ''va repo: rename'' (pg_error ''update'')), w)
      in if pe_fault e ''rename va'' [vaID, newName] w then refused
         else case pe_uuid e vaID of
           None \<Rightarrow> refused
         | Some i \<Rightarrow>
             (case fmlookup (pg_vas w) i of
                None \<Rightarrow> (None, w)
              | Some va \<Rightarrow> (None, w\<lparr>pg_vas := fmupd i
                    (va\<lparr>VA_AccountName := newName, VA_UpdatedAt := micros now\<rparr>) (pg_vas w)\<rparr>)))"

definition va_customer :: "'e pg \<Rightarrow> virtual_account \<Rightarrow> customer option" where
  "va_customer w v = fmlookup (pg_customers w) (VA_CustomerID v)"

definition va_tenant :: "'e pg \<Rightarrow> virtual_account \<Rightarrow> tenant option" where
  "va_tenant w v = do { c \<leftarrow> va_customer w v; fmlookup (pg_tenants w) (Cust_TenantID c) }"

definition display_name :: "customer option \<Rightarrow> string" where
  "display_name c = (case c of None \<Rightarrow> '''' | Some c \<Rightarrow> Cust_DisplayName c)"

definition pg_ListAllVAs :: "'e pg_env \<Rightarrow> int \<Rightarrow> string \<Rightarrow> 'e pg
    \<Rightarrow> go_error + (virtual_account list \<times> string)" where
  "pg_ListAllVAs e limit cursor w =
     (let limit = page_limit limit
      in case pg_query e ''list all vas'' [cursor] (cursor_parses e cursor) w
                (map (\<lambda>v. v\<lparr>VA_CustomerDisplayName := display_name (va_customer w v),
                            VA_TenantName := (case va_tenant w v of None \<Rightarrow> '''' | Some t \<Rightarrow> Tenant_Name t)\<rparr>)
                  (keyset VA_CreatedAt (pg_vas w) limit (cursor_id e cursor)
                     (filter (\<lambda>v. va_tenant w v \<noteq> None) (rows_of e w (pg_vas w))))) of
           Inl err \<Rightarrow> Inl (Wrap ''va repo: list all'' err)
         | Inr (items, broken) \<Rightarrow> Inr (cut_page VA_ID limit items))"

definition pg_ListVAs :: "'e pg_env \<Rightarrow> string \<Rightarrow> int \<Rightarrow> string \<Rightarrow> 'e pg
    \<Rightarrow> go_error + (virtual_account list \<times> string)" where
  "pg_ListVAs e tenantID limit cursor w =
     (let limit = page_limit limit
      in case pg_query e ''list vas'' [tenantID, cursor]
                (pe_uuid e tenantID \<noteq> None \<and> cursor_parses e cursor) w
                (map (\<lambda>v. v\<lparr>VA_CustomerDisplayName := display_name (va_customer w v)\<rparr>)
                  (keyset VA_CreatedAt (pg_vas w) limit (cursor_id e cursor)
                     (filter (\<lambda>v. va_customer w v \<noteq> None
                          \<and> map_option Cust_TenantID (va_customer w v) = pe_uuid e tenantID)
                        (rows_of e w (pg_vas w))))) of
           Inl err \<Rightarrow> Inl (Wrap ''va repo: list'' err)
         | Inr (items, broken) \<Rightarrow> Inr (cut_page VA_ID limit items))"

section \<open>WithdrawalRepo\<close>

definition jsonb_opt :: "'e pg_env \<Rightarrow> json \<Rightarrow> json option" where
  "jsonb_opt e raw = (if raw = JNull then Some JNull else pe_jsonb e raw)"

definition pg_CreateWithdrawal :: "'e pg_env \<Rightarrow> time \<Rightarrow> withdrawal \<Rightarrow> 'e pg
    \<Rightarrow> (go_error + withdrawal) \<times> 'e pg" where
  "pg_CreateWithdrawal e now wd w =
     (let (i, w) = gen_uuid e w;
          refused = (Inl (Wrap ''withdrawal repo: create'' (pg_error ''insert'')), w)
      in case do { c \<leftarrow> pe_uuid e (Wd_CustomerID wd); v \<leftarrow> uuid_opt e (Wd_VirtualAccountID wd);
                   raw \<leftarrow> jsonb_opt e (Wd_Raw wd); Some (c, v, raw) } of
           None \<Rightarrow> refused
         | Some (c, v, raw) \<Rightarrow>
             if pe_fault e ''insert withdrawal'' [Wd_Narration wd] w
                \<or> sint (Wd_AmountKobo wd) \<le> 0 \<or> fmlookup (pg_withdrawals w) i \<noteq> None
                \<or> fmlookup (pg_customers w) c = None \<or> \<not> va_exists w v
             then refused
             else let wd = wd\<lparr>Wd_ID := i, Wd_CreatedAt := micros now, Wd_UpdatedAt := micros now\<rparr>;
                      row = wd\<lparr>Wd_CustomerID := c, Wd_VirtualAccountID := v, Wd_Raw := raw,
                               Wd_ProviderTransactionID := None, Wd_ProviderSessionID := None,
                               Wd_FailureReason := None\<rparr>
                  in (Inr wd, w\<lparr>pg_withdrawals := fmupd i row (pg_withdrawals w)\<rparr>))"

definition pg_GetWithdrawal :: "'e pg_env \<Rightarrow> string \<Rightarrow> 'e pg \<Rightarrow> go_error + withdrawal option" where
  "pg_GetWithdrawal e withdrawalID w =
     wrap_err ''withdrawal repo: get''
       (pg_row e ''get withdrawal'' [withdrawalID] True w (fmlookup (pg_withdrawals w) withdrawalID))"

definition coalesce :: "'a option \<Rightarrow> 'a option \<Rightarrow> 'a option" where
  "coalesce a b = (case a of Some x \<Rightarrow> Some x | None \<Rightarrow> b)"

definition pg_UpdateWithdrawalStatus :: "'e pg_env \<Rightarrow> time \<Rightarrow> string \<Rightarrow> string \<Rightarrow> string option
    \<Rightarrow> string option \<Rightarrow> string option \<Rightarrow> 'e pg \<Rightarrow> go_error option \<times> 'e pg" where
  "pg_UpdateWithdrawalStatus e now withdrawalID status provTxID provSessionID failureReason w =
     (if pe_fault e ''update withdrawal'' [withdrawalID, status] w
      then (Some (Wrap ''withdrawal repo: update status'' (pg_error ''update'')), w)
      else case fmlookup (pg_withdrawals w) withdrawalID of
        None \<Rightarrow> (None, w)
      | Some wd \<Rightarrow> (None, w\<lparr>pg_withdrawals := fmupd withdrawalID
          (wd\<lparr>Wd_Status := status,
              Wd_ProviderTransactionID := coalesce provTxID (Wd_ProviderTransactionID wd),
              Wd_ProviderSessionID := coalesce provSessionID (Wd_ProviderSessionID wd),
              Wd_FailureReason := coalesce failureReason (Wd_FailureReason wd),
              Wd_UpdatedAt := micros now\<rparr>) (pg_withdrawals w)\<rparr>))"

definition pg_ListWithdrawals :: "'e pg_env \<Rightarrow> string \<Rightarrow> int \<Rightarrow> string \<Rightarrow> 'e pg
    \<Rightarrow> go_error + (withdrawal list \<times> string)" where
  "pg_ListWithdrawals e customerID limit cursor w =
     (let limit = page_limit limit
      in case pg_query e ''list withdrawals'' [customerID, cursor] (pe_uuid e customerID \<noteq> None) w
                (keyset Wd_CreatedAt (pg_withdrawals w) limit cursor
                   (filter (\<lambda>x. Some (Wd_CustomerID x) = pe_uuid e customerID)
                      (rows_of e w (pg_withdrawals w)))) of
           Inl err \<Rightarrow> Inl (Wrap ''withdrawal repo: list'' err)
         | Inr (out, broken) \<Rightarrow> Inr (cut_page Wd_ID limit out))"

section \<open>CollectionRepo\<close>

definition pg_CreateCollection :: "'e pg_env \<Rightarrow> time \<Rightarrow> collection \<Rightarrow> 'e pg
    \<Rightarrow> (go_error + collection) \<times> 'e pg" where
  "pg_CreateCollection e now c w =
     (let (i, w) = gen_uuid e w;
          refused = (Inl (Wrap ''collection repo: create'' (pg_error ''insert'')), w)
      in case do { cu \<leftarrow> pe_uuid e (Col_CustomerID c); v \<leftarrow> uuid_opt e (Col_VirtualAccountID c);
                   Some (cu, v) } of
           None \<Rightarrow> refused
         | Some (cu, v) \<Rightarrow>
             if pe_fault e ''insert collection'' [Col_Reference c, Col_Description c] w
                \<or> fmlookup (pg_collections w) i \<noteq> None
                \<or> (\<exists>x \<in> set (rows_of e w (pg_collections w)).
                      Col_CustomerID x = cu \<and> Col_Reference x = Col_Reference c)
                \<or> fmlookup (pg_customers w) cu = None \<or> \<not> va_exists w v
             then refused
             else let c = c\<lparr>Col_ID := i, Col_CreatedAt := micros now, Col_UpdatedAt := micros now\<rparr>;
                      row = c\<lparr>Col_CustomerID := cu, Col_VirtualAccountID := v,
                              Col_ExpiresAt := map_option micros (Col_ExpiresAt c),
                              Col_FulfilledByTxnID := None, Col_FulfilledAt := None,
                              Col_NUBAN := '''', Col_BankName := ''''\<rparr>
                  in (Inr c, w\<lparr>pg_collections := fmupd i row (pg_collections w)\<rparr>))"

definition collection_va :: "'e pg \<Rightarrow> collection \<Rightarrow> virtual_account option" where
  "collection_va w c = do { i \<leftarrow> Col_VirtualAccountID c; fmlookup (pg_vas w) i }"

definition joined_collection :: "'e pg \<Rightarrow> collection \<Rightarrow> collection" where
  "joined_collection w c =
     c\<lparr>Col_NUBAN := va_nuban (collection_va w c),
       Col_BankName := (case collection_va w c of None \<Rightarrow> '''' | Some v \<Rightarrow> VA_BankName v)\<rparr>"

definition pg_GetCollection :: "'e pg_env \<Rightarrow> string \<Rightarrow> 'e pg \<Rightarrow> go_error + collection option" where
  "pg_GetCollection e collectionID w =
     wrap_err ''collection repo: get''
       (pg_row e ''get collection'' [collectionID] True w
          (map_option (joined_collection w) (fmlookup (pg_collections w) collectionID)))"

definition pg_ListCollections :: "'e pg_env \<Rightarrow> string \<Rightarrow> int \<Rightarrow> string \<Rightarrow> 'e pg
    \<Rightarrow> go_error + (collection list \<times> string)" where
  "pg_ListCollections e customerID limit cursor w =
     (let limit = page_limit limit
      in case pg_query e ''list collections'' [customerID, cursor] (pe_uuid e customerID \<noteq> None) w
                (map (joined_collection w)
                  (keyset Col_CreatedAt (pg_collections w) limit cursor
                     (filter (\<lambda>x. Some (Col_CustomerID x) = pe_uuid e customerID)
                        (rows_of e w (pg_collections w))))) of
           Inl err \<Rightarrow> Inl (Wrap ''collection repo: list'' err)
         | Inr (out, broken) \<Rightarrow> Inr (cut_page Col_ID limit out))"

definition open_collection :: "'e pg \<Rightarrow> string \<Rightarrow> collection option" where
  "open_collection w i =
     (case fmlookup (pg_collections w) i of
        None \<Rightarrow> None | Some c \<Rightarrow> if Col_Status c = ''open'' then Some c else None)"

definition pg_FulfillCollection :: "'e pg_env \<Rightarrow> time \<Rightarrow> string \<Rightarrow> string \<Rightarrow> 'e pg
    \<Rightarrow> go_error option \<times> 'e pg" where
  "pg_FulfillCollection e now collectionID txnID w =
     (let refused = (Some (Wrap ''collection repo: fulfill'' (pg_error ''update'')), w)
      in if pe_fault e ''fulfill collection'' [collectionID, txnID] w then refused
         else case open_collection w collectionID of
           None \<Rightarrow> (None, w)
         | Some c \<Rightarrow>
             if fmlookup (pg_txns w) txnID = None then refused
             else (None, w\<lparr>pg_collections := fmupd collectionID
                     (c\<lparr>Col_Status := ''fulfilled'', Col_FulfilledByTxnID := Some txnID,
                        Col_FulfilledAt := Some (micros now), Col_UpdatedAt := micros now\<rparr>)
                     (pg_collections w)\<rparr>))"

definition pg_CancelCollection :: "'e pg_env \<Rightarrow> time \<Rightarrow> string \<Rightarrow> 'e pg \<Rightarrow> go_error option \<times> 'e pg" where
  "pg_CancelCollection e now collectionID w =
     (if pe_fault e ''cancel collection'' [collectionID] w
      then (Some (Wrap ''collection repo: cancel'' (pg_error ''update'')), w)
      else case open_collection w collectionID of
        None \<Rightarrow> (None, w)
      | Some c \<Rightarrow> (None, w\<lparr>pg_collections := fmupd collectionID
          (c\<lparr>Col_Status := ''cancelled'', Col_UpdatedAt := micros now\<rparr>) (pg_collections w)\<rparr>))"

definition pg_FindOpenCollectionForVA :: "'e pg_env \<Rightarrow> time \<Rightarrow> string \<Rightarrow> int64 \<Rightarrow> 'e pg
    \<Rightarrow> go_error + collection option" where
  "pg_FindOpenCollectionForVA e now vaID amountKobo w =
     wrap_err ''collection repo: find open''
       (pg_row e ''find open collection'' [vaID] (pe_uuid e vaID \<noteq> None) w
          (case sort_key Col_CreatedAt
                  (filter (\<lambda>c. Col_VirtualAccountID c = pe_uuid e vaID \<and> Col_Status c = ''open''
                      \<and> (case Col_ExpiresAt c of None \<Rightarrow> True | Some t \<Rightarrow> t > micros now)
                      \<and> (case Col_ExpectedAmountKobo c of None \<Rightarrow> True | Some a \<Rightarrow> a = amountKobo))
                    (rows_of e w (pg_collections w))) of
             [] \<Rightarrow> None | c # _ \<Rightarrow> Some c))"

section \<open>SuspenseRepo\<close>

definition pg_CreateSuspenseItem :: "'e pg_env \<Rightarrow> time \<Rightarrow> suspense_item \<Rightarrow> 'e pg
    \<Rightarrow> go_error option \<times> 'e pg" where
  "pg_CreateSuspenseItem e now item w =
     (let (i, w) = gen_uuid e w
      in if pe_fault e ''insert suspense item'' [SI_TransactionID item] w
            \<or> SI_Reason item \<notin> {SuspenseReasonUnmatched, SuspenseReasonClosedAccount,
                 SuspenseReasonAmountMismatch, SuspenseReasonTierLimit, SuspenseReasonSuspendedAccount}
            \<or> SI_Status item \<notin> {''open'', ''reassigned'', ''refund_flagged''}
            \<or> fmlookup (pg_suspense w) i \<noteq> None
            \<or> fmlookup (pg_txns w) (SI_TransactionID item) = None
         then (Some (Wrap ''suspense repo: create'' (pg_error ''insert'')), w)
         else (None, w\<lparr>pg_suspense := fmupd i
                 \<lparr>SI_ID = i, SI_TransactionID = SI_TransactionID item, SI_Reason = SI_Reason item,
                  SI_Status = SI_Status item, SI_ResolvedBy = None, SI_ResolvedAt = None,
                  SI_Notes = None, SI_CreatedAt = micros now, SI_AmountKobo = 0, SI_NUBAN = ''''\<rparr>
                 (pg_suspense w)\<rparr>))"

definition pg_GetSuspenseItem :: "'e pg_env \<Rightarrow> string \<Rightarrow> 'e pg \<Rightarrow> go_error + suspense_item option" where
  "pg_GetSuspenseItem e itemID w =
     wrap_err ''suspense repo: get''
       (pg_row e ''get suspense item'' [itemID] (pe_uuid e itemID \<noteq> None) w
          (do { i \<leftarrow> pe_uuid e itemID; fmlookup (pg_suspense w) i }))"

definition item_txn :: "'e pg \<Rightarrow> suspense_item \<Rightarrow> transaction option" where
  "item_txn w s = fmlookup (pg_txns w) (SI_TransactionID s)"

definition joined_item :: "'e pg \<Rightarrow> suspense_item \<Rightarrow> suspense_item" where
  "joined_item w s =
     (case item_txn w s of
        None \<Rightarrow> s
      | Some t \<Rightarrow> s\<lparr>SI_AmountKobo := Tx_AmountKobo t, SI_NUBAN := va_nuban (txn_va w t)\<rparr>)"

definition pg_ListSuspenseItems :: "'e pg_env \<Rightarrow> string \<Rightarrow> int \<Rightarrow> string \<Rightarrow> 'e pg
    \<Rightarrow> go_error + (suspense_item list \<times> string)" where
  "pg_ListSuspenseItems e tenantID limit cursor w =
     (let limit = page_limit limit
      in case pg_query e ''list suspense'' [tenantID, cursor]
                (pe_uuid e tenantID \<noteq> None \<and> cursor_parses e cursor) w
                (map (joined_item w)
                  (keyset SI_CreatedAt (pg_suspense w) limit (cursor_id e cursor)
                     (filter (\<lambda>s. SI_Status s = ''open'' \<and>
                          (case item_txn w s of None \<Rightarrow> False
                           | Some t \<Rightarrow> txn_tenant w t = None \<or> txn_tenant w t = pe_uuid e tenantID))
                        (rows_of e w (pg_suspense w))))) of
           Inl err \<Rightarrow> Inl (Wrap ''suspense repo: list'' err)
         | Inr (items, broken) \<Rightarrow> Inr (cut_page SI_ID limit items))"

definition pg_ListOpenUnmatchedItems :: "'e pg_env \<Rightarrow> int \<Rightarrow> 'e pg \<Rightarrow> go_error + suspense_item list" where
  "pg_ListOpenUnmatchedItems e limit w =
     (let limit = (if limit \<le> 0 \<or> limit > 500 then 100 else limit)
      in case pg_query e ''list unmatched'' [] True w
                (map (joined_item w) (take (nat limit) (sort_key SI_CreatedAt
                  (filter (\<lambda>s. SI_Status s = ''open'' \<and> SI_Reason s = SuspenseReasonUnmatched
                               \<and> item_txn w s \<noteq> None) (rows_of e w (pg_suspense w)))))) of
           Inl err \<Rightarrow> Inl (Wrap ''suspense repo: list unmatched'' err)
         | Inr (items, broken) \<Rightarrow> Inr items)"

definition pg_ResolveSuspenseItem :: "'e pg_env \<Rightarrow> time \<Rightarrow> string \<Rightarrow> string \<Rightarrow> string \<Rightarrow> string \<Rightarrow> 'e pg
    \<Rightarrow> go_error option \<times> 'e pg" where
  "pg_ResolveSuspenseItem e now itemID resolution actor notes w =
     (let refused = (Some (Wrap ''suspense repo: resolve'' (pg_error ''update'')), w)
      in if pe_fault e ''resolve suspense item'' [itemID, resolution, actor, notes] w then refused
         else case pe_uuid e itemID of
           None \<Rightarrow> refused
         | Some i \<Rightarrow>
             (case fmlookup (pg_suspense w) i of
                None \<Rightarrow> (None, w)
              | Some s \<Rightarrow>
                  if SI_Status s \<noteq> ''open'' then (None, w)
                  else if resolution \<notin> {''open'', ''reassigned'', ''refund_flagged''} then refused
                  else (None, w\<lparr>pg_suspense := fmupd i
                          (s\<lparr>SI_Status := resolution, SI_ResolvedBy := Some actor,
                             SI_Notes := Some notes, SI_ResolvedAt := Some (micros now)\<rparr>)
                          (pg_suspense w)\<rparr>)))"

section \<open>WebhookRepo, SweepRepo, SettingsRepo\<close>

definition pg_InsertWebhookEvent :: "'e pg_env \<Rightarrow> time \<Rightarrow> webhook_event \<Rightarrow> 'e pg
    \<Rightarrow> (go_error + bool \<times> webhook_event) \<times> 'e pg" where
  "pg_InsertWebhookEvent e now evt w =
     (let (i, w) = gen_uuid e w;
          refused = (Inl (Wrap ''webhook repo: insert'' (pg_error ''insert'')), w)
      in if pe_fault e ''insert webhook event'' [WE_DedupeKey evt, WE_EventType evt] w
            \<or> WE_Status evt \<notin> {''received'', ''processed'', ''ignored'', ''failed''}
         then refused
         else case pe_jsonb e (WE_Payload evt) of
           None \<Rightarrow> refused
         | Some payload \<Rightarrow>
             if \<exists>x \<in> set (rows_of e w (pg_events w)). WE_DedupeKey x = WE_DedupeKey evt
             then (Inr (False, evt), w)
             else if fmlookup (pg_events w) i \<noteq> None then refused
             else (Inr (True, evt\<lparr>WE_ID := i\<rparr>),
                   w\<lparr>pg_events := fmupd i (evt\<lparr>WE_ID := i, WE_Payload := payload,
                        WE_CreatedAt := micros now, WE_ProcessedAt := None\<rparr>) (pg_events w)\<rparr>))"

definition pg_ListWebhookEvents :: "'e pg_env \<Rightarrow> int \<Rightarrow> 'e pg \<Rightarrow> go_error + webhook_event list" where
  "pg_ListWebhookEvents e limit w =
     (let limit = (if limit \<le> 0 \<or> limit > 200 then 50 else limit)
      in case pg_query e ''list webhook events'' [] True w
                (take (nat limit) (sort_key (\<lambda>x. - WE_CreatedAt x) (rows_of e w (pg_events w)))) of
           Inl err \<Rightarrow> Inl (Wrap ''webhook repo: list'' err)
         | Inr (events, broken) \<Rightarrow> Inr events)"

definition pg_MarkWebhookProcessed :: "'e pg_env \<Rightarrow> time \<Rightarrow> string \<Rightarrow> string \<Rightarrow> 'e pg
    \<Rightarrow> go_error option \<times> 'e pg" where
  "pg_MarkWebhookProcessed e now rid status w =
     (let refused = (Some (Wrap ''webhook repo: mark processed'' (pg_error ''update'')), w)
      in if pe_fault e ''mark webhook'' [rid, status] w then refused
         else case pe_uuid e rid of
           None \<Rightarrow> refused
         | Some i \<Rightarrow>
             (case fmlookup (pg_events w) i of
                None \<Rightarrow> (None, w)
              | Some evt \<Rightarrow>
                  if status \<notin> {''received'', ''processed'', ''ignored'', ''failed''} then refused
                  else (None, w\<lparr>pg_events := fmupd i
                          (evt\<lparr>WE_Status := status, WE_ProcessedAt := Some (micros now)\<rparr>)
                          (pg_events w)\<rparr>)))"

text \<open>The counters are \<open>INT\<close> columns: 32 bits.\<close>

definition fits32 :: "int \<Rightarrow> bool" where
  "fits32 n \<longleftrightarrow> - (2 ^ 31) \<le> n \<and> n < 2 ^ 31"

definition pg_CreateSweepRun :: "'e pg_env \<Rightarrow> time \<Rightarrow> sweep_run \<Rightarrow> 'e pg \<Rightarrow> go_error option \<times> 'e pg" where
  "pg_CreateSweepRun e now run w =
     (let (i, w) = gen_uuid e w
      in if pe_fault e ''insert sweep run'' [] w \<or> fmlookup (pg_runs w) i \<noteq> None
            \<or> \<not> list_all fits32 [Run_PagesFetched run, Run_Found run, Run_Posted run, Run_Suspensed run]
            \<or> (case Run_DurationMS run of None \<Rightarrow> False | Some d \<Rightarrow> \<not> fits32 d)
         then (Some (Wrap ''sweep repo: create run'' (pg_error ''insert'')), w)
         else (None, w\<lparr>pg_runs := fmupd i
                 (run\<lparr>Run_ID := i, Run_WindowFrom := micros (Run_WindowFrom run),
                      Run_WindowTo := micros (Run_WindowTo run), Run_RanAt := micros now\<rparr>)
                 (pg_runs w)\<rparr>))"

definition pg_ListSweepRuns :: "'e pg_env \<Rightarrow> int \<Rightarrow> 'e pg \<Rightarrow> go_error + sweep_run list" where
  "pg_ListSweepRuns e limit w =
     (let limit = (if limit \<le> 0 then 50 else limit)
      in case pg_query e ''list sweep runs'' [] True w
                (take (nat limit) (sort_key (\<lambda>x. - Run_RanAt x) (rows_of e w (pg_runs w)))) of
           Inl err \<Rightarrow> Inl (Wrap ''sweep repo: list runs'' err)
         | Inr (out, broken) \<Rightarrow> if broken then Inl (pg_error ''rows'') else Inr out)"

text \<open>Any error, not only the absence of a row, is taken for "never ran".\<close>

definition pg_GetLastSweepTime :: "'e pg_env \<Rightarrow> 'e pg \<Rightarrow> go_error + time" where
  "pg_GetLastSweepTime e w =
     (if pe_fault e ''last sweep'' [] w then Inr 0
      else case sort_key (\<lambda>x. - Run_RanAt x)
                  (filter (\<lambda>x. Run_Error x = None) (rows_of e w (pg_runs w))) of
             [] \<Rightarrow> Inr 0 | run # _ \<Rightarrow> Inr (Run_RanAt run))"

definition pg_GetSetting :: "'e pg_env \<Rightarrow> string \<Rightarrow> 'e pg \<Rightarrow> go_error + json option" where
  "pg_GetSetting e key w =
     wrap_err (''settings repo: get '' @ [CHR 0x22] @ key @ [CHR 0x22])
       (pg_row e ''get setting'' [key] True w (fmlookup (pg_settings w) key))"

definition pg_UpsertSetting :: "'e pg_env \<Rightarrow> time \<Rightarrow> string \<Rightarrow> json \<Rightarrow> 'e pg
    \<Rightarrow> go_error option \<times> 'e pg" where
  "pg_UpsertSetting e now key v w =
     (case (if pe_fault e ''upsert setting'' [key] w then None else pe_jsonb e v) of
        None \<Rightarrow> (Some (Wrap (''settings repo: upsert '' @ [CHR 0x22] @ key @ [CHR 0x22])
                   (pg_error ''upsert'')), w)
      | Some j \<Rightarrow> (None, w\<lparr>pg_settings := fmupd key j (pg_settings w)\<rparr>))"

definition pg_SeedSetting :: "'e pg_env \<Rightarrow> time \<Rightarrow> string \<Rightarrow> json \<Rightarrow> 'e pg
    \<Rightarrow> go_error option \<times> 'e pg" where
  "pg_SeedSetting e now key v w =
     (case (if pe_fault e ''seed setting'' [key] w then None else pe_jsonb e v) of
        None \<Rightarrow> (Some (Wrap (''settings repo: seed '' @ [CHR 0x22] @ key @ [CHR 0x22])
                   (pg_error ''insert'')), w)
      | Some j \<Rightarrow>
          if fmlookup (pg_settings w) key \<noteq> None then (None, w)
          else (None, w\<lparr>pg_settings := fmupd key j (pg_settings w)\<rparr>))"

section \<open>RelayRepo\<close>

definition pg_CreateEndpoint :: "'e pg_env \<Rightarrow> time \<Rightarrow> relay_endpoint \<Rightarrow> 'e pg
    \<Rightarrow> (go_error + relay_endpoint) \<times> 'e pg" where
  "pg_CreateEndpoint e now ep w =
     (let (i, w) = gen_uuid e w; refused = (Inl (pg_error ''insert''), w)
      in case pe_uuid e (EP_TenantID ep) of
           None \<Rightarrow> refused
         | Some t \<Rightarrow>
             if pe_fault e ''insert endpoint'' [EP_URL ep] w \<or> fmlookup (pg_endpoints w) i \<noteq> None
                \<or> fmlookup (pg_tenants w) t = None
             then refused
             else let ep = ep\<lparr>EP_ID := i, EP_CreatedAt := micros now\<rparr>
                  in (Inr ep, w\<lparr>pg_endpoints := fmupd i (ep\<lparr>EP_TenantID := t\<rparr>) (pg_endpoints w)\<rparr>))"

definition pg_ListEndpoints :: "'e pg_env \<Rightarrow> string \<Rightarrow> 'e pg \<Rightarrow> go_error + relay_endpoint list" where
  "pg_ListEndpoints e tenantID w =
     (case pg_query e ''list endpoints'' [tenantID] (pe_uuid e tenantID \<noteq> None) w
             (sort_key (\<lambda>x. - EP_CreatedAt x)
                (filter (\<lambda>x. Some (EP_TenantID x) = pe_uuid e tenantID) (rows_of e w (pg_endpoints w)))) of
        Inl err \<Rightarrow> Inl (Wrap ''relay repo: list endpoints'' err)
      | Inr (out, broken) \<Rightarrow> Inr out)"

definition pg_GetEndpoint :: "'e pg_env \<Rightarrow> string \<Rightarrow> 'e pg \<Rightarrow> go_error + relay_endpoint option" where
  "pg_GetEndpoint e rid w =
     wrap_err ''relay repo: get endpoint''
       (pg_row e ''get endpoint'' [rid] (pe_uuid e rid \<noteq> None) w
          (do { i \<leftarrow> pe_uuid e rid; fmlookup (pg_endpoints w) i }))"

definition pg_DeactivateEndpoint :: "'e pg_env \<Rightarrow> string \<Rightarrow> string \<Rightarrow> 'e pg
    \<Rightarrow> go_error option \<times> 'e pg" where
  "pg_DeactivateEndpoint e rid tenantID w =
     (case (if pe_fault e ''deactivate endpoint'' [rid, tenantID] w then None
            else do { i \<leftarrow> pe_uuid e rid; t \<leftarrow> pe_uuid e tenantID; Some (i, t) }) of
        None \<Rightarrow> (Some (pg_error ''update''), w)
      | Some (i, t) \<Rightarrow>
          (case fmlookup (pg_endpoints w) i of
             None \<Rightarrow> (None, w)
           | Some ep \<Rightarrow>
               if EP_TenantID ep \<noteq> t then (None, w)
               else (None, w\<lparr>pg_endpoints := fmupd i (ep\<lparr>EP_Active := False\<rparr>) (pg_endpoints w)\<rparr>)))"

definition delivery_statuses :: "string set" where
  "delivery_statuses = {''pending'', ''delivered'', ''failed'', ''dead_letter''}"

definition fits16 :: "int \<Rightarrow> bool" where
  "fits16 n \<longleftrightarrow> - 32768 \<le> n \<and> n \<le> 32767"

text \<open>
  The \<open>INSERT\<close> names neither \<open>status_code\<close> nor \<open>error\<close> nor \<open>delivered_at\<close>: the row has
  \<open>NULL\<close> there, whatever the delivery says.
\<close>

definition pg_CreateDelivery :: "'e pg_env \<Rightarrow> time \<Rightarrow> relay_delivery \<Rightarrow> 'e pg
    \<Rightarrow> (go_error + relay_delivery) \<times> 'e pg" where
  "pg_CreateDelivery e now d w =
     (let (i, w) = gen_uuid e w; refused = (Inl (pg_error ''insert''), w)
      in case do { ep \<leftarrow> pe_uuid e (Del_EndpointID d); j \<leftarrow> pe_jsonb e (Del_Payload d); Some (ep, j) } of
           None \<Rightarrow> refused
         | Some (ep, j) \<Rightarrow>
             if pe_fault e ''insert delivery'' [Del_EventType d] w \<or> \<not> fits16 (Del_Attempt d)
                \<or> Del_Status d \<notin> delivery_statuses \<or> fmlookup (pg_deliveries w) i \<noteq> None
                \<or> fmlookup (pg_endpoints w) ep = None
             then refused
             else let d = d\<lparr>Del_ID := i, Del_CreatedAt := micros now\<rparr>;
                      row = d\<lparr>Del_EndpointID := ep, Del_Payload := j, Del_StatusCode := None,
                              Del_Error := None, Del_DeliveredAt := None,
                              Del_NextRetryAt := map_option micros (Del_NextRetryAt d)\<rparr>
                  in (Inr d, w\<lparr>pg_deliveries := fmupd i row (pg_deliveries w)\<rparr>))"

definition pg_UpdateDelivery :: "'e pg_env \<Rightarrow> relay_delivery \<Rightarrow> 'e pg \<Rightarrow> go_error option \<times> 'e pg" where
  "pg_UpdateDelivery e d w =
     (let refused = (Some (pg_error ''update''), w)
      in if pe_fault e ''update delivery'' [Del_ID d] w \<or> \<not> fits16 (Del_Attempt d)
            \<or> (case Del_StatusCode d of None \<Rightarrow> False | Some c \<Rightarrow> \<not> fits16 c)
         then refused
         else case pe_uuid e (Del_ID d) of
           None \<Rightarrow> refused
         | Some i \<Rightarrow>
             (case fmlookup (pg_deliveries w) i of
                None \<Rightarrow> (None, w)
              | Some row \<Rightarrow>
                  if Del_Status d \<notin> delivery_statuses then refused
                  else (None, w\<lparr>pg_deliveries := fmupd i
                          (row\<lparr>Del_Status := Del_Status d, Del_StatusCode := Del_StatusCode d,
                               Del_Error := Del_Error d,
                               Del_NextRetryAt := map_option micros (Del_NextRetryAt d),
                               Del_DeliveredAt := map_option micros (Del_DeliveredAt d),
                               Del_Attempt := Del_Attempt d\<rparr>) (pg_deliveries w)\<rparr>)))"

definition pg_GetDelivery :: "'e pg_env \<Rightarrow> string \<Rightarrow> 'e pg \<Rightarrow> go_error + relay_delivery option" where
  "pg_GetDelivery e rid w =
     wrap_err ''relay repo: get delivery''
       (pg_row e ''get delivery'' [rid] (pe_uuid e rid \<noteq> None) w
          (do { i \<leftarrow> pe_uuid e rid; fmlookup (pg_deliveries w) i }))"

definition delivery_tenant :: "'e pg \<Rightarrow> relay_delivery \<Rightarrow> string option" where
  "delivery_tenant w d = map_option EP_TenantID (fmlookup (pg_endpoints w) (Del_EndpointID d))"

definition pg_ListDeliveries :: "'e pg_env \<Rightarrow> string \<Rightarrow> int \<Rightarrow> string \<Rightarrow> 'e pg
    \<Rightarrow> go_error + (relay_delivery list \<times> string)" where
  "pg_ListDeliveries e tenantID limit cursor w =
     (let limit = page_limit limit
      in case pg_query e ''list deliveries'' [tenantID, cursor]
                (pe_uuid e tenantID \<noteq> None \<and> cursor_parses e cursor) w
                (keyset_id Del_CreatedAt Del_ID (pg_deliveries w) limit (cursor_id e cursor)
                   (filter (\<lambda>d. delivery_tenant w d \<noteq> None \<and> delivery_tenant w d = pe_uuid e tenantID)
                      (rows_of e w (pg_deliveries w)))) of
           Inl err \<Rightarrow> Inl (Wrap ''relay repo: list deliveries'' err)
         | Inr (out, broken) \<Rightarrow>
             if broken then Inl (Wrap ''relay repo: list deliveries iter'' (pg_error ''rows''))
             else Inr (cut_page Del_ID limit out))"

text \<open>The limit is not checked: a negative one is an error of the statement.\<close>

definition pg_ListPendingRetries :: "'e pg_env \<Rightarrow> time \<Rightarrow> int \<Rightarrow> 'e pg
    \<Rightarrow> go_error + relay_delivery list" where
  "pg_ListPendingRetries e now limit w =
     (case pg_query e ''list retries'' [] (0 \<le> limit) w
             (take (nat limit) (sort_key (\<lambda>d. the (Del_NextRetryAt d))
               (filter (\<lambda>d. Del_Status d = ''failed'' \<and>
                    (case Del_NextRetryAt d of None \<Rightarrow> False | Some t \<Rightarrow> t \<le> micros now))
                  (rows_of e w (pg_deliveries w))))) of
        Inl err \<Rightarrow> Inl (Wrap ''relay repo: list retries'' err)
      | Inr (out, broken) \<Rightarrow> Inr out)"

section \<open>TenantRepo, AuthRepo, AuditRepo\<close>

definition pg_CreateTenant :: "'e pg_env \<Rightarrow> time \<Rightarrow> string \<Rightarrow> 'e pg \<Rightarrow> (go_error + tenant) \<times> 'e pg" where
  "pg_CreateTenant e now name w =
     (let (i, w) = gen_uuid e w
      in if pe_fault e ''insert tenant'' [name] w \<or> fmlookup (pg_tenants w) i \<noteq> None
         then (Inl (Wrap ''tenant repo: create'' (pg_error ''insert'')), w)
         else let t = \<lparr>Tenant_ID = i, Tenant_Name = name, Tenant_CreatedAt = micros now\<rparr>
              in (Inr t, w\<lparr>pg_tenants := fmupd i t (pg_tenants w)\<rparr>))"

definition pg_CreateAPIKey :: "'e pg_env \<Rightarrow> string \<Rightarrow> string \<Rightarrow> string \<Rightarrow> string \<Rightarrow> 'e pg
    \<Rightarrow> (go_error + api_key) \<times> 'e pg" where
  "pg_CreateAPIKey e tenantID rawKey keyHash keyPrefix w =
     (let (i, w) = gen_uuid e w;
          refused = (Inl (Wrap ''tenant repo: create api key'' (pg_error ''insert'')), w)
      in case pe_uuid e tenantID of
           None \<Rightarrow> refused
         | Some t \<Rightarrow>
             if pe_fault e ''insert api key'' [rawKey, keyHash, keyPrefix] w
                \<or> fmlookup (pg_keys w) i \<noteq> None \<or> fmlookup (pg_tenants w) t = None
                \<or> (\<exists>k \<in> set (rows_of e w (pg_keys w)). Key_KeyHash k = keyHash)
             then refused
             else let k = \<lparr>Key_ID = i, Key_TenantID = t, Key_RawKey = rawKey, Key_KeyHash = keyHash,
                           Key_KeyPrefix = keyPrefix, Key_Active = True, Key_CreatedAt = 0\<rparr>
                  in (Inr k, w\<lparr>pg_keys := fmupd i (k\<lparr>Key_CreatedAt := micros (pe_now e w)\<rparr>)
                        (pg_keys w)\<rparr>))"

definition pg_GetTenantByAPIKey :: "'e pg_env \<Rightarrow> string \<Rightarrow> 'e pg
    \<Rightarrow> go_error + (tenant option \<times> api_key option)" where
  "pg_GetTenantByAPIKey e keyHash w =
     (if pe_fault e ''get tenant by api key'' [keyHash] w
      then Inl (Wrap ''tenant repo: get by api key'' (pg_error ''select''))
      else case List.find (\<lambda>k. Key_KeyHash k = keyHash \<and> Key_Active k
                   \<and> fmlookup (pg_tenants w) (Key_TenantID k) \<noteq> None) (rows_of e w (pg_keys w)) of
        None \<Rightarrow> Inr (None, None)
      | Some k \<Rightarrow> Inr (fmlookup (pg_tenants w) (Key_TenantID k),
                       Some (k\<lparr>Key_RawKey := '''', Key_CreatedAt := 0\<rparr>)))"

definition pg_ListAPIKeys :: "'e pg_env \<Rightarrow> string \<Rightarrow> 'e pg \<Rightarrow> go_error + api_key list" where
  "pg_ListAPIKeys e tenantID w =
     (case pg_query e ''list api keys'' [tenantID] (pe_uuid e tenantID \<noteq> None) w
             (map (\<lambda>k. k\<lparr>Key_RawKey := '''', Key_KeyHash := ''''\<rparr>)
               (sort_key (\<lambda>k. - Key_CreatedAt k)
                 (filter (\<lambda>k. Some (Key_TenantID k) = pe_uuid e tenantID \<and> Key_Active k)
                    (rows_of e w (pg_keys w))))) of
        Inl err \<Rightarrow> Inl (Wrap ''tenant repo: list api keys'' err)
      | Inr (out, broken) \<Rightarrow> Inr out)"

definition pg_RevokeAPIKey :: "'e pg_env \<Rightarrow> string \<Rightarrow> string \<Rightarrow> 'e pg \<Rightarrow> go_error option \<times> 'e pg" where
  "pg_RevokeAPIKey e keyID tenantID w =
     (case (if pe_fault e ''revoke api key'' [keyID, tenantID] w then None
            else do { i \<leftarrow> pe_uuid e keyID; t \<leftarrow> pe_uuid e tenantID; Some (i, t) }) of
        None \<Rightarrow> (Some (Wrap ''tenant repo: revoke api key'' (pg_error ''update'')), w)
      | Some (i, t) \<Rightarrow>
          (case fmlookup (pg_keys w) i of
             Some k \<Rightarrow>
               if Key_TenantID k = t
               then (None, w\<lparr>pg_keys := fmupd i (k\<lparr>Key_Active := False\<rparr>) (pg_keys w)\<rparr>)
               else (Some (Errorf ''tenant repo: api key not found or not owned by tenant''), w)
           | None \<Rightarrow> (Some (Errorf ''tenant repo: api key not found or not owned by tenant''), w)))"

definition pg_ListTenants :: "'e pg_env \<Rightarrow> 'e pg \<Rightarrow> go_error + tenant list" where
  "pg_ListTenants e w =
     (case pg_query e ''list tenants'' [] True w
             (sort_key Tenant_CreatedAt (rows_of e w (pg_tenants w))) of
        Inl err \<Rightarrow> Inl (Wrap ''tenant repo: list'' err)
      | Inr (tenants, broken) \<Rightarrow> Inr tenants)"

text \<open>The row of a credential, when its tenant parses and exists and its role is known.\<close>

definition cred_row :: "'e pg_env \<Rightarrow> time \<Rightarrow> string \<Rightarrow> user_credential \<Rightarrow> 'e pg
    \<Rightarrow> user_credential option" where
  "cred_row e now i cred w =
     do { t \<leftarrow> uuid_opt e (Cred_TenantID cred);
          if Cred_Role cred \<in> {''dev'', ''ops'', ''admin''}
             \<and> (case t of None \<Rightarrow> True | Some t \<Rightarrow> fmlookup (pg_tenants w) t \<noteq> None)
             \<and> (\<forall>c \<in> set (rows_of e w (pg_creds w)). Cred_ID c \<noteq> i)
          then Some (cred\<lparr>Cred_ID := i, Cred_TenantID := t, Cred_CreatedAt := micros now\<rparr>)
          else None }"

definition pg_CreateCredential :: "'e pg_env \<Rightarrow> time \<Rightarrow> user_credential \<Rightarrow> 'e pg
    \<Rightarrow> go_error option \<times> 'e pg" where
  "pg_CreateCredential e now cred w =
     (let (i, w) = gen_uuid e w
      in case (if pe_fault e ''insert credential'' [Cred_Email cred] w then None
               else cred_row e now i cred w) of
           None \<Rightarrow> (Some (Wrap ''auth repo: create credential'' (pg_error ''insert'')), w)
         | Some row \<Rightarrow>
             if fmlookup (pg_creds w) (Cred_Email cred) \<noteq> None
             then (Some (Wrap ''auth repo: create credential'' (pg_error ''insert'')), w)
             else (None, w\<lparr>pg_creds := fmupd (Cred_Email cred) row (pg_creds w)\<rparr>))"

text \<open>
  \<open>ON CONFLICT (email) DO NOTHING\<close>: the parameters and the role are still checked, the foreign
  key is not when nothing is inserted.
\<close>

definition pg_SeedCredential :: "'e pg_env \<Rightarrow> time \<Rightarrow> user_credential \<Rightarrow> 'e pg
    \<Rightarrow> go_error option \<times> 'e pg" where
  "pg_SeedCredential e now cred w =
     (let (i, w) = gen_uuid e w;
          refused = (Some (Wrap ''auth repo: seed credential'' (pg_error ''insert'')), w)
      in if pe_fault e ''seed credential'' [Cred_Email cred] w
            \<or> uuid_opt e (Cred_TenantID cred) = None \<or> Cred_Role cred \<notin> {''dev'', ''ops'', ''admin''}
         then refused
         else if fmlookup (pg_creds w) (Cred_Email cred) \<noteq> None then (None, w)
         else case cred_row e now i cred w of
           None \<Rightarrow> refused
         | Some row \<Rightarrow> (None, w\<lparr>pg_creds := fmupd (Cred_Email cred) row (pg_creds w)\<rparr>))"

definition pg_GetCredentialByEmail :: "'e pg_env \<Rightarrow> string \<Rightarrow> 'e pg
    \<Rightarrow> go_error + (user_credential option \<times> tenant option \<times> api_key option)" where
  "pg_GetCredentialByEmail e email w =
     (if pe_fault e ''get credential'' [email] w
      then Inl (Wrap ''auth repo: get credential'' (pg_error ''select''))
      else case fmlookup (pg_creds w) email of
        None \<Rightarrow> Inr (None, None, None)
      | Some cred \<Rightarrow>
          (case Cred_TenantID cred of
             None \<Rightarrow> Inr (Some cred, None, None)
           | Some t \<Rightarrow>
               if pe_fault e ''get tenant and key'' [t] w
               then Inl (Wrap ''auth repo: get tenant+key'' (pg_error ''select''))
               else case (fmlookup (pg_tenants w) t,
                          List.find (\<lambda>k. Key_TenantID k = t \<and> Key_Active k) (rows_of e w (pg_keys w))) of
                 (Some ten, Some k) \<Rightarrow> Inr (Some cred, Some ten, Some (k\<lparr>Key_CreatedAt := 0\<rparr>))
               | (ten, k) \<Rightarrow>
                   Inr (Some cred,
                        Some (case (if pe_fault e ''get tenant'' [t] w then None else ten) of
                                Some ten \<Rightarrow> ten
                              | None \<Rightarrow> \<lparr>Tenant_ID = '''', Tenant_Name = '''', Tenant_CreatedAt = 0\<rparr>),
                        None)))"

definition pg_Append :: "'e pg_env \<Rightarrow> time \<Rightarrow> audit_entry \<Rightarrow> 'e pg \<Rightarrow> go_error option \<times> 'e pg" where
  "pg_Append e now a w =
     (let (i, w) = gen_uuid e w;
          refused = (Some (Wrap ''audit repo: append'' (pg_error ''insert'')), w)
      in case do { t \<leftarrow> uuid_opt e (Aud_TenantID a); j \<leftarrow> jsonb_opt e (Aud_BeforeAfter a); Some (t, j) } of
           None \<Rightarrow> refused
         | Some (t, j) \<Rightarrow>
             if pe_fault e ''insert audit'' [Aud_Actor a, Aud_Action a, Aud_EntityType a, Aud_EntityID a] w
                \<or> fmlookup (pg_audit w) i \<noteq> None
                \<or> (case t of None \<Rightarrow> False | Some t \<Rightarrow> fmlookup (pg_tenants w) t = None)
             then refused
             else (None, w\<lparr>pg_audit := fmupd i (a\<lparr>Aud_ID := i, Aud_TenantID := t,
                     Aud_BeforeAfter := j, Aud_At := micros now\<rparr>) (pg_audit w)\<rparr>))"

text \<open>The listing drops the tenant and the document; its cursor is the instant of the last row.\<close>

definition pg_ListAuditEntries :: "'e pg_env \<Rightarrow> string \<Rightarrow> int \<Rightarrow> string \<Rightarrow> 'e pg
    \<Rightarrow> go_error + (audit_entry list \<times> string)" where
  "pg_ListAuditEntries e tenantID limit cursor w =
     (let limit = (if limit \<le> 0 then 50 else limit)
      in case pg_query e ''list audit'' [tenantID, cursor]
                (pe_uuid e tenantID \<noteq> None \<and> (cursor = '''' \<or> pe_timestamp e cursor \<noteq> None)) w
                (map (\<lambda>a. a\<lparr>Aud_TenantID := None, Aud_BeforeAfter := JNull\<rparr>)
                  (take (nat (limit + 1)) (sort_key (\<lambda>a. - Aud_At a)
                    (filter (\<lambda>a. Aud_TenantID a \<noteq> None \<and> Aud_TenantID a = pe_uuid e tenantID
                        \<and> (cursor = '''' \<or> (case pe_timestamp e cursor of
                             None \<Rightarrow> False | Some t \<Rightarrow> Aud_At a < t)))
                      (rows_of e w (pg_audit w)))))) of
           Inl err \<Rightarrow> Inl (Wrap ''audit repo: list'' err)
         | Inr (out, broken) \<Rightarrow>
             if broken then Inl (pg_error ''rows'')
             else Inr (cut_page (\<lambda>a. format_nano (Aud_At a)) limit out))"

section \<open>The repositories as interface values\<close>

definition pg_tenant_store :: "'e pg_env \<Rightarrow> 'e pg tenant_store" where
  "pg_tenant_store e = \<lparr>ts_CreateTenant = pg_CreateTenant e,
     ts_GetTenantByAPIKey = pg_GetTenantByAPIKey e, ts_CreateAPIKey = pg_CreateAPIKey e,
     ts_ListTenants = pg_ListTenants e, ts_ListAPIKeys = pg_ListAPIKeys e,
     ts_RevokeAPIKey = pg_RevokeAPIKey e\<rparr>"

definition pg_customer_store :: "'e pg_env \<Rightarrow> 'e pg customer_store" where
  "pg_customer_store e = \<lparr>cs_CreateCustomer = pg_CreateCustomer e,
     cs_GetCustomer = pg_GetCustomer e, cs_GetCustomerByExternalRef = pg_GetCustomerByExternalRef e,
     cs_UpdateKYCTier = pg_UpdateKYCTier e, cs_ListCustomers = pg_ListCustomers e,
     cs_GetCustomerByID = pg_GetCustomerByID e, cs_View = (\<lambda>c w. c)\<rparr>"

definition pg_virtual_account_store :: "'e pg_env \<Rightarrow> 'e pg virtual_account_store" where
  "pg_virtual_account_store e = \<lparr>vs_CreateVirtualAccount = pg_CreateVirtualAccount e,
     vs_GetActiveVA = pg_GetActiveVA e, vs_GetLatestVA = pg_GetLatestVA e,
     vs_GetVAByNUBAN = pg_GetVAByNUBAN e, vs_GetVAByAccountRef = pg_GetVAByAccountRef e,
     vs_GetVAByCustomerAndStatus = pg_GetVAByCustomerAndStatus e,
     vs_UpdateVAStatus = pg_UpdateVAStatus e, vs_RenameVA = pg_RenameVA e,
     vs_ListVAs = pg_ListVAs e, vs_ListAllVAs = pg_ListAllVAs e, vs_View = (\<lambda>va w. va)\<rparr>"

definition pg_transaction_store :: "'e pg_env \<Rightarrow> 'e pg transaction_store" where
  "pg_transaction_store e = \<lparr>xs_PostTransaction = pg_PostTransaction e,
     xs_GetTransaction = pg_GetTransaction e,
     xs_GetTransactionForTenant = pg_GetTransactionForTenant e,
     xs_ListTransactions = pg_ListTransactions e,
     xs_ListTenantTransactions = pg_ListTenantTransactions e,
     xs_GetBalance = pg_GetBalance e, xs_GetDailyCredits = pg_GetDailyCredits e,
     xs_GetStatement = pg_GetStatement e\<rparr>"

definition pg_webhook_event_store :: "'e pg_env \<Rightarrow> 'e pg webhook_event_store" where
  "pg_webhook_event_store e = \<lparr>ws_InsertWebhookEvent = pg_InsertWebhookEvent e,
     ws_MarkWebhookProcessed = pg_MarkWebhookProcessed e,
     ws_ListWebhookEvents = pg_ListWebhookEvents e\<rparr>"

definition pg_suspense_store :: "'e pg_env \<Rightarrow> 'e pg suspense_store" where
  "pg_suspense_store e = \<lparr>ss_CreateSuspenseItem = pg_CreateSuspenseItem e,
     ss_ListSuspenseItems = pg_ListSuspenseItems e,
     ss_ResolveSuspenseItem = pg_ResolveSuspenseItem e,
     ss_GetSuspenseItem = pg_GetSuspenseItem e,
     ss_ListOpenUnmatchedItems = pg_ListOpenUnmatchedItems e\<rparr>"

definition pg_sweep_store :: "'e pg_env \<Rightarrow> 'e pg sweep_store" where
  "pg_sweep_store e = \<lparr>sw_CreateSweepRun = pg_CreateSweepRun e,
     sw_GetLastSweepTime = pg_GetLastSweepTime e, sw_ListSweepRuns = pg_ListSweepRuns e\<rparr>"

definition pg_audit_store :: "'e pg_env \<Rightarrow> 'e pg audit_store" where
  "pg_audit_store e = \<lparr>as_Append = pg_Append e, as_ListAuditEntries = pg_ListAuditEntries e\<rparr>"

definition pg_auth_store :: "'e pg_env \<Rightarrow> 'e pg auth_store" where
  "pg_auth_store e = \<lparr>au_CreateCredential = pg_CreateCredential e,
     au_SeedCredential = pg_SeedCredential e,
     au_GetCredentialByEmail = pg_GetCredentialByEmail e\<rparr>"

definition pg_settings_store :: "'e pg_env \<Rightarrow> 'e pg settings_store" where
  "pg_settings_store e = \<lparr>se_GetSetting = pg_GetSetting e, se_UpsertSetting = pg_UpsertSetting e,
     se_SeedSetting = pg_SeedSetting e\<rparr>"

definition pg_collection_store :: "'e pg_env \<Rightarrow> 'e pg collection_store" where
  "pg_collection_store e = \<lparr>ls_CreateCollection = pg_CreateCollection e,
     ls_GetCollection = pg_GetCollection e, ls_ListCollections = pg_ListCollections e,
     ls_FulfillCollection = pg_FulfillCollection e, ls_CancelCollection = pg_CancelCollection e,
     ls_FindOpenCollectionForVA = pg_FindOpenCollectionForVA e\<rparr>"

definition pg_withdrawal_store :: "'e pg_env \<Rightarrow> 'e pg withdrawal_store" where
  "pg_withdrawal_store e = \<lparr>wd_CreateWithdrawal = pg_CreateWithdrawal e,
     wd_GetWithdrawal = pg_GetWithdrawal e,
     wd_UpdateWithdrawalStatus = pg_UpdateWithdrawalStatus e,
     wd_ListWithdrawals = pg_ListWithdrawals e\<rparr>"

definition pg_relay_store :: "'e pg_env \<Rightarrow> 'e pg relay_store" where
  "pg_relay_store e = \<lparr>rs_CreateEndpoint = pg_CreateEndpoint e,
     rs_ListEndpoints = pg_ListEndpoints e, rs_GetEndpoint = pg_GetEndpoint e,
     rs_DeactivateEndpoint = pg_DeactivateEndpoint e, rs_CreateDelivery = pg_CreateDelivery e,
     rs_UpdateDelivery = pg_UpdateDelivery e, rs_GetDelivery = pg_GetDelivery e,
     rs_ListDeliveries = pg_ListDeliveries e, rs_ListPendingRetries = pg_ListPendingRetries e\<rparr>"

end
