(* ===== verification/Production.thy ===== *)
theory Production
  imports Postgres Provisioning Webhook
begin

text \<open>
  The production wiring of \<^verbatim>\<open>cmd/server/main.go\<close>: the services, the worker and the sweep over
  the Postgres repositories and a remote provider. The provider is a parameter \<open>P\<close> over its own
  state \<open>'e\<close>; that it does not write the program's database is the only thing the ledger
  theorems use, and it holds by construction.
\<close>

section \<open>Wiring\<close>

definition on_remote :: "('e \<Rightarrow> 'a \<times> 'e) \<Rightarrow> 'e pg \<Rightarrow> 'a \<times> 'e pg" where
  "on_remote op w = (let (x, r) = op (pg_remote w) in (x, w\<lparr>pg_remote := r\<rparr>))"

definition remote_provider :: "'e provider \<Rightarrow> 'e pg provider" where
  "remote_provider P = \<lparr>pv_CreateVA = (\<lambda>req. on_remote (pv_CreateVA P req)),
     pv_UpdateVA = (\<lambda>i n. on_remote (pv_UpdateVA P i n)),
     pv_CloseVA = (\<lambda>i. on_remote (pv_CloseVA P i)),
     pv_SuspendVA = (\<lambda>i. on_remote (pv_SuspendVA P i)),
     pv_ListVAs = (\<lambda>c. on_remote (pv_ListVAs P c)),
     pv_ListTransactions = (\<lambda>req. on_remote (pv_ListTransactions P req)),
     pv_Requery = (\<lambda>i. on_remote (pv_Requery P i)),
     pv_Transfer = (\<lambda>req. on_remote (pv_Transfer P req)),
     pv_ResolveAccount = (\<lambda>b a. on_remote (pv_ResolveAccount P b a)),
     pv_VerifyWebhookSignature = (\<lambda>h b w. pv_VerifyWebhookSignature P h b (pg_remote w)),
     pv_ParseWebhook = (\<lambda>now b w. pv_ParseWebhook P now b (pg_remote w))\<rparr>"

definition pg_spawn :: "relay_job \<Rightarrow> 'e pg \<Rightarrow> 'e pg" where
  "pg_spawn job w = w\<lparr>pg_rt := (pg_rt w)\<lparr>rt_jobs := rt_jobs (pg_rt w) @ [job]\<rparr>\<rparr>"

definition pg_dispatcher :: "'e pg_env \<Rightarrow> 'e pg dispatcher" where
  "pg_dispatcher e = \<lparr>dp_store = pg_relay_store e, dp_spawn = pg_spawn\<rparr>"

definition pg_matcher :: "'e pg_env \<Rightarrow> 'e pg matcher" where
  "pg_matcher e = \<lparr>mt_accounts = pg_virtual_account_store e, mt_txns = pg_transaction_store e,
     mt_tierLimits = (\<lambda>w. rt_limits (pg_rt w))\<rparr>"

definition pg_collection_service :: "'e pg_env \<Rightarrow> 'e pg collection_service" where
  "pg_collection_service e = \<lparr>cl_collections = pg_collection_store e,
     cl_customers = pg_customer_store e, cl_accounts = pg_virtual_account_store e\<rparr>"

definition pg_worker :: "'e pg_env \<Rightarrow> 'e pg worker" where
  "pg_worker e = \<lparr>wk_matcher = pg_matcher e, wk_txns = pg_transaction_store e,
     wk_webhooks = pg_webhook_event_store e, wk_suspense = pg_suspense_store e,
     wk_customers = pg_customer_store e, wk_dispatcher = Some (pg_dispatcher e),
     wk_collections = Some (pg_collection_service e)\<rparr>"

definition pg_sweep_runner :: "'e pg_env \<Rightarrow> 'e provider \<Rightarrow> duration \<Rightarrow> duration \<Rightarrow> 'e pg sweep_runner" where
  "pg_sweep_runner e P interval overlap = \<lparr>sr_prov = remote_provider P,
     sr_txns = pg_transaction_store e, sr_sweeps = pg_sweep_store e, sr_worker = pg_worker e,
     sr_interval = interval, sr_overlap = overlap\<rparr>"

definition pg_suspense_service :: "'e pg_env \<Rightarrow> 'e pg suspense_service" where
  "pg_suspense_service e = \<lparr>sp_suspense = pg_suspense_store e, sp_txns = pg_transaction_store e,
     sp_customers = pg_customer_store e, sp_accounts = pg_virtual_account_store e,
     sp_audit = pg_audit_store e\<rparr>"

definition pg_withdrawal_service :: "'e pg_env \<Rightarrow> 'e provider \<Rightarrow> 'e pg withdrawal_service" where
  "pg_withdrawal_service e P = \<lparr>wi_withdrawals = pg_withdrawal_store e,
     wi_txns = pg_transaction_store e, wi_customers = pg_customer_store e,
     wi_accounts = pg_virtual_account_store e, wi_prov = remote_provider P\<rparr>"

lemmas pg_wiring = pg_worker_def pg_matcher_def pg_dispatcher_def pg_collection_service_def
  pg_sweep_runner_def pg_suspense_service_def pg_withdrawal_service_def

lemmas pg_stores = pg_transaction_store_def pg_webhook_event_store_def pg_suspense_store_def
  pg_customer_store_def pg_virtual_account_store_def pg_collection_store_def
  pg_withdrawal_store_def pg_sweep_store_def pg_audit_store_def pg_relay_store_def

section \<open>The ledger of the database\<close>

abbreviation pg_view :: "'e pg \<Rightarrow> ledger_state" where
  "pg_view w \<equiv> (pg_txns w, pg_entries w)"

interpretation pg_ledger: transaction_ledger "pg_transaction_store e" pg_txns pg_entries for e
proof unfold_locales
  fix now tx es w err w'
  assume "xs_PostTransaction (pg_transaction_store e) now tx es w = (Inl err, w')"
  then show "w' = w"
    by (auto simp: pg_transaction_store_def pg_PostTransaction_def Let_def
        split: option.splits if_splits)
next
  fix now tx es w w'
  assume "xs_PostTransaction (pg_transaction_store e) now tx es w = (Inr False, w')"
  then show "w' = w \<and> fmlookup (pg_txns w) (Tx_ID tx) \<noteq> None"
    by (auto simp: pg_transaction_store_def pg_PostTransaction_def Let_def
        split: option.splits if_splits)
next
  fix now tx es w w'
  assume "xs_PostTransaction (pg_transaction_store e) now tx es w = (Inr True, w')"
  then show "fmlookup (pg_txns w) (Tx_ID tx) = None \<and>
     (\<exists>t. pg_txns w' = fmupd (Tx_ID tx) t (pg_txns w) \<and> Tx_ID t = Tx_ID tx \<and>
          Tx_AmountKobo t = Tx_AmountKobo tx) \<and> pg_entries w' = pg_entries w @ es"
    by (auto simp: pg_transaction_store_def pg_PostTransaction_def Let_def txn_row_def
        split: option.splits if_splits bind_splits)
next
  fix a w b
  assume "xs_GetBalance (pg_transaction_store e) a w = Inr b"
  then show "b = balance a (pg_entries w)"
    by (auto simp: pg_transaction_store_def pg_GetBalance_def wrap_err_def scan_sum_def
        balance_of_exact split: if_splits)
next
  fix i w r
  assume "xs_GetTransaction (pg_transaction_store e) i w = Inr r"
  then show "r = fmlookup (pg_txns w) i"
    by (auto simp: pg_transaction_store_def pg_GetTransaction_def wrap_err_def pg_row_def
        split: if_splits)
qed

text \<open>Only \<open>PostTransaction\<close> writes the two tables of the ledger.\<close>

lemmas pg_split = Let_def split_beta option.case_eq_if gen_uuid_def

lemma pg_leaves [simp]:
  "leaves pg_view (pg_CreateWithdrawal e now wd)"
  "leaves pg_view (pg_UpdateWithdrawalStatus e now i st a b c)"
  "leaves pg_view (pg_FulfillCollection e now i tx)"
  "leaves pg_view (pg_CreateSuspenseItem e now item)"
  "leaves pg_view (pg_ResolveSuspenseItem e now i res actor notes)"
  "leaves pg_view (pg_MarkWebhookProcessed e now i st)"
  "leaves pg_view (pg_CreateSweepRun e now run)"
  "leaves pg_view (pg_Append e now ae)"
  "leaves pg_view (on_remote op)"
  by (simp_all add: leaves_def pg_CreateWithdrawal_def pg_UpdateWithdrawalStatus_def
      pg_FulfillCollection_def pg_CreateSuspenseItem_def pg_ResolveSuspenseItem_def
      pg_MarkWebhookProcessed_def pg_CreateSweepRun_def pg_Append_def on_remote_def pg_split)

interpretation pg_recon: recon_ledger "pg_transaction_store e" pg_txns pg_entries "pg_worker e" for e
proof unfold_locales
  fix d job w
  assume "wk_dispatcher (pg_worker e) = Some d"
  then show "pg_txns (dp_spawn d job w) = pg_txns w \<and> pg_entries (dp_spawn d job w) = pg_entries w"
    by (auto simp: pg_wiring pg_spawn_def)
next
  fix svc now c t
  assume "wk_collections (pg_worker e) = Some svc"
  then show "leaves pg_view (ls_FulfillCollection (cl_collections svc) now c t)"
    by (auto simp: pg_wiring pg_stores)
qed (auto simp: pg_wiring pg_stores)

interpretation pg_sweep: sweep_ledger "pg_transaction_store e" pg_txns pg_entries "pg_worker e"
  "pg_sweep_runner e P iv ol" for e P iv ol
  by unfold_locales
    (auto simp: pg_sweep_runner_def remote_provider_def pg_stores)

interpretation pg_susp: suspense_ledger "pg_transaction_store e" pg_txns pg_entries
  "pg_suspense_service e" for e
  by unfold_locales
    (auto simp: pg_suspense_service_def pg_stores)

interpretation pg_wd: withdrawal_ledger "pg_transaction_store e" pg_txns pg_entries
  "pg_withdrawal_service e P" for e P
  by unfold_locales
    (auto simp: pg_withdrawal_service_def remote_provider_def pg_stores)

section \<open>The running server\<close>

definition pg_enqueue :: "nat \<Rightarrow> work_item \<Rightarrow> 'e pg \<Rightarrow> bool \<times> 'e pg" where
  "pg_enqueue cap item w = (let (ok, rt) = Enqueue cap item (pg_rt w) in (ok, w\<lparr>pg_rt := rt\<rparr>))"

definition pg_webhook_handler :: "'e pg_env \<Rightarrow> 'e provider \<Rightarrow> nat \<Rightarrow> 'e pg webhook_handler" where
  "pg_webhook_handler e P cap = \<lparr>wh_prov = remote_provider P,
     wh_webhooks = pg_webhook_event_store e, wh_enqueue = pg_enqueue cap\<rparr>"

definition pg_customer_service :: "'e pg_env \<Rightarrow> 'e pg customer_service" where
  "pg_customer_service e = \<lparr>cu_customers = pg_customer_store e, cu_audit = pg_audit_store e\<rparr>"

definition pg_provisioning :: "'e pg_env \<Rightarrow> 'e provider \<Rightarrow> 'e pg provisioning_service" where
  "pg_provisioning e P = \<lparr>pr_customers = pg_customer_store e,
     pr_accounts = pg_virtual_account_store e, pr_audit = pg_audit_store e,
     pr_prov = remote_provider P\<rparr>"

definition pg_worker_step :: "'e pg_env \<Rightarrow> (nat \<Rightarrow> time) \<Rightarrow> 'e pg \<Rightarrow> 'e pg" where
  "pg_worker_step e now w =
     (case rt_queue (pg_rt w) of
        [] \<Rightarrow> w
      | item # rest \<Rightarrow> run_item (pg_worker e) now item (w\<lparr>pg_rt := (pg_rt w)\<lparr>rt_queue := rest\<rparr>\<rparr>))"

definition pg_run_job :: "'e pg_env \<Rightarrow> (string \<Rightarrow> json \<Rightarrow> string)
    \<Rightarrow> (string \<Rightarrow> string \<Rightarrow> json \<Rightarrow> int \<Rightarrow> http_outcome) \<Rightarrow> (nat \<Rightarrow> time) \<Rightarrow> nat \<Rightarrow> 'e pg \<Rightarrow> 'e pg" where
  "pg_run_job e hmac http now k w =
     (let jobs = rt_jobs (pg_rt w)
      in if k < length jobs
         then deliver (pg_dispatcher e) hmac http now (jobs ! k)
                (w\<lparr>pg_rt := (pg_rt w)\<lparr>rt_jobs := take k jobs @ drop (Suc k) jobs\<rparr>\<rparr>)
         else w)"

definition pg_load_limits :: "range_order \<Rightarrow> json \<Rightarrow> 'e pg \<Rightarrow> go_error option \<times> 'e pg" where
  "pg_load_limits r raw w = (let (x, rt) = Load r raw (pg_rt w) in (x, w\<lparr>pg_rt := rt\<rparr>))"

text \<open>
  One entry point of the server run to its end: a request, an iteration of the worker, a sweep, a
  relay goroutine, a move of the outside world, or a write of a handler that goes straight to a
  repository.
\<close>

inductive pg_step :: "'e pg_env \<Rightarrow> 'e provider \<Rightarrow> nat \<Rightarrow> duration \<Rightarrow> duration \<Rightarrow> 'e pg \<Rightarrow> 'e pg \<Rightarrow> bool"
  for e P cap iv ol where
  p_webhook: "HandleNombaWebhook (pg_webhook_handler e P cap) now hs request w = (code, w') \<Longrightarrow>
      pg_step e P cap iv ol w w'"
| p_worker: "pg_step e P cap iv ol w (pg_worker_step e now w)"
| p_sweep: "sweep_Run (pg_sweep_runner e P iv ol) fuel start finish clk ov w = Some ((r1, x), w') \<Longrightarrow>
      pg_step e P cap iv ol w w'"
| p_create_customer:
    "CreateCustomer (pg_customer_service e) now t ref dn ident actor w = (r2, w') \<Longrightarrow>
      pg_step e P cap iv ol w w'"
| p_update_tier: "UpdateKYCTier (pg_customer_service e) now t c tier actor w = (r3, w') \<Longrightarrow>
      pg_step e P cap iv ol w w'"
| p_provision: "ProvisionVA (pg_provisioning e P) now rnd t c actor w = (r4, w') \<Longrightarrow>
      pg_step e P cap iv ol w w'"
| p_rename: "RenameVA (pg_provisioning e P) now t c n actor w = (r5, w') \<Longrightarrow> pg_step e P cap iv ol w w'"
| p_close: "CloseVA (pg_provisioning e P) now t c actor w = (x, w') \<Longrightarrow> pg_step e P cap iv ol w w'"
| p_suspend: "SuspendVA (pg_provisioning e P) now t c actor w = (x, w') \<Longrightarrow> pg_step e P cap iv ol w w'"
| p_unsuspend: "UnsuspendVA (pg_provisioning e P) now t c actor w = (x, w') \<Longrightarrow>
      pg_step e P cap iv ol w w'"
| p_resolve: "Resolve (pg_suspense_service e) now i req w = (x, w') \<Longrightarrow> pg_step e P cap iv ol w w'"
| p_withdraw: "Initiate (pg_withdrawal_service e P) now wreq w = ((r6, x), w') \<Longrightarrow>
      pg_step e P cap iv ol w w'"
| p_collect: "Collection_Create (pg_collection_service e) now creq w = (r7, w') \<Longrightarrow>
      pg_step e P cap iv ol w w'"
| p_cancel: "Collection_Cancel (pg_collection_service e) t0 c t w = (x, w') \<Longrightarrow>
      pg_step e P cap iv ol w w'"
| p_relay_job: "pg_step e P cap iv ol w (pg_run_job e hmac http now k w)"
| p_retry: "pg_step e P cap iv ol w (RetryPending (pg_dispatcher e) t0 w)"
| p_limits: "pg_load_limits r raw w = (x, w') \<Longrightarrow> pg_step e P cap iv ol w w'"
| p_endpoint: "pg_CreateEndpoint e t0 ep w = (r8, w') \<Longrightarrow> pg_step e P cap iv ol w w'"
| p_deactivate: "pg_DeactivateEndpoint e i t w = (x, w') \<Longrightarrow> pg_step e P cap iv ol w w'"
| p_setting: "pg_UpsertSetting e t0 s raw w = (x, w') \<Longrightarrow> pg_step e P cap iv ol w w'"
| p_tenant: "pg_CreateTenant e t0 s w = (r9, w') \<Longrightarrow> pg_step e P cap iv ol w w'"
| p_key: "pg_CreateAPIKey e t s h k w = (r10, w') \<Longrightarrow> pg_step e P cap iv ol w w'"
| p_revoke: "pg_RevokeAPIKey e i t w = (x, w') \<Longrightarrow> pg_step e P cap iv ol w w'"
| p_credential: "pg_CreateCredential e t0 cred w = (x, w') \<Longrightarrow> pg_step e P cap iv ol w w'"
| p_replay: "Replay (pg_dispatcher e) del w = (x, w') \<Longrightarrow> pg_step e P cap iv ol w w'"
| p_seed_credential: "pg_SeedCredential e t0 cred w = (x, w') \<Longrightarrow> pg_step e P cap iv ol w w'"
| p_seed_setting: "pg_SeedSetting e t0 s raw w = (x, w') \<Longrightarrow> pg_step e P cap iv ol w w'"
| p_audit: "pg_Append e t0 ae w = (x, w') \<Longrightarrow> pg_step e P cap iv ol w w'"
| p_remote: "pg_step e P cap iv ol w (w\<lparr>pg_remote := outside\<rparr>)"

abbreviation pg_steps :: "'e pg_env \<Rightarrow> 'e provider \<Rightarrow> nat \<Rightarrow> duration \<Rightarrow> duration \<Rightarrow> 'e pg \<Rightarrow> 'e pg \<Rightarrow> bool" where
  "pg_steps e P cap iv ol \<equiv> (pg_step e P cap iv ol)\<^sup>*\<^sup>*"

lemma pg_leaves_services [simp]:
  "leaves pg_view (pg_CreateCustomer e now t x dn ident)"
  "leaves pg_view (pg_UpdateKYCTier e now c k actor)"
  "leaves pg_view (pg_CreateVirtualAccount e now va)"
  "leaves pg_view (pg_UpdateVAStatus e now i st actor)"
  "leaves pg_view (pg_RenameVA e now i st actor)"
  "leaves pg_view (pg_InsertWebhookEvent e now evt)"
  "leaves pg_view (pg_CreateCollection e now c2)"
  "leaves pg_view (pg_CancelCollection e now i)"
  "leaves pg_view (pg_CreateEndpoint e now ep)"
  "leaves pg_view (pg_DeactivateEndpoint e i t)"
  "leaves pg_view (pg_CreateDelivery e now del)"
  "leaves pg_view (pg_UpsertSetting e now i raw)"
  "leaves pg_view (pg_CreateTenant e now i)"
  "leaves pg_view (pg_CreateAPIKey e t i h x)"
  "leaves pg_view (pg_RevokeAPIKey e i t)"
  "leaves pg_view (pg_CreateCredential e now cred)"
  "leaves pg_view (pg_SeedCredential e now cred)"
  "leaves pg_view (pg_SeedSetting e now i raw)"
  "leaves pg_view (pg_enqueue cap item)"
  "leaves pg_view (pg_load_limits r raw)"
  by (simp_all add: leaves_def pg_CreateCustomer_def pg_UpdateKYCTier_def pg_CreateVirtualAccount_def
      pg_UpdateVAStatus_def pg_RenameVA_def pg_InsertWebhookEvent_def pg_CreateCollection_def
      pg_CancelCollection_def pg_CreateEndpoint_def pg_DeactivateEndpoint_def pg_CreateDelivery_def
      pg_UpsertSetting_def pg_CreateTenant_def pg_CreateAPIKey_def pg_RevokeAPIKey_def
      pg_CreateCredential_def pg_SeedCredential_def pg_SeedSetting_def pg_enqueue_def
      pg_load_limits_def pg_split)

lemmas pg_service_defs = pg_webhook_handler_def pg_customer_service_def pg_provisioning_def
  pg_collection_service_def pg_dispatcher_def remote_provider_def

lemma pg_service_leaves [simp]:
  "leaves pg_view (HandleNombaWebhook (pg_webhook_handler e P cap) nows hs request)"
  "leaves pg_view (CreateCustomer (pg_customer_service e) nows t x dn ident actor)"
  "leaves pg_view (UpdateKYCTier (pg_customer_service e) nows t c tier actor)"
  "leaves pg_view (ProvisionVA (pg_provisioning e P) nows rnd t c actor)"
  "leaves pg_view (RenameVA (pg_provisioning e P) nows t c n actor)"
  "leaves pg_view (CloseVA (pg_provisioning e P) nows t c actor)"
  "leaves pg_view (SuspendVA (pg_provisioning e P) nows t c actor)"
  "leaves pg_view (UnsuspendVA (pg_provisioning e P) nows t c actor)"
  "leaves pg_view (Collection_Create (pg_collection_service e) nows creq)"
  "leaves pg_view (Collection_Cancel (pg_collection_service e) now c t)"
  by (rule webhook_leaves CreateCustomer_leaves UpdateKYCTier_leaves ProvisionVA_leaves
      RenameVA_leaves status_leaves Collection_leaves;
      simp add: pg_service_defs pg_stores)+

lemma pg_worker_step_ledger: "ledger_step (pg_view w) (pg_view (pg_worker_step e now w))"
proof (cases "rt_queue (pg_rt w)")
  case Nil
  then show ?thesis by (simp add: pg_worker_step_def ledger_step.stay)
next
  case (Cons item rest)
  with pg_recon.run_item_step [of "w\<lparr>pg_rt := (pg_rt w)\<lparr>rt_queue := rest\<rparr>\<rparr>" e now item]
  show ?thesis by (simp add: pg_worker_step_def)
qed

lemma pg_job_view: "pg_view (pg_run_job e hmac http now k w) = pg_view w"
proof -
  have "pg_view (deliver (pg_dispatcher e) hmac http now job v) = pg_view v" for job v
    by (rule deliver_leaves) (simp add: pg_service_defs pg_stores)
  then show ?thesis by (simp add: pg_run_job_def Let_def)
qed

lemma pg_retry_view: "pg_view (RetryPending (pg_dispatcher e) t w) = pg_view w"
  by (rule RetryPending_leaves) (simp add: pg_dispatcher_def pg_spawn_def)

lemma pg_replay_leaves [simp]:
  "leaves pg_view (Replay (pg_dispatcher e) del)" "leaves pg_vas (Replay (pg_dispatcher e) del)"
  by (rule Replay_leaves; simp add: pg_dispatcher_def pg_spawn_def)+

lemma pg_stay: "leaves pg_view op \<Longrightarrow> op w = (r, w') \<Longrightarrow> ledger_steps (pg_view w) (pg_view w')"
  by (metis leaves_pair ledger_steps_refl)

lemma pg_step_ledger:
  assumes "pg_step e P cap iv ol w w'"
  shows "ledger_steps (pg_view w) (pg_view w')"
  using assms
proof (cases rule: pg_step.cases)
  case (p_worker now)
  then show ?thesis using pg_worker_step_ledger ledger_step_steps by blast
next
  case (p_sweep fuel start finish clk ov r1 x)
  then show ?thesis by (rule pg_sweep.sweep_Run_steps(1))
next
  case (p_resolve now i req x)
  then show ?thesis by (rule ledger_step_steps [OF pg_susp.Resolve_step])
next
  case (p_withdraw now wreq r6 x)
  then show ?thesis by (rule ledger_step_steps [OF pg_wd.Initiate_step])
next
  case (p_relay_job hmac http now k)
  then show ?thesis using pg_job_view [of e hmac http now k w] by simp
next
  case (p_retry t0)
  then show ?thesis using pg_retry_view [of e t0 w] by simp
next
  case (p_remote outside)
  then show ?thesis by simp
qed (auto dest: pg_stay [rotated] simp del: prod.inject)

lemma pg_steps_ledger: "pg_steps e P cap iv ol w w' \<Longrightarrow> ledger_steps (pg_view w) (pg_view w')"
  by (induction rule: rtranclp_induct) (auto intro: ledger_steps_trans pg_step_ledger)

section \<open>A small run\<close>

definition demo_env :: "unit pg_env" where
  "demo_env = \<lparr>pe_fault = (\<lambda>s a w. False), pe_cut = (\<lambda>s a w. None),
     pe_uuid = (\<lambda>s. if s = '''' then None else Some s), pe_random = dec_nat, pe_jsonb = Some,
     pe_scan = (\<lambda>w ks. []), pe_ties = id, pe_now = (\<lambda>w. 0), pe_timestamp = (\<lambda>s. None)\<rparr>"

definition pg_init :: "'e \<Rightarrow> 'e pg" where
  "pg_init r = \<lparr>pg_drawn = 0, pg_tenants = fmempty, pg_keys = fmempty, pg_customers = fmempty,
     pg_identities = fmempty, pg_vas = fmempty, pg_txns = fmempty, pg_entries = [],
     pg_events = fmempty, pg_suspense = fmempty, pg_runs = fmempty, pg_audit = fmempty,
     pg_endpoints = fmempty, pg_deliveries = fmempty, pg_settings = fmempty, pg_creds = fmempty,
     pg_withdrawals = fmempty, pg_collections = fmempty, pg_rt = runtime_init, pg_remote = r\<rparr>"

definition demo_provider :: "unit provider" where
  "demo_provider = \<lparr>pv_CreateVA = (\<lambda>r w. (Inl (Errorf ''''), w)), pv_UpdateVA = (\<lambda>i n w. (None, w)),
     pv_CloseVA = (\<lambda>i w. (None, w)), pv_SuspendVA = (\<lambda>i w. (None, w)),
     pv_ListVAs = (\<lambda>c w. (Inr ([], ''''), w)),
     pv_ListTransactions = (\<lambda>r w. (Inr \<lparr>TP_Transactions = [], TP_NextCursor = ''''\<rparr>, w)),
     pv_Requery = (\<lambda>i w. (Inl (Errorf ''''), w)), pv_Transfer = (\<lambda>r w. (fake_Transfer r, w)),
     pv_ResolveAccount = (\<lambda>b a w. (fake_ResolveAccount b a, w)),
     pv_VerifyWebhookSignature = (\<lambda>h b w. None), pv_ParseWebhook = (\<lambda>now b w. fake_ParseWebhook now b)\<rparr>"

definition demo_pt :: provider_tx where
  "demo_pt = zero_pt\<lparr>PT_TransactionID := ''t1'', PT_AmountKobo := 500, PT_OccurredAt := 1000\<rparr>"

definition demo_body :: json where
  "demo_body = JObj [(''event'', JStr ''payment_success''), (''data'', json_of_pt demo_pt)]"

definition demo_headers :: http_headers where
  "demo_headers = \<lparr>HH_signature = '''', HH_signature_algorithm = '''', HH_signature_version = '''',
     HH_timestamp = ''''\<rparr>"

definition demo_received :: "unit pg" where
  "demo_received = snd (HandleNombaWebhook (pg_webhook_handler demo_env demo_provider 10) (\<lambda>k. 5000)
     demo_headers (Some demo_body) (pg_init ()))"

definition demo_processed :: "unit pg" where
  "demo_processed = pg_worker_step demo_env (\<lambda>k. 6000) demo_received"

lemma demo_steps: "pg_steps demo_env demo_provider 10 0 0 (pg_init ()) demo_processed"
proof -
  have "pg_step demo_env demo_provider 10 0 0 (pg_init ()) demo_received"
    by (rule p_webhook [where now = "\<lambda>k. 5000" and hs = demo_headers and request = "Some demo_body"
        and code = "fst (HandleNombaWebhook (pg_webhook_handler demo_env demo_provider 10) (\<lambda>k. 5000)
           demo_headers (Some demo_body) (pg_init ()))"]) (simp add: demo_received_def)
  moreover have "pg_step demo_env demo_provider 10 0 0 demo_received demo_processed"
    unfolding demo_processed_def by (rule p_worker)
  ultimately show ?thesis by (meson converse_rtranclp_into_rtranclp rtranclp.rtrancl_refl)
qed

definition demo_item :: work_item where
  "demo_item = \<lparr>WI_WebhookEventID = ''0'', WI_Payload = \<lparr>WP_EventType = ''payment_success'',
     WP_Transaction = demo_pt\<lparr>PT_Raw := demo_body\<rparr>, WP_Raw = demo_body\<rparr>, WI_Source = ''webhook''\<rparr>"

lemma demo_parse: "fake_ParseWebhook now demo_body = Inr \<lparr>WP_EventType = ''payment_success'',
   WP_Transaction = demo_pt\<lparr>PT_Raw := demo_body\<rparr>, WP_Raw = demo_body\<rparr>"
  by (simp add: fake_ParseWebhook_def demo_body_def jfield_def demo_pt_def zero_pt_def IsZero_def)

lemmas demo_defs = demo_env_def demo_provider_def demo_headers_def pg_init_def runtime_init_def

lemma demo_queue: "rt_queue (pg_rt demo_received) = [demo_item]" "pg_view demo_received = (fmempty, [])"
  by (simp_all add: demo_received_def HandleNombaWebhook_def pg_webhook_handler_def remote_provider_def
      demo_provider_def demo_headers_def demo_parse pg_stores pg_InsertWebhookEvent_def demo_env_def
      pg_init_def runtime_init_def pg_enqueue_def Enqueue_def demo_item_def gen_uuid_def Let_def
      received_event_def micros_def dec_nat.simps digit_values)

lemma demo_received_vas: "pg_vas demo_received = fmempty"
  by (simp add: demo_received_def HandleNombaWebhook_def pg_webhook_handler_def remote_provider_def
      demo_provider_def demo_headers_def demo_parse pg_stores pg_InsertWebhookEvent_def demo_env_def
      pg_init_def runtime_init_def pg_enqueue_def Enqueue_def gen_uuid_def Let_def
      received_event_def micros_def dec_nat.simps digit_values)

lemma demo_route:
  assumes "pg_vas w = fmempty"
  shows "route_credit (pg_worker demo_env) now (demo_pt\<lparr>PT_Raw := j\<rparr>) w =
    Inr \<lparr>MR_VA = None, MR_CustomerID = '''', MR_Entries =
      [\<lparr>LE_TransactionID = ''t1'', LE_Account = AccountNombaSettlement, LE_Direction = ''debit'',
        LE_AmountKobo = 500\<rparr>,
       \<lparr>LE_TransactionID = ''t1'', LE_Account = AccountSuspense, LE_Direction = ''credit'',
        LE_AmountKobo = 500\<rparr>],
      MR_Suspense = Some (open_item ''t1'' SuspenseReasonUnmatched)\<rparr>"
  by (simp add: route_credit_def pg_wiring Match_def find_va_def demo_pt_def zero_pt_def
      to_suspense_def CreditSuspense_def)

lemma demo_process:
  assumes "pg_vas w = fmempty" and "pg_txns w = fmempty"
  shows "\<exists>w'. process (pg_worker demo_env) now demo_item w = (None, w')"
  using assms
  by (simp add: process_def demo_item_def processCredit_def demo_route Let_def)
    (simp add: pg_wiring pg_stores pg_PostTransaction_def assertBalanced_def demo_env_def mk_tx_def
      demo_pt_def zero_pt_def txn_row_def uuid_opt_def toPtr_def nullStr_def va_exists_def entry_ok_def)

lemma demo_processed_view:
  "pg_entries demo_processed =
     [\<lparr>LE_TransactionID = ''t1'', LE_Account = AccountNombaSettlement, LE_Direction = ''debit'',
       LE_AmountKobo = 500\<rparr>,
      \<lparr>LE_TransactionID = ''t1'', LE_Account = AccountSuspense, LE_Direction = ''credit'',
       LE_AmountKobo = 500\<rparr>]"
  "\<exists>t. pg_txns demo_processed = fmupd ''t1'' t fmempty"
proof -
  let ?w = "demo_received\<lparr>pg_rt := (pg_rt demo_received)\<lparr>rt_queue := []\<rparr>\<rparr>"
  obtain w' where p: "process (pg_worker demo_env) (\<lambda>k. 6000) demo_item ?w = (None, w')"
    using demo_process [of ?w "\<lambda>k. 6000"] demo_received_vas demo_queue by auto
  then have "demo_processed = w'"
    by (simp add: demo_processed_def pg_worker_step_def demo_queue run_item_def)
  with pg_recon.process_spec [where e = demo_env and now = "\<lambda>k. 6000" and item = demo_item and w = ?w] p
    demo_queue(2)
  show "pg_entries demo_processed =
     [\<lparr>LE_TransactionID = ''t1'', LE_Account = AccountNombaSettlement, LE_Direction = ''debit'',
       LE_AmountKobo = 500\<rparr>,
      \<lparr>LE_TransactionID = ''t1'', LE_Account = AccountSuspense, LE_Direction = ''credit'',
       LE_AmountKobo = 500\<rparr>]"
    "\<exists>t. pg_txns demo_processed = fmupd ''t1'' t fmempty"
    by (auto simp: demo_item_def demo_pt_def zero_pt_def routed_def Let_def demo_received_vas
        demo_route [unfolded demo_pt_def zero_pt_def, simplified])
qed

text \<open>
  C36: The counters of a sweep tell the truth about the ledger of the production database. If the
  run returns a result, then its posted counter is the number of transactions that the run added,
  the suspensed ones are among them, and posted and skipped together are at most the number of
  transactions found; the window ends when the run started.
\<close>

theorem sweep_counts_ledger:
  assumes "sweep_Run (pg_sweep_runner e P iv ol) fuel start finish clk ov w = Some ((Some r, x), w')"
  shows "SR_Posted r = int (card (fmdom' (pg_txns w'))) - int (card (fmdom' (pg_txns w))) \<and>
    0 \<le> SR_Suspensed r \<and> SR_Suspensed r \<le> SR_Posted r \<and> 0 \<le> SR_Skipped r \<and>
    SR_Posted r + SR_Skipped r \<le> SR_Found r \<and> SR_WindowTo r = start"
  using pg_sweep.sweep_Run_steps(2) [OF assms] by simp

text \<open>
  C13: The production sweep recovers what the webhooks missed, and its counters tell when it did not.
  If the provider's cursors come to an end, the run does; unless it finds no window to start with, it
  returns a result, and of the transactions that it has seen (those on the pages it could read, after
  the query for a bare one) at most as many are missing from the database as it found but neither posted
  nor skipped. In particular, when these numbers agree, every transaction seen is recorded, whatever
  the database, the provider and the worker did on the way.
\<close>

theorem sweep_recovers:
  assumes "cursors_decrease (remote_provider P) rank" and "rank '''' < fuel"
  shows "\<exists>res e w'. sweep_Run (pg_sweep_runner e' P iv ol) fuel start finish clk ov w = Some ((res, e), w') \<and>
    (case res of
       None \<Rightarrow> w' = w \<and> (\<exists>err. sweep_window (pg_sweep_runner e' P iv ol) start ov w = Inl err)
     | Some r \<Rightarrow>
         let seen = pages_seen (pg_sweep_runner e' P iv ol) fuel clk (SR_WindowFrom r) start ''''
               (start_result (SR_WindowFrom r) start, w)
         in int (length (missing (pg_txns w') seen)) \<le> SR_Found r - SR_Posted r - SR_Skipped r \<and>
            (SR_Found r = SR_Posted r + SR_Skipped r \<longrightarrow>
               (\<forall>pt \<in> set seen. fmlookup (pg_txns w') (PT_TransactionID pt) \<noteq> None)))"
proof -
  let ?s = "pg_sweep_runner e' P iv ol"
  have "cursors_decrease (sr_prov ?s) rank" using assms(1) by (simp add: pg_sweep_runner_def)
  from sweep_Run_ends [OF this assms(2) le_refl] obtain res e w' where
    run: "sweep_Run ?s fuel start finish clk ov w = Some ((res, e), w')" by (metis surj_pair)
  show ?thesis
  proof (cases res)
    case None
    with run have "w' = w \<and> (\<exists>err. sweep_window ?s start ov w = Inl err)"
      by (auto simp: sweep_Run_def Let_def split: sum.splits option.splits)
    with run None show ?thesis by auto
  next
    case (Some r)
    from pg_sweep.sweep_Run_missing [OF run [unfolded Some]]
    have "int (length (missing (pg_txns w') (pages_seen ?s fuel clk (SR_WindowFrom r) start ''''
        (start_result (SR_WindowFrom r) start, w)))) \<le> SR_Found r - SR_Posted r - SR_Skipped r" .
    moreover from this have "\<forall>pt \<in> set (pages_seen ?s fuel clk (SR_WindowFrom r) start ''''
        (start_result (SR_WindowFrom r) start, w)). fmlookup (pg_txns w') (PT_TransactionID pt) \<noteq> None"
      if "SR_Found r = SR_Posted r + SR_Skipped r"
      using that by (auto simp: missing_def filter_empty_conv)
    ultimately show ?thesis using run Some by auto
  qed
qed

lemma hd_sort_key_least:
  "x \<in> set xs \<Longrightarrow> (\<And>y. y \<in> set xs \<Longrightarrow> k x \<le> k y) \<Longrightarrow> \<exists>z zs. sort_key k xs = z # zs \<and> k z = k x"
  for k :: "'a \<Rightarrow> int"
proof -
  assume x: "x \<in> set xs" and least: "\<And>y. y \<in> set xs \<Longrightarrow> k x \<le> k y"
  obtain z zs where z: "sort_key k xs = z # zs"
    using x by (metis list.exhaust list.set(1) empty_iff set_sort)
  have "sorted (map k (z # zs))" by (metis z sorted_sort_key)
  moreover have "x \<in> set (z # zs)" by (metis x z set_sort)
  ultimately have "k z \<le> k x" by auto
  moreover have "z \<in> set xs" by (metis z set_sort list.set_intros(1))
  ultimately show ?thesis using z least [of z] by auto
qed

text \<open>
  C38: In production the next window starts the overlap before the moment the last successful run
  was logged, which is after it was done and not when its window ended: the windows of two runs
  leave no gap exactly if the first run took no longer than the overlap. When it did, the instants
  between the end of its window and the start of the next one are never swept.
\<close>

theorem production_window_gap:
  assumes "pg_CreateSweepRun e finish (run_log r None) w = (None, w')"
    and "\<not> pe_fault e ''last sweep'' [] w'"
    and "\<forall>i run. fmlookup (pg_runs w) i = Some run \<longrightarrow> Run_RanAt run \<le> micros finish"
    and "micros finish \<noteq> 0"
  shows "computeWindowFrom (pg_sweep_runner e P iv ol) now w' = Inr (micros finish - ol) \<and>
    ((\<exists>t. SR_WindowTo r \<le> t \<and> t < micros finish - ol) \<longleftrightarrow> ol < micros finish - SR_WindowTo r)"
proof -
  obtain i where new: "pg_runs w' = fmupd i ((run_log r None)\<lparr>Run_ID := i,
      Run_WindowFrom := micros (SR_WindowFrom r), Run_WindowTo := micros (SR_WindowTo r),
      Run_RanAt := micros finish\<rparr>) (pg_runs w)"
    using assms(1)
    by (auto simp: pg_CreateSweepRun_def gen_uuid_def run_log_def Let_def split: if_splits)
  let ?ok = "filter (\<lambda>x. Run_Error x = None) (rows_of e w' (pg_runs w'))"
  have "\<exists>x \<in> set ?ok. Run_RanAt x = micros finish"
    by (auto simp: in_range_vals new run_log_def)
  then obtain x where x: "x \<in> set ?ok" "Run_RanAt x = micros finish" by blast
  have le: "Run_RanAt y \<le> micros finish" if "y \<in> set ?ok" for y
    using that assms(3) by (auto simp: in_range_vals new split: if_splits)
  have "\<exists>z zs. sort_key (\<lambda>x. - Run_RanAt x) ?ok = z # zs \<and> - Run_RanAt z = - Run_RanAt x"
    by (rule hd_sort_key_least [OF x(1)]) (use x(2) le in auto)
  then have "pg_GetLastSweepTime e w' = Inr (micros finish)"
    using assms(2) x(2) by (auto simp: pg_GetLastSweepTime_def)
  then show ?thesis
    using assms(4) by (auto simp: computeWindowFrom_def pg_sweep_runner_def pg_sweep_store_def IsZero_def
        intro: exI [of _ "SR_WindowTo r"])
qed

definition demo_lister :: "unit provider" where
  "demo_lister = demo_provider\<lparr>pv_ListTransactions :=
     (\<lambda>r w. (Inr \<lparr>TP_Transactions = [demo_pt], TP_NextCursor = ''''\<rparr>, w))\<rparr>"

lemma demo_direct:
  assumes "pg_vas w = fmempty" and "pg_txns w = fmempty"
  shows "\<exists>w'. ProcessDirect (pg_worker demo_env) now (buildWorkItem demo_pt) w =
    (Inr (zero_result\<lparr>PR_Posted := True, PR_Suspensed := True\<rparr>), w')"
proof -
  let ?pt = "demo_pt\<lparr>PT_Raw := json_of_pt demo_pt\<rparr>"
  have get: "xs_GetTransaction (wk_txns (pg_worker demo_env)) i w = Inr None" for i
    using assms by (simp add: pg_wiring pg_stores pg_GetTransaction_def wrap_err_def pg_row_def demo_env_def)
  obtain r where r: "route_credit (pg_worker demo_env) (now 0) ?pt w = Inr r" "MR_Suspense r \<noteq> None"
    "MR_VA r = None" "MR_Entries r = two_entries ''t1'' AccountNombaSettlement AccountSuspense 500"
    by (simp add: demo_route assms two_entries_def)
  obtain v where post: "xs_PostTransaction (wk_txns (pg_worker demo_env)) (now 1)
      (mk_tx (buildWorkItem demo_pt) ?pt r ''credit'' ''posted'') (MR_Entries r) w = (Inr True, v)"
    using assms r(3,4)
    by (simp add: pg_wiring pg_stores pg_PostTransaction_def assertBalanced_def demo_env_def mk_tx_def
      demo_pt_def zero_pt_def txn_row_def uuid_opt_def toPtr_def nullStr_def va_exists_def entry_ok_def
      two_entries_def buildWorkItem_def Let_def)
  have "WP_Transaction (WI_Payload (buildWorkItem demo_pt)) = ?pt"
    by (simp add: buildWorkItem_def Let_def)
  with r get post show ?thesis
    by (simp add: ProcessDirect_def processCreditDirect_def Let_def)
qed

lemma demo_sweep:
  "\<exists>r w'. sweep_Run (pg_sweep_runner demo_env demo_lister hour minute) 1 5000 6000 (\<lambda>n k. 5500)
       (Some 500) (pg_init ()) = Some ((Some r, None), w') \<and>
     SR_Posted r = 1 \<and> SR_Found r = 1 \<and> SR_Skipped r = 0 \<and> SR_WindowFrom r = 500"
proof -
  obtain v where pd: "ProcessDirect (pg_worker demo_env) (\<lambda>k. 5500) (buildWorkItem demo_pt) (pg_init ()) =
      (Inr (zero_result\<lparr>PR_Posted := True, PR_Suspensed := True\<rparr>), v)"
    using demo_direct [of "pg_init ()"] by (auto simp: pg_init_def)
  have bare: "requery_if_bare (pg_sweep_runner demo_env demo_lister hour minute) demo_pt w = (demo_pt, w)" for w
    by (simp add: requery_if_bare_def demo_pt_def zero_pt_def)
  have lst: "pv_ListTransactions (sr_prov (pg_sweep_runner demo_env demo_lister hour minute)) req w =
      (Inr \<lparr>TP_Transactions = [demo_pt], TP_NextCursor = ''''\<rparr>, w)" for req w
    by (simp add: pg_sweep_runner_def remote_provider_def demo_lister_def on_remote_def)
  have wk: "sr_worker (pg_sweep_runner demo_env demo_lister hour minute) = pg_worker demo_env"
    by (simp add: pg_sweep_runner_def)
  show ?thesis
    by (simp add: sweep_Run_def sweep_window_def IsZero_def lst sweep_item_def bare wk pd Let_def
        tally_def zero_result_def start_result_def)
qed

theorem sweep_counts_ledger_witness:
  "\<exists>r w'. sweep_Run (pg_sweep_runner demo_env demo_lister hour minute) 1 5000 6000 (\<lambda>n k. 5500)
       (Some 500) (pg_init ()) = Some ((Some r, None), w') \<and>
     SR_Posted r = 1 \<and> card (fmdom' (pg_txns w')) = 1"
proof -
  obtain r w' where run: "sweep_Run (pg_sweep_runner demo_env demo_lister hour minute) 1 5000 6000
      (\<lambda>n k. 5500) (Some 500) (pg_init ()) = Some ((Some r, None), w')" and r: "SR_Posted r = 1"
    using demo_sweep by blast
  with sweep_counts_ledger [OF run] show ?thesis by (auto simp: pg_init_def)
qed

theorem sweep_recovers_witness:
  "\<exists>r w'. sweep_Run (pg_sweep_runner demo_env demo_lister hour minute) 1 5000 6000 (\<lambda>n k. 5500)
       (Some 500) (pg_init ()) = Some ((Some r, None), w') \<and>
     SR_Found r = 1 \<and> SR_Posted r = 1 \<and> fmlookup (pg_txns w') ''t1'' \<noteq> None"
proof -
  let ?s = "pg_sweep_runner demo_env demo_lister hour minute"
  have dec: "cursors_decrease (remote_provider demo_lister) (\<lambda>c. 0)"
    by (auto simp: cursors_decrease_def remote_provider_def demo_lister_def on_remote_def)
  obtain r w' where run: "sweep_Run ?s 1 5000 6000 (\<lambda>n k. 5500) (Some 500) (pg_init ()) = Some ((Some r, None), w')"
    and r: "SR_Posted r = 1" "SR_Found r = 1" "SR_Skipped r = 0" "SR_WindowFrom r = 500"
    using demo_sweep by blast
  from sweep_recovers [OF dec, of 1 demo_env hour minute 5000 6000 "\<lambda>n k. 5500" "Some 500" "pg_init ()"] run r
  have "\<forall>pt \<in> set (pages_seen ?s 1 (\<lambda>n k. 5500) 500 5000 '''' (start_result 500 5000, pg_init ())).
      fmlookup (pg_txns w') (PT_TransactionID pt) \<noteq> None"
    by (simp add: Let_def)
  moreover have "demo_pt \<in> set (pages_seen ?s 1 (\<lambda>n k. 5500) 500 5000 '''' (start_result 500 5000, pg_init ()))"
    by (simp add: pg_sweep_runner_def remote_provider_def demo_lister_def on_remote_def requery_if_bare_def
        demo_pt_def zero_pt_def)
  ultimately have "fmlookup (pg_txns w') (PT_TransactionID demo_pt) \<noteq> None" by blast
  then have "fmlookup (pg_txns w') ''t1'' \<noteq> None" by (simp add: demo_pt_def)
  with run r show ?thesis by blast
qed

theorem production_window_gap_witness:
  "\<exists>w'. pg_CreateSweepRun demo_env (20 * minute) (run_log (start_result 0 1000) None) (pg_init ()) = (None, w') \<and>
     computeWindowFrom (pg_sweep_runner demo_env demo_provider hour (15 * minute)) (30 * minute) w' = Inr (5 * minute)"
proof -
  obtain w' where w': "pg_CreateSweepRun demo_env (20 * minute) (run_log (start_result 0 1000) None)
      (pg_init ()) = (None, w')"
    by (simp add: pg_CreateSweepRun_def demo_env_def gen_uuid_def pg_init_def run_log_def
        start_result_def fits32_def Let_def)
  have "micros (20 * minute) = 20 * minute" by (simp add: micros_def minute_def second_def)
  with production_window_gap [OF w', of demo_provider hour "15 * minute" "30 * minute"] w'
  show ?thesis by (simp add: demo_env_def pg_init_def minute_def second_def)
qed

section \<open>The account directory of the database\<close>

text \<open>
  What the database keeps of the accounts: the row key is the identifier, in the canonical form in
  which it was generated, and a customer has at most one ACTIVE account (the partial unique index).
\<close>

definition canonical_ids :: "'e pg_env \<Rightarrow> bool" where
  "canonical_ids e \<longleftrightarrow> (\<forall>n. pe_uuid e (pe_random e n) = Some (pe_random e n))"

definition pg_dir_inv :: "'e pg_env \<Rightarrow> 'e pg \<Rightarrow> bool" where
  "pg_dir_inv e w \<longleftrightarrow> canonical_ids e \<and>
     (\<forall>i va. fmlookup (pg_vas w) i = Some va \<longrightarrow> VA_ID va = i \<and> pe_uuid e i = Some i)"

definition one_active :: "directory \<Rightarrow> bool" where
  "one_active m \<longleftrightarrow>
     (\<forall>i j a b. fmlookup m i = Some a \<longrightarrow> fmlookup m j = Some b \<longrightarrow>
        VA_Status a = VAStatusActive \<longrightarrow> VA_Status b = VAStatusActive \<longrightarrow>
        VA_CustomerID a = VA_CustomerID b \<longrightarrow> i = j)"

definition stored_uuid :: "'e pg_env \<Rightarrow> string \<Rightarrow> string" where
  "stored_uuid e c = (case pe_uuid e c of Some c' \<Rightarrow> c' | None \<Rightarrow> c)"

lemma pg_find_va_Some:
  "pg_find_va e Q w = Some va \<Longrightarrow> (\<exists>k. fmlookup (pg_vas w) k = Some va) \<and> Q va"
  unfolding pg_find_va_def by (rule range_find)

lemma pg_find_va_None:
  "pg_find_va e Q w = None \<longleftrightarrow> (\<forall>k v. fmlookup (pg_vas w) k = Some v \<longrightarrow> \<not> Q v)"
  unfolding pg_find_va_def by (rule range_find_None)

lemma pg_row_Inr: "pg_row e s as p w row = Inr x \<Longrightarrow> p \<and> x = row"
  by (auto simp: pg_row_def split: if_splits)

interpretation pg_dir: va_directory "pg_virtual_account_store e" pg_vas "stored_uuid e"
  "pg_dir_inv e" "\<lambda>w. True" for e
proof unfold_locales
  fix w c va
  assume "pg_dir_inv e w" "vs_GetActiveVA (pg_virtual_account_store e) c w = Inr (Some va)"
  then show "fmlookup (pg_vas w) (VA_ID va) = Some va \<and> VA_CustomerID va = stored_uuid e c \<and>
    VA_Status va = VAStatusActive"
    by (auto simp: pg_stores pg_GetActiveVA_def pg_dir_inv_def stored_uuid_def
        dest!: pg_row_Inr pg_find_va_Some [OF sym])
next
  fix w c
  assume "pg_dir_inv e w" "vs_GetActiveVA (pg_virtual_account_store e) c w = Inr None"
  then show "no_active (stored_uuid e c) (pg_vas w)"
    by (auto simp: pg_stores pg_GetActiveVA_def no_active_def stored_uuid_def pg_find_va_None
        dest!: pg_row_Inr sym [of None])
next
  fix w c st va
  assume "pg_dir_inv e w" "vs_GetVAByCustomerAndStatus (pg_virtual_account_store e) c st w = Inr (Some va)"
  then show "fmlookup (pg_vas w) (VA_ID va) = Some va \<and> VA_CustomerID va = stored_uuid e c \<and> VA_Status va = st"
    by (auto simp: pg_stores pg_GetVAByCustomerAndStatus_def pg_dir_inv_def stored_uuid_def
        dest!: pg_row_Inr pg_find_va_Some [OF sym])
next
  fix now i st actor w x w' va
  assume "vs_UpdateVAStatus (pg_virtual_account_store e) now i st actor w = (x, w')"
    and inv: "pg_dir_inv e w" and i: "fmlookup (pg_vas w) i = Some va"
  moreover have "pe_uuid e i = Some i" using inv i by (simp add: pg_dir_inv_def)
  ultimately show "pg_dir_inv e w' \<and> (if x = None
      then \<exists>va'. same_account va va' \<and> VA_Status va' = st \<and> pg_vas w' = fmupd i va' (pg_vas w)
      else pg_vas w' = pg_vas w)"
    by (auto simp: pg_stores pg_UpdateVAStatus_def pg_dir_inv_def same_account_def Let_def
        split: if_splits intro!: exI [of _ "va\<lparr>VA_Status := st, VA_UpdatedAt := micros now\<rparr>"])
next
  fix now i n actor w x w' va
  assume "vs_RenameVA (pg_virtual_account_store e) now i n actor w = (x, w')"
    and inv: "pg_dir_inv e w" and i: "fmlookup (pg_vas w) i = Some va"
  moreover have "pe_uuid e i = Some i" using inv i by (simp add: pg_dir_inv_def)
  ultimately show "pg_dir_inv e w' \<and> (if x = None
      then \<exists>va'. same_account va va' \<and> VA_Status va' = VA_Status va \<and> pg_vas w' = fmupd i va' (pg_vas w)
      else pg_vas w' = pg_vas w)"
    by (auto simp: pg_stores pg_RenameVA_def pg_dir_inv_def same_account_def Let_def
        split: if_splits intro!: exI [of _ "va\<lparr>VA_AccountName := n, VA_UpdatedAt := micros now\<rparr>"])
next
  fix now va w err w'
  assume "vs_CreateVirtualAccount (pg_virtual_account_store e) now va w = (Inl err, w')" "pg_dir_inv e w"
  then show "pg_dir_inv e w' \<and> pg_vas w' = pg_vas w"
    by (auto simp: pg_stores pg_CreateVirtualAccount_def gen_uuid_def pg_dir_inv_def Let_def
        split: option.splits if_splits)
next
  fix now va w va' w'
  assume "vs_CreateVirtualAccount (pg_virtual_account_store e) now va w = (Inr va', w')"
    and "VA_ID va = ''''" and "pg_dir_inv e w"
  then show "pg_dir_inv e w' \<and> fmlookup (pg_vas w) (VA_ID va') = None \<and>
      (\<exists>row. pg_vas w' = fmupd (VA_ID va') row (pg_vas w) \<and> VA_ID row = VA_ID va' \<and>
             VA_CustomerID row = stored_uuid e (VA_CustomerID va) \<and> VA_NUBAN row = VA_NUBAN va \<and>
             VA_NombaAccountRef row = VA_NombaAccountRef va \<and> VA_Status row = VA_Status va)"
    by (auto simp: pg_stores pg_CreateVirtualAccount_def gen_uuid_def pg_dir_inv_def canonical_ids_def
        pg_va_unique_def stored_uuid_def Let_def split: option.splits if_splits)
qed

interpretation pg_prov: provisioning "pg_virtual_account_store e" pg_vas "stored_uuid e"
  "pg_dir_inv e" "\<lambda>w. True" "pg_provisioning e P" for e P
  by unfold_locales
    (simp_all add: leaves_def pg_provisioning_def remote_provider_def on_remote_def pg_stores
      pg_Append_def pg_dir_inv_def pg_split)

interpretation pg_frame: sweep_frame pg_vas "pg_worker e" "pg_sweep_runner e P iv ol" for e P iv ol
  by unfold_locales
    (auto simp: leaves_def pg_wiring pg_stores pg_PostTransaction_def pg_MarkWebhookProcessed_def
      pg_CreateSuspenseItem_def pg_FulfillCollection_def pg_CreateSweepRun_def pg_spawn_def
      remote_provider_def on_remote_def pg_split)

lemma pg_vas_leaves [simp]:
  "leaves pg_vas (HandleNombaWebhook (pg_webhook_handler e P cap) nows hs request)"
  "leaves pg_vas (CreateCustomer (pg_customer_service e) nows t x dn ident actor)"
  "leaves pg_vas (UpdateKYCTier (pg_customer_service e) nows t c tier actor)"
  "leaves pg_vas (Collection_Create (pg_collection_service e) nows creq)"
  "leaves pg_vas (Collection_Cancel (pg_collection_service e) now c t)"
  "leaves pg_vas (Resolve (pg_suspense_service e) nows i req)"
  "leaves pg_vas (Initiate (pg_withdrawal_service e P) nows wreq)"
  by (rule webhook_leaves CreateCustomer_leaves UpdateKYCTier_leaves Collection_leaves
      Resolve_leaves Initiate_leaves;
      simp add: leaves_def pg_service_defs pg_suspense_service_def pg_withdrawal_service_def pg_stores
        pg_InsertWebhookEvent_def pg_enqueue_def pg_CreateCustomer_def pg_UpdateKYCTier_def
        pg_CreateCollection_def pg_CancelCollection_def pg_Append_def pg_PostTransaction_def
        pg_ResolveSuspenseItem_def pg_CreateWithdrawal_def pg_UpdateWithdrawalStatus_def
        on_remote_def pg_split)+

lemma pg_vas_store_leaves [simp]:
  "leaves pg_vas (pg_load_limits r raw)"
  "leaves pg_vas (pg_CreateEndpoint e now ep)"
  "leaves pg_vas (pg_DeactivateEndpoint e i t)"
  "leaves pg_vas (pg_UpsertSetting e now i raw)"
  "leaves pg_vas (pg_CreateTenant e now i)"
  "leaves pg_vas (pg_CreateAPIKey e t i h x)"
  "leaves pg_vas (pg_RevokeAPIKey e i t)"
  "leaves pg_vas (pg_CreateCredential e now cred)"
  "leaves pg_vas (pg_SeedCredential e now cred)"
  "leaves pg_vas (pg_SeedSetting e now i raw)"
  "leaves pg_vas (pg_Append e now ae)"
  "leaves pg_vas (pg_CreateDelivery e now del)"
  by (simp_all add: leaves_def pg_load_limits_def pg_CreateEndpoint_def pg_DeactivateEndpoint_def
      pg_UpsertSetting_def pg_CreateTenant_def pg_CreateAPIKey_def pg_RevokeAPIKey_def
      pg_CreateCredential_def pg_SeedCredential_def pg_SeedSetting_def pg_Append_def
      pg_CreateDelivery_def pg_split)

definition va_clash :: "'e pg_env \<Rightarrow> string \<Rightarrow> string \<Rightarrow> virtual_account \<Rightarrow> 'e pg \<Rightarrow> bool" where
  "va_clash e st j va w \<longleftrightarrow> st \<notin> va_statuses \<or> st = VAStatusActive \<and>
     (\<exists>v \<in> set (rows_of e w (pg_vas w)). VA_ID v \<noteq> j \<and> VA_Status v = VAStatusActive \<and>
        VA_CustomerID v = VA_CustomerID va)"

lemma pg_UpdateVAStatus_eq:
  "pg_UpdateVAStatus e now i st actor w =
     (if pe_fault e ''update va status'' [i, st] w
      then (Some (Wrap ''va repo: update status'' (pg_error ''update'')), w)
      else case pe_uuid e i of
             None \<Rightarrow> (Some (Wrap ''va repo: update status'' (pg_error ''update'')), w)
           | Some j \<Rightarrow> (case fmlookup (pg_vas w) j of
               None \<Rightarrow> (None, w)
             | Some va \<Rightarrow> if va_clash e st j va w
                 then (Some (Wrap ''va repo: update status'' (pg_error ''update'')), w)
                 else (None, w\<lparr>pg_vas := fmupd j (va\<lparr>VA_Status := st, VA_UpdatedAt := micros now\<rparr>)
                         (pg_vas w)\<rparr>)))"
  unfolding pg_UpdateVAStatus_def Let_def va_clash_def ..

lemma pg_UpdateVAStatus_vas:
  assumes "pg_UpdateVAStatus e now i st actor w = (x, w')" and "pg_vas w' \<noteq> pg_vas w"
  shows "\<exists>j va. fmlookup (pg_vas w) j = Some va \<and> \<not> va_clash e st j va w \<and>
    pg_vas w' = fmupd j (va\<lparr>VA_Status := st, VA_UpdatedAt := micros now\<rparr>) (pg_vas w)"
proof (cases "pe_fault e ''update va status'' [i, st] w \<or> pe_uuid e i = None")
  case True
  with assms show ?thesis by (auto simp: pg_UpdateVAStatus_eq split: if_splits)
next
  case False
  then obtain j where u: "\<not> pe_fault e ''update va status'' [i, st] w" "pe_uuid e i = Some j" by auto
  show ?thesis
  proof (cases "fmlookup (pg_vas w) j")
    case None
    with assms u show ?thesis by (simp add: pg_UpdateVAStatus_eq)
  next
    case (Some va)
    have nc: "\<not> va_clash e st j va w"
    proof
      assume "va_clash e st j va w"
      with assms(1) u Some have "w' = w" by (simp add: pg_UpdateVAStatus_eq)
      with assms(2) show False by simp
    qed
    with assms(1) u Some
    have "w' = w\<lparr>pg_vas := fmupd j (va\<lparr>VA_Status := st, VA_UpdatedAt := micros now\<rparr>) (pg_vas w)\<rparr>"
      by (simp add: pg_UpdateVAStatus_eq)
    with nc Some show ?thesis by auto
  qed
qed

lemma pg_RenameVA_vas:
  assumes "pg_RenameVA e now i n actor w = (x, w')" and "pg_vas w' \<noteq> pg_vas w"
  shows "\<exists>j va. fmlookup (pg_vas w) j = Some va \<and>
    pg_vas w' = fmupd j (va\<lparr>VA_AccountName := n, VA_UpdatedAt := micros now\<rparr>) (pg_vas w)"
proof (cases "pe_fault e ''rename va'' [i, n] w \<or> pe_uuid e i = None")
  case True
  with assms show ?thesis by (auto simp: pg_RenameVA_def Let_def split: if_splits)
next
  case False
  then obtain j where u: "\<not> pe_fault e ''rename va'' [i, n] w" "pe_uuid e i = Some j" by auto
  show ?thesis
  proof (cases "fmlookup (pg_vas w) j")
    case None
    with assms u show ?thesis by (simp add: pg_RenameVA_def)
  next
    case (Some va)
    with assms(1) u
    have "w' = w\<lparr>pg_vas := fmupd j (va\<lparr>VA_AccountName := n, VA_UpdatedAt := micros now\<rparr>) (pg_vas w)\<rparr>"
      by (simp add: pg_RenameVA_def Let_def)
    with Some show ?thesis by auto
  qed
qed

definition pg_accounts_ok :: "'e pg_env \<Rightarrow> 'e pg \<Rightarrow> bool" where
  "pg_accounts_ok e w \<longleftrightarrow> pg_dir_inv e w \<and> one_active (pg_vas w)"

lemma pg_accounts_cong: "pg_vas w' = pg_vas w \<Longrightarrow> pg_accounts_ok e w' = pg_accounts_ok e w"
  by (simp add: pg_accounts_ok_def pg_dir_inv_def)

lemma pg_accounts_leaves: "leaves pg_vas op \<Longrightarrow> keeps (pg_accounts_ok e) op"
  unfolding leaves_def keeps_def using pg_accounts_cong by blast

lemma one_active_upd:
  assumes "one_active m" and "VA_Status va = VAStatusActive \<Longrightarrow>
    \<forall>j v. fmlookup m j = Some v \<longrightarrow> j \<noteq> i \<longrightarrow> VA_CustomerID v = VA_CustomerID va \<longrightarrow>
      VA_Status v \<noteq> VAStatusActive"
  shows "one_active (fmupd i va m)"
  using assms unfolding one_active_def by (simp add: fmupd_lookup) metis

lemma pg_accounts_upd:
  assumes "pg_accounts_ok e w" and "pg_vas w' = fmupd i va (pg_vas w)" and "VA_ID va = i"
    and "pe_uuid e i = Some i"
    and "VA_Status va = VAStatusActive \<Longrightarrow>
      \<forall>v. v \<in> set (rows_of e w (pg_vas w)) \<longrightarrow> VA_ID v \<noteq> i \<longrightarrow> VA_CustomerID v = VA_CustomerID va \<longrightarrow>
        VA_Status v \<noteq> VAStatusActive"
  shows "pg_accounts_ok e w'"
proof -
  have ids: "\<And>j v. fmlookup (pg_vas w) j = Some v \<Longrightarrow> VA_ID v = j"
    using assms(1) by (simp add: pg_accounts_ok_def pg_dir_inv_def)
  have "one_active (fmupd i va (pg_vas w))"
  proof (rule one_active_upd)
    show "one_active (pg_vas w)" using assms(1) by (simp add: pg_accounts_ok_def)
    assume "VA_Status va = VAStatusActive"
    with assms(5) ids show "\<forall>j v. fmlookup (pg_vas w) j = Some v \<longrightarrow> j \<noteq> i \<longrightarrow>
        VA_CustomerID v = VA_CustomerID va \<longrightarrow> VA_Status v \<noteq> VAStatusActive"
      unfolding in_range_vals by metis
  qed
  with assms(1-4) show ?thesis by (simp add: pg_accounts_ok_def pg_dir_inv_def)
qed

lemma pg_store_accounts:
  "keeps (pg_accounts_ok e) (pg_CreateVirtualAccount e now va)"
  "keeps (pg_accounts_ok e) (pg_UpdateVAStatus e now i st actor)"
  "keeps (pg_accounts_ok e) (pg_RenameVA e now i n actor)"
proof -
  show "keeps (pg_accounts_ok e) (pg_CreateVirtualAccount e now va)"
  proof (rule keepsI)
    fix w r w'
    assume cr: "pg_CreateVirtualAccount e now va w = (r, w')" and ok: "pg_accounts_ok e w"
    show "pg_accounts_ok e w'"
    proof (cases r)
      case (Inl err)
      with cr have "pg_vas w' = pg_vas w"
        by (auto simp: pg_CreateVirtualAccount_def gen_uuid_def Let_def split: option.splits if_splits)
      with ok pg_accounts_cong show ?thesis by metis
    next
      case (Inr va')
      define u where "u = w\<lparr>pg_drawn := pg_drawn w + 1\<rparr>"
      obtain row where w': "pg_vas w' = fmupd (pe_random e (pg_drawn w)) row (pg_vas w)"
        and row: "VA_ID row = pe_random e (pg_drawn w)" "pg_va_unique e row u"
        using cr Inr
        by (auto simp: pg_CreateVirtualAccount_def gen_uuid_def u_def Let_def split: option.splits if_splits)
      have "set (rows_of e u (pg_vas u)) = set (rows_of e w (pg_vas w))"
        by (auto simp: in_range_vals u_def)
      with row(2) show ?thesis
        using ok row(1)
        by (intro pg_accounts_upd [OF ok w' row(1)])
          (auto simp: pg_va_unique_def pg_accounts_ok_def pg_dir_inv_def canonical_ids_def)
    qed
  qed
  show "keeps (pg_accounts_ok e) (pg_UpdateVAStatus e now i st actor)"
  proof (rule keepsI)
    fix w x w'
    assume up: "pg_UpdateVAStatus e now i st actor w = (x, w')" and ok: "pg_accounts_ok e w"
    show "pg_accounts_ok e w'"
    proof (cases "pg_vas w' = pg_vas w")
      case True
      with ok pg_accounts_cong show ?thesis by metis
    next
      case False
      from pg_UpdateVAStatus_vas [OF up this] obtain j va where j: "fmlookup (pg_vas w) j = Some va"
        and ex: "\<not> va_clash e st j va w"
        and w': "pg_vas w' = fmupd j (va\<lparr>VA_Status := st, VA_UpdatedAt := micros now\<rparr>) (pg_vas w)" by blast
      have "VA_ID va = j" "pe_uuid e j = Some j"
        using ok j by (simp_all add: pg_accounts_ok_def pg_dir_inv_def)
      with ex show ?thesis by (intro pg_accounts_upd [OF ok w']) (auto simp: va_clash_def)
    qed
  qed
  show "keeps (pg_accounts_ok e) (pg_RenameVA e now i n actor)"
  proof (rule keepsI)
    fix w x w'
    assume up: "pg_RenameVA e now i n actor w = (x, w')" and ok: "pg_accounts_ok e w"
    show "pg_accounts_ok e w'"
    proof (cases "pg_vas w' = pg_vas w")
      case True
      with ok pg_accounts_cong show ?thesis by metis
    next
      case False
      from pg_RenameVA_vas [OF up this] obtain j va where j: "fmlookup (pg_vas w) j = Some va"
        and w': "pg_vas w' = fmupd j (va\<lparr>VA_AccountName := n, VA_UpdatedAt := micros now\<rparr>) (pg_vas w)"
        by blast
      have inv: "VA_ID va = j" "pe_uuid e j = Some j" "one_active (pg_vas w)"
        and ids: "\<And>k v. fmlookup (pg_vas w) k = Some v \<Longrightarrow> VA_ID v = k"
        using ok j by (simp_all add: pg_accounts_ok_def pg_dir_inv_def)
      then show ?thesis using j
        by (intro pg_accounts_upd [OF ok w']) (auto simp: one_active_def in_range_vals)
    qed
  qed
qed

lemma pg_service_accounts:
  "keeps (pg_accounts_ok e) (ProvisionVA (pg_provisioning e P) nows rnd t c actor)"
  "keeps (pg_accounts_ok e) (RenameVA (pg_provisioning e P) nows t c n actor)"
  "keeps (pg_accounts_ok e) (CloseVA (pg_provisioning e P) nows t c actor)"
  "keeps (pg_accounts_ok e) (SuspendVA (pg_provisioning e P) nows t c actor)"
  "keeps (pg_accounts_ok e) (UnsuspendVA (pg_provisioning e P) nows t c actor)"
proof -
  have rem: "keeps (pg_accounts_ok e) (on_remote op)" for op :: "'b \<Rightarrow> 'c \<times> 'b" and e :: "'b pg_env"
    by (rule pg_accounts_leaves) (simp add: leaves_def on_remote_def pg_split)
  show "keeps (pg_accounts_ok e) (ProvisionVA (pg_provisioning e P) nows rnd t c actor)"
    "keeps (pg_accounts_ok e) (RenameVA (pg_provisioning e P) nows t c n actor)"
    "keeps (pg_accounts_ok e) (CloseVA (pg_provisioning e P) nows t c actor)"
    "keeps (pg_accounts_ok e) (SuspendVA (pg_provisioning e P) nows t c actor)"
    "keeps (pg_accounts_ok e) (UnsuspendVA (pg_provisioning e P) nows t c actor)"
    by (rule ProvisionVA_keeps RenameVA_keeps status_keeps;
        simp add: rem pg_service_defs pg_stores pg_store_accounts pg_accounts_leaves)+
qed

lemma pg_vas_stay: "op w = (r, w') \<Longrightarrow> leaves pg_vas op \<Longrightarrow> pg_vas w' = pg_vas w"
  by (rule leaves_pair)

lemma pg_step_accounts_leave:
  assumes "pg_step e P cap iv ol w w'"
  shows "pg_vas w' = pg_vas w \<or>
    (\<exists>now rnd t c actor res. ProvisionVA (pg_provisioning e P) now rnd t c actor w = (res, w')) \<or>
    (\<exists>now t c n actor res. RenameVA (pg_provisioning e P) now t c n actor w = (res, w')) \<or>
    (\<exists>now t c actor x. CloseVA (pg_provisioning e P) now t c actor w = (x, w')) \<or>
    (\<exists>now t c actor x. SuspendVA (pg_provisioning e P) now t c actor w = (x, w')) \<or>
    (\<exists>now t c actor x. UnsuspendVA (pg_provisioning e P) now t c actor w = (x, w'))"
  using assms
proof (cases rule: pg_step.cases)
  case (p_worker now)
  then show ?thesis
    using pg_frame.frame_run [of e now] by (auto simp: pg_worker_step_def split: list.splits)
next
  case (p_sweep fuel start finish clk ov r1 x)
  from pg_frame.frame_sweep_Run [OF this] show ?thesis by blast
next
  case (p_relay_job hmac http now k)
  have "pg_vas (deliver (pg_dispatcher e) hmac http now job v) = pg_vas v" for job v
    by (rule deliver_leaves) (simp add: pg_service_defs pg_stores)
  with p_relay_job show ?thesis by (simp add: pg_run_job_def Let_def)
next
  case (p_retry t0)
  have "pg_vas (RetryPending (pg_dispatcher e) t0 w) = pg_vas w"
    by (rule RetryPending_leaves) (simp add: pg_dispatcher_def pg_spawn_def)
  with p_retry show ?thesis by simp
next
  case (p_withdraw now wreq r6 x)
  from leaves_pair [OF pg_vas_leaves(7) this] show ?thesis by simp
next
  case (p_remote outside)
  then show ?thesis by simp
next
  case (p_provision now rnd t c actor r4)
  then show ?thesis by metis
next
  case (p_rename now t c n actor r5)
  then show ?thesis by metis
next
  case (p_close now t c actor x)
  then show ?thesis by metis
next
  case (p_suspend now t c actor x)
  then show ?thesis by metis
next
  case (p_unsuspend now t c actor x)
  then show ?thesis by metis
qed (rule disjI1, erule pg_vas_stay, (simp; fail))+

lemma pg_step_accounts:
  assumes "pg_step e P cap iv ol w w'" and "pg_accounts_ok e w"
  shows "pg_accounts_ok e w' \<and> va_step (pg_vas w) (pg_vas w')"
proof -
  have inv: "pg_dir_inv e w" using assms(2) by (simp add: pg_accounts_ok_def)
  from pg_step_accounts_leave [OF assms(1)] show ?thesis
  proof (elim disjE exE)
    assume "pg_vas w' = pg_vas w"
    with assms(2) pg_accounts_cong show ?thesis by (metis va_stay)
  next
    fix now rnd t c actor res
    assume "ProvisionVA (pg_provisioning e P) now rnd t c actor w = (res, w')"
    with keeps_pair [OF pg_service_accounts(1) this assms(2)] pg_prov.ProvisionVA_step [OF this inv]
    show ?thesis by simp
  next
    fix now t c n actor res
    assume "RenameVA (pg_provisioning e P) now t c n actor w = (res, w')"
    with keeps_pair [OF pg_service_accounts(2) this assms(2)] pg_prov.RenameVA_step [OF this inv]
    show ?thesis by simp
  next
    fix now t c actor x
    assume "CloseVA (pg_provisioning e P) now t c actor w = (x, w')"
    with keeps_pair [OF pg_service_accounts(3) this assms(2)] pg_prov.CloseVA_step [OF this inv]
    show ?thesis by simp
  next
    fix now t c actor x
    assume "SuspendVA (pg_provisioning e P) now t c actor w = (x, w')"
    with keeps_pair [OF pg_service_accounts(4) this assms(2)] pg_prov.SuspendVA_step [OF this inv]
    show ?thesis by simp
  next
    fix now t c actor x
    assume "UnsuspendVA (pg_provisioning e P) now t c actor w = (x, w')"
    with keeps_pair [OF pg_service_accounts(5) this assms(2)] pg_prov.UnsuspendVA_step [OF this inv]
    show ?thesis by simp
  qed
qed

lemma pg_steps_accounts:
  "pg_steps e P cap iv ol w w' \<Longrightarrow> pg_accounts_ok e w \<Longrightarrow>
     pg_accounts_ok e w' \<and> va_steps (pg_vas w) (pg_vas w')"
proof (induction rule: rtranclp_induct)
  case (step y z)
  with pg_step_accounts [of e P cap iv ol y z] show ?case by (auto intro: rtranclp.rtrancl_into_rtrancl)
qed simp

end
