(* ===== verification/Flows.thy ===== *)
theory Flows
  imports Production
begin

text \<open>
  What single requests do in the production server: credits whose customer has limits, transfers
  out and reassignments of suspense items, over the wiring of \<^verbatim>\<open>cmd/server/main.go\<close>.
\<close>

section \<open>A small database\<close>

definition demo_held :: transaction where
  "demo_held = \<lparr>Tx_ID = ''t1'', Tx_VirtualAccountID = None, Tx_SessionID = None, Tx_AmountKobo = 500,
     Tx_Direction = ''credit'', Tx_Source = ''webhook'', Tx_Status = ''posted'', Tx_SenderName = None,
     Tx_SenderBank = None, Tx_Narration = None, Tx_Raw = JNull, Tx_OccurredAt = 1000,
     Tx_CreatedAt = 1000, Tx_NUBAN = ''''\<rparr>"

definition demo_suspended :: suspense_item where
  "demo_suspended = \<lparr>SI_ID = ''i1'', SI_TransactionID = ''t1'', SI_Reason = SuspenseReasonUnmatched,
     SI_Status = ''open'', SI_ResolvedBy = None, SI_ResolvedAt = None, SI_Notes = None,
     SI_CreatedAt = 1000, SI_AmountKobo = 0, SI_NUBAN = ''''\<rparr>"

definition demo_db :: "unit pg" where
  "demo_db = (pg_init ())\<lparr>pg_customers := fmupd ''c1'' demo_customer fmempty,
     pg_identities := fmupd ''c1'' (the (Cust_Identity demo_customer)) fmempty,
     pg_txns := fmupd ''t1'' demo_held fmempty, pg_suspense := fmupd ''i1'' demo_suspended fmempty,
     pg_entries := two_entries ''t1'' AccountNombaSettlement AccountSuspense 500
        @ two_entries ''t0'' AccountNombaSettlement (CustomerWalletAccount ''c1'') 700\<rparr>"

definition demo_account :: virtual_account where
  "demo_account = \<lparr>VA_ID = ''v1'', VA_CustomerID = ''c1'', VA_NombaAccountRef = ''r1'', VA_NUBAN = ''0000000001'',
     VA_BankName = '''', VA_AccountName = '''', VA_NombaHolderID = '''', VA_Status = VAStatusActive,
     VA_CreatedAt = 0, VA_UpdatedAt = 0, VA_CustomerDisplayName = '''', VA_TenantName = ''''\<rparr>"

definition demo_target :: resolve_request where
  "demo_target = \<lparr>RR_Resolution = ''reassign'', RR_TargetCustomerID = ''c1'', RR_Notes = '''',
     RR_Actor = ''ops'', RR_TenantID = ''t1''\<rparr>"

lemma demo_reassign:
  "\<exists>w1. resolveByReassign (pg_suspense_service demo_env) (\<lambda>k. 5000) demo_suspended demo_target demo_db
     = (None, w1)"
  by (simp add: resolveByReassign_def pg_suspense_service_def pg_stores pg_GetCustomer_def
      scanCustomer_def pg_row_def pg_customer_row_def wrap_err_def pg_GetTransaction_def
      pg_PostTransaction_def assertBalanced_def txn_row_def uuid_opt_def va_exists_def entry_ok_def
      SuspenseToCustomer_def reassign_finish_def pg_ResolveSuspenseItem_def resolution_tx_def 
      pg_GetActiveVA_def pg_find_va_def range_vals_def range_keys_def Let_def resolutionTxID_def
      demo_db_def demo_target_def demo_suspended_def demo_held_def demo_customer_def demo_defs)

definition demo_withdrawal :: withdrawal_request where
  "demo_withdrawal = \<lparr>WR_CustomerID = ''c1'', WR_TenantID = ''t1'', WR_AmountKobo = 300,
     WR_DestinationBankCode = ''044'', WR_DestinationAccountNumber = ''0690000040'',
     WR_DestinationAccountName = ''Ada'', WR_Narration = ''''\<rparr>"

lemma demo_withdraw:
  "\<exists>r w1. Initiate (pg_withdrawal_service demo_env demo_provider) (\<lambda>k. 5000) demo_withdrawal demo_db
     = ((r, None), w1)"
proof -
  let ?s = "pg_withdrawal_service demo_env demo_provider"
  have bal: "exact_balance (CustomerWalletAccount ''c1'') (pg_entries demo_db) = 700"
    by (simp add: demo_db_def two_entries_balance)
  obtain wd w1 where cr: "wd_CreateWithdrawal (wi_withdrawals ?s) 5000 (new_withdrawal demo_withdrawal None)
      demo_db = (Inr wd, w1)" "pg_txns w1 = pg_txns demo_db" "Wd_ID wd = (dec_nat 0)"
    by (simp add: pg_wiring pg_stores pg_CreateWithdrawal_def new_withdrawal_def demo_db_def
        demo_withdrawal_def json_of_request_def demo_defs gen_uuid_def uuid_opt_def jsonb_opt_def va_exists_def Let_def)
  obtain resp where tr: "pv_Transfer (wi_prov ?s) (transfer_of demo_withdrawal (dec_nat 0)) w = (Inr resp, w)" for w
    by (simp add: pg_wiring remote_provider_def demo_provider_def transfer_of_def fake_Transfer_def on_remote_def Let_def)
  obtain w2 where post: "xs_PostTransaction (wi_txns ?s) 5000 (withdrawal_tx 5000 demo_withdrawal None (dec_nat 0))
      (two_entries (withdrawalTxID (dec_nat 0)) (CustomerWalletAccount ''c1'') AccountNombaSettlement 300) w1 = (Inr True, w2)"
    by (simp add: pg_wiring pg_stores pg_PostTransaction_def assertBalanced_def txn_row_def uuid_opt_def
        va_exists_def entry_ok_def withdrawal_tx_def demo_withdrawal_def demo_env_def two_entries_def
        withdrawalTxID_def cr(2) demo_db_def)
  have "settle ?s (\<lambda>k. 5000) demo_withdrawal None wd resp w1 = ((r, None), snd (wd_UpdateWithdrawalStatus (wi_withdrawals ?s) 5000 (Wd_ID wd)
                     ''completed'' (Some (TRsp_TransactionID resp)) (Some (TRsp_SessionID resp)) None w2))" 
    if "r = Some (wd\<lparr>Wd_Status := ''completed'',
                            Wd_ProviderTransactionID := Some (TRsp_TransactionID resp),
                            Wd_ProviderSessionID := Some (TRsp_SessionID resp)\<rparr>)" for r
    using post cr(3) that
    by (simp add: settle_def WithdrawCustomer_def demo_withdrawal_def two_entries_def Let_def)
  moreover have "cs_GetCustomer (wi_customers ?s) ''t1'' ''c1'' demo_db = Inr (Some demo_customer)"
    "xs_GetBalance (wi_txns ?s) (CustomerWalletAccount ''c1'') demo_db = Inr 700"
    "vs_GetActiveVA (wi_accounts ?s) ''c1'' demo_db = Inr None"
    using bal by (simp_all add: pg_wiring pg_stores pg_GetCustomer_def scanCustomer_def pg_row_def
        pg_customer_row_def pg_GetBalance_def scan_sum_def fits64_def wrap_err_def pg_GetActiveVA_def
        pg_find_va_def demo_env_def) (simp_all add: demo_db_def demo_customer_def pg_init_def)
  moreover have "validate_request demo_withdrawal = None"
    "WR_CustomerID demo_withdrawal = ''c1''" "WR_TenantID demo_withdrawal = ''t1''"
    "WR_AmountKobo demo_withdrawal = 300"
    by (simp_all add: validate_request_def demo_withdrawal_def)
  ultimately show ?thesis
    using cr(1,3) tr by (simp add: Initiate_def)
qed

section \<open>Limits and relays in production\<close>

lemma pg_no_tenant:
  "pe_uuid e '''' = None \<Longrightarrow> \<exists>err. pg_GetCustomer e '''' c w = Inl err"
  by (auto simp: pg_GetCustomer_def wrap_err_def scanCustomer_def pg_row_def)

text \<open>
  C22: In production the tier limits are never enforced and tenants are never notified. The worker
  asks for the customer with an empty tenant, which the Postgres repository compares with a UUID
  column: the empty text is not a UUID, so the lookup fails, and the worker takes the failure for
  "no limits" and for "nobody to notify". Whatever limits are configured, a credit is routed
  exactly as the matcher says, and the relay step does nothing.
\<close>

theorem production_skips_limits:
  assumes "pe_uuid e '''' = None"
  shows "route_credit (pg_worker e) now pt w =
           (case Match (pg_matcher e) pt w of Inl err \<Rightarrow> Inl (Wrap ''match'' err) | Inr r \<Rightarrow> Inr r) \<and>
         dispatchRelay (pg_worker e) d r pt ev w = w"
proof -
  have "\<forall>c. \<exists>err. pg_GetCustomer e '''' c w = Inl err" using pg_no_tenant [OF assms] by blast
  then obtain f where f: "\<And>c. pg_GetCustomer e '''' c w = Inl (f c)" by metis
  show ?thesis
    by (auto simp: route_credit_def dispatchRelay_def pg_worker_def pg_customer_store_def f
        split: sum.splits)
qed

theorem production_skips_limits_witness:
  "route_credit (pg_worker demo_env) 5000 demo_pt ((pg_init ())\<lparr>pg_rt := runtime_init\<lparr>rt_limits :=
       fmupd 1 \<lparr>TL_DailyCreditKobo = 1, TL_MaxBalanceKobo = 1\<rparr> fmempty\<rparr>\<rparr>) =
     (case Match (pg_matcher demo_env) demo_pt ((pg_init ())\<lparr>pg_rt := runtime_init\<lparr>rt_limits :=
       fmupd 1 \<lparr>TL_DailyCreditKobo = 1, TL_MaxBalanceKobo = 1\<rparr> fmempty\<rparr>\<rparr>) of
        Inl err \<Rightarrow> Inl (Wrap ''match'' err) | Inr r \<Rightarrow> Inr r)"
  using production_skips_limits [of demo_env] by (simp add: demo_env_def)

section \<open>Withdrawals in production\<close>

text \<open>
  C15: A withdrawal run by itself never overdraws the wallet: if the exact balance of the customer's
  wallet was not negative (and fits an int64), it is not negative afterwards, whatever the provider
  and the database answer; no other wallet and no suspense balance changes; and when the request
  ends with an error the ledger is exactly as before.
\<close>

theorem withdrawal_covered:
  assumes "Initiate (pg_withdrawal_service e P) now req w = ((r, x), w')"
    and "fits64 (exact_balance (CustomerWalletAccount (WR_CustomerID req)) (pg_entries w))"
    and "0 \<le> exact_balance (CustomerWalletAccount (WR_CustomerID req)) (pg_entries w)"
  shows "0 \<le> exact_balance (CustomerWalletAccount (WR_CustomerID req)) (pg_entries w') \<and>
    (\<forall>a. a \<notin> {CustomerWalletAccount (WR_CustomerID req), AccountNombaSettlement} \<longrightarrow>
       exact_balance a (pg_entries w') = exact_balance a (pg_entries w)) \<and>
    (if x \<noteq> None then pg_view w' = pg_view w
     else \<exists>wd. r = Some wd \<and> Wd_Status wd = ''completed'')"
proof -
  have "0 \<le> exact_balance (CustomerWalletAccount (WR_CustomerID req)) (pg_entries w')"
    by (rule pg_wd.Initiate_covers [OF assms(1,2) refl assms(3)])
  moreover have "(\<forall>a. a \<notin> {CustomerWalletAccount (WR_CustomerID req), AccountNombaSettlement} \<longrightarrow>
       exact_balance a (pg_entries w') = exact_balance a (pg_entries w)) \<and>
    (if x \<noteq> None then pg_view w' = pg_view w else \<exists>wd. r = Some wd \<and> Wd_Status wd = ''completed'')"
    using assms(1)
  proof (rule pg_wd.Initiate_post)
    fix wd va es b w1 w2
    assume es: "WithdrawCustomer (withdrawalTxID (Wd_ID wd)) (WR_CustomerID req) (WR_AmountKobo req) = Inr es"
      and post: "xs_PostTransaction (pg_transaction_store e) (now 3) (withdrawal_tx (now 2) req va (Wd_ID wd)) es w1
        = (Inr b, w2)" and "pg_entries w1 = pg_entries w" "pg_entries w' = pg_entries w2" "x = None"
        "\<exists>wd'. r = Some wd' \<and> Wd_Status wd' = ''completed''"
    moreover have "pg_entries w2 = pg_entries w1 @ (if b then es else [])"
      using pg_ledger.post_new [of e "now 3" "withdrawal_tx (now 2) req va (Wd_ID wd)" es w1 w2]
        pg_ledger.post_dup [of e "now 3" "withdrawal_tx (now 2) req va (Wd_ID wd)" es w1 w2] post
      by (cases b) auto
    ultimately show ?thesis
      using withdraw_customer.exact_moves [OF es] by auto
  qed auto
  ultimately show ?thesis by simp
qed

section \<open>Reassignments\<close>

lemma reassign_moves:
  assumes first: "resolveByReassign (pg_suspense_service e) now item req w = (None, w1)"
    and new: "fmlookup (pg_txns w) (resolutionTxID (SI_ID item)) = None"
  obtains t where "fmlookup (pg_txns w) (SI_TransactionID item) = Some t"
    and "\<And>a. exact_balance a (pg_entries w1) = exact_balance a (pg_entries w) +
         (if a = AccountSuspense then - sint (Tx_AmountKobo t)
          else if a = CustomerWalletAccount (RR_TargetCustomerID req) then sint (Tx_AmountKobo t) else 0)"
    and "fmlookup (pg_txns w1) (resolutionTxID (SI_ID item)) \<noteq> None"
  using first
proof (rule pg_susp.reassign_post)
  fix t es va b v
  assume t: "fmlookup (pg_txns w) (SI_TransactionID item) = Some t"
    and es: "SuspenseToCustomer (resolutionTxID (SI_ID item)) (RR_TargetCustomerID req) (Tx_AmountKobo t) = Inr es"
    and post: "xs_PostTransaction (pg_transaction_store e) (now 1) (resolution_tx now item req t va) es w = (Inr b, v)"
    and fin: "reassign_finish (pg_suspense_service e) now item req v = (None, w1)"
  have b: "b" using pg_ledger.post_fresh [OF post] new by simp
  note v = pg_susp.finish_view [OF fin]
  have "pg_entries v = pg_entries w @ es" "fmlookup (pg_txns v) (resolutionTxID (SI_ID item)) \<noteq> None"
    using pg_ledger.post_new [of e "now 1" "resolution_tx now item req t va" es w v] post b by auto
  with v that [OF t] suspense_to_customer.exact_moves [OF es] show thesis by simp
qed simp

text \<open>
  C19: The funds of a suspense item are reassigned exactly once. When a reassignment succeeds and
  its resolution identifier was new, the amount of the original transaction has moved from suspense
  to the target customer's wallet and nowhere else; and whatever the server does afterwards, a
  second reassignment of the same item, even one that read the item while it was still open and
  names another customer, leaves the whole ledger as it finds it.
\<close>

theorem reassign_moves_once:
  assumes first: "resolveByReassign (pg_suspense_service e) now item req w = (None, w1)"
    and new: "fmlookup (pg_txns w) (resolutionTxID (SI_ID item)) = None"
    and steps: "pg_steps e P cap iv ol w1 w2"
    and again: "resolveByReassign (pg_suspense_service e) now' item req' w2 = (x, w3)"
  shows "(\<exists>t. fmlookup (pg_txns w) (SI_TransactionID item) = Some t \<and>
      (\<forall>a. exact_balance a (pg_entries w1) = exact_balance a (pg_entries w) +
         (if a = AccountSuspense then - sint (Tx_AmountKobo t)
          else if a = CustomerWalletAccount (RR_TargetCustomerID req) then sint (Tx_AmountKobo t) else 0))) \<and>
    pg_view w3 = pg_view w2"
proof -
  obtain t where t: "fmlookup (pg_txns w) (SI_TransactionID item) = Some t"
    and mv: "\<And>a. exact_balance a (pg_entries w1) = exact_balance a (pg_entries w) +
         (if a = AccountSuspense then - sint (Tx_AmountKobo t)
          else if a = CustomerWalletAccount (RR_TargetCustomerID req) then sint (Tx_AmountKobo t) else 0)"
    and known: "fmlookup (pg_txns w1) (resolutionTxID (SI_ID item)) \<noteq> None"
    using reassign_moves [OF first new] by blast
  from known have "fmlookup (pg_txns w2) (resolutionTxID (SI_ID item)) \<noteq> None"
    using ledger_steps_entries_of [OF pg_steps_ledger [OF steps], of "resolutionTxID (SI_ID item)"] by simp
  then have "pg_view w3 = pg_view w2"
    using again
    by (elim pg_susp.reassign_post)
      (auto dest!: pg_susp.finish_view dest: pg_ledger.post_seen [rotated])
  with t mv show ?thesis by blast
qed

theorem withdrawal_covered_witness:
  "\<exists>r w1. Initiate (pg_withdrawal_service demo_env demo_provider) (\<lambda>k. 5000) demo_withdrawal demo_db
       = ((r, None), w1) \<and>
     0 \<le> exact_balance (CustomerWalletAccount ''c1'') (pg_entries w1) \<and>
     exact_balance AccountSuspense (pg_entries w1) = 500"
proof -
  obtain r w1 where i: "Initiate (pg_withdrawal_service demo_env demo_provider) (\<lambda>k. 5000)
      demo_withdrawal demo_db = ((r, None), w1)" using demo_withdraw by blast
  have "WR_CustomerID demo_withdrawal = ''c1''" by (simp add: demo_withdrawal_def)
  with withdrawal_covered [OF i] i show ?thesis
    by (simp add: demo_db_def two_entries_balance fits64_def)
qed

theorem reassign_moves_once_witness:
  "\<exists>w1. resolveByReassign (pg_suspense_service demo_env) (\<lambda>k. 5000) demo_suspended demo_target demo_db
       = (None, w1) \<and>
     exact_balance (CustomerWalletAccount ''c1'') (pg_entries w1) = 1200 \<and>
     pg_view (snd (resolveByReassign (pg_suspense_service demo_env) (\<lambda>k. 6000) demo_suspended
       demo_target w1)) = pg_view w1"
proof -
  obtain w1 where r: "resolveByReassign (pg_suspense_service demo_env) (\<lambda>k. 5000) demo_suspended
      demo_target demo_db = (None, w1)" using demo_reassign by blast
  have new: "fmlookup (pg_txns demo_db) (resolutionTxID (SI_ID demo_suspended)) = None"
    by (simp add: demo_db_def pg_init_def resolutionTxID_def)
  have t: "SI_TransactionID demo_suspended = ''t1''" "RR_TargetCustomerID demo_target = ''c1''"
    "fmlookup (pg_txns demo_db) ''t1'' = Some demo_held" "Tx_AmountKobo demo_held = 500"
    by (simp_all add: demo_suspended_def demo_target_def demo_db_def demo_held_def)
  have steps: "pg_steps demo_env demo_provider 10 0 0 w1 w1" by simp
  from reassign_moves_once [OF r new steps surjective_pairing, of "\<lambda>k. 6000" demo_target] r t
  show ?thesis by (simp add: demo_db_def two_entries_balance)
qed

end
