(* ===== verification/Races.thy ===== *)
theory Races
  imports Flows
begin

text \<open>
  Requests inside their handlers. Elsewhere a request is one step; here a withdrawal is taken apart
  into the calls it makes to the stores and to the provider (\<^verbatim>\<open>service/withdrawal.go\<close>), and a
  resolution into reading the item and acting on it (\<^verbatim>\<open>service/suspense.go\<close>), so that the calls of
  any number of requests interleave with each other and with everything else the server does.
  Run without interruption the phases are the service; the code holds no lock between them.
\<close>

section \<open>A withdrawal call by call\<close>

text \<open>
  Where a withdrawal is: it has found the customer (\<open>W_Known\<close>), its amount was covered by the balance
  (\<open>W_Covered\<close>), it has the account for its record (\<open>W_Account\<close>), the record is written
  (\<open>W_Recorded\<close>), the provider has refused (\<open>W_Rejected\<close>) or paid (\<open>W_Paid\<close>), the ledger is written
  (\<open>W_Posted\<close>), it has returned (\<open>W_Done\<close>).
\<close>

datatype wd_phase =
    W_Start
  | W_Known
  | W_Covered
  | W_Account "string option"
  | W_Recorded "string option" withdrawal
  | W_Rejected withdrawal go_error
  | W_Paid "string option" withdrawal transfer_response
  | W_Posted withdrawal transfer_response
  | W_Done "withdrawal option \<times> go_error option"

fun wd_next :: "'w withdrawal_service \<Rightarrow> (nat \<Rightarrow> time) \<Rightarrow> withdrawal_request \<Rightarrow> wd_phase \<Rightarrow> 'w
    \<Rightarrow> wd_phase \<times> 'w" where
  "wd_next s now req W_Start w =
     (case validate_request req of
        Some err \<Rightarrow> (W_Done (None, Some err), w)
      | None \<Rightarrow>
          (case cs_GetCustomer (wi_customers s) (WR_TenantID req) (WR_CustomerID req) w of
             Inr (Some customer) \<Rightarrow> (W_Known, w)
           | _ \<Rightarrow> (W_Done (None, Some (NotFoundError ''customer'' (WR_CustomerID req))), w)))"
| "wd_next s now req W_Known w =
     (case xs_GetBalance (wi_txns s) (CustomerWalletAccount (WR_CustomerID req)) w of
        Inl err \<Rightarrow> (W_Done (None, Some (Wrap ''withdrawal: get balance'' err)), w)
      | Inr bal \<Rightarrow>
          if sint bal < sint (WR_AmountKobo req)
          then (W_Done (None, Some (insufficient bal (WR_AmountKobo req))), w)
          else (W_Covered, w))"
| "wd_next s now req W_Covered w =
     (W_Account (case vs_GetActiveVA (wi_accounts s) (WR_CustomerID req) w of
                   Inr (Some va) \<Rightarrow> Some (VA_ID va) | _ \<Rightarrow> None), w)"
| "wd_next s now req (W_Account vaID) w =
     (case wd_CreateWithdrawal (wi_withdrawals s) (now 0) (new_withdrawal req vaID) w of
        (Inl err, w) \<Rightarrow> (W_Done (None, Some (Wrap ''withdrawal: create record'' err)), w)
      | (Inr wd, w) \<Rightarrow> (W_Recorded vaID wd, w))"
| "wd_next s now req (W_Recorded vaID wd) w =
     (case pv_Transfer (wi_prov s) (transfer_of req (Wd_ID wd)) w of
        (Inl err, w) \<Rightarrow> (W_Rejected wd err, w)
      | (Inr resp, w) \<Rightarrow> (W_Paid vaID wd resp, w))"
| "wd_next s now req (W_Rejected wd err) w =
     (let reason = error_string err
      in (W_Done (Some (wd\<lparr>Wd_Status := ''failed'', Wd_FailureReason := Some reason\<rparr>),
                  Some (Wrap ''withdrawal: provider transfer'' err)),
          snd (wd_UpdateWithdrawalStatus (wi_withdrawals s) (now 1) (Wd_ID wd) ''failed'' None None
                 (Some reason) w)))"
| "wd_next s now req (W_Paid vaID wd resp) w =
     (case WithdrawCustomer (withdrawalTxID (Wd_ID wd)) (WR_CustomerID req) (WR_AmountKobo req) of
        Inl err \<Rightarrow> (W_Done (None, Some err), w)
      | Inr entries \<Rightarrow>
          (case xs_PostTransaction (wi_txns s) (now 3) (withdrawal_tx (now 2) req vaID (Wd_ID wd)) entries w of
             (Inl err, w) \<Rightarrow> (W_Done (None, Some (Wrap ''withdrawal: post ledger'' err)), w)
           | (Inr created, w) \<Rightarrow> (W_Posted wd resp, w)))"
| "wd_next s now req (W_Posted wd resp) w =
     (W_Done (Some (wd\<lparr>Wd_Status := ''completed'',
                       Wd_ProviderTransactionID := Some (TRsp_TransactionID resp),
                       Wd_ProviderSessionID := Some (TRsp_SessionID resp)\<rparr>), None),
      snd (wd_UpdateWithdrawalStatus (wi_withdrawals s) (now 4) (Wd_ID wd) ''completed''
             (Some (TRsp_TransactionID resp)) (Some (TRsp_SessionID resp)) None w))"
| "wd_next s now req (W_Done r) w = (W_Done r, w)"

definition wd_turn :: "'w withdrawal_service \<Rightarrow> (nat \<Rightarrow> time) \<Rightarrow> withdrawal_request \<Rightarrow> wd_phase \<times> 'w
    \<Rightarrow> wd_phase \<times> 'w" where
  "wd_turn s now req x = wd_next s now req (fst x) (snd x)"

fun wd_turns :: "'w withdrawal_service \<Rightarrow> (nat \<Rightarrow> time) \<Rightarrow> withdrawal_request \<Rightarrow> nat \<Rightarrow> wd_phase \<times> 'w
    \<Rightarrow> wd_phase \<times> 'w" where
  "wd_turns s now req 0 x = x"
| "wd_turns s now req (Suc n) x = wd_turns s now req n (wd_turn s now req x)"

lemma wd_turns_Done [simp]: "wd_turns s now req n (W_Done r, w) = (W_Done r, w)"
  by (induction n) (simp_all add: wd_turn_def)

lemma wd_turns_add: "wd_turns s now req (m + n) x = wd_turns s now req n (wd_turns s now req m x)"
  by (induction m arbitrary: x) simp_all

lemma wd_turns_numeral: "wd_turns s now req (numeral k) x = wd_turns s now req (pred_numeral k) (wd_turn s now req x)"
  by (simp add: numeral_eq_Suc)

text \<open>
  The phases are the service: seven turns of a withdrawal that nothing interrupts take it from
  its start to the result and the world of \<open>Initiate\<close>, on every branch.
\<close>

theorem phases_are_Initiate:
  "wd_turns s now req 7 (W_Start, w) = (case Initiate s now req w of (r, w') \<Rightarrow> (W_Done r, w'))"
  by (simp add: Initiate_def wd_turns_numeral wd_turn_def settle_def Let_def
      split: option.splits sum.splits prod.splits)

section \<open>A resolution call by call\<close>

text \<open>
  \<open>R_Read\<close> holds the item as it was read; a reassignment then finds the customer (\<open>R_Target\<close>) and the
  transaction (\<open>R_Original\<close>), reads the account of the customer (\<open>R_Account\<close>), writes the ledger
  (\<open>R_Posted\<close>) and the status of the item (\<open>R_Resolved\<close>, with what the audit entry says of it).
\<close>

datatype rs_phase =
    R_Start
  | R_Read suspense_item
  | R_Target suspense_item
  | R_Original suspense_item transaction
  | R_Account suspense_item transaction "string option"
  | R_Posted suspense_item
  | R_Resolved suspense_item json
  | R_Done "go_error option"

definition set_status :: "'w suspense_service \<Rightarrow> time \<Rightarrow> suspense_item \<Rightarrow> resolve_request \<Rightarrow> string \<Rightarrow> json
    \<Rightarrow> 'w \<Rightarrow> rs_phase \<times> 'w" where
  "set_status s now item req status after w =
     (case ss_ResolveSuspenseItem (sp_suspense s) now (SI_ID item) status (RR_Actor req) (RR_Notes req) w of
        (Some err, w) \<Rightarrow> (R_Done (Some (Wrap ''suspense: update status'' err)), w)
      | (None, w) \<Rightarrow> (R_Resolved item after, w))"

fun rs_next :: "'w suspense_service \<Rightarrow> (nat \<Rightarrow> time) \<Rightarrow> string \<Rightarrow> resolve_request \<Rightarrow> rs_phase \<Rightarrow> 'w
    \<Rightarrow> rs_phase \<times> 'w" where
  "rs_next s now itemID req R_Start w =
     (case ss_GetSuspenseItem (sp_suspense s) itemID w of
        Inl err \<Rightarrow> (R_Done (Some (Wrap ''suspense: get item'' err)), w)
      | Inr None \<Rightarrow> (R_Done (Some (NotFoundError ''suspense_item'' itemID)), w)
      | Inr (Some item) \<Rightarrow>
          if SI_Status item \<noteq> ''open''
          then (R_Done (Some (ValidationError ''status'' ''suspense item is already resolved'')), w)
          else (R_Read item, w))"
| "rs_next s now itemID req (R_Read item) w =
     (if RR_Resolution req = ''reassign''
      then if RR_TargetCustomerID req = ''''
           then (R_Done (Some (ValidationError ''target_customer_id'' ''required for reassign'')), w)
           else (case cs_GetCustomer (sp_customers s) (RR_TenantID req) (RR_TargetCustomerID req) w of
                   Inl err \<Rightarrow> (R_Done (Some (Wrap ''suspense: get target customer'' err)), w)
                 | Inr None \<Rightarrow> (R_Done (Some (NotFoundError ''customer'' (RR_TargetCustomerID req))), w)
                 | Inr (Some customer) \<Rightarrow> (R_Target item, w))
      else if RR_Resolution req = ''refund_flagged''
      then set_status s (now 2) item req ''refund_flagged''
             (JObj [(''notes'', JStr (RR_Notes req)), (''status'', JStr ''refund_flagged'')]) w
      else (R_Done (Some (ValidationError ''resolution''
              (''must be '' @ [CHR 0x27] @ ''reassign'' @ [CHR 0x27] @ '' or ''
               @ [CHR 0x27] @ ''refund_flagged'' @ [CHR 0x27]))), w))"
| "rs_next s now itemID req (R_Target item) w =
     (case xs_GetTransaction (sp_txns s) (SI_TransactionID item) w of
        Inl err \<Rightarrow> (R_Done (Some (Wrap ''suspense: get original transaction'' err)), w)
      | Inr None \<Rightarrow> (R_Done (Some (Errorf ''suspense: get original transaction: %!w(<nil>)'')), w)
      | Inr (Some t) \<Rightarrow>
          (case SuspenseToCustomer (resolutionTxID (SI_ID item)) (RR_TargetCustomerID req) (Tx_AmountKobo t) of
             Inl err \<Rightarrow> (R_Done (Some err), w)
           | Inr entries \<Rightarrow> (R_Original item t, w)))"
| "rs_next s now itemID req (R_Original item t) w =
     (R_Account item t (case vs_GetActiveVA (sp_accounts s) (RR_TargetCustomerID req) w of
                          Inr (Some va) \<Rightarrow> Some (VA_ID va) | _ \<Rightarrow> None), w)"
| "rs_next s now itemID req (R_Account item t vaID) w =
     (case SuspenseToCustomer (resolutionTxID (SI_ID item)) (RR_TargetCustomerID req) (Tx_AmountKobo t) of
        Inl err \<Rightarrow> (R_Done (Some err), w)
      | Inr entries \<Rightarrow>
          (case xs_PostTransaction (sp_txns s) (now 1) (resolution_tx now item req t vaID) entries w of
             (Inl err, w) \<Rightarrow> (R_Done (Some (Wrap ''suspense: post resolution entries'' err)), w)
           | (Inr created, w) \<Rightarrow> (R_Posted item, w)))"
| "rs_next s now itemID req (R_Posted item) w =
     set_status s (now 2) item req ''reassigned''
       (JObj [(''notes'', JStr (RR_Notes req)), (''status'', JStr ''reassigned''),
              (''target_customer'', JStr (RR_TargetCustomerID req))]) w"
| "rs_next s now itemID req (R_Resolved item after) w =
     (R_Done None, snd (as_Append (sp_audit s) (now 3)
        (audit_of (RR_TenantID req) (RR_Actor req) ''suspense_resolve'' ''suspense_item'' (SI_ID item)
           (before_after (JObj [(''status'', JStr ''open'')]) after)) w))"
| "rs_next s now itemID req (R_Done r) w = (R_Done r, w)"

fun rs_turns :: "'w suspense_service \<Rightarrow> (nat \<Rightarrow> time) \<Rightarrow> string \<Rightarrow> resolve_request \<Rightarrow> nat \<Rightarrow> rs_phase \<times> 'w
    \<Rightarrow> rs_phase \<times> 'w" where
  "rs_turns s now itemID req 0 x = x"
| "rs_turns s now itemID req (Suc n) x =
     rs_turns s now itemID req n (rs_next s now itemID req (fst x) (snd x))"

lemma rs_turns_Done [simp]: "rs_turns s now i req n (R_Done r, w) = (R_Done r, w)"
  by (induction n) simp_all

lemma rs_turns_numeral:
  "rs_turns s now i req (numeral k) x =
     rs_turns s now i req (pred_numeral k) (rs_next s now i req (fst x) (snd x))"
  by (simp add: numeral_eq_Suc)

lemma turns_finish:
  "rs_turns s now i req 2 (R_Posted item, w) = (case reassign_finish s now item req w of (r, w') \<Rightarrow> (R_Done r, w'))"
  by (simp add: reassign_finish_def rs_turns_numeral set_status_def split: option.split prod.split)

lemma rs_turns_two: "rs_turns s now i req (Suc (Suc n)) x =
    rs_turns s now i req n (case rs_next s now i req (fst x) (snd x) of (p, w) \<Rightarrow> rs_next s now i req p w)"
  by (simp split: prod.split)

lemma turns_original:
  assumes "SuspenseToCustomer (resolutionTxID (SI_ID item)) (RR_TargetCustomerID req) (Tx_AmountKobo t) = Inr entries"
  shows "rs_turns s now i req 4 (R_Original item t, w) =
    (case xs_PostTransaction (sp_txns s) (now 1) (resolution_tx now item req t
        (case vs_GetActiveVA (sp_accounts s) (RR_TargetCustomerID req) w of Inr (Some va) \<Rightarrow> Some (VA_ID va) | _ \<Rightarrow> None))
        entries w of
       (Inl err, w) \<Rightarrow> (R_Done (Some (Wrap ''suspense: post resolution entries'' err)), w)
     | (Inr created, w) \<Rightarrow> (case reassign_finish s now item req w of (r, w') \<Rightarrow> (R_Done r, w')))"
proof -
  have four: "(4::nat) = Suc (Suc 2)" by simp
  show ?thesis unfolding four rs_turns_two using assms by (simp add: turns_finish split: sum.split prod.split)
qed

lemma turns_reassign:
  assumes "RR_Resolution req = ''reassign''"
  shows "rs_turns s now i req 6 (R_Read item, w) = (case resolveByReassign s now item req w of (r, w') \<Rightarrow> (R_Done r, w'))"
proof -
  have six: "(6::nat) = Suc (Suc 4)" by simp
  show ?thesis
    unfolding six rs_turns_two resolveByReassign_def using assms
    by (simp add: turns_original Let_def split: option.split sum.split prod.split)
qed

lemma turns_refund:
  assumes "RR_Resolution req \<noteq> ''reassign''" and "RR_Resolution req = ''refund_flagged''"
  shows "rs_turns s now i req 6 (R_Read item, w) = (case resolveByRefundFlag s now item req w of (r, w') \<Rightarrow> (R_Done r, w'))"
  using assms
  by (simp add: resolveByRefundFlag_def rs_turns_numeral set_status_def split: option.split prod.split)

lemma phases_are_Resolve:
  "rs_turns s now i req 7 (R_Start, w) = (case Resolve s now i req w of (r, w') \<Rightarrow> (R_Done r, w'))"
proof -
  have "rs_turns s now i req 7 x = rs_turns s now i req 6 (rs_turns s now i req 1 x)" for x :: "rs_phase \<times> 'a"
    by (simp add: rs_turns_numeral)
  moreover have "rs_turns s now i req 6 (R_Read item, w) = (R_Done (Some err), w)"
    if "RR_Resolution req \<noteq> ''reassign''" "RR_Resolution req \<noteq> ''refund_flagged''"
      "rs_next s now i req (R_Read item) w = (R_Done (Some err), w)" for item err
    using that(3) by (simp add: rs_turns_numeral)
  ultimately show ?thesis
    by (simp add: Resolve_def turns_reassign turns_refund split: option.split sum.split)
qed

section \<open>Interleavings\<close>

datatype task =
    Withdrawing withdrawal_request wd_phase
  | Resolving string resolve_request rs_phase

fun task_next :: "'w withdrawal_service \<Rightarrow> 'w suspense_service \<Rightarrow> (nat \<Rightarrow> time) \<Rightarrow> task \<Rightarrow> 'w \<Rightarrow> task \<times> 'w" where
  "task_next wi sp now (Withdrawing req p) w = (let (p, w) = wd_next wi now req p w in (Withdrawing req p, w))"
| "task_next wi sp now (Resolving i req p) w = (let (p, w) = rs_next sp now i req p w in (Resolving i req p, w))"

text \<open>Any of the running requests makes its next call, or something else happens on the server.\<close>

inductive race_step :: "'e pg_env \<Rightarrow> 'e provider \<Rightarrow> (nat \<Rightarrow> task) \<times> 'e pg \<Rightarrow> (nat \<Rightarrow> task) \<times> 'e pg \<Rightarrow> bool"
  for e P where
  r_task: "task_next (pg_withdrawal_service e P) (pg_suspense_service e) now (ts i) w = (t, w') \<Longrightarrow>
     race_step e P (ts, w) (ts(i := t), w')"
| r_other: "pg_step e P cap iv ol w w' \<Longrightarrow> race_step e P (ts, w) (ts, w')"

abbreviation race_steps :: "'e pg_env \<Rightarrow> 'e provider \<Rightarrow> (nat \<Rightarrow> task) \<times> 'e pg \<Rightarrow> (nat \<Rightarrow> task) \<times> 'e pg \<Rightarrow> bool" where
  "race_steps e P \<equiv> (race_step e P)\<^sup>*\<^sup>*"

section \<open>The ledger under interleaving\<close>

context withdrawal_ledger begin

lemma transfer_view:
  "pv_Transfer (wi_prov s) req w = (r, w') \<Longrightarrow> txns w' = txns w \<and> entries w' = entries w"
  using leavesD [OF transfer_leaves, of req w] by simp

lemma create_view:
  "wd_CreateWithdrawal (wi_withdrawals s) now wd w = (r, w') \<Longrightarrow> txns w' = txns w \<and> entries w' = entries w"
  using leavesD [OF create_leaves, of now wd w] by simp

lemma wd_next_step:
  assumes "wd_next s now req p w = (p', w')"
  shows "ledger_step (txns w, entries w) (txns w', entries w')"
proof (cases p)
  case (W_Paid va wd resp)
  show ?thesis
  proof (cases "WithdrawCustomer (withdrawalTxID (Wd_ID wd)) (WR_CustomerID req) (WR_AmountKobo req)")
    case (Inr es)
    with assms W_Paid obtain r where
      "xs_PostTransaction X (now 3) (withdrawal_tx (now 2) req va (Wd_ID wd)) es w = (r, w')"
      by (auto simp: wi_X split: sum.splits prod.splits)
    from post_step [OF this] withdraw_customer.well_formed [OF Inr] show ?thesis by simp
  qed (use assms W_Paid in \<open>simp add: ledger_step.stay\<close>)
qed (use assms in \<open>auto simp: update_view Let_def intro: ledger_step.stay dest!: transfer_view create_view
      split: option.splits sum.splits prod.splits if_splits\<close>)

end

context suspense_ledger begin

lemma set_status_view:
  "set_status s now item req status after w = (p, w') \<Longrightarrow> txns w' = txns w \<and> entries w' = entries w"
  by (auto simp: set_status_def dest!: resolve_view split: prod.splits option.splits)

lemma rs_next_step:
  assumes "rs_next s now i req p w = (p', w')"
  shows "ledger_step (txns w, entries w) (txns w', entries w')"
proof (cases p)
  case (R_Account item t va)
  show ?thesis
  proof (cases "SuspenseToCustomer (resolutionTxID (SI_ID item)) (RR_TargetCustomerID req) (Tx_AmountKobo t)")
    case (Inr es)
    with assms R_Account obtain r where
      "xs_PostTransaction X (now 1) (resolution_tx now item req t va) es w = (r, w')"
      by (auto simp: sp_X split: sum.splits prod.splits)
    from post_step [OF this] suspense_to_customer.well_formed [OF Inr] show ?thesis by simp
  qed (use assms R_Account in \<open>simp add: ledger_step.stay\<close>)
qed (use assms in \<open>auto simp: audit_view intro: ledger_step.stay dest!: set_status_view
      split: option.splits sum.splits prod.splits if_splits\<close>)

end

lemma task_next_ledger:
  "task_next (pg_withdrawal_service e P) (pg_suspense_service e) now t w = (t', w') \<Longrightarrow>
   ledger_step (pg_view w) (pg_view w')"
  by (cases t) (auto simp: Let_def dest: pg_wd.wd_next_step pg_susp.rs_next_step split: prod.splits)

lemma race_ledger: "race_step e P a b \<Longrightarrow> ledger_steps (pg_view (snd a)) (pg_view (snd b))"
  by (induction rule: race_step.induct)
    (auto intro: ledger_step_steps task_next_ledger pg_step_ledger)

lemma races_ledger: "race_steps e P a b \<Longrightarrow> ledger_steps (pg_view (snd a)) (pg_view (snd b))"
  by (induction rule: rtranclp_induct) (auto intro: ledger_steps_trans race_ledger)

text \<open>
  C5: The books balance under concurrency. Any number of withdrawals and suspense resolutions may
  be inside their handlers at once, their calls interleaved in any order with each other and with
  everything else the server does, under any faults; and requests may be abandoned at any point, as
  when the process is killed. From the empty database on, debits equal credits over the whole
  ledger and over every transaction.
\<close>

theorem concurrent_ledger_balanced:
  assumes "race_steps e P (ts, w) (ts', w')" and "pg_view w = (fmempty, [])"
  shows "total_debits (pg_entries w') = total_credits (pg_entries w') \<and>
    (\<forall>tx. total_debits (entries_of tx (pg_entries w')) = total_credits (entries_of tx (pg_entries w'))) \<and>
    LE_TransactionID ` set (pg_entries w') \<subseteq> fmdom' (pg_txns w')"
proof -
  have "ledger_inv (pg_txns w') (pg_entries w')"
    using ledger_steps_inv [OF races_ledger [OF assms(1)]] assms(2) by simp
  then show ?thesis by (blast dest: ledger_inv_all)
qed

section \<open>Two withdrawals at once\<close>

context withdrawal_ledger begin

lemma rejected_turns: "wd_turns s now req 2 (W_Rejected wd err, w) = (W_Done r, w') \<Longrightarrow> snd r \<noteq> None"
  by (auto simp: wd_turns_numeral wd_turn_def Let_def)

lemma covered_check:
  assumes "wd_turns s now req 2 (W_Start, w) = (W_Covered, w')"
  shows "0 < sint (WR_AmountKobo req)"
    and "sint (WR_AmountKobo req) \<le> sint (balance (CustomerWalletAccount (WR_CustomerID req)) (entries w))"
  using assms validate_request_None [of req]
  by (auto simp: wd_turns_numeral wd_turn_def wi_X not_less dest!: get_balance
      split: option.splits sum.splits if_splits)

lemma paid_turns:
  assumes "wd_turns s now req 2 (W_Paid va wd resp, w) = (W_Done (Some wd', None), w')"
    and "fmlookup (txns w) (withdrawalTxID (Wd_ID wd')) = None"
  obtains es where "WithdrawCustomer (withdrawalTxID (Wd_ID wd')) (WR_CustomerID req) (WR_AmountKobo req) = Inr es"
    and "entries w' = entries w @ es"
proof (cases "WithdrawCustomer (withdrawalTxID (Wd_ID wd)) (WR_CustomerID req) (WR_AmountKobo req)")
  case (Inl err)
  with assms(1) show ?thesis by (simp add: wd_turns_numeral wd_turn_def)
next
  case (Inr es)
  obtain r v where post: "xs_PostTransaction X (now 3) (withdrawal_tx (now 2) req va (Wd_ID wd)) es w = (r, v)"
    by fastforce
  with assms(1) Inr obtain b where b: "r = Inr b" "Wd_ID wd' = Wd_ID wd" "entries w' = entries v"
    by (cases r) (auto simp: wd_turns_numeral wd_turn_def wi_X update_view)
  with assms(2) post post_dup [of "now 3" "withdrawal_tx (now 2) req va (Wd_ID wd)" es w v]
    post_new [of "now 3" "withdrawal_tx (now 2) req va (Wd_ID wd)" es w v]
  have "entries v = entries w @ es"
    by (cases b) auto
  with Inr b that show ?thesis by simp
qed

lemma covered_turns:
  assumes "wd_turns s now req 5 (W_Covered, w) = (W_Done (Some wd, None), w')"
    and "fmlookup (txns w) (withdrawalTxID (Wd_ID wd)) = None"
  obtains es where "WithdrawCustomer (withdrawalTxID (Wd_ID wd)) (WR_CustomerID req) (WR_AmountKobo req) = Inr es"
    and "entries w' = entries w @ es"
proof -
  obtain va where "wd_turns s now req 4 (W_Account va, w) = (W_Done (Some wd, None), w')"
    using assms(1) by (auto simp: wd_turns_numeral [of s now req "num.Bit1 (num.Bit0 num.One)"] wd_turn_def)
  then obtain wd0 v where r: "wd_turns s now req 3 (W_Recorded va wd0, v) = (W_Done (Some wd, None), w')"
    and v: "txns v = txns w" "entries v = entries w"
    by (auto simp: wd_turns_numeral [of s now req "num.Bit0 (num.Bit0 num.One)"] wd_turn_def
        dest: create_view split: sum.splits prod.splits)
  from r obtain resp u where p: "wd_turns s now req 2 (W_Paid va wd0 resp, u) = (W_Done (Some wd, None), w')"
    and u: "txns u = txns v" "entries u = entries v"
    by (auto simp: wd_turns_numeral [of s now req "num.Bit1 num.One"] wd_turn_def
        dest: transfer_view rejected_turns split: sum.splits prod.splits)
  have "fmlookup (txns u) (withdrawalTxID (Wd_ID wd)) = None" using assms(2) u v by simp
  from paid_turns [OF p this] show ?thesis using that u v by auto
qed

end

lemma race_turns:
  assumes "wd_turns (pg_withdrawal_service e P) now req n (p, w) = (p', w')"
    and "ts i = Withdrawing req p"
  shows "race_steps e P (ts, w) (ts(i := Withdrawing req p'), w')"
  using assms
proof (induction n arbitrary: ts p w)
  case 0
  then show ?case by (metis Pair_inject fun_upd_triv rtranclp.rtrancl_refl wd_turns.simps(1))
next
  case (Suc n)
  obtain q v where q: "wd_next (pg_withdrawal_service e P) now req p w = (q, v)" by fastforce
  with Suc.prems have "race_step e P (ts, w) (ts(i := Withdrawing req q), v)"
    by (intro r_task [where now = now]) simp
  moreover have "race_steps e P (ts(i := Withdrawing req q), v) ((ts(i := Withdrawing req q))(i := Withdrawing req p'), w')"
    using Suc.prems q by (intro Suc.IH) (simp_all add: wd_turn_def)
  ultimately show ?case by (metis (no_types) converse_rtranclp_into_rtranclp fun_upd_upd)
qed

text \<open>Two requests that both make their reads in the same world before either of them goes on.\<close>

lemma race_overlap:
  assumes "\<And>ts i. ts i = t1 \<Longrightarrow> race_steps e P (ts, w) (ts(i := u1), w)"
    and "\<And>ts i. ts i = t2 \<Longrightarrow> race_steps e P (ts, w) (ts(i := u2), w)"
    and "\<And>ts i. ts i = u1 \<Longrightarrow> race_steps e P (ts, w) (ts(i := v1), w1)"
    and "\<And>ts i. ts i = u2 \<Longrightarrow> race_steps e P (ts, w1) (ts(i := v2), w2)"
  shows "race_steps e P ((\<lambda>_. t2)(0 := t1), w) ((\<lambda>_. t2)(0 := v1, 1 := v2), w2)"
proof -
  let ?a = "(\<lambda>_. t2)(0 := t1) :: nat \<Rightarrow> task"
  let ?b = "?a(0 := u1)" let ?c = "?b(1 := u2)" let ?d = "?c(0 := v1)" let ?e = "?d(1 := v2)"
  have "race_steps e P (?a, w) (?b, w)" by (rule assms(1)) simp
  moreover have "race_steps e P (?b, w) (?c, w)" by (rule assms(2)) simp
  moreover have "race_steps e P (?c, w) (?d, w1)" by (rule assms(3)) simp
  moreover have "race_steps e P (?d, w1) (?e, w2)" by (rule assms(4)) simp
  ultimately have "race_steps e P (?a, w) (?e, w2)" by (meson rtranclp_trans)
  moreover have "?e = (\<lambda>_. t2)(0 := v1, 1 := v2)" by auto
  ultimately show ?thesis by simp
qed

text \<open>
  C16: A wallet can be overdrawn by two withdrawals at once. Nothing is locked between the check of the
  balance and the entry in the ledger: when two requests have both found their amount covered, both
  are paid by the provider and both are booked, although the second, started after the first, would
  have been refused.
\<close>

theorem double_withdrawal:
  assumes "wd_turns (pg_withdrawal_service e P) now1 req1 2 (W_Start, w) = (W_Covered, w)"
    and "wd_turns (pg_withdrawal_service e P) now2 req2 2 (W_Start, w) = (W_Covered, w)"
    and "wd_turns (pg_withdrawal_service e P) now1 req1 5 (W_Covered, w) = (W_Done (Some wd1, None), w1)"
    and "wd_turns (pg_withdrawal_service e P) now2 req2 5 (W_Covered, w1) = (W_Done (Some wd2, None), w2)"
    and "WR_CustomerID req1 = c" and "WR_CustomerID req2 = c"
    and "fmlookup (pg_txns w) (withdrawalTxID (Wd_ID wd1)) = None"
    and "fmlookup (pg_txns w1) (withdrawalTxID (Wd_ID wd2)) = None"
    and "fits64 (exact_balance (CustomerWalletAccount c) (pg_entries w))"
    and "exact_balance (CustomerWalletAccount c) (pg_entries w) < sint (WR_AmountKobo req1) + sint (WR_AmountKobo req2)"
  shows "race_steps e P ((\<lambda>_. Withdrawing req2 W_Start)(0 := Withdrawing req1 W_Start), w)
      ((\<lambda>_. Withdrawing req2 W_Start)(0 := Withdrawing req1 (W_Done (Some wd1, None)),
         1 := Withdrawing req2 (W_Done (Some wd2, None))), w2) \<and>
    exact_balance (CustomerWalletAccount c) (pg_entries w2) =
      exact_balance (CustomerWalletAccount c) (pg_entries w) - sint (WR_AmountKobo req1) - sint (WR_AmountKobo req2) \<and>
    exact_balance (CustomerWalletAccount c) (pg_entries w2) < 0 \<and>
    snd (fst (Initiate (pg_withdrawal_service e P) now2 req2 w1)) \<noteq> None"
proof -
  let ?s = "pg_withdrawal_service e P" and ?a = "CustomerWalletAccount c"
  let ?t0 = "(\<lambda>_. Withdrawing req2 W_Start)(0 := Withdrawing req1 W_Start) :: nat \<Rightarrow> task"
  from pg_wd.covered_turns [OF assms(3,7)] obtain es1 where
    es1: "WithdrawCustomer (withdrawalTxID (Wd_ID wd1)) c (WR_AmountKobo req1) = Inr es1" "pg_entries w1 = pg_entries w @ es1"
    using assms(5) by auto
  from pg_wd.covered_turns [OF assms(4,8)] obtain es2 where
    es2: "WithdrawCustomer (withdrawalTxID (Wd_ID wd2)) c (WR_AmountKobo req2) = Inr es2" "pg_entries w2 = pg_entries w1 @ es2"
    using assms(6) by auto
  have b1: "exact_balance ?a (pg_entries w1) = exact_balance ?a (pg_entries w) - sint (WR_AmountKobo req1)"
    using withdraw_customer.exact_moves [OF es1(1), of ?a] es1(2) by simp
  have b2: "exact_balance ?a (pg_entries w2) = exact_balance ?a (pg_entries w1) - sint (WR_AmountKobo req2)"
    using withdraw_customer.exact_moves [OF es2(1), of ?a] es2(2) by simp
  have run: "race_steps e P (?t0, w) ((\<lambda>_. Withdrawing req2 W_Start)(0 := Withdrawing req1 (W_Done (Some wd1, None)),
         1 := Withdrawing req2 (W_Done (Some wd2, None))), w2)"
    by (rule race_overlap [OF race_turns [OF assms(1)] race_turns [OF assms(2)] race_turns [OF assms(3)] race_turns [OF assms(4)]])
  have a1: "sint (WR_AmountKobo req1) \<le> exact_balance ?a (pg_entries w)"
    using pg_wd.covered_check(2) [OF assms(1)] sint_balance [OF assms(9)] assms(5) by simp
  have "snd (fst (Initiate ?s now2 req2 w1)) \<noteq> None"
  proof -
    obtain r x v where i: "Initiate ?s now2 req2 w1 = ((r, x), v)" by (metis surj_pair)
    have "fits64 (exact_balance ?a (pg_entries w1))"
      using b1 a1 assms(9) pg_wd.covered_check(1) [OF assms(1)] by (simp add: fits64_def)
    then have "sint (balance ?a (pg_entries w1)) < sint (WR_AmountKobo req2)"
      using b1 assms(10) by (simp add: sint_balance)
    with i assms(6) show ?thesis by (auto elim!: pg_wd.Initiate_post)
  qed
  then show ?thesis using run b1 b2 assms(10) by simp
qed

section \<open>Paid but not booked\<close>

lemma begin_fault:
  "pe_fault e ''begin'' [] w \<Longrightarrow> \<exists>err. xs_PostTransaction (pg_transaction_store e) now tx es w = (Inl err, w)"
  by (auto simp: pg_transaction_store_def pg_PostTransaction_def split: option.split)

text \<open>
  C17: A transfer that cannot be booked is lost. The provider is called before the ledger is written:
  when the database fails in between, the customer has the money and the wallet still has it too; the
  request ends with an error that looks like any other, the row of the withdrawal stays
  "processing", and nothing in the program comes back to it.
\<close>

theorem paid_not_debited:
  assumes "wd_turns (pg_withdrawal_service e P) now req 5 (W_Start, w) = (W_Paid va wd resp, w1)"
    and "pe_fault e ''begin'' [] w1"
  shows "\<exists>err. Initiate (pg_withdrawal_service e P) now req w = ((None, Some err), w1) \<and>
    pg_view w1 = pg_view w \<and>
    (\<exists>v. pv_Transfer (remote_provider P) (transfer_of req (Wd_ID wd)) v = (Inr resp, w1)) \<and>
    (\<exists>row. fmlookup (pg_withdrawals w1) (Wd_ID wd) = Some row \<and> Wd_Status row = ''processing'' \<and>
       Wd_AmountKobo row = WR_AmountKobo req)"
proof -
  let ?s = "pg_withdrawal_service e P"
  obtain err where "wd_turns ?s now req 2 (W_Paid va wd resp, w1) = (W_Done (None, Some err), w1)"
  proof (cases "WithdrawCustomer (withdrawalTxID (Wd_ID wd)) (WR_CustomerID req) (WR_AmountKobo req)")
    case (Inr es)
    from begin_fault [OF assms(2)] obtain err where
      "xs_PostTransaction (wi_txns ?s) (now 3) (withdrawal_tx (now 2) req va (Wd_ID wd)) es w1 = (Inl err, w1)"
      unfolding pg_wd.wi_X by blast
    with Inr that show ?thesis by (simp add: wd_turns_numeral wd_turn_def)
  qed (use that in \<open>simp add: wd_turns_numeral wd_turn_def\<close>)
  then have "wd_turns ?s now req 7 (W_Start, w) = (W_Done (None, Some err), w1)"
    using wd_turns_add [of ?s now req 5 2 "(W_Start, w)"] assms(1) by simp
  then have i: "Initiate ?s now req w = ((None, Some err), w1)"
    unfolding phases_are_Initiate by (simp split: prod.splits)
  from assms(1) obtain v where cr: "pg_CreateWithdrawal e (now 0) (new_withdrawal req va) w = (Inr wd, v)"
    and tr: "pv_Transfer (remote_provider P) (transfer_of req (Wd_ID wd)) v = (Inr resp, w1)"
    by (auto simp: wd_turns_numeral wd_turn_def pg_withdrawal_service_def pg_withdrawal_store_def
        split: option.splits sum.splits prod.splits if_splits)
  from cr have "\<exists>row. fmlookup (pg_withdrawals v) (Wd_ID wd) = Some row \<and> Wd_Status row = ''processing'' \<and>
       Wd_AmountKobo row = WR_AmountKobo req"
    by (auto simp: pg_CreateWithdrawal_def new_withdrawal_def Let_def split: prod.splits option.splits if_splits)
  moreover from tr have "pg_withdrawals w1 = pg_withdrawals v"
    by (auto simp: remote_provider_def on_remote_def split: prod.splits)
  moreover from i have "pg_view w1 = pg_view w" by (auto elim: pg_wd.Initiate_post)
  ultimately show ?thesis using i tr by auto
qed

section \<open>Refunded and reassigned\<close>

lemma race_resolves:
  assumes "rs_turns (pg_suspense_service e) now k req n (p, w) = (p', w')"
    and "ts i = Resolving k req p"
  shows "race_steps e P (ts, w) (ts(i := Resolving k req p'), w')"
  using assms
proof (induction n arbitrary: ts p w)
  case 0
  then show ?case by (metis Pair_inject fun_upd_triv rtranclp.rtrancl_refl rs_turns.simps(1))
next
  case (Suc n)
  obtain q v where q: "rs_next (pg_suspense_service e) now k req p w = (q, v)" by fastforce
  with Suc.prems have "race_step e P (ts, w) (ts(i := Resolving k req q), v)"
    by (intro r_task [where now = now]) simp
  moreover have "race_steps e P (ts(i := Resolving k req q), v) ((ts(i := Resolving k req q))(i := Resolving k req p'), w')"
    using Suc.prems q by (intro Suc.IH) simp_all
  ultimately show ?case by (metis (no_types) converse_rtranclp_into_rtranclp fun_upd_upd)
qed

lemma reassign_keeps_resolved:
  assumes "resolveByReassign (pg_suspense_service e) now item req w = (r, w')"
    and "pe_uuid e (SI_ID item) = Some j" and "fmlookup (pg_suspense w) j = Some row" and "SI_Status row \<noteq> ''open''"
  shows "fmlookup (pg_suspense w') j = Some row"
proof -
  have post: "pg_suspense v' = pg_suspense v" if "pg_PostTransaction e t tx es v = (x, v')" for t tx es v x v'
    using that by (auto simp: pg_PostTransaction_def Let_def split: option.splits if_splits)
  have app: "pg_suspense (snd (pg_Append e t a v)) = pg_suspense v" for t a v
    by (simp add: pg_Append_def pg_split)
  have fin: "fmlookup (pg_suspense v') j = Some row"
    if "reassign_finish (pg_suspense_service e) now item req v = (x, v')" "fmlookup (pg_suspense v) j = Some row" for x v v'
    using that assms(2,4)
    by (auto simp: reassign_finish_def pg_suspense_service_def pg_suspense_store_def pg_audit_store_def
        pg_ResolveSuspenseItem_def Let_def app split: prod.splits option.splits if_splits)
  from assms(1) show ?thesis
  proof (rule pg_susp.reassign_post)
    fix t es va b w1
    assume "xs_PostTransaction (pg_transaction_store e) (now 1) (resolution_tx now item req t va) es w = (Inr b, w1)"
      and f: "reassign_finish (pg_suspense_service e) now item req w1 = (r, w')"
    then have "pg_suspense w1 = pg_suspense w" using post by (simp add: pg_transaction_store_def)
    with fin [OF f] assms(3) show ?thesis by simp
  qed (use assms(3) in simp)
qed

lemma flag_sets_status:
  assumes "resolveByRefundFlag (pg_suspense_service e) now item req w = (None, w')"
    and "pe_uuid e (SI_ID item) = Some j" and "fmlookup (pg_suspense w) j = Some row" and "SI_Status row = ''open''"
  obtains row' where "fmlookup (pg_suspense w') j = Some row'" and "SI_Status row' = ''refund_flagged''"
proof -
  have app: "pg_suspense (snd (pg_Append e t a v)) = pg_suspense v" for t a v
    by (simp add: pg_Append_def pg_split)
  obtain v where r: "pg_ResolveSuspenseItem e (now 2) (SI_ID item) ''refund_flagged'' (RR_Actor req) (RR_Notes req) w = (None, v)"
    and v: "pg_suspense w' = pg_suspense v"
    using assms(1) by (auto simp: resolveByRefundFlag_def pg_suspense_service_def pg_suspense_store_def
        pg_audit_store_def app split: prod.splits option.splits)
  from r assms(2-4) have "\<exists>row'. fmlookup (pg_suspense v) j = Some row' \<and> SI_Status row' = ''refund_flagged''"
    by (auto simp: pg_ResolveSuspenseItem_def Let_def split: if_splits)
  with v that show ?thesis by auto
qed

text \<open>
  C20: Suspended funds can be reassigned and flagged for refund at once. The status is only looked at
  when the item is read, and the update that finds the item already resolved changes nothing and
  reports nothing: two operators who both read it open are both told that they succeeded, the
  customer has the money, and the item tells the back office to pay it back to the sender.
\<close>

theorem refunded_and_reassigned:
  assumes "rs_turns (pg_suspense_service e) now1 k req1 1 (R_Start, w) = (R_Read item, w)"
    and "rs_turns (pg_suspense_service e) now2 k req2 1 (R_Start, w) = (R_Read item, w)"
    and "RR_Resolution req1 = ''refund_flagged''" and "RR_Resolution req2 = ''reassign''"
    and "rs_turns (pg_suspense_service e) now1 k req1 2 (R_Read item, w) = (R_Done None, w1)"
    and "rs_turns (pg_suspense_service e) now2 k req2 6 (R_Read item, w1) = (R_Done None, w2)"
    and "pe_uuid e (SI_ID item) = Some j" and "fmlookup (pg_suspense w) j = Some row" and "SI_Status row = ''open''"
    and "fmlookup (pg_txns w1) (resolutionTxID (SI_ID item)) = None"
  shows "race_steps e P ((\<lambda>_. Resolving k req2 R_Start)(0 := Resolving k req1 R_Start), w)
      ((\<lambda>_. Resolving k req2 R_Start)(0 := Resolving k req1 (R_Done None), 1 := Resolving k req2 (R_Done None)), w2) \<and>
    (\<exists>row'. fmlookup (pg_suspense w2) j = Some row' \<and> SI_Status row' = ''refund_flagged'') \<and>
    (\<exists>t. fmlookup (pg_txns w) (SI_TransactionID item) = Some t \<and>
       exact_balance (CustomerWalletAccount (RR_TargetCustomerID req2)) (pg_entries w2) =
         exact_balance (CustomerWalletAccount (RR_TargetCustomerID req2)) (pg_entries w) + sint (Tx_AmountKobo t) \<and>
       exact_balance AccountSuspense (pg_entries w2) = exact_balance AccountSuspense (pg_entries w) - sint (Tx_AmountKobo t))"
proof -
  let ?s = "pg_suspense_service e" and ?t0 = "(\<lambda>_. Resolving k req2 R_Start)(0 := Resolving k req1 R_Start) :: nat \<Rightarrow> task"
  have flag: "\<exists>row'. fmlookup (pg_suspense w1) j = Some row' \<and> SI_Status row' = ''refund_flagged''"
    and view: "pg_view w1 = pg_view w"
  proof -
    have r: "resolveByRefundFlag ?s now1 item req1 w = (None, w1)"
      using assms(3,5) by (simp add: resolveByRefundFlag_def rs_turns_numeral set_status_def split: option.splits prod.splits)
    then show "pg_view w1 = pg_view w" using pg_susp.refund_view by simp
    from flag_sets_status [OF r assms(7-9)] show "\<exists>row'. fmlookup (pg_suspense w1) j = Some row' \<and> SI_Status row' = ''refund_flagged''"
      by blast
  qed
  have re: "resolveByReassign ?s now2 item req2 w1 = (None, w2)"
    using assms(6) unfolding turns_reassign [OF assms(4)] by (simp split: prod.splits)
  obtain row' where "fmlookup (pg_suspense w1) j = Some row'" "SI_Status row' = ''refund_flagged''" using flag by blast
  with reassign_keeps_resolved [OF re assms(7)] have still: "\<exists>row'. fmlookup (pg_suspense w2) j = Some row' \<and> SI_Status row' = ''refund_flagged''"
    by simp
  from reassign_moves [OF re assms(10)] obtain t where
    t: "fmlookup (pg_txns w1) (SI_TransactionID item) = Some t"
    and mv: "\<And>a. exact_balance a (pg_entries w2) = exact_balance a (pg_entries w1) +
       (if a = AccountSuspense then - sint (Tx_AmountKobo t)
        else if a = CustomerWalletAccount (RR_TargetCustomerID req2) then sint (Tx_AmountKobo t) else 0)"
    by metis
  from t mv [of AccountSuspense] mv [of "CustomerWalletAccount (RR_TargetCustomerID req2)"] view
  have moved: "\<exists>t. fmlookup (pg_txns w) (SI_TransactionID item) = Some t \<and>
       exact_balance (CustomerWalletAccount (RR_TargetCustomerID req2)) (pg_entries w2) =
         exact_balance (CustomerWalletAccount (RR_TargetCustomerID req2)) (pg_entries w) + sint (Tx_AmountKobo t) \<and>
       exact_balance AccountSuspense (pg_entries w2) = exact_balance AccountSuspense (pg_entries w) - sint (Tx_AmountKobo t)"
    by auto
  have "race_steps e P (?t0, w)
      ((\<lambda>_. Resolving k req2 R_Start)(0 := Resolving k req1 (R_Done None), 1 := Resolving k req2 (R_Done None)), w2)"
    by (rule race_overlap [OF race_resolves [OF assms(1)] race_resolves [OF assms(2)] race_resolves [OF assms(5)] race_resolves [OF assms(6)]])
  then show ?thesis using still moved by blast
qed

section \<open>Small races\<close>

definition demo_big :: withdrawal_request where
  "demo_big = demo_withdrawal\<lparr>WR_AmountKobo := 400\<rparr>"

abbreviation demo_wi :: "unit pg withdrawal_service" where
  "demo_wi \<equiv> pg_withdrawal_service demo_env demo_provider"

lemma demo_big_fields: "WR_CustomerID demo_big = ''c1''" "WR_TenantID demo_big = ''t1''" "WR_AmountKobo demo_big = 400"
  "validate_request demo_big = None"
  by (simp_all add: demo_big_def demo_withdrawal_def validate_request_def)

text \<open>The environment of the demo, in which nothing but \<open>begin\<close> may fail.\<close>

definition demo_env_with :: "(string \<Rightarrow> string list \<Rightarrow> unit pg \<Rightarrow> bool) \<Rightarrow> unit pg_env" where
  "demo_env_with f = demo_env\<lparr>pe_fault := (\<lambda>s a w. s = ''begin'' \<and> f s a w)\<rparr>"

abbreviation demo_down :: "unit pg_env" where
  "demo_down \<equiv> demo_env_with (\<lambda>s a w. True)"

lemma demo_env_up: "demo_env_with (\<lambda>s a w. False) = demo_env"
  by (simp add: demo_env_with_def demo_env_def)

lemma demo_covered:
  "wd_turns (pg_withdrawal_service (demo_env_with f) demo_provider) now demo_big 2 (W_Start, demo_db) = (W_Covered, demo_db)"
proof -
  let ?wi = "pg_withdrawal_service (demo_env_with f) demo_provider"
  have "exact_balance (CustomerWalletAccount ''c1'') (pg_entries demo_db) = 700"
    by (simp add: demo_db_def two_entries_balance)
  then have "cs_GetCustomer (wi_customers ?wi) ''t1'' ''c1'' demo_db = Inr (Some demo_customer)"
    "xs_GetBalance (wi_txns ?wi) (CustomerWalletAccount ''c1'') demo_db = Inr 700"
    by (simp_all add: pg_wiring pg_stores pg_GetCustomer_def scanCustomer_def pg_row_def
        pg_customer_row_def pg_GetBalance_def scan_sum_def fits64_def wrap_err_def demo_env_with_def demo_env_def)
      (simp_all add: demo_db_def demo_customer_def pg_init_def)
  then show ?thesis by (simp add: wd_turns_numeral wd_turn_def demo_big_fields)
qed

lemma demo_paid:
  assumes "pg_customers w = pg_customers demo_db" and "pg_vas w = fmempty"
    and "fmlookup (pg_withdrawals w) (dec_nat (pg_drawn w)) = None"
  obtains wd resp w1 where "wd_turns (pg_withdrawal_service (demo_env_with f) demo_provider) now demo_big 3 (W_Covered, w) = (W_Paid None wd resp, w1)"
    and "Wd_ID wd = dec_nat (pg_drawn w)" and "pg_drawn w1 = Suc (pg_drawn w)" and "pg_customers w1 = pg_customers w"
    and "pg_vas w1 = fmempty" and "pg_txns w1 = pg_txns w"
    and "\<And>i. i \<noteq> dec_nat (pg_drawn w) \<Longrightarrow> fmlookup (pg_withdrawals w1) i = fmlookup (pg_withdrawals w) i"
proof -
  let ?wi = "pg_withdrawal_service (demo_env_with f) demo_provider"
  have va: "vs_GetActiveVA (wi_accounts ?wi) ''c1'' w = Inr None"
    using assms(2) by (simp add: pg_wiring pg_stores pg_GetActiveVA_def pg_find_va_def pg_row_def wrap_err_def demo_env_with_def demo_env_def)
  obtain wd v where cr: "wd_CreateWithdrawal (wi_withdrawals ?wi) (now 0) (new_withdrawal demo_big None) w = (Inr wd, v)"
    and v: "Wd_ID wd = dec_nat (pg_drawn w)" "pg_drawn v = Suc (pg_drawn w)" "pg_customers v = pg_customers w"
      "pg_vas v = fmempty" "pg_txns v = pg_txns w"
      "\<And>i. i \<noteq> dec_nat (pg_drawn w) \<Longrightarrow> fmlookup (pg_withdrawals v) i = fmlookup (pg_withdrawals w) i"
    using assms by (simp add: pg_wiring pg_stores pg_CreateWithdrawal_def new_withdrawal_def demo_big_fields demo_db_def
        json_of_request_def demo_env_with_def demo_defs gen_uuid_def uuid_opt_def jsonb_opt_def va_exists_def Let_def)
  obtain resp where "pv_Transfer (wi_prov ?wi) (transfer_of demo_big (Wd_ID wd)) v = (Inr resp, v)"
    by (simp add: pg_wiring remote_provider_def demo_provider_def transfer_of_def fake_Transfer_def on_remote_def Let_def)
  with va cr v that show ?thesis by (simp add: wd_turns_numeral wd_turn_def demo_big_fields)
qed

lemma demo_booked:
  assumes "pg_customers w = pg_customers demo_db" and "pg_vas w = fmempty"
    and "fmlookup (pg_withdrawals w) (dec_nat (pg_drawn w)) = None"
    and "fmlookup (pg_txns w) (withdrawalTxID (dec_nat (pg_drawn w))) = None"
  obtains wd w' where "wd_turns demo_wi now demo_big 5 (W_Covered, w) = (W_Done (Some wd, None), w')"
    and "Wd_ID wd = dec_nat (pg_drawn w)" and "pg_drawn w' = Suc (pg_drawn w)" and "pg_customers w' = pg_customers demo_db"
    and "pg_vas w' = fmempty"
    and "\<And>i. i \<noteq> dec_nat (pg_drawn w) \<Longrightarrow> fmlookup (pg_withdrawals w') i = fmlookup (pg_withdrawals w) i"
    and "\<And>i. i \<noteq> withdrawalTxID (dec_nat (pg_drawn w)) \<Longrightarrow> fmlookup (pg_txns w') i = fmlookup (pg_txns w) i"
proof -
  obtain wd resp w1 where p: "wd_turns demo_wi now demo_big 3 (W_Covered, w) = (W_Paid None wd resp, w1)"
    and w1: "Wd_ID wd = dec_nat (pg_drawn w)" "pg_drawn w1 = Suc (pg_drawn w)" "pg_customers w1 = pg_customers w"
      "pg_vas w1 = fmempty" "pg_txns w1 = pg_txns w"
      "\<And>i. i \<noteq> dec_nat (pg_drawn w) \<Longrightarrow> fmlookup (pg_withdrawals w1) i = fmlookup (pg_withdrawals w) i"
    using demo_paid [OF assms(1-3), of "\<lambda>s a w. False" now] unfolding demo_env_up by metis
  let ?es = "two_entries (withdrawalTxID (Wd_ID wd)) (CustomerWalletAccount ''c1'') AccountNombaSettlement 400"
  obtain row where "xs_PostTransaction (wi_txns demo_wi) (now 3) (withdrawal_tx (now 2) demo_big None (Wd_ID wd)) ?es w1 =
      (Inr True, w1\<lparr>pg_txns := fmupd (withdrawalTxID (Wd_ID wd)) row (pg_txns w1), pg_entries := pg_entries w1 @ ?es\<rparr>)"
    using w1 assms(4) by (simp add: pg_wiring pg_stores pg_PostTransaction_def assertBalanced_def txn_row_def uuid_opt_def
        va_exists_def entry_ok_def withdrawal_tx_def demo_big_fields demo_env_def two_entries_def)
  moreover have "WithdrawCustomer (withdrawalTxID (Wd_ID wd)) ''c1'' 400 = Inr ?es"
    by (simp add: WithdrawCustomer_def two_entries_def)
  moreover obtain v where v: "v = w1\<lparr>pg_txns := fmupd (withdrawalTxID (Wd_ID wd)) row (pg_txns w1), pg_entries := pg_entries w1 @ ?es\<rparr>"
    by blast
  moreover define w' where "w' = snd (wd_UpdateWithdrawalStatus (wi_withdrawals demo_wi) (now 4) (Wd_ID wd) ''completed''
      (Some (TRsp_TransactionID resp)) (Some (TRsp_SessionID resp)) None v)"
  ultimately have "wd_turns demo_wi now demo_big 2 (W_Paid None wd resp, w1) =
      (W_Done (Some (wd\<lparr>Wd_Status := ''completed'', Wd_ProviderTransactionID := Some (TRsp_TransactionID resp),
          Wd_ProviderSessionID := Some (TRsp_SessionID resp)\<rparr>), None), w')"
    by (simp add: wd_turns_numeral wd_turn_def demo_big_fields)
  then have "wd_turns demo_wi now demo_big 5 (W_Covered, w) =
      (W_Done (Some (wd\<lparr>Wd_Status := ''completed'', Wd_ProviderTransactionID := Some (TRsp_TransactionID resp),
          Wd_ProviderSessionID := Some (TRsp_SessionID resp)\<rparr>), None), w')"
    using wd_turns_add [of demo_wi now demo_big 3 2 "(W_Covered, w)"] p by simp
  moreover have "pg_drawn w' = pg_drawn v" "pg_customers w' = pg_customers v" "pg_vas w' = pg_vas v" "pg_txns w' = pg_txns v"
    "i \<noteq> Wd_ID wd \<Longrightarrow> fmlookup (pg_withdrawals w') i = fmlookup (pg_withdrawals v) i" for i
    by (simp_all add: w'_def pg_wiring pg_withdrawal_store_def pg_UpdateWithdrawalStatus_def split: option.split)
  ultimately show ?thesis
    using w1 assms(1) v
    by (intro that [of "wd\<lparr>Wd_Status := ''completed'', Wd_ProviderTransactionID := Some (TRsp_TransactionID resp),
          Wd_ProviderSessionID := Some (TRsp_SessionID resp)\<rparr>" w']) simp_all
qed

theorem double_withdrawal_witness:
  "\<exists>ts ts' w2. race_steps demo_env demo_provider (ts, demo_db) (ts', w2) \<and>
     exact_balance (CustomerWalletAccount ''c1'') (pg_entries w2) = - 100"
proof -
  have start: "pg_vas demo_db = fmempty" "pg_drawn demo_db = 0" "pg_withdrawals demo_db = fmempty"
    "exact_balance (CustomerWalletAccount ''c1'') (pg_entries demo_db) = 700"
    by (simp_all add: demo_db_def pg_init_def two_entries_balance)
  have fresh: "fmlookup (pg_txns demo_db) (withdrawalTxID i) = None" for i
    by (simp add: demo_db_def pg_init_def withdrawalTxID_def)
  obtain wd1 w1 where r1: "wd_turns demo_wi (\<lambda>k. 5000) demo_big 5 (W_Covered, demo_db) = (W_Done (Some wd1, None), w1)"
    and w1: "Wd_ID wd1 = dec_nat 0" "pg_drawn w1 = 1" "pg_customers w1 = pg_customers demo_db" "pg_vas w1 = fmempty"
      "fmlookup (pg_withdrawals w1) (dec_nat 1) = None" "fmlookup (pg_txns w1) (withdrawalTxID (dec_nat 1)) = None"
    by (rule demo_booked [of demo_db "\<lambda>k. 5000"]) (use start fresh in \<open>auto simp: withdrawalTxID_def\<close>)
  obtain wd2 w2 where r2: "wd_turns demo_wi (\<lambda>k. 6000) demo_big 5 (W_Covered, w1) = (W_Done (Some wd2, None), w2)"
    and w2: "Wd_ID wd2 = dec_nat 1"
    by (rule demo_booked [of w1 "\<lambda>k. 6000"]) (use w1 in auto)
  have ids: "fmlookup (pg_txns demo_db) (withdrawalTxID (Wd_ID wd1)) = None" "fmlookup (pg_txns w1) (withdrawalTxID (Wd_ID wd2)) = None"
    using fresh w1(6) w2 by simp_all
  from double_withdrawal [OF demo_covered [of "\<lambda>s a w. False", unfolded demo_env_up] demo_covered [of "\<lambda>s a w. False", unfolded demo_env_up] r1 r2 demo_big_fields(1) demo_big_fields(1) ids] start(4)
  show ?thesis by (fastforce simp: demo_big_fields fits64_def)
qed

theorem paid_not_debited_witness:
  "\<exists>err i w1. Initiate (pg_withdrawal_service demo_down demo_provider) (\<lambda>k. 5000) demo_big demo_db = ((None, Some err), w1) \<and>
     exact_balance (CustomerWalletAccount ''c1'') (pg_entries w1) = 700 \<and>
     (\<exists>row. fmlookup (pg_withdrawals w1) i = Some row \<and> Wd_Status row = ''processing'')"
proof -
  have start: "pg_vas demo_db = fmempty" "fmlookup (pg_withdrawals demo_db) i = None"
    "exact_balance (CustomerWalletAccount ''c1'') (pg_entries demo_db) = 700" for i
    by (simp_all add: demo_db_def pg_init_def two_entries_balance)
  obtain wd resp w1 where "wd_turns (pg_withdrawal_service demo_down demo_provider) (\<lambda>k. 5000) demo_big 3 (W_Covered, demo_db)
      = (W_Paid None wd resp, w1)"
    by (rule demo_paid [of demo_db "\<lambda>s a w. True" "\<lambda>k. 5000"]) (use start in auto)
  then have run: "wd_turns (pg_withdrawal_service demo_down demo_provider) (\<lambda>k. 5000) demo_big 5 (W_Start, demo_db) = (W_Paid None wd resp, w1)"
    using wd_turns_add [of "pg_withdrawal_service demo_down demo_provider" "\<lambda>k. 5000" demo_big 2 3 "(W_Start, demo_db)"]
    by (simp add: demo_covered)
  have "pe_fault demo_down ''begin'' [] w1" by (simp add: demo_env_with_def)
  from paid_not_debited [OF run this] obtain err row where
    "Initiate (pg_withdrawal_service demo_down demo_provider) (\<lambda>k. 5000) demo_big demo_db = ((None, Some err), w1)"
    "pg_entries w1 = pg_entries demo_db" "fmlookup (pg_withdrawals w1) (Wd_ID wd) = Some row" "Wd_Status row = ''processing''"
    by auto
  with start(3) show ?thesis by (intro exI [of _ err] exI [of _ "Wd_ID wd"] exI [of _ w1]) simp
qed

lemma races_other: "pg_steps e P cap iv ol w w' \<Longrightarrow> race_steps e P (ts, w) (ts, w')"
  by (induction rule: rtranclp_induct) (auto intro: rtranclp.rtrancl_into_rtrancl r_other)

theorem concurrent_ledger_balanced_witness:
  "\<exists>ts. race_steps demo_env demo_provider (\<lambda>_. Withdrawing demo_big W_Start, pg_init ()) (ts, demo_processed) \<and>
     ts 0 \<noteq> Withdrawing demo_big W_Start \<and> length (pg_entries demo_processed) = 2 \<and>
     total_debits (pg_entries demo_processed) = total_credits (pg_entries demo_processed)"
proof -
  obtain err where "wd_turns demo_wi (\<lambda>k. 0) demo_big 1 (W_Start, pg_init ()) = (W_Done (None, Some err), pg_init ())"
    by (simp add: wd_turn_def demo_big_fields pg_wiring pg_customer_store_def pg_GetCustomer_def scanCustomer_def pg_row_def
        pg_customer_row_def demo_env_def pg_init_def wrap_err_def)
  then have "race_steps demo_env demo_provider (\<lambda>_. Withdrawing demo_big W_Start, pg_init ())
      ((\<lambda>_. Withdrawing demo_big W_Start)(0 := Withdrawing demo_big (W_Done (None, Some err))), pg_init ())"
    by (rule race_turns) simp
  also have "race_steps demo_env demo_provider \<dots>
      ((\<lambda>_. Withdrawing demo_big W_Start)(0 := Withdrawing demo_big (W_Done (None, Some err))), demo_processed)"
    by (rule races_other [OF demo_steps])
  finally have run: "race_steps demo_env demo_provider (\<lambda>_. Withdrawing demo_big W_Start, pg_init ())
      ((\<lambda>_. Withdrawing demo_big W_Start)(0 := Withdrawing demo_big (W_Done (None, Some err))), demo_processed)" .
  from concurrent_ledger_balanced [OF run] run demo_processed_view(1) show ?thesis
    by (intro exI [of _ "(\<lambda>_. Withdrawing demo_big W_Start)(0 := Withdrawing demo_big (W_Done (None, Some err)))"])
      (simp add: pg_init_def)
qed

lemma demo_reassign_at:
  assumes "pg_customers w = pg_customers demo_db" and "pg_identities w = pg_identities demo_db"
    and "pg_txns w = pg_txns demo_db" and "pg_vas w = pg_vas demo_db"
  shows "\<exists>w1. resolveByReassign (pg_suspense_service demo_env) (\<lambda>k. 6000) demo_suspended demo_target w = (None, w1)"
  using assms
  by (simp add: resolveByReassign_def pg_suspense_service_def pg_stores pg_GetCustomer_def
      scanCustomer_def pg_row_def pg_customer_row_def wrap_err_def pg_GetTransaction_def
      pg_PostTransaction_def assertBalanced_def txn_row_def uuid_opt_def va_exists_def entry_ok_def
      SuspenseToCustomer_def reassign_finish_def pg_ResolveSuspenseItem_def resolution_tx_def
      pg_GetActiveVA_def pg_find_va_def range_vals_def range_keys_def Let_def resolutionTxID_def
      demo_db_def demo_target_def demo_suspended_def demo_held_def demo_customer_def demo_defs split: option.split)

theorem refunded_and_reassigned_witness:
  "\<exists>ts ts' w2. race_steps demo_env demo_provider (ts, demo_db) (ts', w2) \<and>
     (\<exists>row. fmlookup (pg_suspense w2) ''i1'' = Some row \<and> SI_Status row = ''refund_flagged'') \<and>
     exact_balance (CustomerWalletAccount ''c1'') (pg_entries w2) = 1200"
proof -
  let ?s = "pg_suspense_service demo_env" and ?r = "demo_target\<lparr>RR_Resolution := ''refund_flagged''\<rparr>"
  have read: "rs_turns ?s now ''i1'' req 1 (R_Start, demo_db) = (R_Read demo_suspended, demo_db)" for now req
    by (simp add: pg_suspense_service_def pg_suspense_store_def pg_GetSuspenseItem_def pg_row_def demo_env_def
        demo_db_def demo_suspended_def wrap_err_def)
  obtain w1 where r1: "rs_turns ?s (\<lambda>k. 5000) ''i1'' ?r 2 (R_Read demo_suspended, demo_db) = (R_Done None, w1)"
    and w1: "pg_customers w1 = pg_customers demo_db" "pg_identities w1 = pg_identities demo_db" "pg_txns w1 = pg_txns demo_db"
      "pg_vas w1 = pg_vas demo_db"
    by (simp add: rs_turns_numeral set_status_def pg_suspense_service_def pg_suspense_store_def pg_audit_store_def
        pg_ResolveSuspenseItem_def pg_Append_def pg_split demo_env_def demo_db_def demo_suspended_def demo_target_def Let_def)
  from demo_reassign_at [OF w1(1-4)] obtain w2 where
    "resolveByReassign ?s (\<lambda>k. 6000) demo_suspended demo_target w1 = (None, w2)" by blast
  then have r2: "rs_turns ?s (\<lambda>k. 6000) ''i1'' demo_target 6 (R_Read demo_suspended, w1) = (R_Done None, w2)"
    by (simp add: turns_reassign demo_target_def)
  have facts: "RR_Resolution ?r = ''refund_flagged''" "RR_Resolution demo_target = ''reassign''"
    "RR_TargetCustomerID demo_target = ''c1''" "pe_uuid demo_env (SI_ID demo_suspended) = Some ''i1''"
    "fmlookup (pg_suspense demo_db) ''i1'' = Some demo_suspended" "SI_Status demo_suspended = ''open''"
    "SI_TransactionID demo_suspended = ''t1''" "fmlookup (pg_txns demo_db) ''t1'' = Some demo_held" "Tx_AmountKobo demo_held = 500"
    "fmlookup (pg_txns w1) (resolutionTxID (SI_ID demo_suspended)) = None"
    "exact_balance (CustomerWalletAccount ''c1'') (pg_entries demo_db) = 700"
    using w1(3) by (simp_all add: demo_target_def demo_env_def demo_suspended_def demo_db_def demo_held_def resolutionTxID_def
        pg_init_def two_entries_balance)
  from refunded_and_reassigned [OF read read facts(1,2) r1 r2 facts(4-6,10)] facts show ?thesis by fastforce
qed

end
