(* ===== verification/AccountRaces.thy ===== *)
theory AccountRaces
  imports Races
begin

text \<open>
  The operations on virtual accounts (\<^verbatim>\<open>internal/service/provisioning.go\<close>), taken apart into the
  calls they make to the stores and to the provider, so that they interleave with each other, with
  withdrawals and resolutions, and with everything else the server does. The code reads an account,
  checks the transition, calls the provider and then updates the row by its identifier, with no
  lock and no condition on the status it has read.
\<close>

section \<open>Call by call\<close>

datatype va_op = Provisioning "8 word list" | Renaming string | Closing | Suspending | Unsuspending

datatype va_result =
    Provisioned "go_error + virtual_account option \<times> bool"
  | Renamed "go_error + virtual_account option"
  | Changed "go_error option"

text \<open>
  Where an operation is: it has found the customer (\<open>A_Known\<close>), who has no ACTIVE account (\<open>A_None\<close>),
  the provider has opened one (\<open>A_Opened\<close>); it has read the account and found the transition legal
  (\<open>A_Read\<close>), the provider has been told (\<open>A_Told\<close>); the row is written (\<open>A_Written\<close>), it has returned
  (\<open>A_Done\<close>).
\<close>

datatype va_phase =
    A_Start
  | A_Known customer
  | A_None customer
  | A_Opened va_response
  | A_Read virtual_account
  | A_Told virtual_account
  | A_Written virtual_account
  | A_Done va_result

text \<open>The answers of an operation to an error, and to a customer or an account that is not there.\<close>

fun va_failed :: "va_op \<Rightarrow> go_error \<Rightarrow> va_result" where
  "va_failed (Provisioning rnd) err = Provisioned (Inl err)"
| "va_failed (Renaming n) err = Renamed (Inl err)"
| "va_failed op err = Changed (Some err)"

fun va_missing :: "va_op \<Rightarrow> va_result" where
  "va_missing (Provisioning rnd) = Provisioned (Inr (None, False))"
| "va_missing (Renaming n) = Renamed (Inr None)"
| "va_missing op = Changed None"

fun va_target :: "va_op \<Rightarrow> string" where
  "va_target Closing = VAStatusClosed"
| "va_target Suspending = VAStatusSuspended"
| "va_target op = VAStatusActive"

text \<open>The account that an operation works on, and whether it may: all but a renaming check the transition.\<close>

definition va_read :: "'w provisioning_service \<Rightarrow> va_op \<Rightarrow> string \<Rightarrow> 'w \<Rightarrow> va_phase" where
  "va_read s op c w =
     (case (if op = Unsuspending then vs_GetVAByCustomerAndStatus (pr_accounts s) c VAStatusSuspended w
            else vs_GetActiveVA (pr_accounts s) c w) of
        Inl err \<Rightarrow> A_Done (va_failed op err)
      | Inr None \<Rightarrow> A_Done (va_missing op)
      | Inr (Some va) \<Rightarrow>
          if op \<in> {Closing, Suspending, Unsuspending} \<and> \<not> ValidTransition (VA_Status va) (va_target op)
          then A_Done (Changed (Some (StateError (VA_Status va) (va_target op))))
          else if op = Unsuspending then A_Told va else A_Read va)"

definition va_update :: "'w provisioning_service \<Rightarrow> time \<Rightarrow> string \<Rightarrow> string \<Rightarrow> string \<Rightarrow> virtual_account \<Rightarrow> 'w
    \<Rightarrow> va_phase \<times> 'w" where
  "va_update s now actor st what va w =
     (case vs_UpdateVAStatus (pr_accounts s) now (VA_ID va) st actor w of
        (Some err, w) \<Rightarrow> (A_Done (Changed (Some (Wrap what err))), w)
      | (None, w) \<Rightarrow> (A_Written va, w))"

definition va_audit :: "'w provisioning_service \<Rightarrow> time \<Rightarrow> string \<Rightarrow> string \<Rightarrow> string \<Rightarrow> virtual_account \<Rightarrow> json
    \<Rightarrow> 'w \<Rightarrow> 'w" where
  "va_audit s now t actor action va ba w =
     snd (as_Append (pr_audit s) now (audit_of t actor action ''virtual_account'' (VA_ID va) ba) w)"

text \<open>A phase that an operation does not go through is left as it is.\<close>

fun va_next :: "'w provisioning_service \<Rightarrow> (nat \<Rightarrow> time) \<Rightarrow> string \<Rightarrow> string \<Rightarrow> string \<Rightarrow> va_op \<Rightarrow> va_phase
    \<Rightarrow> 'w \<Rightarrow> va_phase \<times> 'w" where
  "va_next s now t c actor op A_Start w =
     (case cs_GetCustomer (pr_customers s) t c w of
        Inl err \<Rightarrow> (A_Done (va_failed op err), w)
      | Inr None \<Rightarrow> (A_Done (va_missing op), w)
      | Inr (Some customer) \<Rightarrow> (A_Known customer, w))"
| "va_next s now t c actor op (A_Known customer) w =
     (case op of
        Provisioning rnd \<Rightarrow>
          (case vs_GetActiveVA (pr_accounts s) c w of
             Inl err \<Rightarrow> (A_Done (Provisioned (Inl (Wrap ''provisioning: get active VA'' err))), w)
           | Inr (Some existing) \<Rightarrow> (A_Done (Provisioned (Inr (Some existing, False))), w)
           | Inr None \<Rightarrow> (A_None customer, w))
      | _ \<Rightarrow> (va_read s op c w, w))"
| "va_next s now t c actor op (A_None customer) w =
     (case op of
        Provisioning rnd \<Rightarrow>
          (case pv_CreateVA (pr_prov s)
                  \<lparr>CVR_AccountRef = buildAccountRef rnd t c,
                   CVR_AccountName = buildAccountName customer, CVR_BVN = ''''\<rparr> w of
             (Inl err, w) \<Rightarrow> (A_Done (Provisioned (Inl (Wrap ''provisioning: provider create VA'' err))), w)
           | (Inr vaResp, w) \<Rightarrow> (A_Opened vaResp, w))
      | _ \<Rightarrow> (A_None customer, w))"
| "va_next s now t c actor op (A_Opened vaResp) w =
     (case vs_CreateVirtualAccount (pr_accounts s) (now 0)
             \<lparr>VA_ID = '''', VA_CustomerID = c, VA_NombaAccountRef = VAR_AccountRef vaResp,
              VA_NUBAN = VAR_NUBAN vaResp, VA_BankName = VAR_BankName vaResp,
              VA_AccountName = VAR_AccountName vaResp, VA_NombaHolderID = VAR_AccountHolderID vaResp,
              VA_Status = VAStatusActive, VA_CreatedAt = 0, VA_UpdatedAt = 0,
              VA_CustomerDisplayName = '''', VA_TenantName = ''''\<rparr> w of
        (Inl err, w) \<Rightarrow> (A_Done (Provisioned (Inl (Wrap ''provisioning: persist VA'' err))), w)
      | (Inr va, w) \<Rightarrow> (A_Written va, w))"
| "va_next s now t c actor op (A_Read va) w =
     (case op of
        Renaming n \<Rightarrow>
          (case pv_UpdateVA (pr_prov s) (VA_NombaAccountRef va) n w of
             (Some err, w) \<Rightarrow> (A_Done (Renamed (Inl (Wrap ''provisioning: provider update VA'' err))), w)
           | (None, w) \<Rightarrow> (A_Told va, w))
      | Closing \<Rightarrow> (A_Told va, snd (pv_CloseVA (pr_prov s) (VA_NombaAccountRef va) w))
      | Suspending \<Rightarrow> (A_Told va, snd (pv_SuspendVA (pr_prov s) (VA_NombaHolderID va) w))
      | _ \<Rightarrow> (A_Read va, w))"
| "va_next s now t c actor op (A_Told va) w =
     (case op of
        Renaming n \<Rightarrow>
          (case vs_RenameVA (pr_accounts s) (now 0) (VA_ID va) n actor w of
             (Some err, w) \<Rightarrow> (A_Done (Renamed (Inl (Wrap ''provisioning: rename VA locally'' err))), w)
           | (None, w) \<Rightarrow> (A_Written va, w))
      | Closing \<Rightarrow> va_update s (now 0) actor VAStatusClosed ''provisioning: close VA'' va w
      | Suspending \<Rightarrow> va_update s (now 0) actor VAStatusSuspended ''provisioning: suspend VA'' va w
      | Unsuspending \<Rightarrow> va_update s (now 0) actor VAStatusActive ''provisioning: unsuspend VA'' va w
      | _ \<Rightarrow> (A_Told va, w))"
| "va_next s now t c actor op (A_Written va) w =
     (case op of
        Provisioning rnd \<Rightarrow>
          (A_Done (Provisioned (Inr (Some va, True))),
           va_audit s (now 1) t actor ''provision_va'' va (json_of_va va) w)
      | Renaming n \<Rightarrow>
          (let renamed = (vs_View (pr_accounts s) va w)\<lparr>VA_AccountName := n\<rparr>
           in (A_Done (Renamed (Inr (Some renamed))),
               va_audit s (now 1) t actor ''rename_va'' renamed
                 (before_after (JObj [(''account_name'', JStr (VA_AccountName va))])
                    (JObj [(''account_name'', JStr n)])) w))
      | Closing \<Rightarrow>
          (let closed = vs_View (pr_accounts s) va w
           in (A_Done (Changed None),
               va_audit s (now 1) t actor ''close_va'' closed
                 (before_after (JObj [(''status'', JStr (VA_Status closed))])
                    (JObj [(''status'', JStr VAStatusClosed)])) w))
      | Suspending \<Rightarrow> (A_Done (Changed None), va_audit s (now 1) t actor ''suspend_va'' va JNull w)
      | Unsuspending \<Rightarrow> (A_Done (Changed None), va_audit s (now 1) t actor ''unsuspend_va'' va JNull w))"
| "va_next s now t c actor op (A_Done r) w = (A_Done r, w)"

fun va_turns :: "'w provisioning_service \<Rightarrow> (nat \<Rightarrow> time) \<Rightarrow> string \<Rightarrow> string \<Rightarrow> string \<Rightarrow> va_op \<Rightarrow> nat
    \<Rightarrow> va_phase \<times> 'w \<Rightarrow> va_phase \<times> 'w" where
  "va_turns s now t c actor op 0 x = x"
| "va_turns s now t c actor op (Suc n) x =
     va_turns s now t c actor op n (va_next s now t c actor op (fst x) (snd x))"

lemma va_turns_Done [simp]: "va_turns s now t c actor op n (A_Done r, w) = (A_Done r, w)"
  by (induction n) simp_all

lemma va_turns_numeral:
  "va_turns s now t c actor op (numeral k) x =
     va_turns s now t c actor op (pred_numeral k) (va_next s now t c actor op (fst x) (snd x))"
  by (simp add: numeral_eq_Suc)

text \<open>
  The phases are the service: five turns of an operation that nothing interrupts take it from its
  start to the result and the world of the operation, on every branch.
\<close>

theorem phases_are_provisioning:
  "va_turns s now t c actor (Provisioning rnd) 5 (A_Start, w) =
     (case ProvisionVA s now rnd t c actor w of (r, w') \<Rightarrow> (A_Done (Provisioned r), w'))"
  "va_turns s now t c actor (Renaming n) 5 (A_Start, w) =
     (case RenameVA s now t c n actor w of (r, w') \<Rightarrow> (A_Done (Renamed r), w'))"
  "va_turns s now t c actor Closing 5 (A_Start, w) =
     (case CloseVA s now t c actor w of (r, w') \<Rightarrow> (A_Done (Changed r), w'))"
  "va_turns s now t c actor Suspending 5 (A_Start, w) =
     (case SuspendVA s now t c actor w of (r, w') \<Rightarrow> (A_Done (Changed r), w'))"
  "va_turns s now t c actor Unsuspending 5 (A_Start, w) =
     (case UnsuspendVA s now t c actor w of (r, w') \<Rightarrow> (A_Done (Changed r), w'))"
  by (simp_all add: ProvisionVA_def RenameVA_def CloseVA_def SuspendVA_def UnsuspendVA_def
      mustGetActiveVA_def va_turns_numeral va_read_def va_update_def va_audit_def Let_def
      split: option.split sum.split prod.split)

section \<open>Interleavings\<close>

text \<open>An operation inside its handler: tenant, customer, actor, operation, phase.\<close>

datatype va_task = VA_Task string string string va_op va_phase

text \<open>
  Any of the running operations makes its next call, or anything else happens: a call of a
  withdrawal or of a resolution, or a step of the server.
\<close>

inductive account_step :: "'e pg_env \<Rightarrow> 'e provider \<Rightarrow> (nat \<Rightarrow> task) \<times> (nat \<Rightarrow> va_task) \<times> 'e pg
    \<Rightarrow> (nat \<Rightarrow> task) \<times> (nat \<Rightarrow> va_task) \<times> 'e pg \<Rightarrow> bool" for e P where
  a_task: "us i = VA_Task t c actor op p \<Longrightarrow>
     va_next (pg_provisioning e P) now t c actor op p w = (p', w') \<Longrightarrow>
     account_step e P (ts, us, w) (ts, us(i := VA_Task t c actor op p'), w')"
| a_race: "race_step e P (ts, w) (ts', w') \<Longrightarrow> account_step e P (ts, us, w) (ts', us, w')"

abbreviation account_steps :: "'e pg_env \<Rightarrow> 'e provider \<Rightarrow> (nat \<Rightarrow> task) \<times> (nat \<Rightarrow> va_task) \<times> 'e pg
    \<Rightarrow> (nat \<Rightarrow> task) \<times> (nat \<Rightarrow> va_task) \<times> 'e pg \<Rightarrow> bool" where
  "account_steps e P \<equiv> (account_step e P)\<^sup>*\<^sup>*"

section \<open>What holds under interleaving\<close>

text \<open>Accounts that stay: none is removed or becomes another one.\<close>

definition accounts_kept :: "directory \<Rightarrow> directory \<Rightarrow> bool" where
  "accounts_kept m m' \<longleftrightarrow>
     (\<forall>i va. fmlookup m i = Some va \<longrightarrow> (\<exists>va'. fmlookup m' i = Some va' \<and> same_account va va'))"

lemma accounts_kept_refl [simp]: "accounts_kept m m"
  by (auto simp: accounts_kept_def)

lemma accounts_kept_trans: "accounts_kept a b \<Longrightarrow> accounts_kept b d \<Longrightarrow> accounts_kept a d"
  unfolding accounts_kept_def by (meson same_account_trans)

lemma va_step_kept: "va_step m m' \<Longrightarrow> accounts_kept m m'"
  unfolding accounts_kept_def using va_step_keeps by blast

lemma accounts_kept_upd:
  "fmlookup m j = Some va \<Longrightarrow> same_account va va' \<Longrightarrow> accounts_kept m (fmupd j va' m)"
  by (auto simp: accounts_kept_def)

definition keeps_accounts :: "'e pg_env \<Rightarrow> ('e pg \<Rightarrow> 'a \<times> 'e pg) \<Rightarrow> bool" where
  "keeps_accounts e op \<longleftrightarrow> (\<forall>w r w'. op w = (r, w') \<longrightarrow> pg_accounts_ok e w \<longrightarrow>
     pg_accounts_ok e w' \<and> accounts_kept (pg_vas w) (pg_vas w'))"

lemma keeps_accountsD:
  "keeps_accounts e op \<Longrightarrow> op w = (r, w') \<Longrightarrow> pg_accounts_ok e w \<Longrightarrow>
     pg_accounts_ok e w' \<and> accounts_kept (pg_vas w) (pg_vas w')"
  unfolding keeps_accounts_def by blast

lemma leaves_keeps_accounts: "leaves pg_vas op \<Longrightarrow> keeps_accounts e op"
  unfolding keeps_accounts_def by (metis accounts_kept_refl leaves_pair pg_accounts_cong)

lemma same_account_upd [simp]:
  "same_account va (va\<lparr>VA_Status := st, VA_UpdatedAt := u\<rparr>)"
  "same_account va (va\<lparr>VA_AccountName := n, VA_UpdatedAt := u\<rparr>)"
  by (simp_all add: same_account_def)

lemma store_kept:
  "pg_UpdateVAStatus e now i st actor w = (x, w') \<Longrightarrow> accounts_kept (pg_vas w) (pg_vas w')"
  "pg_RenameVA e now i n actor w = (x, w') \<Longrightarrow> accounts_kept (pg_vas w) (pg_vas w')"
  "pg_CreateVirtualAccount e now va w = (r, w') \<Longrightarrow> accounts_kept (pg_vas w) (pg_vas w')"
proof -
  assume up: "pg_UpdateVAStatus e now i st actor w = (x, w')"
  show "accounts_kept (pg_vas w) (pg_vas w')"
  proof (cases "pg_vas w' = pg_vas w")
    case False
    from pg_UpdateVAStatus_vas [OF up this] show ?thesis
      by (elim exE conjE) (simp add: accounts_kept_upd [OF _ same_account_upd(1)])
  qed simp
next
  assume up: "pg_RenameVA e now i n actor w = (x, w')"
  show "accounts_kept (pg_vas w) (pg_vas w')"
  proof (cases "pg_vas w' = pg_vas w")
    case False
    from pg_RenameVA_vas [OF up this] show ?thesis
      by (elim exE conjE) (simp add: accounts_kept_upd [OF _ same_account_upd(2)])
  qed simp
next
  assume "pg_CreateVirtualAccount e now va w = (r, w')"
  then show "accounts_kept (pg_vas w) (pg_vas w')"
    by (auto simp: pg_CreateVirtualAccount_def gen_uuid_def pg_va_unique_def accounts_kept_def Let_def
        split: option.splits if_splits)
qed

lemma store_keeps_accounts:
  "keeps_accounts e (pg_UpdateVAStatus e now i st actor)"
  "keeps_accounts e (pg_RenameVA e now i n actor)"
  "keeps_accounts e (pg_CreateVirtualAccount e now va)"
  unfolding keeps_accounts_def
  by (blast intro: pg_store_accounts [THEN keeps_pair] store_kept)+

lemma remote_keeps_accounts: "keeps_accounts e (on_remote op)"
  by (rule leaves_keeps_accounts) (simp add: leaves_def on_remote_def pg_split)

lemma audit_keeps_accounts:
  "pg_accounts_ok e w \<Longrightarrow> pg_accounts_ok e (va_audit (pg_provisioning e P) now t actor action va ba w) \<and>
     accounts_kept (pg_vas w) (pg_vas (va_audit (pg_provisioning e P) now t actor action va ba w))"
proof -
  have "keeps_accounts e (pg_Append e now a)" for a
    by (rule leaves_keeps_accounts) simp
  then show "pg_accounts_ok e w \<Longrightarrow> ?thesis"
    by (auto simp: va_audit_def pg_provisioning_def pg_stores dest: keeps_accountsD [OF _ prod.collapse [symmetric]])
qed

lemma va_update_keeps_accounts: "keeps_accounts e (va_update (pg_provisioning e P) now actor st what va)"
  unfolding keeps_accounts_def
  by (auto simp: va_update_def pg_provisioning_def pg_stores dest!: keeps_accountsD [OF store_keeps_accounts(1)]
      split: option.splits prod.splits)

lemma va_next_keeps_accounts: "keeps_accounts e (va_next (pg_provisioning e P) now t c actor op p)"
  unfolding keeps_accounts_def
proof (intro allI impI)
  fix w r w'
  assume run: "va_next (pg_provisioning e P) now t c actor op p w = (r, w')" and ok: "pg_accounts_ok e w"
  have rem: "snd (on_remote f w) = w' \<Longrightarrow> pg_accounts_ok e w' \<and> accounts_kept (pg_vas w) (pg_vas w')" for f
    using keeps_accountsD [OF remote_keeps_accounts prod.collapse [symmetric] ok, of f] by auto
  show "pg_accounts_ok e w' \<and> accounts_kept (pg_vas w) (pg_vas w')"
  proof (cases p)
    case (A_Opened vaResp)
    with run ok show ?thesis
      by (auto simp: pg_provisioning_def pg_stores dest!: keeps_accountsD [OF store_keeps_accounts(3)]
          split: sum.splits prod.splits)
  next
    case (A_None cust)
    with run ok show ?thesis
      by (auto simp: pg_provisioning_def remote_provider_def dest!: keeps_accountsD [OF remote_keeps_accounts]
          split: va_op.splits sum.splits prod.splits)
  next
    case (A_Read va)
    with run ok rem show ?thesis
      by (auto simp: pg_provisioning_def remote_provider_def dest!: keeps_accountsD [OF remote_keeps_accounts]
          split: va_op.splits option.splits prod.splits)
  next
    case (A_Told va)
    with run ok show ?thesis
      by (auto simp: pg_provisioning_def pg_stores dest!: keeps_accountsD [OF store_keeps_accounts(2)]
          keeps_accountsD [OF va_update_keeps_accounts, unfolded pg_provisioning_def pg_stores]
          split: va_op.splits option.splits prod.splits)
  next
    case (A_Written va)
    with run ok audit_keeps_accounts [OF ok] show ?thesis
      by (auto simp: Let_def split: va_op.splits)
  qed (use run ok in \<open>auto split: va_op.splits sum.splits option.splits prod.splits\<close>)
qed

text \<open>The calls of withdrawals and resolutions do not touch the accounts.\<close>

lemma wd_next_vas: "wd_next (pg_withdrawal_service e P) now req p w = (p', w') \<Longrightarrow> pg_vas w' = pg_vas w"
  by (cases p)
    (auto simp: pg_withdrawal_service_def pg_stores remote_provider_def on_remote_def Let_def
        pg_CreateWithdrawal_def pg_UpdateWithdrawalStatus_def pg_PostTransaction_def gen_uuid_def
      split: option.splits sum.splits prod.splits if_splits)

lemma rs_next_vas: "rs_next (pg_suspense_service e) now i req p w = (p', w') \<Longrightarrow> pg_vas w' = pg_vas w"
  by (cases p)
    (auto simp: pg_suspense_service_def pg_stores set_status_def Let_def pg_ResolveSuspenseItem_def
        pg_PostTransaction_def pg_Append_def gen_uuid_def
      split: option.splits sum.splits prod.splits if_splits)

lemma race_step_accounts:
  assumes "race_step e P (ts, w) (ts', w')" and "pg_accounts_ok e w"
  shows "pg_accounts_ok e w' \<and> accounts_kept (pg_vas w) (pg_vas w')"
  using assms(1)
proof (cases rule: race_step.cases)
  case (r_task now i t)
  then have "pg_vas w' = pg_vas w"
    by (cases "ts i") (auto simp: Let_def dest: wd_next_vas rs_next_vas split: prod.splits)
  with assms(2) pg_accounts_cong show ?thesis by (metis accounts_kept_refl)
next
  case (r_other cap iv ol)
  from pg_step_accounts [OF r_other(2) assms(2)] show ?thesis by (blast dest: va_step_kept)
qed

lemma account_step_accounts:
  "account_step e P x y \<Longrightarrow> pg_accounts_ok e (snd (snd x)) \<Longrightarrow>
     pg_accounts_ok e (snd (snd y)) \<and> accounts_kept (pg_vas (snd (snd x))) (pg_vas (snd (snd y)))"
  by (induction rule: account_step.induct)
    (auto dest: race_step_accounts keeps_accountsD [OF va_next_keeps_accounts])

lemma account_steps_accounts:
  "account_steps e P x y \<Longrightarrow> pg_accounts_ok e (snd (snd x)) \<Longrightarrow>
     pg_accounts_ok e (snd (snd y)) \<and> accounts_kept (pg_vas (snd (snd x))) (pg_vas (snd (snd y)))"
proof (induction rule: rtranclp_induct)
  case (step y z)
  with account_step_accounts [of e P y z] show ?case by (auto intro: accounts_kept_trans)
qed simp

text \<open>
  C11: In production a customer never has two ACTIVE accounts, however requests interleave. Any number of
  provisionings, renamings, closures, suspensions and reactivations may be inside their handlers at once,
  their calls to the stores and the provider interleaved in any order with each other, with
  withdrawals and resolutions, and with everything else the server does, under any faults of the
  database and answers of the provider: on a directory with at most one ACTIVE account per customer this stays so,
  and no account is removed or changes its customer, provider reference or NUBAN. And in every
  state that is reached, a step of the server in which an operation runs without interruption
  changes the status of an account only as ValidTransition says.
\<close>

theorem production_one_active:
  assumes "account_steps e P (ts, us, w) (ts', us', w')" and "pg_accounts_ok e w"
  shows "one_active (pg_vas w') \<and> accounts_kept (pg_vas w) (pg_vas w') \<and>
    (\<forall>cap iv ol w2 i va. pg_step e P cap iv ol w' w2 \<longrightarrow> fmlookup (pg_vas w') i = Some va \<longrightarrow>
       (\<exists>va2. fmlookup (pg_vas w2) i = Some va2 \<and>
          (VA_Status va2 = VA_Status va \<or> ValidTransition (VA_Status va) (VA_Status va2))))"
proof -
  have ok: "pg_accounts_ok e w'" "accounts_kept (pg_vas w) (pg_vas w')"
    using account_steps_accounts [OF assms(1)] assms(2) by simp_all
  moreover have "\<exists>va2. fmlookup (pg_vas w2) i = Some va2 \<and>
      (VA_Status va2 = VA_Status va \<or> ValidTransition (VA_Status va) (VA_Status va2))"
    if "pg_step e P cap iv ol w' w2" "fmlookup (pg_vas w') i = Some va" for cap iv ol w2 i va
    using pg_step_accounts [OF that(1) ok(1)] va_step_keeps [OF _ that(2)] by blast
  ultimately show ?thesis by (simp add: pg_accounts_ok_def)
qed

section \<open>A closed account comes back\<close>

lemma account_turns:
  assumes "va_turns (pg_provisioning e P) now t c actor op n (p, w) = (p', w')"
    and "us i = VA_Task t c actor op p"
  shows "account_steps e P (ts, us, w) (ts, us(i := VA_Task t c actor op p'), w')"
  using assms
proof (induction n arbitrary: us p w)
  case 0
  then show ?case by (metis Pair_inject fun_upd_triv rtranclp.rtrancl_refl va_turns.simps(1))
next
  case (Suc n)
  obtain q v where q: "va_next (pg_provisioning e P) now t c actor op p w = (q, v)" by fastforce
  with Suc.prems have "account_step e P (ts, us, w) (ts, us(i := VA_Task t c actor op q), v)"
    by (intro a_task [where now = now]) simp_all
  moreover have "account_steps e P (ts, us(i := VA_Task t c actor op q), v)
      (ts, (us(i := VA_Task t c actor op q))(i := VA_Task t c actor op p'), w')"
    using Suc.prems q by (intro Suc.IH) simp_all
  ultimately show ?case by (metis (no_types) converse_rtranclp_into_rtranclp fun_upd_upd)
qed

text \<open>A database whose one customer has one account.\<close>

definition one_account :: "unit pg \<Rightarrow> virtual_account \<Rightarrow> bool" where
  "one_account w va \<longleftrightarrow> pg_vas w = fmupd ''v1'' va fmempty \<and> pg_customers w = pg_customers demo_db \<and>
     pg_identities w = pg_identities demo_db \<and> VA_ID va = ''v1'' \<and> VA_CustomerID va = ''c1''"

definition live_db :: "unit pg" where
  "live_db = demo_db\<lparr>pg_vas := fmupd ''v1'' demo_account fmempty\<rparr>"

abbreviation demo_provisioning :: "unit pg provisioning_service" where
  "demo_provisioning \<equiv> pg_provisioning demo_env demo_provider"

lemma live_account: "one_account live_db demo_account"
  by (simp add: one_account_def live_db_def demo_account_def)

lemma one_account_found:
  assumes "one_account w va"
  shows "pg_GetCustomer demo_env ''t1'' ''c1'' w = Inr (Some demo_customer)"
    and "pg_GetVAByCustomerAndStatus demo_env ''c1'' st w = Inr (if VA_Status va = st then Some va else None)"
    and "pg_GetActiveVA demo_env ''c1'' w = Inr (if VA_Status va = VAStatusActive then Some va else None)"
  using assms
  by (simp_all add: one_account_def pg_GetCustomer_def scanCustomer_def pg_row_def pg_customer_row_def
      pg_GetVAByCustomerAndStatus_def pg_GetActiveVA_def pg_find_va_def range_vals_def range_keys_def Let_def
      demo_env_def demo_db_def demo_customer_def)

abbreviation with_status :: "virtual_account \<Rightarrow> string \<Rightarrow> time \<Rightarrow> virtual_account" where
  "with_status va st now \<equiv> va\<lparr>VA_Status := st, VA_UpdatedAt := micros now\<rparr>"

lemma one_account_changes:
  assumes "one_account w va" and "st \<in> va_statuses" and "VA_ID v0 = ''v1''"
  shows "va_update demo_provisioning now actor st what v0 w =
      (A_Written v0, w\<lparr>pg_vas := fmupd ''v1'' (with_status va st now) (pg_vas w)\<rparr>)"
    and "one_account (w\<lparr>pg_vas := fmupd ''v1'' (with_status va st now) (pg_vas w)\<rparr>) (with_status va st now)"
  using assms
  by (simp_all add: va_update_def pg_provisioning_def pg_stores pg_UpdateVAStatus_eq va_clash_def one_account_def
      range_vals_def range_keys_def demo_env_def)

lemma one_account_audit:
  "one_account w va \<Longrightarrow> one_account (va_audit demo_provisioning now t actor action v ba w) va"
  by (simp add: one_account_def va_audit_def pg_provisioning_def pg_stores pg_Append_def demo_env_def gen_uuid_def
      Let_def split: option.split)

text \<open>The turns of two requests for the account, as they were begun on the ACTIVE account.\<close>

lemma begin_turns:
  assumes "one_account w va" and "VA_Status va = VAStatusActive" and "op \<in> {Closing, Suspending}"
  shows "va_turns demo_provisioning now ''t1'' ''c1'' actor op 3 (A_Start, w) = (A_Told va, w)"
  using assms one_account_found [OF assms(1)]
  by (auto simp: va_turns_numeral va_read_def pg_provisioning_def pg_stores remote_provider_def demo_provider_def
      on_remote_def ValidTransition_def allowed_transitions_def)

lemma finish_turns:
  assumes "one_account w va" and "op \<in> {Closing, Suspending}" and "VA_ID v0 = ''v1''"
  shows "\<exists>w'. va_turns demo_provisioning now ''t1'' ''c1'' actor op 2 (A_Told v0, w) = (A_Done (Changed None), w') \<and>
    one_account w' (with_status va (va_target op) (now 0))"
proof -
  have "va_target op \<in> va_statuses" using assms(2) by (auto simp: va_statuses_def)
  note up = one_account_changes [OF assms(1) this assms(3)]
  show ?thesis
    using assms(2) up(1) one_account_audit [OF up(2), of "now 1"] by (auto simp: va_turns_numeral Let_def)
qed

text \<open>A suspended account is taken up again; a suspension of a closed one does nothing.\<close>

lemma unsuspended:
  assumes "one_account w va" and "VA_Status va = VAStatusSuspended"
  shows "\<exists>w'. UnsuspendVA demo_provisioning now ''t1'' ''c1'' actor w = (None, w') \<and>
    one_account w' (with_status va VAStatusActive (now 0))"
proof -
  have id: "VA_ID va = ''v1''" and st: "VAStatusActive \<in> va_statuses"
    using assms(1) by (simp_all add: one_account_def va_statuses_def)
  note up = one_account_changes [OF assms(1) st id]
  have "va_turns demo_provisioning now ''t1'' ''c1'' actor Unsuspending 3 (A_Told va, w) =
      (A_Done (Changed None), va_audit demo_provisioning (now 1) ''t1'' actor ''unsuspend_va'' va JNull
         (w\<lparr>pg_vas := fmupd ''v1'' (with_status va VAStatusActive (now 0)) (pg_vas w)\<rparr>))"
    by (simp add: va_turns_numeral up(1))
  moreover have "va_turns demo_provisioning now ''t1'' ''c1'' actor Unsuspending 2 (A_Start, w) = (A_Told va, w)"
    using assms(2) one_account_found [OF assms(1)]
    by (simp add: va_turns_numeral va_read_def pg_provisioning_def pg_stores ValidTransition_def allowed_transitions_def)
  moreover have "va_turns s now t c actor op 5 x = va_turns s now t c actor op 3 (va_turns s now t c actor op 2 x)"
    for s :: "unit pg provisioning_service" and t c op x by (simp add: va_turns_numeral)
  ultimately have "(case UnsuspendVA demo_provisioning now ''t1'' ''c1'' actor w of (r, w') \<Rightarrow> (A_Done (Changed r), w')) =
      (A_Done (Changed None), va_audit demo_provisioning (now 1) ''t1'' actor ''unsuspend_va'' va JNull
         (w\<lparr>pg_vas := fmupd ''v1'' (with_status va VAStatusActive (now 0)) (pg_vas w)\<rparr>))"
    using phases_are_provisioning(5) [of demo_provisioning now "''t1''" "''c1''" actor w] by simp
  with one_account_audit [OF up(2)] show ?thesis by (auto split: prod.splits)
qed

lemma closed_stays:
  "one_account w va \<Longrightarrow> VA_Status va = VAStatusClosed \<Longrightarrow>
     SuspendVA demo_provisioning now ''t1'' ''c1'' actor w = (None, w)"
  by (simp add: SuspendVA_def mustGetActiveVA_def pg_provisioning_def pg_stores one_account_found)

abbreviation changing :: "va_op \<Rightarrow> va_phase \<Rightarrow> va_task" where
  "changing op p \<equiv> VA_Task ''t1'' ''c1'' ''ops'' op p"

abbreviation account_status :: "'e pg \<Rightarrow> string option" where
  "account_status w \<equiv> map_option VA_Status (fmlookup (pg_vas w) ''v1'')"

text \<open>The interleaving of a closure and a suspension.\<close>

abbreviation both_told :: "va_phase \<Rightarrow> va_phase \<Rightarrow> nat \<Rightarrow> va_task" where
  "both_told p q \<equiv> (\<lambda>_. changing Suspending A_Start)(0 := changing Closing p, 1 := changing Suspending q)"

lemma close_and_suspend:
  obtains w1 w2 where
    "account_steps demo_env demo_provider (ts, (\<lambda>_. changing Suspending A_Start)(0 := changing Closing A_Start), live_db)
       (ts, both_told (A_Done (Changed None)) (A_Told demo_account), w1)"
    and "account_steps demo_env demo_provider (ts, both_told (A_Done (Changed None)) (A_Told demo_account), w1)
       (ts, both_told (A_Done (Changed None)) (A_Done (Changed None)), w2)"
    and "one_account w1 (with_status demo_account VAStatusClosed 5000)"
    and "one_account w2 (with_status (with_status demo_account VAStatusClosed 5000) VAStatusSuspended 6000)"
proof -
  let ?u0 = "(\<lambda>_. changing Suspending A_Start)(0 := changing Closing A_Start)"
  let ?u1 = "?u0(0 := changing Closing (A_Told demo_account))"
  let ?u2 = "?u1(1 := changing Suspending (A_Told demo_account))"
  let ?u3 = "?u2(0 := changing Closing (A_Done (Changed None)))"
  let ?u4 = "?u3(1 := changing Suspending (A_Done (Changed None)))"
  have acc: "VA_Status demo_account = VAStatusActive" "VA_ID demo_account = ''v1''" by (simp_all add: demo_account_def)
  have b: "va_turns demo_provisioning (\<lambda>k. 5000) ''t1'' ''c1'' ''ops'' op 3 (A_Start, live_db) = (A_Told demo_account, live_db)"
    if "op \<in> {Closing, Suspending}" for op
    by (rule begin_turns [OF live_account acc(1) that])
  obtain w1 where c: "va_turns demo_provisioning (\<lambda>k. 5000) ''t1'' ''c1'' ''ops'' Closing 2 (A_Told demo_account, live_db) =
      (A_Done (Changed None), w1)" "one_account w1 (with_status demo_account VAStatusClosed 5000)"
    using finish_turns [OF live_account _ acc(2), of Closing "\<lambda>k. 5000" "''ops''"] by auto
  obtain w2 where s: "va_turns demo_provisioning (\<lambda>k. 6000) ''t1'' ''c1'' ''ops'' Suspending 2 (A_Told demo_account, w1) =
      (A_Done (Changed None), w2)" "one_account w2 (with_status (with_status demo_account VAStatusClosed 5000) VAStatusSuspended 6000)"
    using finish_turns [OF c(2) _ acc(2), of Suspending "\<lambda>k. 6000" "''ops''"] by auto
  have "account_steps demo_env demo_provider (ts, ?u0, live_db) (ts, ?u1, live_db)"
    by (rule account_turns [OF b]) simp_all
  moreover have "account_steps demo_env demo_provider (ts, ?u1, live_db) (ts, ?u2, live_db)"
    by (rule account_turns [OF b]) simp_all
  moreover have "account_steps demo_env demo_provider (ts, ?u2, live_db) (ts, ?u3, w1)"
    by (rule account_turns [OF c(1)]) simp
  ultimately have r1: "account_steps demo_env demo_provider (ts, ?u0, live_db) (ts, ?u3, w1)"
    by (meson rtranclp_trans)
  have r2: "account_steps demo_env demo_provider (ts, ?u3, w1) (ts, ?u4, w2)"
    by (rule account_turns [OF s(1)]) simp
  have u3: "?u3 = both_told (A_Done (Changed None)) (A_Told demo_account)" by (simp add: fun_eq_iff)
  have u4: "?u4 = both_told (A_Done (Changed None)) (A_Done (Changed None))" by (simp add: fun_eq_iff)
  from r1 have a: "account_steps demo_env demo_provider (ts, ?u0, live_db)
      (ts, both_told (A_Done (Changed None)) (A_Told demo_account), w1)" by (simp only: u3)
  from r2 have b: "account_steps demo_env demo_provider (ts, both_told (A_Done (Changed None)) (A_Told demo_account), w1)
       (ts, both_told (A_Done (Changed None)) (A_Done (Changed None)), w2)" by (simp only: u4) (simp only: u3)
  show ?thesis by (rule that [OF a b c(2) s(2)])
qed

text \<open>
  C21: CLOSED is not final. A request closes an account while another one, which has read it as ACTIVE, is on the way
  to suspend it. The closure is written and answered; then the suspension is written over it and is
  answered as well, a transition that the lifecycle forbids; and now the account can be made ACTIVE
  again, and takes credits into the wallet. Begun after the closure, the suspension does nothing.
\<close>

theorem closed_account_revived:
  "\<exists>w1 w2 w3.
     account_steps demo_env demo_provider (ts, (\<lambda>_. changing Suspending A_Start)(0 := changing Closing A_Start), live_db)
       (ts, both_told (A_Done (Changed None)) (A_Told demo_account), w1) \<and>
     account_steps demo_env demo_provider (ts, both_told (A_Done (Changed None)) (A_Told demo_account), w1)
       (ts, both_told (A_Done (Changed None)) (A_Done (Changed None)), w2) \<and>
     UnsuspendVA demo_provisioning (\<lambda>k. 7000) ''t1'' ''c1'' ''ops'' w2 = (None, w3) \<and>
     account_status live_db = Some VAStatusActive \<and> account_status w1 = Some VAStatusClosed \<and>
     account_status w2 = Some VAStatusSuspended \<and> account_status w3 = Some VAStatusActive \<and>
     \<not> ValidTransition VAStatusClosed VAStatusSuspended \<and>
     SuspendVA demo_provisioning (\<lambda>k. 6000) ''t1'' ''c1'' ''ops'' w1 = (None, w1)"
proof (rule close_and_suspend [where ts = ts])
  fix w1 w2
  assume r: "account_steps demo_env demo_provider (ts, (\<lambda>_. changing Suspending A_Start)(0 := changing Closing A_Start), live_db)
       (ts, both_told (A_Done (Changed None)) (A_Told demo_account), w1)"
    "account_steps demo_env demo_provider (ts, both_told (A_Done (Changed None)) (A_Told demo_account), w1)
       (ts, both_told (A_Done (Changed None)) (A_Done (Changed None)), w2)"
    and w: "one_account w1 (with_status demo_account VAStatusClosed 5000)"
      "one_account w2 (with_status (with_status demo_account VAStatusClosed 5000) VAStatusSuspended 6000)"
  obtain w3 where u: "UnsuspendVA demo_provisioning (\<lambda>k. 7000) ''t1'' ''c1'' ''ops'' w2 = (None, w3)"
      "one_account w3 (with_status (with_status (with_status demo_account VAStatusClosed 5000) VAStatusSuspended 6000) VAStatusActive 7000)"
    using unsuspended [OF w(2), of "\<lambda>k. 7000" "''ops''"] by auto
  have "SuspendVA demo_provisioning (\<lambda>k. 6000) ''t1'' ''c1'' ''ops'' w1 = (None, w1)"
    by (rule closed_stays [OF w(1)]) simp
  moreover have "account_status live_db = Some VAStatusActive" "account_status w1 = Some VAStatusClosed"
    "account_status w2 = Some VAStatusSuspended" "account_status w3 = Some VAStatusActive"
    using live_account w u(2) by (simp_all add: one_account_def demo_account_def)
  moreover have "\<not> ValidTransition VAStatusClosed VAStatusSuspended"
    by (simp add: ValidTransition_def allowed_transitions_def)
  ultimately show ?thesis using r u(1) by blast
qed

theorem production_one_active_witness:
  "\<exists>ts us w. account_steps demo_env demo_provider
      (ts, (\<lambda>_. changing Suspending A_Start)(0 := changing Closing A_Start), live_db) (ts, us, w) \<and>
    account_status w = Some VAStatusSuspended \<and> one_active (pg_vas w) \<and> accounts_kept (pg_vas live_db) (pg_vas w)"
proof (rule close_and_suspend)
  fix ts w1 w2
  assume r: "account_steps demo_env demo_provider (ts, (\<lambda>_. changing Suspending A_Start)(0 := changing Closing A_Start), live_db)
       (ts, both_told (A_Done (Changed None)) (A_Told demo_account), w1)"
    "account_steps demo_env demo_provider (ts, both_told (A_Done (Changed None)) (A_Told demo_account), w1)
       (ts, both_told (A_Done (Changed None)) (A_Done (Changed None)), w2)"
    and w: "one_account w2 (with_status (with_status demo_account VAStatusClosed 5000) VAStatusSuspended 6000)"
  have "pg_accounts_ok demo_env live_db"
    by (simp add: pg_accounts_ok_def pg_dir_inv_def canonical_ids_def one_active_def live_db_def demo_account_def)
      (simp add: demo_env_def)
  with rtranclp_trans [OF r] production_one_active [OF rtranclp_trans [OF r]]
  have "account_steps demo_env demo_provider
      (ts, (\<lambda>_. changing Suspending A_Start)(0 := changing Closing A_Start), live_db)
      (ts, both_told (A_Done (Changed None)) (A_Done (Changed None)), w2) \<and>
    one_active (pg_vas w2) \<and> accounts_kept (pg_vas live_db) (pg_vas w2)" by blast
  moreover have "account_status w2 = Some VAStatusSuspended" using w by (simp add: one_account_def)
  ultimately show ?thesis by blast
qed

end
