(* ===== verification/Listing.thy ===== *)
theory Listing
  imports Nomba Flows
begin

text \<open>
  From the provider's transaction list to the ledger: what \<^verbatim>\<open>internal/provider/nomba/adapter.go\<close>
  lets through to the sweep (\<^verbatim>\<open>internal/recon/sweep.go\<close>), and what the sweep of the production server posts of it.
\<close>

section \<open>A listed credit\<close>

lemma ingest_one:
  "nt_Type t = ''vact_transfer'' \<Longrightarrow> convertTransaction a t = Inr pt \<Longrightarrow> ingest a [t] = [pt]"
  by (simp add: ingest_def)

lemma convert_sels:
  "convertTransaction a t = Inr pt \<Longrightarrow> PT_TransactionID pt = nt_TransactionID t \<and>
     PT_AccountNumber pt = nt_RecipientAccountNumber t \<and> PT_AccountRef pt = ''''"
  by (auto simp: convertTransaction_def split: option.splits sum.splits)

text \<open>A database that is up, and an account that is found by its number and is ACTIVE.\<close>

definition pg_up :: "'e pg_env \<Rightarrow> bool" where
  "pg_up e \<longleftrightarrow> (\<forall>s args w. \<not> pe_fault e s args w)"

definition pays_into :: "'e pg_env \<Rightarrow> 'e pg \<Rightarrow> string \<Rightarrow> virtual_account \<Rightarrow> bool" where
  "pays_into e w nuban va \<longleftrightarrow> nuban \<noteq> '''' \<and> pg_GetVAByNUBAN e nuban w = Inr (Some va) \<and>
     VA_Status va = VAStatusActive \<and> pe_uuid e (VA_ID va) = Some (VA_ID va) \<and>
     fmlookup (pg_vas w) (VA_ID va) \<noteq> None"

lemma active_routes:
  assumes "pe_uuid e '''' = None" and "pays_into e w (PT_AccountNumber pt) va" and "PT_AccountRef pt = ''''"
    and "0 < sint (PT_AmountKobo pt)"
  shows "route_credit (pg_worker e) now pt w =
    Inr \<lparr>MR_VA = Some va, MR_CustomerID = VA_CustomerID va,
         MR_Entries = two_entries (PT_TransactionID pt) AccountNombaSettlement
           (CustomerWalletAccount (VA_CustomerID va)) (PT_AmountKobo pt), MR_Suspense = None\<rparr>"
proof -
  obtain err where "pg_GetCustomer e '''' (VA_CustomerID va) w = Inl err"
    using pg_no_tenant [OF assms(1)] by blast
  with assms show ?thesis
    by (simp add: route_credit_def Match_def find_va_def pg_wiring pg_stores pays_into_def
        VAStatusActive_def VAStatusClosed_def VAStatusSuspended_def checkTierLimits_def CreditCustomer_def
        two_entries_def Let_def)
qed

lemma listed_credit_posts:
  assumes "pg_up e" and "pe_uuid e '''' = None" and "pays_into e w (PT_AccountNumber pt) va"
    and "PT_AccountRef pt = ''''" and "0 < sint (PT_AmountKobo pt)"
    and "pe_jsonb e (json_of_pt pt) = Some raw" and "fmlookup (pg_txns w) (PT_TransactionID pt) = None"
  shows "\<exists>w'. ProcessDirect (pg_worker e) now (buildWorkItem pt) w = (Inr (zero_result\<lparr>PR_Posted := True\<rparr>), w') \<and>
    pg_entries w' = pg_entries w @ two_entries (PT_TransactionID pt) AccountNombaSettlement
      (CustomerWalletAccount (VA_CustomerID va)) (PT_AmountKobo pt) \<and>
    (\<exists>row. fmlookup (pg_txns w') (PT_TransactionID pt) = Some row \<and> Tx_Status row = ''posted'' \<and>
       Tx_Direction row = ''credit'' \<and> Tx_AmountKobo row = PT_AmountKobo pt)"
proof -
  let ?item = "buildWorkItem pt" and ?pt = "pt\<lparr>PT_Raw := json_of_pt pt\<rparr>"
  let ?es = "two_entries (PT_TransactionID pt) AccountNombaSettlement
      (CustomerWalletAccount (VA_CustomerID va)) (PT_AmountKobo pt)"
  have item: "WP_Transaction (WI_Payload ?item) = ?pt" "WP_EventType (WI_Payload ?item) = ''payment_success''"
    "WI_Source ?item = ''sweep''"
    by (simp_all add: buildWorkItem_def Let_def)
  obtain r where r: "route_credit (pg_worker e) (now 0) ?pt w = Inr r" "MR_VA r = Some va" "MR_Suspense r = None"
    "MR_Entries r = ?es"
    using active_routes [of e w ?pt va "now 0"] assms by simp
  obtain row where row: "txn_row e (now 1) (mk_tx ?item ?pt r ''credit'' ''posted'') = Some row"
    "Tx_VirtualAccountID row = Some (VA_ID va)" "Tx_Status row = ''posted''" "Tx_Direction row = ''credit''"
    "Tx_AmountKobo row = PT_AmountKobo pt"
    using assms(3,5,6) r(2) by (simp add: txn_row_def mk_tx_def uuid_opt_def toPtr_def pays_into_def item)
  let ?w1 = "w\<lparr>pg_txns := fmupd (PT_TransactionID pt) row (pg_txns w), pg_entries := pg_entries w @ ?es\<rparr>"
  have post: "xs_PostTransaction (wk_txns (pg_worker e)) (now 1) (mk_tx ?item ?pt r ''credit'' ''posted'') ?es w = (Inr True, ?w1)"
    using assms(1,3,5,7) row
    by (simp add: pg_wiring pg_stores pg_PostTransaction_def assertBalanced_def pg_up_def mk_tx_def two_entries_def
        entry_ok_def va_exists_def pays_into_def)
  have get: "xs_GetTransaction (wk_txns (pg_worker e)) (PT_TransactionID pt) w = Inr None"
    using assms(1,7) by (simp add: pg_wiring pg_stores pg_GetTransaction_def wrap_err_def pg_row_def pg_up_def)
  obtain w' where run: "ProcessDirect (pg_worker e) now ?item w = (Inr (zero_result\<lparr>PR_Posted := True\<rparr>), w')"
    and w': "w' = after_post (pg_worker e) now ?pt r ?w1"
    using get post r by (simp add: ProcessDirect_def processCreditDirect_def item zero_result_def)
  have "pg_txns w' = pg_txns ?w1 \<and> pg_entries w' = pg_entries ?w1"
    unfolding w' by (rule pg_recon.after_post_view)
  then show ?thesis using run row by auto
qed

text \<open>
  C40: The sweep posts what the provider lists, without a look at its outcome. Any entry of the type of a virtual
  account transfer that names an ACTIVE account, with an amount that converts to a positive number of kobo and an
  identifier that the ledger does not have, is let through and posted as a credit: the run counts it as
  posted, its amount is debited to the settlement account and credited to the customer's wallet, and
  its row has the status posted and the direction credit. There is no condition on the entry's own status
  and on its entry type, so this is what happens to a failed transfer and to a debit.
\<close>

theorem listing_ignores_status:
  assumes "nt_Type t = ''vact_transfer''" and "convertTransaction a t = Inr pt" and "0 < sint (PT_AmountKobo pt)"
    and "pg_up e" and "pe_uuid e '''' = None" and "pe_jsonb e (json_of_pt pt) = Some raw"
    and "pays_into e w (nt_RecipientAccountNumber t) va"
    and "fmlookup (pg_txns w) (nt_TransactionID t) = None"
  shows "\<exists>w'. sweep_items (pg_sweep_runner e P iv ol) clk (ingest a [t]) (r, w)
      = (r\<lparr>SR_Posted := SR_Posted r + 1\<rparr>, w') \<and>
    pg_entries w' = pg_entries w @ two_entries (nt_TransactionID t) AccountNombaSettlement
      (CustomerWalletAccount (VA_CustomerID va)) (PT_AmountKobo pt) \<and>
    (\<exists>row. fmlookup (pg_txns w') (nt_TransactionID t) = Some row \<and> Tx_Status row = ''posted'' \<and>
       Tx_Direction row = ''credit'' \<and> Tx_AmountKobo row = PT_AmountKobo pt)"
proof -
  let ?s = "pg_sweep_runner e P iv ol"
  note pt = convert_sels [OF assms(2)]
  have "PT_AccountNumber pt \<noteq> ''''" using pt assms(7) by (simp add: pays_into_def)
  then have bare: "requery_if_bare ?s pt w = (pt, w)" by (simp add: requery_if_bare_def)
  have wk: "sr_worker ?s = pg_worker e" by (simp add: pg_sweep_runner_def)
  from assms(7,8) obtain w' where w': "ProcessDirect (pg_worker e) (clk 0) (buildWorkItem pt) w =
        (Inr (zero_result\<lparr>PR_Posted := True\<rparr>), w')"
      "pg_entries w' = pg_entries w @ two_entries (nt_TransactionID t) AccountNombaSettlement
        (CustomerWalletAccount (VA_CustomerID va)) (PT_AmountKobo pt)"
      "\<exists>row. fmlookup (pg_txns w') (nt_TransactionID t) = Some row \<and> Tx_Status row = ''posted'' \<and>
        Tx_Direction row = ''credit'' \<and> Tx_AmountKobo row = PT_AmountKobo pt"
    using listed_credit_posts [where now = "clk 0" and va = va and w = w, OF assms(4,5) _ _ assms(3,6)] pt by auto
  have "sweep_items ?s clk (ingest a [t]) (r, w) = (r\<lparr>SR_Posted := SR_Posted r + 1\<rparr>, w')"
    using ingest_one [OF assms(1,2)] bare wk w'(1) by (simp add: sweep_item_def tally_def zero_result_def)
  with w'(2,3) show ?thesis by blast
qed

text \<open>A failed debit of 15.55 naira.\<close>

definition demo_listed :: nomba_transaction where
  "demo_listed = \<lparr>nt_TransactionID = ''T1'', nt_SessionID = '''', nt_Amount = naira_text 1555,
     nt_Type = ''vact_transfer'', nt_Status = ''FAILED'', nt_TimeCreated = '''',
     nt_RecipientAccountNumber = ''0000000001'', nt_SenderName = '''', nt_BankName = '''', nt_Narration = '''',
     nt_EntryType = ''DEBIT''\<rparr>"

theorem listing_ignores_status_witness:
  "\<exists>w'. sweep_items (pg_sweep_runner demo_env demo_provider hour minute) (\<lambda>n k. 5500)
      (ingest demo_adapter [demo_listed]) (start_result 0 5000, (pg_init ())\<lparr>pg_vas := fmupd ''v1'' demo_account fmempty\<rparr>)
      = (start_result 0 5000\<lparr>SR_Posted := 1\<rparr>, w') \<and>
    nt_Status demo_listed = ''FAILED'' \<and> nt_EntryType demo_listed = ''DEBIT'' \<and>
    pg_entries w' = two_entries ''T1'' AccountNombaSettlement (CustomerWalletAccount ''c1'') 1555"
proof -
  let ?w = "(pg_init ())\<lparr>pg_vas := fmupd ''v1'' demo_account fmempty\<rparr>"
  obtain pt where c: "convertTransaction demo_adapter demo_listed = Inr pt" "PT_AmountKobo pt = 1555"
    using convert_amount [of 1555 demo_listed 0 demo_adapter] parse_naira_text [of 1555]
    by (auto simp: demo_listed_def parseNombaTime_def)
  have "pays_into demo_env ?w (nt_RecipientAccountNumber demo_listed) demo_account"
    by (simp add: pays_into_def pg_GetVAByNUBAN_def pg_row_def pg_find_va_def range_vals_def range_keys_def
        demo_env_def demo_listed_def demo_account_def Let_def)
  from listing_ignores_status [where e = demo_env and P = demo_provider and iv = hour and ol = minute
      and clk = "\<lambda>n k. 5500" and r = "start_result 0 5000", OF _ c(1) _ _ _ _ this] c(2)
  show ?thesis
    by (auto simp: demo_listed_def pg_up_def demo_env_def pg_init_def start_result_def demo_account_def)
qed

end
