(* ===== verification/Idempotency.thy ===== *)
theory Idempotency
  imports Runtime
begin

text \<open>
  \<^verbatim>\<open>internal/api/middleware/idempotency.go\<close>: the Idempotency-Key middleware. Redis is not part
  of the repository: its three operations are parameters, and \<open>redis_contract\<close> states the documented
  behaviour that the middleware relies on (keys expire, SETNX succeeds only on an absent key), while
  any operation may fail, a write also after it has taken effect; in \<open>redis_ok\<close> none does. The middleware is split where the wrapped handler runs, so that two requests can be
  interleaved: \<open>idem_begin\<close>, the handler, \<open>idem_finish\<close>.
\<close>

section \<open>The middleware\<close>

record 'w redis =
  rd_Get :: "time \<Rightarrow> string \<Rightarrow> 'w \<Rightarrow> go_error + json"
  rd_SetNX :: "time \<Rightarrow> string \<Rightarrow> json \<Rightarrow> duration \<Rightarrow> 'w \<Rightarrow> (go_error + bool) \<times> 'w"
  rd_Set :: "time \<Rightarrow> string \<Rightarrow> json \<Rightarrow> duration \<Rightarrow> 'w \<Rightarrow> go_error option \<times> 'w"

definition idemKeyTTL :: duration where
  "idemKeyTTL = 24 * hour"

definition inFlight :: json where
  "inFlight = JStr ''__inflight__''"

definition redis_key :: "string \<Rightarrow> string \<Rightarrow> string" where
  "redis_key tenantID idemKey = ''idem:'' @ tenantID @ '':'' @ idemKey"

text \<open>
  A response: the status code and the body, \<open>None\<close> when nothing was written. An empty body is stored as
  \<^verbatim>\<open>null\<close>, and sent as that to the client that repeats the request, unless the status has no body.
\<close>

type_synonym response = "int \<times> json option"

definition stored_json :: "response \<Rightarrow> json option" where
  "stored_json r =
     (case snd r of
        Some (JInvalid s) \<Rightarrow> None
      | body \<Rightarrow> Some (JObj [(''status_code'', JInt (fst r)),
                            (''body'', case body of None \<Rightarrow> JNull | Some j \<Rightarrow> j)]))"

text \<open>What the client gets of a status and a body: \<^verbatim>\<open>net/http\<close> writes no body with some of the statuses.\<close>

definition sent :: "response \<Rightarrow> response" where
  "sent r = (fst r, if fst r = 204 \<or> fst r = 304 \<or> 100 \<le> fst r \<and> fst r \<le> 199 then None else snd r)"

fun decode_stored :: "json \<Rightarrow> response option" where
  "decode_stored (JObj fs) =
     (case jfield ''status_code'' fs of
        JInt n \<Rightarrow> Some (n, map_of (rev fs) ''body'')
      | JNull \<Rightarrow> Some (0, map_of (rev fs) ''body'')
      | _ \<Rightarrow> None)"
| "decode_stored JNull = Some (0, None)"
| "decode_stored _ = None"

text \<open>The answer that a repeated request gets.\<close>

definition repeated :: "response \<Rightarrow> response" where
  "repeated r = sent (fst r, Some (case snd r of None \<Rightarrow> JNull | Some j \<Rightarrow> j))"

datatype idem_action =
    PassThrough
  | Replayed response
  | Conflict
  | Proceed string

definition idem_lock :: "'w redis \<Rightarrow> time \<Rightarrow> string \<Rightarrow> 'w \<Rightarrow> idem_action \<times> 'w" where
  "idem_lock rdb now key w =
     (case rd_SetNX rdb now key inFlight (30 * second) w of
        (Inr True, w) \<Rightarrow> (Proceed key, w)
      | (_, w) \<Rightarrow> (Conflict, w))"

definition idem_begin :: "'w redis \<Rightarrow> (nat \<Rightarrow> time) \<Rightarrow> string option \<Rightarrow> string \<Rightarrow> 'w
    \<Rightarrow> idem_action \<times> 'w" where
  "idem_begin rdb now tenant idemKey w =
     (if idemKey = '''' then (PassThrough, w)
      else case tenant of
        None \<Rightarrow> (PassThrough, w)
      | Some tid \<Rightarrow>
          let key = redis_key tid idemKey
          in case rd_Get rdb (now 0) key w of
               Inr existing \<Rightarrow>
                 if existing = inFlight then (Conflict, w)
                 else (case decode_stored existing of
                         Some r \<Rightarrow> (Replayed (sent r), w)
                       | None \<Rightarrow> idem_lock rdb (now 1) key w)
             | Inl err \<Rightarrow> idem_lock rdb (now 1) key w)"

definition idem_finish :: "'w redis \<Rightarrow> time \<Rightarrow> string \<Rightarrow> response \<Rightarrow> 'w \<Rightarrow> 'w" where
  "idem_finish rdb now key rsp w =
     (case stored_json rsp of
        None \<Rightarrow> w
      | Some b \<Rightarrow> snd (rd_Set rdb now key b idemKeyTTL w))"

section \<open>What the middleware relies on\<close>

definition live :: "time \<Rightarrow> (json \<times> time) option \<Rightarrow> json option" where
  "live now e = (case e of None \<Rightarrow> None | Some (v, ends) \<Rightarrow> if now < ends then Some v else None)"

definition redis_ok :: "'w redis \<Rightarrow> ('w \<Rightarrow> string \<Rightarrow> (json \<times> time) option) \<Rightarrow> bool" where
  "redis_ok rdb keys \<longleftrightarrow>
     (\<forall>now k w. rd_Get rdb now k w = (case live now (keys w k) of
         Some v \<Rightarrow> Inr v | None \<Rightarrow> Inl (Errorf ''redis: nil''))) \<and>
     (\<forall>now k v ttl w. let (r, w') = rd_SetNX rdb now k v ttl w
        in if live now (keys w k) = None
           then r = Inr True \<and> keys w' = (keys w)(k \<mapsto> (v, now + ttl))
           else r = Inr False \<and> keys w' = keys w) \<and>
     (\<forall>now k v ttl w. let (r, w') = rd_Set rdb now k v ttl w
        in r = None \<and> keys w' = (keys w)(k \<mapsto> (v, now + ttl)))"

lemma decode_stored_json:
  "stored_json r = Some b \<Longrightarrow> (\<exists>q. decode_stored b = Some q \<and> sent q = repeated r) \<and> b \<noteq> inFlight"
  by (cases r) (auto simp: stored_json_def jfield_def inFlight_def repeated_def split: option.splits json.splits)

lemma stored_json_Some: "(\<forall>s. snd r \<noteq> Some (JInvalid s)) \<Longrightarrow> \<exists>b. stored_json r = Some b"
  by (auto simp: stored_json_def split: option.splits json.splits)

text \<open>What remains of it when every operation may fail.\<close>

definition redis_contract :: "'w redis \<Rightarrow> ('w \<Rightarrow> string \<Rightarrow> (json \<times> time) option) \<Rightarrow> bool" where
  "redis_contract rdb keys \<longleftrightarrow>
     (\<forall>now k w v. rd_Get rdb now k w = Inr v \<longrightarrow> live now (keys w k) = Some v) \<and>
     (\<forall>now k v ttl w. let (r, w') = rd_SetNX rdb now k v ttl w; set = (keys w)(k \<mapsto> (v, now + ttl))
        in case r of
             Inr done \<Rightarrow> if done then live now (keys w k) = None \<and> keys w' = set
                         else live now (keys w k) \<noteq> None \<and> keys w' = keys w
           | Inl err \<Rightarrow> keys w' = keys w \<or> live now (keys w k) = None \<and> keys w' = set) \<and>
     (\<forall>now k v ttl w. let (r, w') = rd_Set rdb now k v ttl w; set = (keys w)(k \<mapsto> (v, now + ttl))
        in keys w' = set \<or> r \<noteq> None \<and> keys w' = keys w)"

lemma redis_ok_contract:
  assumes "redis_ok rdb keys"
  shows "redis_contract rdb keys"
proof -
  have get: "rd_Get rdb now k w = Inr v \<longrightarrow> live now (keys w k) = Some v" for now k w v
    using assms by (auto simp: redis_ok_def split: option.splits)
  have nx: "let (r, w') = rd_SetNX rdb now k v ttl w
        in if live now (keys w k) = None then r = Inr True \<and> keys w' = (keys w)(k \<mapsto> (v, now + ttl))
           else r = Inr False \<and> keys w' = keys w" for now k v ttl w
    using assms unfolding redis_ok_def by blast
  have st: "let (r, w') = rd_Set rdb now k v ttl w in r = None \<and> keys w' = (keys w)(k \<mapsto> (v, now + ttl))" for now k v ttl w
    using assms unfolding redis_ok_def by blast
  show ?thesis
    unfolding redis_contract_def
  proof (intro conjI allI)
    fix now k v ttl w
    show "let (r, w') = rd_SetNX rdb now k v ttl w; set = (keys w)(k \<mapsto> (v, now + ttl))
        in case r of
             Inr done \<Rightarrow> if done then live now (keys w k) = None \<and> keys w' = set
                         else live now (keys w k) \<noteq> None \<and> keys w' = keys w
           | Inl err \<Rightarrow> keys w' = keys w \<or> live now (keys w k) = None \<and> keys w' = set"
      using nx [of now k v ttl w] by (auto simp: Let_def split: if_splits)
    show "let (r, w') = rd_Set rdb now k v ttl w; set = (keys w)(k \<mapsto> (v, now + ttl))
        in keys w' = set \<or> r \<noteq> None \<and> keys w' = keys w"
      using st [of now k v ttl w] by (auto simp: Let_def)
  qed (rule get)
qed

lemma contract_get: "redis_contract rdb keys \<Longrightarrow> rd_Get rdb now k w = Inr v \<Longrightarrow> live now (keys w k) = Some v"
  by (simp add: redis_contract_def)

lemma contract_setnx:
  assumes "redis_contract rdb keys" and "rd_SetNX rdb now k v ttl w = (r, w')"
  shows "case r of
      Inr done \<Rightarrow> if done then live now (keys w k) = None \<and> keys w' = (keys w)(k \<mapsto> (v, now + ttl))
                  else live now (keys w k) \<noteq> None \<and> keys w' = keys w
    | Inl err \<Rightarrow> keys w' = keys w \<or> live now (keys w k) = None \<and> keys w' = (keys w)(k \<mapsto> (v, now + ttl))"
proof -
  have "let (r, w') = rd_SetNX rdb now k v ttl w; set = (keys w)(k \<mapsto> (v, now + ttl))
        in case r of
             Inr done \<Rightarrow> if done then live now (keys w k) = None \<and> keys w' = set
                         else live now (keys w k) \<noteq> None \<and> keys w' = keys w
           | Inl err \<Rightarrow> keys w' = keys w \<or> live now (keys w k) = None \<and> keys w' = set"
    using assms(1) unfolding redis_contract_def by blast
  with assms(2) show ?thesis by (simp add: Let_def)
qed

lemma contract_set:
  assumes "redis_contract rdb keys" and "rd_Set rdb now k v ttl w = (None, w')"
  shows "keys w' = (keys w)(k \<mapsto> (v, now + ttl))"
proof -
  have "let (r, w') = rd_Set rdb now k v ttl w; set = (keys w)(k \<mapsto> (v, now + ttl))
        in keys w' = set \<or> r \<noteq> None \<and> keys w' = keys w"
    using assms(1) unfolding redis_contract_def by blast
  with assms(2) show ?thesis by (simp add: Let_def)
qed

lemma redis_get: "redis_ok rdb keys \<Longrightarrow> live now (keys w k) = Some v \<Longrightarrow> rd_Get rdb now k w = Inr v"
  by (simp add: redis_ok_def)

lemma redis_get_None:
  "redis_ok rdb keys \<Longrightarrow> live now (keys w k) = None \<Longrightarrow> \<exists>err. rd_Get rdb now k w = Inl err"
  by (simp add: redis_ok_def)

lemma redis_setnx:
  assumes "redis_ok rdb keys"
  obtains "live now (keys w k) = None" "fst (rd_SetNX rdb now k v ttl w) = Inr True"
      "keys (snd (rd_SetNX rdb now k v ttl w)) = (keys w)(k \<mapsto> (v, now + ttl))"
    | "live now (keys w k) \<noteq> None" "fst (rd_SetNX rdb now k v ttl w) = Inr False"
      "keys (snd (rd_SetNX rdb now k v ttl w)) = keys w"
proof -
  have "let (r, w') = rd_SetNX rdb now k v ttl w
        in if live now (keys w k) = None
           then r = Inr True \<and> keys w' = (keys w)(k \<mapsto> (v, now + ttl))
           else r = Inr False \<and> keys w' = keys w"
    using assms unfolding redis_ok_def by blast
  with that show ?thesis by (auto simp: Let_def split_beta split: if_splits)
qed

lemma redis_set:
  assumes "redis_ok rdb keys"
  shows "keys (snd (rd_Set rdb now k v ttl w)) = (keys w)(k \<mapsto> (v, now + ttl))"
proof -
  have "let (r, w') = rd_Set rdb now k v ttl w in r = None \<and> keys w' = (keys w)(k \<mapsto> (v, now + ttl))"
    using assms unfolding redis_ok_def by blast
  then show ?thesis by (simp add: Let_def split_beta)
qed

lemma redis_ok_set: "redis_ok rdb keys \<Longrightarrow> fst (rd_Set rdb now k v ttl w) = None"
proof -
  assume "redis_ok rdb keys"
  then have "let (r, w') = rd_Set rdb now k v ttl w in r = None \<and> keys w' = (keys w)(k \<mapsto> (v, now + ttl))"
    unfolding redis_ok_def by blast
  then show ?thesis by (simp add: Let_def split_beta)
qed

section \<open>Replays and conflicts\<close>

text \<open>A request that finds the key live does not run: it gets what the key holds, or a conflict.\<close>

lemma lock_live:
  assumes "redis_contract rdb keys" and "live now (keys w key) \<noteq> None"
  shows "\<exists>w'. idem_lock rdb now key w = (Conflict, w')"
proof -
  obtain r w' where nx: "rd_SetNX rdb now key inFlight (30 * second) w = (r, w')" by fastforce
  from contract_setnx [OF assms(1) nx] assms(2) have "r \<noteq> Inr True" by auto
  with nx show ?thesis by (auto simp: idem_lock_def split: sum.splits bool.splits)
qed

lemma begin_live:
  assumes "redis_contract rdb keys" and "ik \<noteq> ''''"
    and "live (now 0) (keys w (redis_key tid ik)) = Some v" and "live (now 1) (keys w (redis_key tid ik)) = Some v"
  shows "(\<exists>w'. idem_begin rdb now (Some tid) ik w = (Conflict, w')) \<or>
    (\<exists>r. rd_Get rdb (now 0) (redis_key tid ik) w = Inr v \<and> v \<noteq> inFlight \<and> decode_stored v = Some r \<and>
       idem_begin rdb now (Some tid) ik w = (Replayed (sent r), w))"
proof -
  have lock: "\<exists>w'. idem_lock rdb (now 1) (redis_key tid ik) w = (Conflict, w')"
    using lock_live [OF assms(1)] assms(4) by auto
  show ?thesis
  proof (cases "rd_Get rdb (now 0) (redis_key tid ik) w")
    case (Inl err)
    with lock assms(2) show ?thesis by (simp add: idem_begin_def Let_def)
  next
    case (Inr x)
    with contract_get [OF assms(1)] assms(3) have "x = v" by force
    with Inr lock assms(2) show ?thesis by (auto simp: idem_begin_def Let_def split: option.split)
  qed
qed

lemma begin_stored:
  assumes "ik \<noteq> ''''" and "rd_Get rdb (now 0) (redis_key tid ik) w = Inr v" and "v \<noteq> inFlight"
    and "decode_stored v = Some r"
  shows "idem_begin rdb now (Some tid) ik w = (Replayed (sent r), w)"
  using assms by (simp add: idem_begin_def Let_def)

lemma idem_lock_Proceed:
  assumes ok: "redis_contract rdb keys" and pr: "idem_lock rdb now key w = (Proceed k, w')"
  shows "k = key" and "live now (keys w key) = None"
    and "keys w' = (keys w)(key \<mapsto> (inFlight, now + 30 * second))"
proof -
  obtain r v where nx: "rd_SetNX rdb now key inFlight (30 * second) w = (r, v)" by fastforce
  with pr have r: "r = Inr True" "k = key" "w' = v"
    by (auto simp: idem_lock_def split: sum.splits bool.splits)
  with contract_setnx [OF ok nx] show "k = key" "live now (keys w key) = None"
    "keys w' = (keys w)(key \<mapsto> (inFlight, now + 30 * second))" by auto
qed

lemma begin_Proceed:
  assumes ok: "redis_contract rdb keys" and ik: "ik \<noteq> ''''"
    and pr: "idem_begin rdb now (Some tid) ik w = (Proceed k, w')"
  shows "k = redis_key tid ik"
    and "keys w' = (keys w)(k \<mapsto> (inFlight, now 1 + 30 * second))"
proof -
  have "idem_lock rdb (now 1) (redis_key tid ik) w = (Proceed k, w')"
    using pr ik by (auto simp: idem_begin_def Let_def split: sum.splits option.splits if_splits)
  from idem_lock_Proceed [OF ok this] show "k = redis_key tid ik"
    and "keys w' = (keys w)(k \<mapsto> (inFlight, now 1 + 30 * second))" by auto
qed

end
