(* ===== verification/Http.thy ===== *)
theory Http
  imports Doubles Calendar Idempotency Provisioning
begin

text \<open>
  What the HTTP handlers share: requests and replies, \<^verbatim>\<open>internal/api/problem/problem.go\<close>,
  \<^verbatim>\<open>internal/api/handlers/respond.go\<close>, the authentication middleware
  (\<^verbatim>\<open>internal/api/middleware/auth.go\<close>, \<^verbatim>\<open>sweep_token.go\<close>), query parameters, and the rendering of
  amounts and times. The matching of a path against the route patterns is the router's, a library:
  a request carries the parameters that it found in the path.
\<close>

section \<open>Requests and replies\<close>

text \<open>
  A body that cannot be read, or is not JSON, is \<open>None\<close>. A reply is the status and the document
  written (\<open>None\<close> when nothing is); the one page that is not JSON is its media type and text. A handler may
  instead panic, which the recovery middleware
  of the router answers, or never answer because a recursion or a loop does not end.
\<close>

record request =
  Req_Header :: "(string \<times> string) list"
  Req_Params :: "(string \<times> string) list"
  Req_Query :: "(string \<times> string) list"
  Req_Body :: "json option"

datatype outcome =
    Reply response
  | Page string string
  | Panicked string
  | NoReply

definition lookup_str :: "(string \<times> string) list \<Rightarrow> string \<Rightarrow> string" where
  "lookup_str kvs k = (case map_of kvs k of None \<Rightarrow> '''' | Some v \<Rightarrow> v)"

abbreviation URLParam :: "request \<Rightarrow> string \<Rightarrow> string" where
  "URLParam r \<equiv> lookup_str (Req_Params r)"

abbreviation query_get :: "request \<Rightarrow> string \<Rightarrow> string" where
  "query_get r \<equiv> lookup_str (Req_Query r)"

abbreviation header_get :: "request \<Rightarrow> string \<Rightarrow> string" where
  "header_get r \<equiv> lookup_str (Req_Header r)"

text \<open>
  The encoder writes the members of a map in the order of the keys and those of a struct in the
  order of the fields, leaving out an empty \<open>omitempty\<close> field.
\<close>

definition json_map :: "(string \<times> json) list \<Rightarrow> json" where
  "json_map kvs = JObj (sort_key fst kvs)"

definition omit_empty :: "string \<Rightarrow> string \<Rightarrow> (string \<times> json) list" where
  "omit_empty k s = (if s = '''' then [] else [(k, JStr s)])"

definition omit_nil :: "string \<Rightarrow> string option \<Rightarrow> (string \<times> json) list" where
  "omit_nil k s = (case s of None \<Rightarrow> [] | Some s \<Rightarrow> [(k, JStr s)])"

definition json_int64 :: "int64 \<Rightarrow> json" where
  "json_int64 a = JInt (sint a)"

definition writeJSON :: "int \<Rightarrow> json \<Rightarrow> outcome" where
  "writeJSON status v = Reply (status, Some v)"

definition no_content :: "int \<Rightarrow> outcome" where
  "no_content status = Reply (status, None)"

text \<open>The decoding of the body into a struct or a map.\<close>

definition decodeJSON :: "(json \<Rightarrow> 'a option) \<Rightarrow> request \<Rightarrow> 'a option" where
  "decodeJSON dec r = Option.bind (Req_Body r) dec"

text \<open>Fields of the types \<open>*string\<close>, \<open>*int64\<close> and \<open>int\<close>.\<close>

fun jstring_ptr :: "json \<Rightarrow> string option option" where
  "jstring_ptr JNull = Some None"
| "jstring_ptr j = map_option Some (jstring j)"

fun jint64_ptr :: "json \<Rightarrow> int64 option option" where
  "jint64_ptr JNull = Some None"
| "jint64_ptr j = map_option Some (jint64 j)"

definition jint :: "json \<Rightarrow> int option" where
  "jint j = map_option sint (jint64 j)"

section \<open>Problem details\<close>

record problem =
  Prob_Type :: string
  Prob_Title :: string
  Prob_Status :: int
  Prob_Detail :: string
  Prob_Instance :: string
  Prob_Extensions :: "(string \<times> json) list"

definition problem_json :: "problem \<Rightarrow> json" where
  "problem_json p =
     (let base = [(''type'', JStr (Prob_Type p)), (''title'', JStr (Prob_Title p)),
                  (''status'', JInt (Prob_Status p))]
                 @ omit_empty ''detail'' (Prob_Detail p) @ omit_empty ''instance'' (Prob_Instance p)
      in json_map (filter (\<lambda>kv. fst kv \<notin> fst ` set (Prob_Extensions p)) base @ Prob_Extensions p))"

definition Write :: "problem \<Rightarrow> outcome" where
  "Write p = Reply (Prob_Status p, Some (problem_json p))"

definition problem_base :: string where
  "problem_base = ''https://vaultnuban.systynlabs.com/problems/''"

definition simple_problem :: "string \<Rightarrow> string \<Rightarrow> int \<Rightarrow> string \<Rightarrow> problem" where
  "simple_problem ty title status detail =
     \<lparr>Prob_Type = problem_base @ ty, Prob_Title = title, Prob_Status = status,
      Prob_Detail = detail, Prob_Instance = '''', Prob_Extensions = []\<rparr>"

definition Unauthorized :: "string \<Rightarrow> outcome" where
  "Unauthorized detail = Write (simple_problem ''unauthorized'' ''Unauthorized'' 401 detail)"

definition NotFound :: "string \<Rightarrow> outcome" where
  "NotFound detail = Write (simple_problem ''not-found'' ''Not Found'' 404 detail)"

definition Conflicting :: "string \<Rightarrow> outcome" where
  "Conflicting detail = Write (simple_problem ''conflict'' ''Conflict'' 409 detail)"

definition UnprocessableEntity :: "string \<Rightarrow> string \<Rightarrow> outcome" where
  "UnprocessableEntity ty detail = Write (simple_problem ty ''Unprocessable Entity'' 422 detail)"

definition BadRequest :: "string \<Rightarrow> outcome" where
  "BadRequest detail = Write (simple_problem ''bad-request'' ''Bad Request'' 400 detail)"

definition InternalServerError :: "string \<Rightarrow> outcome" where
  "InternalServerError detail =
     Write (simple_problem ''internal-server-error'' ''Internal Server Error'' 500 detail)"

lemmas problem_defs = Unauthorized_def NotFound_def Conflicting_def UnprocessableEntity_def
  BadRequest_def InternalServerError_def Write_def simple_problem_def

text \<open>
  \<open>serverErr\<close> logs the cause and answers 500. A panic of the service is not an error value: it
  passes through the handler.
\<close>

definition serverErr :: "go_error \<Rightarrow> outcome" where
  "serverErr err = (case err of Panic m \<Rightarrow> Panicked m | _ \<Rightarrow> InternalServerError ''internal server error'')"

section \<open>Parameters of the server\<close>

text \<open>
  What a handler takes from its surroundings: the clock (its readings in order, for a sweep those
  of each item, and those of Redis), the offset of the local time zone, random bytes (\<open>None\<close> when the read
  fails), SHA-256 in hexadecimal, bcrypt (\<open>he_bcrypt n\<close> is the n-th call, each with a salt of its
  own), the order of a \<open>range\<close>, the fuel of the page loop of a sweep, and the embedded README with the
  Markdown renderer (\<open>None\<close> when it fails).
\<close>

record http_env =
  he_now :: "nat \<Rightarrow> time"
  he_item_now :: "nat \<Rightarrow> nat \<Rightarrow> time"
  he_redis_now :: "nat \<Rightarrow> time"
  he_zone :: "time \<Rightarrow> duration"
  he_rand :: "nat \<Rightarrow> 8 word list option"
  he_sha256 :: "string \<Rightarrow> string"
  he_bcrypt :: "nat \<Rightarrow> string \<Rightarrow> go_error + string"
  he_bcrypt_ok :: "string \<Rightarrow> string \<Rightarrow> bool"
  he_range :: range_order
  he_fuel :: nat
  he_readme :: string
  he_render :: "string \<Rightarrow> string option"

section \<open>Query parameters\<close>

text \<open>\<open>strconv.Atoi\<close>: an optional sign, then digits only, within the range of \<open>int\<close>.\<close>

definition Atoi :: "string \<Rightarrow> int option" where
  "Atoi s =
     (let neg = (s \<noteq> [] \<and> hd s = CHR ''-'');
          ds = (if s \<noteq> [] \<and> hd s \<in> {CHR ''+'', CHR ''-''} then tl s else s);
          n = (if neg then - int (undec ds) else int (undec ds))
      in if ds = [] \<or> \<not> list_all is_digit ds \<or> \<not> fits64 n then None else Some n)"

definition queryInt :: "request \<Rightarrow> string \<Rightarrow> int \<Rightarrow> int" where
  "queryInt r key dflt =
     (let s = query_get r key
      in if s = '''' then dflt
         else case Atoi s of None \<Rightarrow> dflt | Some v \<Rightarrow> if v \<le> 0 then dflt else v)"

text \<open>\<open>time.Parse\<close> on RFC 3339, with the offset that the result keeps for printing.\<close>

definition parse_zoned :: "string \<Rightarrow> (time \<times> duration) option" where
  "parse_zoned s = do { (t, r) \<leftarrow> parse_civil s; (off, r) \<leftarrow> zone r;
                        if r = [] then Some (t - off, off) else None }"

definition parseDateRange :: "request \<Rightarrow> ((time \<times> duration) \<times> time \<times> duration) option" where
  "parseDateRange r =
     (let fromStr = query_get r ''from''; toStr = query_get r ''to''
      in if fromStr = '''' \<or> toStr = '''' then None
         else do { fr \<leftarrow> parse_zoned fromStr; tt \<leftarrow> parse_zoned toStr;
                   if fst tt < fst fr then None else Some (fr, tt) })"

section \<open>Times and amounts\<close>

text \<open>
  The layouts of the handlers: a literal \<open>Z\<close>, after a conversion to UTC (\<open>format_utc\<close>) or without
  one (\<open>format_Z\<close>), and RFC 3339 with the offset of the value.
\<close>

definition format_utc :: "time \<Rightarrow> string" where
  "format_utc t = format_seconds t @ ''Z''"

definition format_Z :: "http_env \<Rightarrow> time \<Rightarrow> string" where
  "format_Z h t = format_seconds (t + he_zone h t) @ ''Z''"

definition zone_suffix :: "duration \<Rightarrow> string" where
  "zone_suffix off =
     (if off = 0 then ''Z''
      else let z = \<bar>off\<bar> div minute
           in (if off \<le> - minute then ''-'' else ''+'') @ pad_n 2 (z div 60) @ '':'' @ pad_n 2 (z mod 60))"

definition format_rfc3339 :: "duration \<Rightarrow> time \<Rightarrow> string" where
  "format_rfc3339 off t = format_seconds (t + off) @ zone_suffix off"

definition format_local :: "http_env \<Rightarrow> time \<Rightarrow> string" where
  "format_local h t = format_rfc3339 (he_zone h t) t"

definition zeroPad :: "int \<Rightarrow> string" where
  "zeroPad v = (if v < 10 then ''0'' @ show_int v else show_int v)"

text \<open>
  The function calls itself on the negated amount. The division is one of a non-negative amount;
  \<open>None\<close> is a recursion without end.
\<close>

partial_function (option) koboToNGN :: "int64 \<Rightarrow> string option" where
  "koboToNGN kobo =
     (if sint kobo < 0 then do { s \<leftarrow> koboToNGN (- kobo); Some (CHR ''-'' # s) }
      else Some (show_int (sint kobo div 100) @ ''.'' @ zeroPad (sint kobo mod 100)))"

section \<open>Authentication\<close>

text \<open>What the middleware puts into the request context, and the acting key for the audit log.\<close>

record request_context =
  Ctx_Tenant :: tenant
  Ctx_APIKey :: "api_key option"

definition actorFromContext :: "request_context \<Rightarrow> string" where
  "actorFromContext c = (case Ctx_APIKey c of Some k \<Rightarrow> ''key:'' @ Key_KeyPrefix k | None \<Rightarrow> ''system'')"

definition hashAPIKey :: "http_env \<Rightarrow> string \<Rightarrow> string" where
  "hashAPIKey h key = he_sha256 h key"

definition bearer :: string where
  "bearer = ''Bearer ''"

definition Auth :: "http_env \<Rightarrow> 'w tenant_store \<Rightarrow> request \<Rightarrow> (request_context \<Rightarrow> 'w \<Rightarrow> outcome \<times> 'w)
    \<Rightarrow> 'w \<Rightarrow> outcome \<times> 'w" where
  "Auth h ts r nxt w =
     (let raw = header_get r ''Authorization''
      in if raw = '''' \<or> take (length bearer) raw \<noteq> bearer
         then (Unauthorized ''missing or malformed Authorization header'', w)
         else let key = drop (length bearer) raw; hash = hashAPIKey h key
              in case ts_GetTenantByAPIKey ts hash w of
                   Inr (Some tenant, apiKey) \<Rightarrow> nxt \<lparr>Ctx_Tenant = tenant, Ctx_APIKey = apiKey\<rparr> w
                 | _ \<Rightarrow> (Unauthorized ''invalid API key'', w))"

definition SweepTokenAuth :: "string \<Rightarrow> request \<Rightarrow> ('w \<Rightarrow> outcome \<times> 'w) \<Rightarrow> 'w \<Rightarrow> outcome \<times> 'w" where
  "SweepTokenAuth token r nxt w =
     (if header_get r ''Authorization'' \<noteq> bearer @ token
      then (Unauthorized ''invalid internal token'', w) else nxt w)"

text \<open>
  The idempotency middleware around a handler. It replays and stores replies; a handler that does
  not return leaves the key locked.
\<close>

definition in_progress :: outcome where
  "in_progress = Conflicting ''a request with this Idempotency-Key is already in progress''"

definition idempotent :: "'w redis \<Rightarrow> (nat \<Rightarrow> time) \<Rightarrow> request_context \<Rightarrow> request \<Rightarrow> ('w \<Rightarrow> outcome \<times> 'w)
    \<Rightarrow> 'w \<Rightarrow> outcome \<times> 'w" where
  "idempotent rdb now c r nxt w =
     (case idem_begin rdb now (Some (Tenant_ID (Ctx_Tenant c))) (header_get r ''Idempotency-Key'') w of
        (PassThrough, w) \<Rightarrow> nxt w
      | (Replayed rsp, w) \<Rightarrow> (Reply rsp, w)
      | (Conflict, w) \<Rightarrow> (in_progress, w)
      | (Proceed key, w) \<Rightarrow>
          (case nxt w of
             (Reply rsp, w) \<Rightarrow> (Reply rsp, idem_finish rdb (now 2) key rsp w)
           | (out, w) \<Rightarrow> (out, w)))"

section \<open>Amounts in naira\<close>

lemma zeroPad_text:
  assumes "n < 100"
  shows "zeroPad (int n) = [digit (n div 10), digit (n mod 10)]"
proof (cases "n < 10")
  case True
  then show ?thesis by (simp add: zeroPad_def show_int_def dec_nat.simps [of n] digit_values)
next
  case False
  with assms have "n div 10 < 10" by (simp add: less_mult_imp_div_less)
  with False show ?thesis
    by (simp add: zeroPad_def show_int_def dec_nat.simps [of n] dec_nat.simps [of "n div 10"])
qed

lemma koboToNGN_nonneg:
  assumes "0 \<le> sint k"
  shows "koboToNGN k = Some (naira_text (nat (sint k)))"
proof -
  obtain n where n: "sint k = int n" using assms by (metis nonneg_int_cases)
  have "zeroPad (int (n mod 100)) = [digit (n mod 100 div 10), digit (n mod 10)]"
    using zeroPad_text [of "n mod 100"] by (simp add: mod_mod_cancel)
  moreover have "show_int (int (n div 100)) = dec_nat (n div 100)" by (simp add: show_int_def flip: zdiv_int)
  ultimately show ?thesis
    by (simp add: koboToNGN.simps [of k] n naira_text_def zdiv_int zmod_int)
qed

lemma koboToNGN_negative:
  assumes "sint k < 0" and "sint k \<noteq> - (2 ^ 63)"
  shows "koboToNGN k = Some (CHR ''-'' # naira_text (nat (- sint k)))"
proof -
  have "fits64 (0 - sint k)" using assms sint_range [of k] by (simp add: fits64_def)
  from sint_minus_fits [of 0 k] this have neg: "sint (- k) = - sint k" by simp
  with assms(1) have "koboToNGN (- k) = Some (naira_text (nat (- sint k)))"
    by (simp add: koboToNGN_nonneg)
  with assms(1) show ?thesis by (simp add: koboToNGN.simps [of k])
qed

lemma koboToNGN_min:
  assumes "sint k = - (2 ^ 63)"
  shows "koboToNGN k = None"
proof (rule ccontr)
  have "sint k = sint (word_of_int (- (2 ^ 63)) :: int64)"
    by (simp add: assms sint_of_int_fits fits64_def del: of_int_minus of_int_power)
  then have "k = word_of_int (- (2 ^ 63))" by (rule signed_word_eqI)
  then have m: "- k = k" by (simp del: one_add_one)
  have "koboToNGN k = do { s \<leftarrow> koboToNGN (- k); Some (CHR ''-'' # s) }"
    using assms by (subst koboToNGN.simps) simp
  then have eq: "koboToNGN k = do { s \<leftarrow> koboToNGN k; Some (CHR ''-'' # s) }" unfolding m .
  assume "koboToNGN k \<noteq> None"
  then obtain s where "koboToNGN k = Some s" by blast
  with eq have "s = CHR ''-'' # s" by simp
  then show False by (metis list.size(4) n_not_Suc_n add_Suc_right add_0_right)
qed

lemma naira_text_hd: "naira_text n \<noteq> [] \<and> hd (naira_text n) \<noteq> CHR ''-''"
  using digit_not_sign [OF dec_nat_hd [of "n div 100"]] by (simp add: naira_text_def hd_append)

lemma parse_number_minus:
  assumes "s \<noteq> []" and "hd s \<noteq> CHR ''-''"
  shows "parse_number (CHR ''-'' # s) = map_option uminus (parse_number s)"
  using assms by (auto simp: parse_number_def Let_def split: bind_splits)

text \<open>
  C35: The naira text of an amount reads back as exactly that amount in hundredths, for every
  \<open>int64\<close> but the least: on that one the conversion, which negates a negative amount and calls
  itself, never returns, so that every page that would show it kills the process.
\<close>

theorem kobo_text_exact:
  "map_option parse_number (koboToNGN k) =
     (if sint k = - (2 ^ 63) then None else Some (Some (of_int (sint k) / 100)))"
proof (cases "sint k < 0")
  case True
  then show ?thesis
    using naira_text_hd [of "nat (- sint k)"]
    by (auto simp: koboToNGN_min koboToNGN_negative parse_number_minus parse_naira_text)
next
  case False
  then show ?thesis by (auto simp: koboToNGN_nonneg parse_naira_text)
qed

end
