(* ===== verification/MoneyAPI.thy ===== *)
theory MoneyAPI
  imports Http Suspense Withdrawals Collections Relay
begin

text \<open>
  The handlers of withdrawals, collections, suspense items and webhook endpoints:
  \<^verbatim>\<open>withdrawals.go\<close>, \<^verbatim>\<open>collections.go\<close>, \<^verbatim>\<open>suspense.go\<close> and \<^verbatim>\<open>relay.go\<close> of
  \<^verbatim>\<open>internal/api/handlers\<close>.
\<close>

section \<open>Shared parts\<close>

text \<open>The switch over the error types that the handlers of the services have in common.\<close>

definition service_error :: "go_error \<Rightarrow> outcome" where
  "service_error err =
     (case as_not_found err of
        Some (entity, i) \<Rightarrow> NotFound (error_string (NotFoundError entity i))
      | None \<Rightarrow> (case as_validation err of
          Some (field, detail) \<Rightarrow> UnprocessableEntity field detail
        | None \<Rightarrow> serverErr err))"

text \<open>A listing as a struct: the rows and, if there is one, the cursor.\<close>

definition page_struct :: "json list \<Rightarrow> string \<Rightarrow> json" where
  "page_struct data nextCursor = JObj ([(''data'', JArr data)] @ omit_empty ''next_cursor'' nextCursor)"

section \<open>Withdrawals\<close>

definition wdToResp :: "withdrawal \<Rightarrow> json" where
  "wdToResp w = json_map
     ([(''id'', JStr (Wd_ID w)), (''customer_id'', JStr (Wd_CustomerID w)),
       (''amount_kobo'', json_int64 (Wd_AmountKobo w)),
       (''destination_bank_code'', JStr (Wd_DestinationBankCode w)),
       (''destination_account_number'', JStr (Wd_DestinationAccountNumber w)),
       (''destination_account_name'', JStr (Wd_DestinationAccountName w)),
       (''narration'', JStr (Wd_Narration w)), (''status'', JStr (Wd_Status w)),
       (''created_at'', JStr (format_utc (Wd_CreatedAt w)))]
      @ omit_nil ''provider_transaction_id'' (Wd_ProviderTransactionID w)
      @ omit_nil ''failure_reason'' (Wd_FailureReason w))"

definition decode_withdrawal :: "string \<Rightarrow> string \<Rightarrow> json \<Rightarrow> withdrawal_request option" where
  "decode_withdrawal customerID tenantID body =
     do { fs \<leftarrow> jobject body; amt \<leftarrow> jint64 (jmember ''amount_kobo'' fs);
          bank \<leftarrow> jstring (jmember ''destination_bank_code'' fs);
          num \<leftarrow> jstring (jmember ''destination_account_number'' fs);
          name \<leftarrow> jstring (jmember ''destination_account_name'' fs);
          narr \<leftarrow> jstring (jmember ''narration'' fs);
          Some \<lparr>WR_CustomerID = customerID, WR_TenantID = tenantID, WR_AmountKobo = amt,
                WR_DestinationBankCode = bank, WR_DestinationAccountNumber = num,
                WR_DestinationAccountName = name, WR_Narration = narr\<rparr> }"

record 'w withdrawal_handler =
  dh_svc :: "'w withdrawal_service"
  dh_withdrawalStore :: "'w withdrawal_store"

definition withdrawalH_Initiate :: "http_env \<Rightarrow> 'w withdrawal_handler \<Rightarrow> request \<Rightarrow> request_context
    \<Rightarrow> 'w \<Rightarrow> outcome \<times> 'w" where
  "withdrawalH_Initiate h H r c w =
     (case decodeJSON (decode_withdrawal (URLParam r ''customerID'') (Tenant_ID (Ctx_Tenant c))) r of
        None \<Rightarrow> (BadRequest ''invalid JSON body'', w)
      | Some req \<Rightarrow>
          (case Initiate (dh_svc H) (he_now h) req w of
             ((_, Some err), w) \<Rightarrow> (service_error err, w)
           | ((Some wd, None), w) \<Rightarrow> (writeJSON 201 (wdToResp wd), w)
           | ((None, None), w) \<Rightarrow> (Panicked ''nil pointer dereference'', w)))"

text \<open>The listing does not look at the tenant of the request.\<close>

definition withdrawalH_List :: "'w withdrawal_handler \<Rightarrow> request \<Rightarrow> 'w \<Rightarrow> outcome" where
  "withdrawalH_List H r w =
     (case wd_ListWithdrawals (dh_withdrawalStore H) (URLParam r ''customerID'') (queryInt r ''limit'' 50)
             (query_get r ''cursor'') w of
        Inl err \<Rightarrow> serverErr err
      | Inr (items, nxt) \<Rightarrow> writeJSON 200 (page_struct (map wdToResp items) nxt))"

definition withdrawalH_ResolvePayee :: "'w withdrawal_handler \<Rightarrow> request \<Rightarrow> 'w \<Rightarrow> outcome \<times> 'w" where
  "withdrawalH_ResolvePayee H r w =
     (let bankCode = query_get r ''bank_code''; accountNumber = query_get r ''account_number''
      in if bankCode = '''' \<or> accountNumber = ''''
         then (BadRequest ''bank_code and account_number are required'', w)
         else case ResolveAccount (dh_svc H) bankCode accountNumber w of
           (Inl err, w) \<Rightarrow> (serverErr err, w)
         | (Inr res, w) \<Rightarrow> (writeJSON 200 (json_map [(''account_name'', JStr (AR_AccountName res)),
               (''account_number'', JStr (AR_AccountNumber res)), (''bank_code'', JStr (AR_BankCode res))]), w))"

section \<open>Collections\<close>

definition opt_member :: "string \<Rightarrow> ('a \<Rightarrow> json) \<Rightarrow> 'a option \<Rightarrow> (string \<times> json) list" where
  "opt_member k f x = (case x of None \<Rightarrow> [] | Some x \<Rightarrow> [(k, f x)])"

definition colToResp :: "collection \<Rightarrow> json" where
  "colToResp c = json_map
     ([(''id'', JStr (Col_ID c)), (''customer_id'', JStr (Col_CustomerID c)),
       (''reference'', JStr (Col_Reference c)), (''description'', JStr (Col_Description c)),
       (''status'', JStr (Col_Status c)), (''nuban'', JStr (Col_NUBAN c)),
       (''bank_name'', JStr (Col_BankName c)), (''created_at'', JStr (format_utc (Col_CreatedAt c)))]
      @ opt_member ''expected_amount_kobo'' json_int64 (Col_ExpectedAmountKobo c)
      @ opt_member ''expires_at'' (\<lambda>t. JStr (format_utc t)) (Col_ExpiresAt c)
      @ omit_nil ''fulfilled_by_txn_id'' (Col_FulfilledByTxnID c)
      @ opt_member ''fulfilled_at'' (\<lambda>t. JStr (format_utc t)) (Col_FulfilledAt c))"

definition decode_collection :: "string \<Rightarrow> string \<Rightarrow> json \<Rightarrow> create_collection_request option" where
  "decode_collection customerID tenantID body =
     do { fs \<leftarrow> jobject body; amt \<leftarrow> jint64_ptr (jlast ''expected_amount_kobo'' fs);
          ref \<leftarrow> jstring (jmember ''reference'' fs); desc \<leftarrow> jstring (jmember ''description'' fs);
          secs \<leftarrow> jint (jmember ''expires_in_seconds'' fs);
          Some \<lparr>CCR_CustomerID = customerID, CCR_TenantID = tenantID, CCR_ExpectedAmountKobo = amt,
                CCR_Reference = ref, CCR_Description = desc, CCR_ExpiresInSeconds = secs\<rparr> }"

definition collectionH_Create :: "http_env \<Rightarrow> 'w collection_service \<Rightarrow> request \<Rightarrow> request_context
    \<Rightarrow> 'w \<Rightarrow> outcome \<times> 'w" where
  "collectionH_Create h s r c w =
     (case decodeJSON (decode_collection (URLParam r ''customerID'') (Tenant_ID (Ctx_Tenant c))) r of
        None \<Rightarrow> (BadRequest ''invalid JSON body'', w)
      | Some req \<Rightarrow>
          (case Collection_Create s (he_now h) req w of
             (Inl err, w) \<Rightarrow> (service_error err, w)
           | (Inr col, w) \<Rightarrow> (writeJSON 201 (colToResp col), w)))"

definition collectionH_List :: "'w collection_service \<Rightarrow> request \<Rightarrow> 'w \<Rightarrow> outcome" where
  "collectionH_List s r w =
     (case Collection_List s (URLParam r ''customerID'') (queryInt r ''limit'' 50) (query_get r ''cursor'') w of
        Inl err \<Rightarrow> serverErr err
      | Inr (items, nxt) \<Rightarrow> writeJSON 200 (page_struct (map colToResp items) nxt))"

definition collectionH_Get :: "'w collection_service \<Rightarrow> request \<Rightarrow> 'w \<Rightarrow> outcome" where
  "collectionH_Get s r w =
     (case Collection_Get s (URLParam r ''collectionID'') w of
        Inl err \<Rightarrow> (case as_not_found err of
            Some (entity, i) \<Rightarrow> NotFound (error_string (NotFoundError entity i))
          | None \<Rightarrow> serverErr err)
      | Inr col \<Rightarrow> writeJSON 200 (colToResp col))"

definition collectionH_Cancel :: "http_env \<Rightarrow> 'w collection_service \<Rightarrow> request \<Rightarrow> request_context
    \<Rightarrow> 'w \<Rightarrow> outcome \<times> 'w" where
  "collectionH_Cancel h s r c w =
     (case Collection_Cancel s (he_now h 0) (URLParam r ''collectionID'') (Tenant_ID (Ctx_Tenant c)) w of
        (Some err, w) \<Rightarrow> (service_error err, w)
      | (None, w) \<Rightarrow> (writeJSON 200 (JObj [(''status'', JStr ''cancelled'')]), w))"

section \<open>Suspense\<close>

definition suspenseItemResponse :: "http_env \<Rightarrow> suspense_item \<Rightarrow> json" where
  "suspenseItemResponse h s = JObj
     ([(''id'', JStr (SI_ID s)), (''transaction_id'', JStr (SI_TransactionID s)),
       (''reason'', JStr (SI_Reason s)), (''status'', JStr (SI_Status s))]
      @ omit_nil ''notes'' (SI_Notes s) @ omit_nil ''resolved_by'' (SI_ResolvedBy s)
      @ [(''created_at'', JStr (format_local h (SI_CreatedAt s))),
         (''amount_kobo'', json_int64 (SI_AmountKobo s))]
      @ omit_empty ''nuban'' (SI_NUBAN s))"

definition suspenseH_ListSuspense :: "http_env \<Rightarrow> 'w suspense_service \<Rightarrow> request \<Rightarrow> request_context
    \<Rightarrow> 'w \<Rightarrow> outcome" where
  "suspenseH_ListSuspense h s r c w =
     (case ListItems s (Tenant_ID (Ctx_Tenant c)) (queryInt r ''limit'' 50) (query_get r ''cursor'') w of
        Inl err \<Rightarrow> serverErr err
      | Inr (items, nxt) \<Rightarrow> writeJSON 200 (page_struct (map (suspenseItemResponse h) items) nxt))"

definition decode_resolve :: "string \<Rightarrow> string \<Rightarrow> json \<Rightarrow> resolve_request option" where
  "decode_resolve actor tenantID body =
     do { fs \<leftarrow> jobject body; res \<leftarrow> jstring (jmember ''resolution'' fs);
          target \<leftarrow> jstring (jmember ''target_customer_id'' fs); notes \<leftarrow> jstring (jmember ''notes'' fs);
          Some \<lparr>RR_Resolution = res, RR_TargetCustomerID = target, RR_Notes = notes,
                RR_Actor = actor, RR_TenantID = tenantID\<rparr> }"

definition suspenseH_ResolveSuspense :: "http_env \<Rightarrow> 'w suspense_service \<Rightarrow> request \<Rightarrow> request_context
    \<Rightarrow> 'w \<Rightarrow> outcome \<times> 'w" where
  "suspenseH_ResolveSuspense h s r c w =
     (case decodeJSON (decode_resolve (actorFromContext c) (Tenant_ID (Ctx_Tenant c))) r of
        None \<Rightarrow> (BadRequest ''invalid JSON body'', w)
      | Some req \<Rightarrow>
          (case Resolve s (he_now h) (URLParam r ''itemID'') req w of
             (Some err, w) \<Rightarrow> (service_error err, w)
           | (None, w) \<Rightarrow> (writeJSON 200 (JObj [(''status'', JStr ''resolved'')]), w)))"

section \<open>Webhook endpoints and deliveries\<close>

definition HashSecret :: "http_env \<Rightarrow> string \<Rightarrow> string" where
  "HashSecret h secret = he_sha256 h secret"

definition decode_endpoint :: "json \<Rightarrow> (string \<times> string) option" where
  "decode_endpoint body =
     do { fs \<leftarrow> jobject body; url \<leftarrow> jstring (jmember ''url'' fs);
          secret \<leftarrow> jstring (jmember ''secret'' fs); Some (url, secret) }"

definition endpointResponse :: "relay_endpoint \<Rightarrow> string \<Rightarrow> json" where
  "endpointResponse ep created = JObj
     [(''id'', JStr (EP_ID ep)), (''url'', JStr (EP_URL ep)), (''active'', JBool (EP_Active ep)),
      (''created_at'', JStr created)]"

definition relayH_CreateEndpoint :: "http_env \<Rightarrow> 'w relay_store \<Rightarrow> request \<Rightarrow> request_context
    \<Rightarrow> 'w \<Rightarrow> outcome \<times> 'w" where
  "relayH_CreateEndpoint h rs r c w =
     (case decodeJSON decode_endpoint r of
        None \<Rightarrow> (BadRequest ''invalid JSON body'', w)
      | Some (url, secret) \<Rightarrow>
          if url = '''' then (UnprocessableEntity ''missing-field'' ''url is required'', w)
          else if secret = ''''
          then (UnprocessableEntity ''missing-field'' ''secret is required (min 16 chars recommended)'', w)
          else (case rs_CreateEndpoint rs (he_now h 0)
                       \<lparr>EP_ID = '''', EP_TenantID = Tenant_ID (Ctx_Tenant c), EP_URL = url,
                        EP_SecretHash = HashSecret h secret, EP_Active = True, EP_CreatedAt = 0\<rparr> w of
                  (Inl err, w) \<Rightarrow> (serverErr err, w)
                | (Inr ep, w) \<Rightarrow>
                    (writeJSON 201 (endpointResponse ep (format_local h (EP_CreatedAt ep))), w)))"

definition relayH_ListEndpoints :: "'w relay_store \<Rightarrow> request_context \<Rightarrow> 'w \<Rightarrow> outcome" where
  "relayH_ListEndpoints rs c w =
     (case rs_ListEndpoints rs (Tenant_ID (Ctx_Tenant c)) w of
        Inl err \<Rightarrow> serverErr err
      | Inr eps \<Rightarrow> writeJSON 200 (JObj [(''data'',
          JArr (map (\<lambda>ep. endpointResponse ep (format_utc (EP_CreatedAt ep))) eps))]))"

definition deliveryResponse :: "relay_delivery \<Rightarrow> json" where
  "deliveryResponse d = JObj
     ([(''id'', JStr (Del_ID d)), (''endpoint_id'', JStr (Del_EndpointID d)),
       (''event_type'', JStr (Del_EventType d)), (''attempt'', JInt (Del_Attempt d)),
       (''status'', JStr (Del_Status d))]
      @ opt_member ''status_code'' JInt (Del_StatusCode d) @ omit_nil ''error'' (Del_Error d)
      @ opt_member ''next_retry_at'' (\<lambda>t. JStr (format_utc t)) (Del_NextRetryAt d)
      @ opt_member ''delivered_at'' (\<lambda>t. JStr (format_utc t)) (Del_DeliveredAt d)
      @ [(''created_at'', JStr (format_utc (Del_CreatedAt d)))])"

definition relayH_ListDeliveries :: "'w relay_store \<Rightarrow> request \<Rightarrow> request_context \<Rightarrow> 'w \<Rightarrow> outcome" where
  "relayH_ListDeliveries rs r c w =
     (case rs_ListDeliveries rs (Tenant_ID (Ctx_Tenant c)) 50 (query_get r ''cursor'') w of
        Inl err \<Rightarrow> serverErr err
      | Inr (dels, nxt) \<Rightarrow>
          writeJSON 200 (json_map ([(''data'', JArr (map deliveryResponse dels))] @ omit_empty ''next_cursor'' nxt)))"

definition relayH_ReplayDelivery :: "'w relay_store \<Rightarrow> 'w dispatcher \<Rightarrow> request \<Rightarrow> request_context \<Rightarrow> 'w \<Rightarrow> outcome \<times> 'w" where
  "relayH_ReplayDelivery rs d r c w =
     (case rs_GetDelivery rs (URLParam r ''deliveryID'') w of
        Inl err \<Rightarrow> (serverErr err, w)
      | Inr None \<Rightarrow> (NotFound ''delivery not found'', w)
      | Inr (Some delivery) \<Rightarrow>
          (case rs_GetEndpoint rs (Del_EndpointID delivery) w of
             Inl err \<Rightarrow> (serverErr err, w)
           | Inr ep \<Rightarrow>
               if (case ep of None \<Rightarrow> True | Some ep \<Rightarrow> EP_TenantID ep \<noteq> Tenant_ID (Ctx_Tenant c))
               then (NotFound ''delivery not found'', w)
               else (case Replay d delivery w of
                       (Some err, w) \<Rightarrow> (serverErr err, w)
                     | (None, w) \<Rightarrow> (no_content 202, w))))"

end
