(* ===== verification/TenantAPI.thy ===== *)
theory TenantAPI
  imports Http
begin

text \<open>
  The handlers of a tenant's customers, virtual accounts, transactions, API keys and audit log:
  \<^verbatim>\<open>customers.go\<close>, \<^verbatim>\<open>virtual_accounts.go\<close>, \<^verbatim>\<open>transactions.go\<close>, \<^verbatim>\<open>apikeys.go\<close> and
  \<^verbatim>\<open>audit.go\<close> of \<^verbatim>\<open>internal/api/handlers\<close>. A handler that only reads has no new world in its
  result. Documents that come from outside hold strings, also for times.
\<close>

section \<open>Customers\<close>

record create_customer_request =
  CCu_ExternalRef :: string
  CCu_DisplayName :: string
  CCu_Identity :: identity_input

definition decode_create_customer :: "json \<Rightarrow> create_customer_request option" where
  "decode_create_customer body =
     do { fs \<leftarrow> jobject body; ref \<leftarrow> jstring (jmember ''external_ref'' fs);
          dn \<leftarrow> jstring (jmember ''display_name'' fs); i \<leftarrow> jobject (jmember ''identity'' fs);
          bvn \<leftarrow> jstring_ptr (jlast ''bvn_masked'' i); nin \<leftarrow> jstring_ptr (jlast ''nin_masked'' i);
          tier \<leftarrow> jint (jmember ''kyc_tier'' i);
          Some \<lparr>CCu_ExternalRef = ref, CCu_DisplayName = dn,
                CCu_Identity = \<lparr>In_BVNMasked = bvn, In_NINMasked = nin, In_KYCTier = tier\<rparr>\<rparr> }"

definition decode_update_kyc :: "json \<Rightarrow> int option" where
  "decode_update_kyc body = do { fs \<leftarrow> jobject body; jint (jmember ''kyc_tier'' fs) }"

definition identity_response :: "identity \<Rightarrow> json" where
  "identity_response i = JObj
     ([(''id'', JStr (Ident_ID i))] @ omit_nil ''bvn_masked'' (Ident_BVNMasked i)
      @ omit_nil ''nin_masked'' (Ident_NINMasked i)
      @ [(''kyc_tier'', JInt (Ident_KYCTier i)),
         (''verification_status'', JStr (Ident_VerificationStatus i))])"

definition toCustomerResponse :: "http_env \<Rightarrow> customer \<Rightarrow> json" where
  "toCustomerResponse h c = JObj
     ([(''id'', JStr (Cust_ID c)), (''tenant_id'', JStr (Cust_TenantID c)),
       (''external_ref'', JStr (Cust_ExternalRef c)), (''display_name'', JStr (Cust_DisplayName c)),
       (''status'', JStr (Cust_Status c))]
      @ (case Cust_Identity c of None \<Rightarrow> [] | Some i \<Rightarrow> [(''identity'', identity_response i)])
      @ [(''created_at'', JStr (format_Z h (Cust_CreatedAt c)))])"

text \<open>The body of a listing built as a map: the cursor only when there is a next page.\<close>

definition page_map :: "json list \<Rightarrow> string \<Rightarrow> json" where
  "page_map data nextCursor = json_map ([(''data'', JArr data)] @ omit_empty ''next_cursor'' nextCursor)"

record 'w customer_handler =
  ch_svc :: "'w customer_service"
  ch_customerDB :: "'w customer_store"

definition customerH_CreateCustomer :: "http_env \<Rightarrow> 'w customer_handler \<Rightarrow> request \<Rightarrow> request_context
    \<Rightarrow> 'w \<Rightarrow> outcome \<times> 'w" where
  "customerH_CreateCustomer h H r c w =
     (case decodeJSON decode_create_customer r of
        None \<Rightarrow> (BadRequest ''invalid JSON body'', w)
      | Some req \<Rightarrow>
          if CCu_ExternalRef req = ''''
          then (UnprocessableEntity ''missing-field'' ''external_ref is required'', w)
          else if CCu_DisplayName req = ''''
          then (UnprocessableEntity ''missing-field'' ''display_name is required'', w)
          else (case CreateCustomer (ch_svc H) (he_now h) (Tenant_ID (Ctx_Tenant c)) (CCu_ExternalRef req)
                       (CCu_DisplayName req) (CCu_Identity req) (actorFromContext c) w of
                  (Inl err, w) \<Rightarrow>
                    (case as_validation err of
                       Some (f, d) \<Rightarrow> UnprocessableEntity ''identity-required'' d
                     | None \<Rightarrow> serverErr err, w)
                | (Inr customer, w) \<Rightarrow> (writeJSON 201 (toCustomerResponse h customer), w)))"

definition customerH_ListCustomers :: "http_env \<Rightarrow> 'w customer_handler \<Rightarrow> request \<Rightarrow> request_context
    \<Rightarrow> 'w \<Rightarrow> outcome" where
  "customerH_ListCustomers h H r c w =
     (case cs_ListCustomers (ch_customerDB H) (Tenant_ID (Ctx_Tenant c)) 50 (query_get r ''cursor'') w of
        Inl err \<Rightarrow> serverErr err
      | Inr (customers, nextCursor) \<Rightarrow>
          writeJSON 200 (page_map (map (toCustomerResponse h) customers) nextCursor))"

definition customerH_UpdateKYCTier :: "http_env \<Rightarrow> 'w customer_handler \<Rightarrow> request \<Rightarrow> request_context
    \<Rightarrow> 'w \<Rightarrow> outcome \<times> 'w" where
  "customerH_UpdateKYCTier h H r c w =
     (let customerID = URLParam r ''customerID''
      in case decodeJSON decode_update_kyc r of
           None \<Rightarrow> (BadRequest ''invalid JSON body'', w)
         | Some tier \<Rightarrow>
             (case UpdateKYCTier (ch_svc H) (he_now h) (Tenant_ID (Ctx_Tenant c)) customerID tier
                     (actorFromContext c) w of
                (Inl err, w) \<Rightarrow>
                  (case as_validation err of
                     Some (f, d) \<Rightarrow> UnprocessableEntity ''invalid-kyc-tier'' d
                   | None \<Rightarrow> serverErr err, w)
              | (Inr None, w) \<Rightarrow> (NotFound ''customer not found'', w)
              | (Inr (Some customer), w) \<Rightarrow> (writeJSON 200 (toCustomerResponse h customer), w)))"

section \<open>Virtual accounts\<close>

definition va_fields :: "http_env \<Rightarrow> virtual_account \<Rightarrow> (string \<times> json) list" where
  "va_fields h va =
     [(''id'', JStr (VA_ID va)), (''customer_id'', JStr (VA_CustomerID va)),
      (''nuban'', JStr (VA_NUBAN va)), (''bank_name'', JStr (VA_BankName va)),
      (''account_name'', JStr (VA_AccountName va)), (''account_ref'', JStr (VA_NombaAccountRef va)),
      (''status'', JStr (VA_Status va)), (''created_at'', JStr (format_Z h (VA_CreatedAt va))),
      (''updated_at'', JStr (format_Z h (VA_UpdatedAt va)))]"

definition toVAResponse :: "http_env \<Rightarrow> virtual_account \<Rightarrow> json" where
  "toVAResponse h va = JObj (va_fields h va)"

definition enrichedVAResponse :: "http_env \<Rightarrow> virtual_account \<Rightarrow> json" where
  "enrichedVAResponse h va =
     JObj (va_fields h va @ omit_empty ''customer_display_name'' (VA_CustomerDisplayName va))"

record patch_va_request =
  PVA_AccountName :: "string option"
  PVA_Status :: string

definition decode_patch_va :: "json \<Rightarrow> patch_va_request option" where
  "decode_patch_va body =
     do { fs \<leftarrow> jobject body; n \<leftarrow> jstring_ptr (jlast ''account_name'' fs);
          st \<leftarrow> jstring (jmember ''status'' fs); Some \<lparr>PVA_AccountName = n, PVA_Status = st\<rparr> }"

record 'w va_handler =
  vh_svc :: "'w provisioning_service"
  vh_vaDB :: "'w virtual_account_store"

definition handleLifecycleError :: "go_error \<Rightarrow> outcome" where
  "handleLifecycleError err =
     (case as_state err of
        Some (cur, target) \<Rightarrow> Conflicting (error_string (StateError cur target))
      | None \<Rightarrow> serverErr err)"

definition lifecycle_result :: "go_error option \<times> 'w \<Rightarrow> outcome \<times> 'w" where
  "lifecycle_result x =
     (case x of (Some err, w) \<Rightarrow> (handleLifecycleError err, w) | (None, w) \<Rightarrow> (no_content 204, w))"

definition vaH_ListVAs :: "http_env \<Rightarrow> 'w va_handler \<Rightarrow> request \<Rightarrow> request_context \<Rightarrow> 'w \<Rightarrow> outcome" where
  "vaH_ListVAs h H r c w =
     (case vs_ListVAs (vh_vaDB H) (Tenant_ID (Ctx_Tenant c)) 50 (query_get r ''cursor'') w of
        Inl err \<Rightarrow> serverErr err
      | Inr (vas, nextCursor) \<Rightarrow> writeJSON 200 (page_map (map (enrichedVAResponse h) vas) nextCursor))"

definition vaH_ProvisionVA :: "http_env \<Rightarrow> 'w va_handler \<Rightarrow> 8 word list \<Rightarrow> request \<Rightarrow> request_context
    \<Rightarrow> 'w \<Rightarrow> outcome \<times> 'w" where
  "vaH_ProvisionVA h H rnd r c w =
     (case ProvisionVA (vh_svc H) (he_now h) rnd (Tenant_ID (Ctx_Tenant c)) (URLParam r ''customerID'')
             (actorFromContext c) w of
        (Inl err, w) \<Rightarrow> (serverErr err, w)
      | (Inr (None, created), w) \<Rightarrow> (NotFound ''customer not found'', w)
      | (Inr (Some va, created), w) \<Rightarrow>
          (writeJSON (if created then 201 else 200) (toVAResponse h va), w))"

definition vaH_GetVA :: "http_env \<Rightarrow> 'w va_handler \<Rightarrow> request \<Rightarrow> request_context \<Rightarrow> 'w \<Rightarrow> outcome" where
  "vaH_GetVA h H r c w =
     (case GetVA (vh_svc H) (Tenant_ID (Ctx_Tenant c)) (URLParam r ''customerID'') w of
        Inl err \<Rightarrow> serverErr err
      | Inr None \<Rightarrow> NotFound ''virtual account not found''
      | Inr (Some va) \<Rightarrow> writeJSON 200 (toVAResponse h va))"

definition vaH_PatchVA :: "http_env \<Rightarrow> 'w va_handler \<Rightarrow> request \<Rightarrow> request_context
    \<Rightarrow> 'w \<Rightarrow> outcome \<times> 'w" where
  "vaH_PatchVA h H r c w =
     (let customerID = URLParam r ''customerID''; tenantID = Tenant_ID (Ctx_Tenant c);
          actor = actorFromContext c
      in case decodeJSON decode_patch_va r of
           None \<Rightarrow> (BadRequest ''invalid JSON body'', w)
         | Some req \<Rightarrow>
             (case PVA_AccountName req of
                Some name \<Rightarrow>
                  (case RenameVA (vh_svc H) (he_now h) tenantID customerID name actor w of
                     (Inl err, w) \<Rightarrow> (serverErr err, w)
                   | (Inr None, w) \<Rightarrow> (NotFound ''virtual account not found'', w)
                   | (Inr (Some va), w) \<Rightarrow> (writeJSON 200 (toVAResponse h va), w))
              | None \<Rightarrow>
                  if PVA_Status req = ''SUSPENDED''
                  then lifecycle_result (SuspendVA (vh_svc H) (he_now h) tenantID customerID actor w)
                  else if PVA_Status req = ''ACTIVE''
                  then lifecycle_result (UnsuspendVA (vh_svc H) (he_now h) tenantID customerID actor w)
                  else (BadRequest (''body must contain account_name or status (''
                          @ [CHR 0x22] @ ''SUSPENDED'' @ [CHR 0x22] @ ''|'' @ [CHR 0x22] @ ''ACTIVE''
                          @ [CHR 0x22] @ '')''), w)))"

definition vaH_DeleteVA :: "http_env \<Rightarrow> 'w va_handler \<Rightarrow> request \<Rightarrow> request_context
    \<Rightarrow> 'w \<Rightarrow> outcome \<times> 'w" where
  "vaH_DeleteVA h H r c w =
     lifecycle_result (CloseVA (vh_svc H) (he_now h) (Tenant_ID (Ctx_Tenant c))
       (URLParam r ''customerID'') (actorFromContext c) w)"

section \<open>Transactions\<close>

text \<open>
  The handlers that print amounts in naira. \<open>answer\<close> turns a document that cannot be computed into
  a request that is never answered.
\<close>

definition answer :: "int \<Rightarrow> json option \<Rightarrow> outcome" where
  "answer status j = (case j of None \<Rightarrow> NoReply | Some j \<Rightarrow> writeJSON status j)"

definition toTxnResponse :: "http_env \<Rightarrow> transaction \<Rightarrow> json option" where
  "toTxnResponse h tx =
     do { ngn \<leftarrow> koboToNGN (Tx_AmountKobo tx);
          Some (JObj ([(''id'', JStr (Tx_ID tx))] @ omit_empty ''nuban'' (Tx_NUBAN tx)
            @ omit_nil ''session_id'' (Tx_SessionID tx)
            @ [(''amount_kobo'', json_int64 (Tx_AmountKobo tx)), (''amount_ngn'', JStr ngn),
               (''direction'', JStr (Tx_Direction tx)), (''source'', JStr (Tx_Source tx)),
               (''status'', JStr (Tx_Status tx))]
            @ omit_nil ''sender_name'' (Tx_SenderName tx) @ omit_nil ''sender_bank'' (Tx_SenderBank tx)
            @ omit_nil ''narration'' (Tx_Narration tx)
            @ [(''occurred_at'', JStr (format_local h (Tx_OccurredAt tx)))])) }"

definition listTxnsResponse :: "http_env \<Rightarrow> transaction list \<Rightarrow> string \<Rightarrow> json option" where
  "listTxnsResponse h txns nextCursor =
     do { data \<leftarrow> collect (toTxnResponse h) txns;
          Some (JObj ([(''data'', JArr data)] @ omit_empty ''next_cursor'' nextCursor)) }"

definition statementEntryResponse :: "http_env \<Rightarrow> statement_entry \<Rightarrow> json option" where
  "statementEntryResponse h e =
     do { d \<leftarrow> koboToNGN (SE_DebitKobo e); cr \<leftarrow> koboToNGN (SE_CreditKobo e);
          b \<leftarrow> koboToNGN (SE_RunningBalance e);
          Some (JObj [(''occurred_at'', JStr (format_local h (SE_OccurredAt e))),
            (''description'', JStr (SE_Description e)), (''debit_kobo'', json_int64 (SE_DebitKobo e)),
            (''credit_kobo'', json_int64 (SE_CreditKobo e)), (''debit_ngn'', JStr d),
            (''credit_ngn'', JStr cr), (''running_balance_kobo'', json_int64 (SE_RunningBalance e)),
            (''running_balance_ngn'', JStr b)]) }"

definition statementResponse :: "http_env \<Rightarrow> string \<Rightarrow> time \<times> duration \<Rightarrow> time \<times> duration \<Rightarrow> statement
    \<Rightarrow> json option" where
  "statementResponse h customerID fr tt stmt =
     do { entries \<leftarrow> collect (statementEntryResponse h) (St_Entries stmt);
          ob \<leftarrow> koboToNGN (St_OpeningBalanceKobo stmt); cb \<leftarrow> koboToNGN (St_ClosingBalanceKobo stmt);
          Some (JObj [(''customer_id'', JStr customerID),
            (''from'', JStr (format_rfc3339 (snd fr) (fst fr))),
            (''to'', JStr (format_rfc3339 (snd tt) (fst tt))),
            (''opening_balance_kobo'', json_int64 (St_OpeningBalanceKobo stmt)),
            (''opening_balance_ngn'', JStr ob),
            (''closing_balance_kobo'', json_int64 (St_ClosingBalanceKobo stmt)),
            (''closing_balance_ngn'', JStr cb), (''entries'', JArr entries)]) }"

record 'w transaction_handler =
  th_txns :: "'w transaction_store"
  th_accounts :: "'w virtual_account_store"
  th_customers :: "'w customer_store"

text \<open>The ownership check that three handlers start with.\<close>

definition with_customer :: "'w transaction_handler \<Rightarrow> request \<Rightarrow> request_context
    \<Rightarrow> (customer \<Rightarrow> outcome) \<Rightarrow> 'w \<Rightarrow> outcome" where
  "with_customer H r c nxt w =
     (case cs_GetCustomer (th_customers H) (Tenant_ID (Ctx_Tenant c)) (URLParam r ''customerID'') w of
        Inl err \<Rightarrow> serverErr err
      | Inr None \<Rightarrow> NotFound ''customer not found''
      | Inr (Some customer) \<Rightarrow> nxt customer)"

definition txnH_ListTransactions :: "http_env \<Rightarrow> 'w transaction_handler \<Rightarrow> request \<Rightarrow> request_context
    \<Rightarrow> 'w \<Rightarrow> outcome" where
  "txnH_ListTransactions h H r c w =
     with_customer H r c (\<lambda>customer.
       case vs_GetLatestVA (th_accounts H) (URLParam r ''customerID'') w of
         Inl err \<Rightarrow> serverErr err
       | Inr None \<Rightarrow> answer 200 (listTxnsResponse h [] '''')
       | Inr (Some va) \<Rightarrow>
           (case xs_ListTransactions (th_txns H) (VA_ID va) (queryInt r ''limit'' 50)
                   (query_get r ''cursor'') w of
              Inl err \<Rightarrow> serverErr err
            | Inr (txns, nextCursor) \<Rightarrow> answer 200 (listTxnsResponse h txns nextCursor))) w"

definition txnH_GetStatement :: "http_env \<Rightarrow> 'w transaction_handler \<Rightarrow> request \<Rightarrow> request_context
    \<Rightarrow> 'w \<Rightarrow> outcome" where
  "txnH_GetStatement h H r c w =
     with_customer H r c (\<lambda>customer.
       case parseDateRange r of
         None \<Rightarrow> BadRequest ''from and to must be RFC3339 timestamps (e.g. 2026-01-01T00:00:00Z)''
       | Some (fr, tt) \<Rightarrow>
           (case xs_GetStatement (th_txns H) (CustomerWalletAccount (URLParam r ''customerID''))
                   (fst fr) (fst tt) w of
              Inl err \<Rightarrow> serverErr err
            | Inr stmt \<Rightarrow> answer 200 (statementResponse h (URLParam r ''customerID'') fr tt stmt))) w"

definition txnH_GetBalance :: "http_env \<Rightarrow> 'w transaction_handler \<Rightarrow> request \<Rightarrow> request_context
    \<Rightarrow> 'w \<Rightarrow> outcome" where
  "txnH_GetBalance h H r c w =
     with_customer H r c (\<lambda>customer.
       case xs_GetBalance (th_txns H) (CustomerWalletAccount (URLParam r ''customerID'')) w of
         Inl err \<Rightarrow> serverErr err
       | Inr bal \<Rightarrow>
           answer 200 (do { ngn \<leftarrow> koboToNGN bal;
             Some (json_map [(''customer_id'', JStr (URLParam r ''customerID'')),
               (''balance_kobo'', json_int64 bal), (''balance_ngn'', JStr ngn),
               (''kyc_tier'', JInt (case Cust_Identity customer of None \<Rightarrow> 0 | Some i \<Rightarrow> Ident_KYCTier i)),
               (''computed_at'', JStr (format_rfc3339 0 (he_now h 0)))]) })) w"

definition txnH_GetSingleTransaction :: "http_env \<Rightarrow> 'w transaction_handler \<Rightarrow> request
    \<Rightarrow> request_context \<Rightarrow> 'w \<Rightarrow> outcome" where
  "txnH_GetSingleTransaction h H r c w =
     (case xs_GetTransactionForTenant (th_txns H) (Tenant_ID (Ctx_Tenant c))
             (URLParam r ''transactionID'') w of
        Inl err \<Rightarrow> serverErr err
      | Inr None \<Rightarrow> NotFound ''transaction not found''
      | Inr (Some tx) \<Rightarrow> answer 200 (toTxnResponse h tx))"

definition txnH_ListTenantTransactions :: "http_env \<Rightarrow> 'w transaction_handler \<Rightarrow> request
    \<Rightarrow> request_context \<Rightarrow> 'w \<Rightarrow> outcome" where
  "txnH_ListTenantTransactions h H r c w =
     (case xs_ListTenantTransactions (th_txns H) (Tenant_ID (Ctx_Tenant c)) 50
             (query_get r ''cursor'') w of
        Inl err \<Rightarrow> serverErr err
      | Inr (txns, nextCursor) \<Rightarrow> answer 200 (listTxnsResponse h txns nextCursor))"

section \<open>API keys and the audit log\<close>

text \<open>
  The key of a tenant and its hash. The prefix is the first 16 characters of the key; the key is
  longer than that.
\<close>

definition generateAPIKey :: "http_env \<Rightarrow> (string \<times> string \<times> string) option" where
  "generateAPIKey h =
     (case he_rand h 16 of
        None \<Rightarrow> None
      | Some b \<Rightarrow> let raw = ''sk_live_'' @ hex_encode b
                 in Some (raw, he_sha256 h raw, if length raw > 16 then take 16 raw else raw))"

definition apiKeyH_ListAPIKeys :: "'w tenant_store \<Rightarrow> request_context \<Rightarrow> 'w \<Rightarrow> outcome" where
  "apiKeyH_ListAPIKeys ts c w =
     (case ts_ListAPIKeys ts (Tenant_ID (Ctx_Tenant c)) w of
        Inl err \<Rightarrow> serverErr err
      | Inr keys \<Rightarrow> writeJSON 200 (JObj [(''data'', JArr (map (\<lambda>k.
          JObj [(''id'', JStr (Key_ID k)), (''prefix'', JStr (Key_KeyPrefix k)),
                (''created_at'', JStr (format_utc (Key_CreatedAt k)))]) keys))]))"

definition apiKeyH_CreateAPIKey :: "http_env \<Rightarrow> 'w tenant_store \<Rightarrow> request_context \<Rightarrow> 'w \<Rightarrow> outcome \<times> 'w" where
  "apiKeyH_CreateAPIKey h ts c w =
     (case generateAPIKey h of
        None \<Rightarrow> (InternalServerError ''internal server error'', w)
      | Some (raw, hash, prefix) \<Rightarrow>
          (case ts_CreateAPIKey ts (Tenant_ID (Ctx_Tenant c)) raw hash prefix w of
             (Inl err, w) \<Rightarrow> (serverErr err, w)
           | (Inr k, w) \<Rightarrow>
               (writeJSON 201 (json_map [(''id'', JStr (Key_ID k)), (''prefix'', JStr (Key_KeyPrefix k)),
                  (''api_key'', JStr raw), (''created_at'', JStr (format_utc (Key_CreatedAt k)))]), w)))"

definition apiKeyH_RevokeAPIKey :: "'w tenant_store \<Rightarrow> request \<Rightarrow> request_context \<Rightarrow> 'w \<Rightarrow> outcome \<times> 'w" where
  "apiKeyH_RevokeAPIKey ts r c w =
     (case ts_RevokeAPIKey ts (URLParam r ''keyID'') (Tenant_ID (Ctx_Tenant c)) w of
        (Some err, w) \<Rightarrow> (serverErr err, w)
      | (None, w) \<Rightarrow> (no_content 204, w))"

definition auditH_ListAuditEntries :: "'w audit_store \<Rightarrow> request \<Rightarrow> request_context \<Rightarrow> 'w \<Rightarrow> outcome" where
  "auditH_ListAuditEntries as r c w =
     (case as_ListAuditEntries as (Tenant_ID (Ctx_Tenant c)) 50 (query_get r ''cursor'') w of
        Inl err \<Rightarrow> serverErr err
      | Inr (entries, nxt) \<Rightarrow> writeJSON 200 (JObj ([(''data'', JArr (map (\<lambda>e.
          JObj [(''id'', JStr (Aud_ID e)), (''actor'', JStr (Aud_Actor e)),
                (''action'', JStr (Aud_Action e)), (''entity_type'', JStr (Aud_EntityType e)),
                (''entity_id'', JStr (Aud_EntityID e)), (''at'', JStr (format_utc (Aud_At e)))])
          entries))] @ omit_empty ''next_cursor'' nxt)))"

end
