(* ===== verification/AdminAPI.thy ===== *)
theory AdminAPI
  imports MoneyAPI TenantAPI Sweep
begin

text \<open>
  The handlers of the operator: \<^verbatim>\<open>settings.go\<close>, \<^verbatim>\<open>sweep.go\<close>, \<^verbatim>\<open>auth.go\<close>,
  \<^verbatim>\<open>health.go\<close> and \<^verbatim>\<open>internal_ops.go\<close> of \<^verbatim>\<open>internal/api/handlers\<close>.
\<close>

section \<open>Tier limits\<close>

text \<open>A map with string keys, and one with integer keys, which are written in decimal.\<close>

definition json_of_string_limits :: "(string, tier_limit) fmap \<Rightarrow> json" where
  "json_of_string_limits m =
     JObj (map (\<lambda>k. (k, json_of_limit (the (fmlookup m k)))) (sorted_list_of_set (fmdom' m)))"

definition json_of_snapshot :: "tier_limits \<Rightarrow> json" where
  "json_of_snapshot m =
     json_map (map (\<lambda>k. (show_int k, json_of_limit (the (fmlookup m k)))) (sorted_list_of_set (fmdom' m)))"

record 'w settings_handler =
  kh_settings :: "'w settings_store"
  kh_load :: "range_order \<Rightarrow> json \<Rightarrow> 'w \<Rightarrow> go_error option \<times> 'w"
  kh_snapshot :: "'w \<Rightarrow> tier_limits"

definition setting_reply :: "json \<Rightarrow> outcome" where
  "setting_reply v = writeJSON 200 (json_map [(''key'', JStr TierLimitsKey), (''value'', v)])"

definition settingsH_PutTierLimits :: "http_env \<Rightarrow> 'w settings_handler \<Rightarrow> request \<Rightarrow> 'w \<Rightarrow> outcome \<times> 'w" where
  "settingsH_PutTierLimits h H r w =
     (case decodeJSON limit_map_of_json r of
        None \<Rightarrow> (BadRequest ''request body must be a valid JSON object of tier limits'', w)
      | Some body \<Rightarrow>
          if fmdom' body = {}
          then (UnprocessableEntity ''empty-tier-limits'' ''tier limits object must not be empty'', w)
          else let raw = json_of_string_limits body
               in case se_UpsertSetting (kh_settings H) (he_now h 0) TierLimitsKey raw w of
                    (Some err, w) \<Rightarrow> (InternalServerError (error_string err), w)
                  | (None, w) \<Rightarrow>
                      (case kh_load H (he_range h) raw w of
                         (Some err, w) \<Rightarrow> (InternalServerError (error_string err), w)
                       | (None, w) \<Rightarrow> (setting_reply raw, w)))"

definition settingsH_GetTierLimits :: "'w settings_handler \<Rightarrow> 'w \<Rightarrow> outcome" where
  "settingsH_GetTierLimits H w = setting_reply (json_of_snapshot (kh_snapshot H w))"

section \<open>The sweep\<close>

definition json_of_sweep_result :: "sweep_result \<Rightarrow> json" where
  "json_of_sweep_result r = JObj
     [(''window_from'', JTime (SR_WindowFrom r)), (''window_to'', JTime (SR_WindowTo r)),
      (''pages_fetched'', JInt (SR_PagesFetched r)), (''found'', JInt (SR_Found r)),
      (''posted'', JInt (SR_Posted r)), (''suspensed'', JInt (SR_Suspensed r)),
      (''skipped'', JInt (SR_Skipped r)), (''duration_ms'', JInt (SR_DurationMS r))]"

record 'w sweep_handler =
  gh_runner :: "'w sweep_runner"
  gh_token :: string

definition run_sweep :: "http_env \<Rightarrow> 'w sweep_handler \<Rightarrow> time \<Rightarrow> 'w \<Rightarrow> outcome \<times> 'w" where
  "run_sweep h H overrideFrom w =
     (case sweep_Run (gh_runner H) (he_fuel h) (he_now h 0) (he_now h 1) (he_item_now h)
             (Some overrideFrom) w of
        None \<Rightarrow> (NoReply, w)
      | Some ((None, err), w) \<Rightarrow> (InternalServerError ''sweep produced no result'', w)
      | Some ((Some result, err), w) \<Rightarrow> (writeJSON 200 (json_of_sweep_result result), w))"

definition sweepH_HandleSweep :: "http_env \<Rightarrow> 'w sweep_handler \<Rightarrow> request \<Rightarrow> 'w \<Rightarrow> outcome \<times> 'w" where
  "sweepH_HandleSweep h H r w =
     (if header_get r ''Authorization'' \<noteq> bearer @ gh_token H
      then (Unauthorized ''invalid sweep token'', w)
      else if query_get r ''from'' \<noteq> ''''
      then (case parse_zoned (query_get r ''from'') of
              Some (t, off) \<Rightarrow> run_sweep h H t w
            | None \<Rightarrow> (BadRequest ''from must be RFC3339, e.g. 2026-06-29T00:00:00Z'', w))
      else run_sweep h H 0 w)"

section \<open>Credentials\<close>

record onboard_user =
  OU_Name :: string
  OU_Email :: string
  OU_Password :: string
  OU_Role :: string

definition decode_user :: "json \<Rightarrow> onboard_user option" where
  "decode_user j =
     do { fs \<leftarrow> jobject j; n \<leftarrow> jstring (jmember ''name'' fs); m \<leftarrow> jstring (jmember ''email'' fs);
          pw \<leftarrow> jstring (jmember ''password'' fs); ro \<leftarrow> jstring (jmember ''role'' fs);
          Some \<lparr>OU_Name = n, OU_Email = m, OU_Password = pw, OU_Role = ro\<rparr> }"

definition decode_onboard :: "json \<Rightarrow> (string \<times> onboard_user list) option" where
  "decode_onboard body =
     do { fs \<leftarrow> jobject body; n \<leftarrow> jstring (jmember ''tenant_name'' fs);
          us \<leftarrow> jarray (jlast ''users'' fs); users \<leftarrow> collect decode_user us; Some (n, users) }"

record 'w auth_handler =
  uh_auth :: "'w auth_store"
  uh_tenant :: "'w tenant_store"
  uh_sweepToken :: string

definition new_credential :: "string option \<Rightarrow> onboard_user \<Rightarrow> string \<Rightarrow> user_credential" where
  "new_credential tid u hash =
     \<lparr>Cred_ID = '''', Cred_TenantID = tid, Cred_Email = OU_Email u, Cred_PasswordHash = hash,
      Cred_Name = OU_Name u, Cred_Role = OU_Role u, Cred_CreatedAt = 0\<rparr>"

text \<open>The loop over the users; \<open>n\<close> counts the ones created so far.\<close>

fun onboard_users :: "http_env \<Rightarrow> 'w auth_handler \<Rightarrow> string \<Rightarrow> nat \<Rightarrow> onboard_user list \<Rightarrow> 'w
    \<Rightarrow> (outcome + nat) \<times> 'w" where
  "onboard_users h H tid n [] w = (Inr n, w)"
| "onboard_users h H tid n (u # us) w =
     (case he_bcrypt h n (OU_Password u) of
        Inl err \<Rightarrow> (Inl (InternalServerError (''failed to hash password for '' @ OU_Email u)), w)
      | Inr hash \<Rightarrow>
          (case au_CreateCredential (uh_auth H) (he_now h (n + 1)) (new_credential (Some tid) u hash) w of
             (Some err, w) \<Rightarrow>
               (Inl (InternalServerError (''failed to create credential for '' @ OU_Email u)), w)
           | (None, w) \<Rightarrow> onboard_users h H tid (n + 1) us w))"

definition onboard_tenant :: "http_env \<Rightarrow> 'w auth_handler \<Rightarrow> tenant \<Rightarrow> onboard_user list \<Rightarrow> 'w
    \<Rightarrow> outcome \<times> 'w" where
  "onboard_tenant h H ten users w =
     (case generateAPIKey h of
        None \<Rightarrow> (InternalServerError ''failed to generate API key'', w)
      | Some (rawKey, keyHash, keyPrefix) \<Rightarrow>
          (case ts_CreateAPIKey (uh_tenant H) (Tenant_ID ten) rawKey keyHash keyPrefix w of
             (Inl err, w) \<Rightarrow> (InternalServerError ''failed to store API key'', w)
           | (Inr k, w) \<Rightarrow>
               (case onboard_users h H (Tenant_ID ten) 0 users w of
                  (Inl failed, w) \<Rightarrow> (failed, w)
                | (Inr created, w) \<Rightarrow>
                    (writeJSON 201 (json_map [(''tenant_id'', JStr (Tenant_ID ten)),
                       (''tenant_name'', JStr (Tenant_Name ten)), (''api_key'', JStr rawKey),
                       (''key_prefix'', JStr keyPrefix), (''users_created'', JInt (int created))]), w))))"

definition authH_Onboard :: "http_env \<Rightarrow> 'w auth_handler \<Rightarrow> request \<Rightarrow> 'w \<Rightarrow> outcome \<times> 'w" where
  "authH_Onboard h H r w =
     (case decodeJSON decode_onboard r of
        None \<Rightarrow> (BadRequest ''request body is not valid JSON'', w)
      | Some (name, users) \<Rightarrow>
          if name = '''' \<or> users = []
          then (BadRequest ''tenant_name and at least one user are required'', w)
          else (case ts_CreateTenant (uh_tenant H) (he_now h 0) name w of
                  (Inl err, w) \<Rightarrow> (InternalServerError ''failed to create tenant'', w)
                | (Inr ten, w) \<Rightarrow> onboard_tenant h H ten users w))"

definition decode_admin :: "json \<Rightarrow> onboard_user option" where
  "decode_admin j =
     do { fs \<leftarrow> jobject j; n \<leftarrow> jstring (jmember ''name'' fs); m \<leftarrow> jstring (jmember ''email'' fs);
          pw \<leftarrow> jstring (jmember ''password'' fs);
          Some \<lparr>OU_Name = n, OU_Email = m, OU_Password = pw, OU_Role = ''admin''\<rparr> }"

definition authH_OnboardAdmin :: "http_env \<Rightarrow> 'w auth_handler \<Rightarrow> request \<Rightarrow> 'w \<Rightarrow> outcome \<times> 'w" where
  "authH_OnboardAdmin h H r w =
     (case decodeJSON decode_admin r of
        None \<Rightarrow> (BadRequest ''request body is not valid JSON'', w)
      | Some u \<Rightarrow>
          if OU_Email u = '''' \<or> OU_Password u = '''' \<or> OU_Name u = ''''
          then (BadRequest ''name, email and password are required'', w)
          else (case he_bcrypt h 0 (OU_Password u) of
                  Inl err \<Rightarrow> (InternalServerError ''failed to hash password'', w)
                | Inr hash \<Rightarrow>
                    (case au_CreateCredential (uh_auth H) (he_now h 0) (new_credential None u hash) w of
                       (Some err, w) \<Rightarrow> (InternalServerError ''failed to create admin credential'', w)
                     | (None, w) \<Rightarrow>
                         (writeJSON 201 (json_map [(''email'', JStr (OU_Email u)),
                            (''role'', JStr ''admin'')]), w))))"

definition decode_login :: "json \<Rightarrow> (string \<times> string) option" where
  "decode_login j = do { fs \<leftarrow> jobject j; m \<leftarrow> jstring (jmember ''email'' fs);
                         pw \<leftarrow> jstring (jmember ''password'' fs); Some (m, pw) }"

definition login_reply :: "string \<Rightarrow> user_credential \<Rightarrow> tenant option \<Rightarrow> api_key option \<Rightarrow> json" where
  "login_reply token cred ten key = json_map
     ([(''id'', JStr (Cred_ID cred)), (''name'', JStr (Cred_Name cred)),
       (''email'', JStr (Cred_Email cred)), (''role'', JStr (Cred_Role cred))]
      @ (case ten of None \<Rightarrow> []
         | Some t \<Rightarrow> [(''tenant_id'', JStr (Tenant_ID t)), (''tenant_name'', JStr (Tenant_Name t))])
      @ (case key of None \<Rightarrow> []
         | Some k \<Rightarrow> if Key_RawKey k = '''' then []
                    else [(''api_key'', JStr (Key_RawKey k)), (''key_prefix'', JStr (Key_KeyPrefix k))])
      @ (if Cred_Role cred = ''admin'' \<and> token \<noteq> '''' then [(''admin_token'', JStr token)] else []))"

definition authH_Login :: "http_env \<Rightarrow> 'w auth_handler \<Rightarrow> request \<Rightarrow> 'w \<Rightarrow> outcome" where
  "authH_Login h H r w =
     (case decodeJSON decode_login r of
        None \<Rightarrow> BadRequest ''request body is not valid JSON''
      | Some (email, password) \<Rightarrow>
          (case au_GetCredentialByEmail (uh_auth H) email w of
             Inl err \<Rightarrow> InternalServerError ''credential lookup failed''
           | Inr (None, _, _) \<Rightarrow> Unauthorized ''invalid email or password''
           | Inr (Some cred, ten, key) \<Rightarrow>
               if \<not> he_bcrypt_ok h (Cred_PasswordHash cred) password
               then Unauthorized ''invalid email or password''
               else writeJSON 200 (login_reply (uh_sweepToken H) cred ten key)))"

definition authH_ListTenants :: "http_env \<Rightarrow> 'w auth_handler \<Rightarrow> 'w \<Rightarrow> outcome" where
  "authH_ListTenants h H w =
     (case ts_ListTenants (uh_tenant H) w of
        Inl err \<Rightarrow> InternalServerError ''failed to list tenants''
      | Inr tens \<Rightarrow> writeJSON 200 (JObj [(''data'', JArr (map (\<lambda>t.
          JObj [(''id'', JStr (Tenant_ID t)), (''name'', JStr (Tenant_Name t)),
                (''created_at'', JStr (format_Z h (Tenant_CreatedAt t)))]) tens))]))"

section \<open>Platform health\<close>

record 'w health_handler =
  hh_healthStore :: "'w platform_health_store"
  hh_sweepStore :: "'w sweep_store"
  hh_vaStore :: "'w virtual_account_store"
  hh_provider :: "'w provider"

definition null_or :: "('a \<Rightarrow> json) \<Rightarrow> 'a option \<Rightarrow> json" where
  "null_or f x = (case x of None \<Rightarrow> JNull | Some x \<Rightarrow> f x)"

definition sweep_snapshot_json :: "sweep_health_snapshot \<Rightarrow> json" where
  "sweep_snapshot_json s = JObj
     [(''posted'', JInt (SHS_Posted s)), (''found'', JInt (SHS_Found s)),
      (''suspensed'', JInt (SHS_Suspensed s)), (''ran_at'', JStr (format_utc (SHS_RanAt s)))]"

definition tenant_health_json :: "tenant_health \<Rightarrow> json" where
  "tenant_health_json t = JObj
     [(''id'', JStr (TH_ID t)), (''name'', JStr (TH_Name t)), (''customers'', JInt (TH_Customers t)),
      (''accounts'', JInt (TH_Accounts t)), (''open_suspense_kobo'', json_int64 (TH_OpenSuspenseKobo t)),
      (''last_activity'', null_or (\<lambda>x. JStr (format_utc x)) (TH_LastActivity t)),
      (''status'', JStr (TH_Status t))]"

definition platform_health_json :: "platform_health \<Rightarrow> json" where
  "platform_health_json p = JObj
     [(''ledger'', JObj [(''debits_kobo'', json_int64 (LH_DebitsKobo (PH_Ledger p))),
         (''credits_kobo'', json_int64 (LH_CreditsKobo (PH_Ledger p))),
         (''balanced'', JBool (LH_Balanced (PH_Ledger p)))]),
      (''last_sweep'', null_or sweep_snapshot_json (PH_LastSweep p)),
      (''webhook_24h'', JObj [(''delivered'', JInt (WH_Delivered (PH_Webhook24h p))),
         (''total'', JInt (WH_Total (PH_Webhook24h p)))]),
      (''cross_tenant_suspense'', JObj
         [(''amount_kobo'', json_int64 (SH_AmountKobo (PH_CrossTenantSuspense p))),
          (''item_count'', JInt (SH_ItemCount (PH_CrossTenantSuspense p))),
          (''tenant_count'', JInt (SH_TenantCount (PH_CrossTenantSuspense p)))]),
      (''active_tenants'', JInt (PH_ActiveTenants p)), (''total_tenants'', JInt (PH_TotalTenants p)),
      (''tenant_health'', JArr (map tenant_health_json (PH_TenantHealth p))),
      (''checked_at'', JStr (format_utc (PH_CheckedAt p)))]"

definition healthH_GetPlatformHealth :: "http_env \<Rightarrow> 'w health_handler \<Rightarrow> 'w \<Rightarrow> outcome" where
  "healthH_GetPlatformHealth h H w =
     (case hs_GetPlatformHealth (hh_healthStore H) (he_now h 0) w of
        Inl err \<Rightarrow> serverErr err
      | Inr p \<Rightarrow> writeJSON 200 (platform_health_json p))"

definition run_json :: "sweep_run \<Rightarrow> json" where
  "run_json x = JObj
     ([(''id'', JStr (Run_ID x)), (''window_from'', JStr (format_utc (Run_WindowFrom x))),
       (''window_to'', JStr (format_utc (Run_WindowTo x))),
       (''pages_fetched'', JInt (Run_PagesFetched x)), (''found'', JInt (Run_Found x)),
       (''posted'', JInt (Run_Posted x)), (''suspensed'', JInt (Run_Suspensed x)),
       (''duration_ms'', null_or JInt (Run_DurationMS x))]
      @ omit_nil ''error'' (Run_Error x) @ [(''ran_at'', JStr (format_utc (Run_RanAt x)))])"

definition healthH_ListSweepRuns :: "'w health_handler \<Rightarrow> request \<Rightarrow> 'w \<Rightarrow> outcome" where
  "healthH_ListSweepRuns H r w =
     (case sw_ListSweepRuns (hh_sweepStore H) (queryInt r ''limit'' 50) w of
        Inl err \<Rightarrow> serverErr err
      | Inr runs \<Rightarrow> writeJSON 200 (JObj [(''data'', JArr (map run_json runs))]))"

definition admin_va_json :: "virtual_account \<Rightarrow> json" where
  "admin_va_json va = JObj
     [(''id'', JStr (VA_ID va)), (''customer_id'', JStr (VA_CustomerID va)),
      (''customer_display_name'', JStr (VA_CustomerDisplayName va)),
      (''tenant_name'', JStr (VA_TenantName va)), (''nuban'', JStr (VA_NUBAN va)),
      (''bank_name'', JStr (VA_BankName va)), (''account_name'', JStr (VA_AccountName va)),
      (''status'', JStr (VA_Status va)), (''created_at'', JStr (format_utc (VA_CreatedAt va)))]"

definition healthH_ListAllVAs :: "'w health_handler \<Rightarrow> request \<Rightarrow> 'w \<Rightarrow> outcome" where
  "healthH_ListAllVAs H r w =
     (case vs_ListAllVAs (hh_vaStore H) (queryInt r ''limit'' 50) (query_get r ''cursor'') w of
        Inl err \<Rightarrow> serverErr err
      | Inr (vas, nxt) \<Rightarrow> writeJSON 200 (page_struct (map admin_va_json vas) nxt))"

definition nomba_va_json :: "nomba_va \<Rightarrow> json" where
  "nomba_va_json va = JObj
     [(''account_ref'', JStr (NVA_AccountRef va)), (''nuban'', JStr (NVA_NUBAN va)),
      (''bank_name'', JStr (NVA_BankName va)), (''account_name'', JStr (NVA_AccountName va)),
      (''status'', JStr (NVA_Status va)), (''created_at'', JStr (NVA_CreatedAt va))]"

definition healthH_ListNombaVAs :: "'w health_handler \<Rightarrow> request \<Rightarrow> 'w \<Rightarrow> outcome \<times> 'w" where
  "healthH_ListNombaVAs H r w =
     (case pv_ListVAs (hh_provider H) (query_get r ''cursor'') w of
        (Inl err, w) \<Rightarrow>
          (case as_api_error err of
             Some (code, body) \<Rightarrow>
               if code = 403
               then writeJSON 200 (json_map [(''data'', JArr []), (''unavailable'', JBool True),
                      (''reason'', JStr ''The Nomba account credentials do not have permission to list virtual accounts.'')])
               else serverErr err
           | None \<Rightarrow> serverErr err, w)
      | (Inr (vas, nxt), w) \<Rightarrow> (writeJSON 200 (page_struct (map nomba_va_json vas) nxt), w))"

definition admin_item_json :: "cross_tenant_suspense_item \<Rightarrow> json" where
  "admin_item_json s = JObj
     [(''id'', JStr (SI_ID s)), (''tenant_name'', JStr (XSI_TenantName s)),
      (''amount_kobo'', json_int64 (SI_AmountKobo s)), (''reason'', JStr (SI_Reason s)),
      (''nuban'', JStr (SI_NUBAN s)), (''created_at'', JStr (format_utc (SI_CreatedAt s)))]"

definition healthH_ListCrossTenantSuspense :: "'w health_handler \<Rightarrow> request \<Rightarrow> 'w \<Rightarrow> outcome" where
  "healthH_ListCrossTenantSuspense H r w =
     (case hs_ListCrossTenantSuspense (hh_healthStore H) 100 (query_get r ''cursor'') w of
        Inl err \<Rightarrow> serverErr err
      | Inr (items, nxt) \<Rightarrow> writeJSON 200 (page_struct (map admin_item_json items) nxt))"

section \<open>Internal operations\<close>

record 'w internal_ops_handler =
  oh_webhookStore :: "'w webhook_event_store"
  oh_suspenseStore :: "'w suspense_store"
  oh_txnStore :: "'w transaction_store"
  oh_vaStore :: "'w virtual_account_store"
  oh_customerStore :: "'w customer_store"
  oh_suspenseSvc :: "'w suspense_service"
  oh_provider :: "'w provider"

definition event_json :: "webhook_event \<Rightarrow> json" where
  "event_json x = JObj
     ([(''id'', JStr (WE_ID x)), (''dedupe_key'', JStr (WE_DedupeKey x)),
       (''event_type'', JStr (WE_EventType x)), (''signature_valid'', JBool (WE_SignatureValid x)),
       (''status'', JStr (WE_Status x)), (''payload'', WE_Payload x),
       (''created_at'', JStr (format_utc (WE_CreatedAt x)))]
      @ opt_member ''processed_at'' (\<lambda>t. JStr (format_utc t)) (WE_ProcessedAt x))"

definition internalOpsH_ListWebhookEvents :: "'w internal_ops_handler \<Rightarrow> request \<Rightarrow> 'w \<Rightarrow> outcome" where
  "internalOpsH_ListWebhookEvents H r w =
     (case ws_ListWebhookEvents (oh_webhookStore H) (queryInt r ''limit'' 50) w of
        Inl err \<Rightarrow> serverErr err
      | Inr events \<Rightarrow> writeJSON 200 (JObj [(''data'', JArr (map event_json events))]))"

text \<open>
  One item of \<open>ReprocessSuspense\<close>. The errors of decoding the stored document and of the two account
  lookups are ignored.
\<close>

record reprocess_result =
  Rep_ItemID :: string
  Rep_TransactionID :: string
  Rep_Outcome :: string
  Rep_CustomerID :: string
  Rep_Error :: string

definition stored_session_id :: "json \<Rightarrow> string" where
  "stored_session_id raw =
     (case raw of
        JObj fs \<Rightarrow> (case jstring (jmember ''session_id'' fs) of None \<Rightarrow> '''' | Some s \<Rightarrow> s)
      | _ \<Rightarrow> '''')"

definition owner_of :: "'w internal_ops_handler \<Rightarrow> provider_tx \<Rightarrow> 'w \<Rightarrow> string" where
  "owner_of H pt w =
     (let byRef = (if PT_AccountRef pt \<noteq> ''''
                   then (case vs_GetVAByAccountRef (oh_vaStore H) (PT_AccountRef pt) w of
                           Inr (Some va) \<Rightarrow> VA_CustomerID va | _ \<Rightarrow> '''')
                   else '''')
      in if byRef = '''' \<and> PT_AccountNumber pt \<noteq> ''''
         then (case vs_GetVAByNUBAN (oh_vaStore H) (PT_AccountNumber pt) w of
                 Inr (Some va) \<Rightarrow> VA_CustomerID va | _ \<Rightarrow> '''')
         else byRef)"

definition reprocess_request :: "string \<Rightarrow> customer \<Rightarrow> resolve_request" where
  "reprocess_request customerID cust =
     \<lparr>RR_Resolution = ''reassign'', RR_TargetCustomerID = customerID,
      RR_Notes = ''auto-resolved by reprocess-suspense (session_id requery)'',
      RR_Actor = ''system:reprocess'', RR_TenantID = Cust_TenantID cust\<rparr>"

definition reprocess_item :: "'w internal_ops_handler \<Rightarrow> (nat \<Rightarrow> time) \<Rightarrow> suspense_item \<Rightarrow> 'w
    \<Rightarrow> reprocess_result \<times> 'w" where
  "reprocess_item H now item w =
     (let res = (\<lambda>out cust err. \<lparr>Rep_ItemID = SI_ID item, Rep_TransactionID = SI_TransactionID item,
                   Rep_Outcome = out, Rep_CustomerID = cust, Rep_Error = err\<rparr>)
      in case xs_GetTransaction (oh_txnStore H) (SI_TransactionID item) w of
           Inr (Some origTx) \<Rightarrow>
             if stored_session_id (Tx_Raw origTx) = '''' then (res ''no_session_id'' '''' '''', w)
             else (case pv_Requery (oh_provider H) (stored_session_id (Tx_Raw origTx)) w of
               (Inl err, w) \<Rightarrow> (res ''requery_failed'' '''' (error_string err), w)
             | (Inr pt, w) \<Rightarrow>
                 if owner_of H pt w = '''' then (res ''no_match'' '''' '''', w)
                 else (case cs_GetCustomerByID (oh_customerStore H) (owner_of H pt w) w of
                   Inr (Some cust) \<Rightarrow>
                     (case Resolve (oh_suspenseSvc H) now (SI_ID item)
                             (reprocess_request (owner_of H pt w) cust) w of
                        (Some err, w) \<Rightarrow> (res ''resolve_failed'' '''' (error_string err), w)
                      | (None, w') \<Rightarrow> (res ''resolved'' (owner_of H pt w) '''', w'))
                 | _ \<Rightarrow> (res ''resolve_failed'' '''' ''customer lookup failed'', w)))
         | _ \<Rightarrow> (res ''resolve_failed'' '''' ''transaction not found'', w))"

fun reprocess_items :: "'w internal_ops_handler \<Rightarrow> (nat \<Rightarrow> nat \<Rightarrow> time) \<Rightarrow> suspense_item list \<Rightarrow> 'w
    \<Rightarrow> reprocess_result list \<times> 'w" where
  "reprocess_items H clk [] w = ([], w)"
| "reprocess_items H clk (item # items) w =
     (let (res, w) = reprocess_item H (clk 0) item w;
          (results, w) = reprocess_items H (\<lambda>n. clk (Suc n)) items w
      in (res # results, w))"

definition result_json :: "reprocess_result \<Rightarrow> json" where
  "result_json x = JObj
     ([(''item_id'', JStr (Rep_ItemID x)), (''transaction_id'', JStr (Rep_TransactionID x)),
       (''outcome'', JStr (Rep_Outcome x))]
      @ omit_empty ''customer_id'' (Rep_CustomerID x) @ omit_empty ''error'' (Rep_Error x))"

text \<open>Each outcome has its counter; the list of results is a nil slice when there are none.\<close>

definition count_of :: "string list \<Rightarrow> reprocess_result list \<Rightarrow> json" where
  "count_of outs xs = JInt (int (length (filter (\<lambda>x. Rep_Outcome x \<in> set outs) xs)))"

definition internalOpsH_ReprocessSuspense :: "http_env \<Rightarrow> 'w internal_ops_handler \<Rightarrow> 'w \<Rightarrow> outcome \<times> 'w" where
  "internalOpsH_ReprocessSuspense h H w =
     (case ss_ListOpenUnmatchedItems (oh_suspenseStore H) 200 w of
        Inl err \<Rightarrow> (serverErr err, w)
      | Inr items \<Rightarrow>
          let (results, w) = reprocess_items H (he_item_now h) items w
          in (writeJSON 200 (json_map [(''total'', JInt (int (length items))),
                (''resolved'', count_of [''resolved''] results),
                (''no_match'', count_of [''no_match''] results),
                (''no_session'', count_of [''no_session_id''] results),
                (''failed'', count_of [''requery_failed'', ''resolve_failed''] results),
                (''items'', if results = [] then JNull else JArr (map result_json results))]), w))"

end
