(* ===== verification/Readme.thy ===== *)
theory Readme
  imports Http "HOL-Library.Sublist"
begin

text \<open>
  The page at the root of the API (\<^verbatim>\<open>readme.go\<close>, \<open>handleReadme\<close> of \<^verbatim>\<open>api/server.go\<close>): the README that
  is embedded in the program, as it is or rendered once by the Markdown library, which is a parameter
  like the text itself.
\<close>

section \<open>Rendering\<close>

text \<open>The result of the one rendering is kept; \<open>None\<close> before the first request.\<close>

definition ReadmeHTML :: "http_env \<Rightarrow> string option \<Rightarrow> string \<times> string option" where
  "ReadmeHTML h once =
     (case once of
        Some html \<Rightarrow> (html, once)
      | None \<Rightarrow>
          let html = (case he_render h (he_readme h) of
                        None \<Rightarrow> ''<p>Failed to render README.</p>'' | Some html \<Rightarrow> html)
          in (html, Some html))"

text \<open>The renderer is a function of the text, so that it does not matter whether the page was asked for before.\<close>

lemma ReadmeHTML_once:
  assumes "ReadmeHTML h None = (html, once)"
  shows "ReadmeHTML h once = (html, once)"
  using assms by (auto simp: ReadmeHTML_def Let_def)

section \<open>The page\<close>

text \<open>The lines of a raw string of the source; the quotation mark is \<open>q\<close>.\<close>

definition unlines :: "string list \<Rightarrow> string" where
  "unlines ls = concat (map (\<lambda>l. l @ [CHR 0x0A]) (butlast ls)) @ last ls"

definition readmePageHead :: string where
  "readmePageHead = (let q = [CHR 0x22] in unlines [
      ''<!DOCTYPE html>'',
      ''<html lang='' @ q @ ''en'' @ q @ ''>'',
      ''<head>'',
      ''<meta charset='' @ q @ ''utf-8'' @ q @ ''>'',
      ''<meta name='' @ q @ ''viewport'' @ q @ '' content='' @ q @ ''width=device-width, initial-scale=1'' @ q @ ''>'',
      ''<title>VaultNUBAN API</title>'',
      ''<style>'',
      ''  :root {'',
      ''    color-scheme: light dark;'',
      ''    --fg: #1f2328; --bg: #ffffff; --muted: #59636e; --border: #d1d9e0;'',
      ''    --code-bg: #f6f8fa; --link: #0969da; --accent: #d4a72c;'',
      ''  }'',
      ''  @media (prefers-color-scheme: dark) {'',
      ''    :root { --fg: #e6edf3; --bg: #0d1117; --muted: #8d96a0; --border: #30363d; --code-bg: #161b22; --link: #4493f8; }'',
      ''  }'',
      ''  * { box-sizing: border-box; }'',
      ''  body {'',
      ''    max-width: 860px; margin: 0 auto; padding: 3rem 1.5rem 5rem;'',
      ''    background: var(--bg); color: var(--fg);'',
      ''    font-family: -apple-system, BlinkMacSystemFont, '' @ q @ ''Segoe UI'' @ q @ '', Helvetica, Arial, sans-serif;'',
      ''    line-height: 1.65; font-size: 16px;'',
      ''  }'',
      ''  .markdown-body h1, .markdown-body h2, .markdown-body h3, .markdown-body h4 {'',
      ''    font-weight: 600; line-height: 1.25; margin: 1.8em 0 0.8em;'',
      ''  }'',
      ''  .markdown-body h1 { font-size: 2rem; padding-bottom: 0.4em; border-bottom: 1px solid var(--border); }'',
      ''  .markdown-body h2 { font-size: 1.5rem; padding-bottom: 0.35em; border-bottom: 1px solid var(--border); }'',
      ''  .markdown-body h3 { font-size: 1.2rem; }'',
      ''  .markdown-body h1:first-child { margin-top: 0; }'',
      ''  .markdown-body p, .markdown-body ul, .markdown-body ol, .markdown-body blockquote, .markdown-body table { margin: 0.8em 0; }'',
      ''  .markdown-body ul, .markdown-body ol { padding-left: 1.8em; }'',
      ''  .markdown-body li + li { margin-top: 0.2em; }'',
      ''  .markdown-body a { color: var(--link); text-decoration: none; }'',
      ''  .markdown-body a:hover { text-decoration: underline; }'',
      ''  .markdown-body code {'',
      ''    background: var(--code-bg); border-radius: 4px; padding: 0.15em 0.4em;'',
      ''    font-family: ui-monospace, SFMono-Regular, Menlo, Consolas, monospace; font-size: 0.88em;'',
      ''  }'',
      ''  .markdown-body pre {'',
      ''    background: var(--code-bg); border: 1px solid var(--border); border-radius: 8px;'',
      ''    padding: 1em; overflow-x: auto; line-height: 1.5;'',
      ''  }'',
      ''  .markdown-body pre code { background: none; padding: 0; font-size: 0.85em; }'',
      ''  .markdown-body blockquote {'',
      ''    border-left: 4px solid var(--border); margin-left: 0; padding: 0 1em; color: var(--muted);'',
      ''  }'',
      ''  .markdown-body table { border-collapse: collapse; display: block; overflow-x: auto; width: max-content; max-width: 100%; }'',
      ''  .markdown-body th, .markdown-body td { border: 1px solid var(--border); padding: 0.5em 0.9em; }'',
      ''  .markdown-body th { background: var(--code-bg); font-weight: 600; }'',
      ''  .markdown-body tr:nth-child(2n) { background: var(--code-bg); }'',
      ''  .markdown-body img { max-width: 100%; }'',
      ''  .markdown-body hr { border: none; border-top: 1px solid var(--border); margin: 2em 0; }'',
      ''  .readme-footer {'',
      ''    margin-top: 3em; padding-top: 1.5em; border-top: 1px solid var(--border);'',
      ''    color: var(--muted); font-size: 0.85rem;'',
      ''  }'',
      ''  .readme-footer a { color: var(--link); text-decoration: none; }'',
      ''  .readme-footer a:hover { text-decoration: underline; }'',
      ''</style>'',
      ''</head>'',
      ''<body>'',
      ''<article class='' @ q @ ''markdown-body'' @ q @ ''>'',
      ''''])"

definition readmePageTail :: string where
  "readmePageTail = (let q = [CHR 0x22] in unlines [
      '''',
      ''</article>'',
      ''<p class='' @ q @ ''readme-footer'' @ q @ ''>'',
      ''  Serving <code>README.md</code> from the running build &middot;'',
      ''  <a href='' @ q @ ''https://github.com/Systyn-Labs/vaultnuban'' @ q @ ''>Source</a>'',
      ''</p>'',
      ''</body>'',
      ''</html>''])"

text \<open>\<open>strings.Contains\<close>.\<close>

definition contains :: "string \<Rightarrow> string \<Rightarrow> bool" where
  "contains s sub \<longleftrightarrow> sublist sub s"

definition handleReadme :: "http_env \<Rightarrow> request \<Rightarrow> outcome" where
  "handleReadme h r =
     (if contains (header_get r ''Accept'') ''text/markdown''
      then Page ''text/markdown; charset=utf-8'' (he_readme h)
      else Page ''text/html; charset=utf-8''
             (readmePageHead @ fst (ReadmeHTML h None) @ readmePageTail))"

end
