(* ===== verification/Router.thy ===== *)
theory Router
  imports AdminAPI Webhook Readme
begin

text \<open>
  \<^verbatim>\<open>internal/api/server.go\<close>: the dependencies of the API, the handlers made from them, the table
  of routes with the middleware of their groups, and the reply of the webhook handler. CORS is left out, and so is what the router library
  answers to a request that matches no route; Logs adds the request identifier and the request log.
\<close>

section \<open>Dependencies\<close>

record 'w dependencies =
  dep_TenantStore :: "'w tenant_store"
  dep_HealthStore :: "'w platform_health_store"
  dep_AuditStore :: "'w audit_store"
  dep_AuthStore :: "'w auth_store"
  dep_WebhookStore :: "'w webhook_event_store"
  dep_CustomerStore :: "'w customer_store"
  dep_TxnStore :: "'w transaction_store"
  dep_VAStore :: "'w virtual_account_store"
  dep_SuspenseStore :: "'w suspense_store"
  dep_WithdrawalStore :: "'w withdrawal_store"
  dep_RelayStore :: "'w relay_store"
  dep_SweepStore :: "'w sweep_store"
  dep_SettingsStore :: "'w settings_store"
  dep_LoadLimits :: "range_order \<Rightarrow> json \<Rightarrow> 'w \<Rightarrow> go_error option \<times> 'w"
  dep_Snapshot :: "'w \<Rightarrow> tier_limits"
  dep_Redis :: "'w redis"
  dep_CustomerSvc :: "'w customer_service"
  dep_Provisioning :: "'w provisioning_service"
  dep_SuspenseSvc :: "'w suspense_service"
  dep_WithdrawalSvc :: "'w withdrawal_service"
  dep_CollectionSvc :: "'w collection_service"
  dep_Provider :: "'w provider"
  dep_Enqueue :: "work_item \<Rightarrow> 'w \<Rightarrow> bool \<times> 'w"
  dep_Sweep :: "'w sweep_runner"
  dep_Dispatcher :: "'w dispatcher"
  dep_SweepToken :: string

definition authH :: "'w dependencies \<Rightarrow> 'w auth_handler" where
  "authH d = \<lparr>uh_auth = dep_AuthStore d, uh_tenant = dep_TenantStore d,
     uh_sweepToken = dep_SweepToken d\<rparr>"

definition customerH :: "'w dependencies \<Rightarrow> 'w customer_handler" where
  "customerH d = \<lparr>ch_svc = dep_CustomerSvc d, ch_customerDB = dep_CustomerStore d\<rparr>"

definition vaH :: "'w dependencies \<Rightarrow> 'w va_handler" where
  "vaH d = \<lparr>vh_svc = dep_Provisioning d, vh_vaDB = dep_VAStore d\<rparr>"

definition webhookH :: "'w dependencies \<Rightarrow> 'w webhook_handler" where
  "webhookH d = \<lparr>wh_prov = dep_Provider d, wh_webhooks = dep_WebhookStore d, wh_enqueue = dep_Enqueue d\<rparr>"

definition sweepH :: "'w dependencies \<Rightarrow> 'w sweep_handler" where
  "sweepH d = \<lparr>gh_runner = dep_Sweep d, gh_token = dep_SweepToken d\<rparr>"

definition txnH :: "'w dependencies \<Rightarrow> 'w transaction_handler" where
  "txnH d = \<lparr>th_txns = dep_TxnStore d, th_accounts = dep_VAStore d, th_customers = dep_CustomerStore d\<rparr>"

definition withdrawalH :: "'w dependencies \<Rightarrow> 'w withdrawal_handler" where
  "withdrawalH d = \<lparr>dh_svc = dep_WithdrawalSvc d, dh_withdrawalStore = dep_WithdrawalStore d\<rparr>"

definition settingsH :: "'w dependencies \<Rightarrow> 'w settings_handler" where
  "settingsH d = \<lparr>kh_settings = dep_SettingsStore d, kh_load = dep_LoadLimits d,
     kh_snapshot = dep_Snapshot d\<rparr>"

definition healthH :: "'w dependencies \<Rightarrow> 'w health_handler" where
  "healthH d = \<lparr>hh_healthStore = dep_HealthStore d, hh_sweepStore = dep_SweepStore d,
     hh_vaStore = dep_VAStore d, hh_provider = dep_Provider d\<rparr>"

definition internalOpsH :: "'w dependencies \<Rightarrow> 'w internal_ops_handler" where
  "internalOpsH d = \<lparr>oh_webhookStore = dep_WebhookStore d, oh_suspenseStore = dep_SuspenseStore d,
     oh_txnStore = dep_TxnStore d, oh_vaStore = dep_VAStore d, oh_customerStore = dep_CustomerStore d,
     oh_suspenseSvc = dep_SuspenseSvc d, oh_provider = dep_Provider d\<rparr>"

lemmas handler_defs = authH_def customerH_def vaH_def webhookH_def sweepH_def txnH_def
  withdrawalH_def settingsH_def healthH_def internalOpsH_def

section \<open>The webhook route\<close>

definition webhook_headers :: "request \<Rightarrow> http_headers" where
  "webhook_headers r =
     \<lparr>HH_signature = header_get r ''nomba-signature'',
      HH_signature_algorithm = header_get r ''nomba-signature-algorithm'',
      HH_signature_version = header_get r ''nomba-signature-version'',
      HH_timestamp = header_get r ''nomba-timestamp''\<rparr>"

text \<open>The reply that goes with the status of \<open>HandleNombaWebhook\<close>; no body but for 400 and 401.\<close>

definition webhook_reply :: "'w provider \<Rightarrow> request \<Rightarrow> 'w \<Rightarrow> int \<Rightarrow> outcome" where
  "webhook_reply P r w status =
     (if status = 400 then BadRequest ''failed to read body''
      else if status = 401
      then Unauthorized
             (if pv_VerifyWebhookSignature P (header_list (webhook_headers r)) (the (Req_Body r)) w \<noteq> None
              then ''invalid webhook signature'' else ''webhook timestamp outside replay window'')
      else no_content status)"

definition serve_webhook :: "http_env \<Rightarrow> 'w webhook_handler \<Rightarrow> request \<Rightarrow> 'w \<Rightarrow> outcome \<times> 'w" where
  "serve_webhook h H r w =
     (let (status, w') = HandleNombaWebhook H (he_now h) (webhook_headers r) (Req_Body r) w
      in (webhook_reply (wh_prov H) r w status, w'))"

section \<open>Routes\<close>

datatype v1_route =
    V_ListCustomers | V_CreateCustomer | V_ListVAs | V_ListTenantTransactions
  | V_UpdateKYCTier | V_ProvisionVA | V_GetVA | V_PatchVA | V_DeleteVA
  | V_ListTransactions | V_GetStatement | V_GetBalance
  | V_InitiateWithdrawal | V_ListWithdrawals
  | V_CreateCollection | V_ListCollections | V_GetCollection | V_CancelCollection
  | V_ResolvePayee | V_ListSuspense | V_ResolveSuspense | V_GetSingleTransaction
  | V_CreateEndpoint | V_ListEndpoints | V_ListDeliveries | V_ReplayDelivery
  | V_ListAuditEntries | V_ListAPIKeys | V_CreateAPIKey | V_RevokeAPIKey

datatype internal_route =
    I_GetTierLimits | I_PutTierLimits | I_Onboard | I_OnboardAdmin | I_ListTenants
  | I_GetPlatformHealth | I_ListSweepRuns | I_ListCrossTenantSuspense | I_ListAllVAs
  | I_ListNombaVAs | I_ListWebhookEvents | I_ReprocessSuspense

datatype endpoint =
    Healthz
  | ReadmePage
  | Login
  | NombaWebhook
  | SweepCron
  | V1 v1_route
  | Internal internal_route

datatype segment = Lit string | Param string

definition customer_path :: "segment list \<Rightarrow> segment list" where
  "customer_path rest = [Lit ''v1'', Lit ''customers'', Param ''customerID''] @ rest"

definition v1_routes :: "(string \<times> segment list \<times> v1_route) list" where
  "v1_routes =
    [(''GET'', [Lit ''v1'', Lit ''customers''], V_ListCustomers),
     (''POST'', [Lit ''v1'', Lit ''customers''], V_CreateCustomer),
     (''GET'', [Lit ''v1'', Lit ''virtual-accounts''], V_ListVAs),
     (''GET'', [Lit ''v1'', Lit ''transactions''], V_ListTenantTransactions),
     (''PATCH'', customer_path [Lit ''identity''], V_UpdateKYCTier),
     (''POST'', customer_path [Lit ''virtual-account''], V_ProvisionVA),
     (''GET'', customer_path [Lit ''virtual-account''], V_GetVA),
     (''PATCH'', customer_path [Lit ''virtual-account''], V_PatchVA),
     (''DELETE'', customer_path [Lit ''virtual-account''], V_DeleteVA),
     (''GET'', customer_path [Lit ''transactions''], V_ListTransactions),
     (''GET'', customer_path [Lit ''statement''], V_GetStatement),
     (''GET'', customer_path [Lit ''balance''], V_GetBalance),
     (''POST'', customer_path [Lit ''withdrawals''], V_InitiateWithdrawal),
     (''GET'', customer_path [Lit ''withdrawals''], V_ListWithdrawals),
     (''POST'', customer_path [Lit ''collections''], V_CreateCollection),
     (''GET'', customer_path [Lit ''collections''], V_ListCollections),
     (''GET'', customer_path [Lit ''collections'', Param ''collectionID''], V_GetCollection),
     (''DELETE'', customer_path [Lit ''collections'', Param ''collectionID''], V_CancelCollection),
     (''GET'', [Lit ''v1'', Lit ''payees'', Lit ''resolve''], V_ResolvePayee),
     (''GET'', [Lit ''v1'', Lit ''suspense''], V_ListSuspense),
     (''PATCH'', [Lit ''v1'', Lit ''suspense'', Param ''itemID''], V_ResolveSuspense),
     (''GET'', [Lit ''v1'', Lit ''transactions'', Param ''transactionID''], V_GetSingleTransaction),
     (''POST'', [Lit ''v1'', Lit ''webhook-endpoints''], V_CreateEndpoint),
     (''GET'', [Lit ''v1'', Lit ''webhook-endpoints''], V_ListEndpoints),
     (''GET'', [Lit ''v1'', Lit ''webhook-deliveries''], V_ListDeliveries),
     (''POST'', [Lit ''v1'', Lit ''webhook-deliveries'', Param ''deliveryID'', Lit ''replays''], V_ReplayDelivery),
     (''GET'', [Lit ''v1'', Lit ''audit''], V_ListAuditEntries),
     (''GET'', [Lit ''v1'', Lit ''api-keys''], V_ListAPIKeys),
     (''POST'', [Lit ''v1'', Lit ''api-keys''], V_CreateAPIKey),
     (''DELETE'', [Lit ''v1'', Lit ''api-keys'', Param ''keyID''], V_RevokeAPIKey)]"

definition internal_routes :: "(string \<times> segment list \<times> internal_route) list" where
  "internal_routes =
    [(''GET'', [Lit ''internal'', Lit ''settings'', Lit ''tier-limits''], I_GetTierLimits),
     (''PUT'', [Lit ''internal'', Lit ''settings'', Lit ''tier-limits''], I_PutTierLimits),
     (''POST'', [Lit ''internal'', Lit ''tenants''], I_Onboard),
     (''POST'', [Lit ''internal'', Lit ''admins''], I_OnboardAdmin),
     (''GET'', [Lit ''internal'', Lit ''tenants''], I_ListTenants),
     (''GET'', [Lit ''internal'', Lit ''health''], I_GetPlatformHealth),
     (''GET'', [Lit ''internal'', Lit ''sweep-runs''], I_ListSweepRuns),
     (''GET'', [Lit ''internal'', Lit ''suspense''], I_ListCrossTenantSuspense),
     (''GET'', [Lit ''internal'', Lit ''virtual-accounts''], I_ListAllVAs),
     (''GET'', [Lit ''internal'', Lit ''nomba-virtual-accounts''], I_ListNombaVAs),
     (''GET'', [Lit ''internal'', Lit ''webhook-events''], I_ListWebhookEvents),
     (''POST'', [Lit ''internal'', Lit ''reprocess-suspense''], I_ReprocessSuspense)]"

definition routes :: "(string \<times> segment list \<times> endpoint) list" where
  "routes =
    [(''GET'', [Lit ''healthz''], Healthz),
     (''GET'', [Lit ''''], ReadmePage),
     (''POST'', [Lit ''auth'', Lit ''login''], Login)]
    @ map (\<lambda>(m, p, x). (m, p, V1 x)) v1_routes
    @ [(''POST'', [Lit ''webhooks'', Lit ''nomba''], NombaWebhook),
       (''GET'', [Lit ''internal'', Lit ''sweep''], SweepCron),
       (''HEAD'', [Lit ''internal'', Lit ''sweep''], SweepCron)]
    @ map (\<lambda>(m, p, x). (m, p, Internal x)) internal_routes"

text \<open>
  A path is the list of its segments, and the root is one empty segment. It matches a pattern segment
  by segment; a parameter takes a whole segment.
\<close>

fun match_path :: "segment list \<Rightarrow> string list \<Rightarrow> (string \<times> string) list option" where
  "match_path [] [] = Some []"
| "match_path (Lit l # ps) (s # ss) = (if l = s then match_path ps ss else None)"
| "match_path (Param n # ps) (s # ss) = map_option (\<lambda>r. (n, s) # r) (match_path ps ss)"
| "match_path _ _ = None"

definition route :: "string \<Rightarrow> string list \<Rightarrow> (endpoint \<times> (string \<times> string) list) option" where
  "route meth path =
     (case List.find (\<lambda>(m, p, x). m = meth \<and> match_path p path \<noteq> None) routes of
        None \<Rightarrow> None
      | Some (m, p, x) \<Rightarrow> Some (x, the (match_path p path)))"

section \<open>Dispatch\<close>

text \<open>A handler that only reads.\<close>

abbreviation reads :: "('w \<Rightarrow> outcome) \<Rightarrow> 'w \<Rightarrow> outcome \<times> 'w" where
  "reads f w \<equiv> (f w, w)"

text \<open>The random bytes of an account reference: the error of the read is ignored.\<close>

definition ref_bytes :: "http_env \<Rightarrow> 8 word list" where
  "ref_bytes h = (case he_rand h 4 of None \<Rightarrow> replicate 4 0 | Some b \<Rightarrow> b)"

fun serve_v1 :: "http_env \<Rightarrow> 'w dependencies \<Rightarrow> v1_route \<Rightarrow> request \<Rightarrow> request_context
    \<Rightarrow> 'w \<Rightarrow> outcome \<times> 'w" where
  "serve_v1 h d V_ListCustomers r c w = reads (customerH_ListCustomers h (customerH d) r c) w"
| "serve_v1 h d V_CreateCustomer r c w = customerH_CreateCustomer h (customerH d) r c w"
| "serve_v1 h d V_ListVAs r c w = reads (vaH_ListVAs h (vaH d) r c) w"
| "serve_v1 h d V_ListTenantTransactions r c w = reads (txnH_ListTenantTransactions h (txnH d) r c) w"
| "serve_v1 h d V_UpdateKYCTier r c w = customerH_UpdateKYCTier h (customerH d) r c w"
| "serve_v1 h d V_ProvisionVA r c w = vaH_ProvisionVA h (vaH d) (ref_bytes h) r c w"
| "serve_v1 h d V_GetVA r c w = reads (vaH_GetVA h (vaH d) r c) w"
| "serve_v1 h d V_PatchVA r c w = vaH_PatchVA h (vaH d) r c w"
| "serve_v1 h d V_DeleteVA r c w = vaH_DeleteVA h (vaH d) r c w"
| "serve_v1 h d V_ListTransactions r c w = reads (txnH_ListTransactions h (txnH d) r c) w"
| "serve_v1 h d V_GetStatement r c w = reads (txnH_GetStatement h (txnH d) r c) w"
| "serve_v1 h d V_GetBalance r c w = reads (txnH_GetBalance h (txnH d) r c) w"
| "serve_v1 h d V_InitiateWithdrawal r c w = withdrawalH_Initiate h (withdrawalH d) r c w"
| "serve_v1 h d V_ListWithdrawals r c w = reads (withdrawalH_List (withdrawalH d) r) w"
| "serve_v1 h d V_CreateCollection r c w = collectionH_Create h (dep_CollectionSvc d) r c w"
| "serve_v1 h d V_ListCollections r c w = reads (collectionH_List (dep_CollectionSvc d) r) w"
| "serve_v1 h d V_GetCollection r c w = reads (collectionH_Get (dep_CollectionSvc d) r) w"
| "serve_v1 h d V_CancelCollection r c w = collectionH_Cancel h (dep_CollectionSvc d) r c w"
| "serve_v1 h d V_ResolvePayee r c w = withdrawalH_ResolvePayee (withdrawalH d) r w"
| "serve_v1 h d V_ListSuspense r c w = reads (suspenseH_ListSuspense h (dep_SuspenseSvc d) r c) w"
| "serve_v1 h d V_ResolveSuspense r c w = suspenseH_ResolveSuspense h (dep_SuspenseSvc d) r c w"
| "serve_v1 h d V_GetSingleTransaction r c w = reads (txnH_GetSingleTransaction h (txnH d) r c) w"
| "serve_v1 h d V_CreateEndpoint r c w = relayH_CreateEndpoint h (dep_RelayStore d) r c w"
| "serve_v1 h d V_ListEndpoints r c w = reads (relayH_ListEndpoints (dep_RelayStore d) c) w"
| "serve_v1 h d V_ListDeliveries r c w = reads (relayH_ListDeliveries (dep_RelayStore d) r c) w"
| "serve_v1 h d V_ReplayDelivery r c w = relayH_ReplayDelivery (dep_RelayStore d) (dep_Dispatcher d) r c w"
| "serve_v1 h d V_ListAuditEntries r c w = reads (auditH_ListAuditEntries (dep_AuditStore d) r c) w"
| "serve_v1 h d V_ListAPIKeys r c w = reads (apiKeyH_ListAPIKeys (dep_TenantStore d) c) w"
| "serve_v1 h d V_CreateAPIKey r c w = apiKeyH_CreateAPIKey h (dep_TenantStore d) c w"
| "serve_v1 h d V_RevokeAPIKey r c w = apiKeyH_RevokeAPIKey (dep_TenantStore d) r c w"

fun serve_internal :: "http_env \<Rightarrow> 'w dependencies \<Rightarrow> internal_route \<Rightarrow> request \<Rightarrow> 'w \<Rightarrow> outcome \<times> 'w" where
  "serve_internal h d I_GetTierLimits r w = reads (settingsH_GetTierLimits (settingsH d)) w"
| "serve_internal h d I_PutTierLimits r w = settingsH_PutTierLimits h (settingsH d) r w"
| "serve_internal h d I_Onboard r w = authH_Onboard h (authH d) r w"
| "serve_internal h d I_OnboardAdmin r w = authH_OnboardAdmin h (authH d) r w"
| "serve_internal h d I_ListTenants r w = reads (authH_ListTenants h (authH d)) w"
| "serve_internal h d I_GetPlatformHealth r w = reads (healthH_GetPlatformHealth h (healthH d)) w"
| "serve_internal h d I_ListSweepRuns r w = reads (healthH_ListSweepRuns (healthH d) r) w"
| "serve_internal h d I_ListCrossTenantSuspense r w = reads (healthH_ListCrossTenantSuspense (healthH d) r) w"
| "serve_internal h d I_ListAllVAs r w = reads (healthH_ListAllVAs (healthH d) r) w"
| "serve_internal h d I_ListNombaVAs r w = healthH_ListNombaVAs (healthH d) r w"
| "serve_internal h d I_ListWebhookEvents r w = reads (internalOpsH_ListWebhookEvents (internalOpsH d) r) w"
| "serve_internal h d I_ReprocessSuspense r w = internalOpsH_ReprocessSuspense h (internalOpsH d) w"

definition handleHealthz :: outcome where
  [simp]: "handleHealthz = writeJSON 200 (JObj [(''status'', JStr ''ok'')])"

text \<open>An endpoint with the middleware of its group.\<close>

fun serve :: "http_env \<Rightarrow> 'w dependencies \<Rightarrow> endpoint \<Rightarrow> request \<Rightarrow> 'w \<Rightarrow> outcome \<times> 'w" where
  "serve h d Healthz r w = (handleHealthz, w)"
| "serve h d ReadmePage r w = (handleReadme h r, w)"
| "serve h d Login r w = reads (authH_Login h (authH d) r) w"
| "serve h d NombaWebhook r w = serve_webhook h (webhookH d) r w"
| "serve h d SweepCron r w = sweepH_HandleSweep h (sweepH d) r w"
| "serve h d (V1 x) r w =
     Auth h (dep_TenantStore d) r
       (\<lambda>c. idempotent (dep_Redis d) (he_redis_now h) c r (serve_v1 h d x r c)) w"
| "serve h d (Internal x) r w = SweepTokenAuth (dep_SweepToken d) r (serve_internal h d x r) w"

definition NewRouter :: "http_env \<Rightarrow> 'w dependencies \<Rightarrow> string \<Rightarrow> string list \<Rightarrow> request \<Rightarrow> 'w
    \<Rightarrow> (outcome \<times> 'w) option" where
  "NewRouter h d meth path r w =
     (case route meth path of
        None \<Rightarrow> None
      | Some (x, ps) \<Rightarrow> Some (serve h d x (r\<lparr>Req_Params := ps\<rparr>) w))"

end
