(* ===== verification/HealthRepo.thy ===== *)
theory HealthRepo
  imports Production
begin

text \<open>
  \<^verbatim>\<open>internal/store/postgres/health_repo.go\<close>: the reporting queries of the admin dashboard. They
  only read. The tenants are listed in the order of the database's collation, given by a sort key.
\<close>

section \<open>The aggregates\<close>

definition open_items :: "'e pg_env \<Rightarrow> 'e pg \<Rightarrow> (suspense_item \<times> transaction) list" where
  "open_items e w =
     concat (map (\<lambda>s. if SI_Status s = ''open''
                      then (case item_txn w s of None \<Rightarrow> [] | Some t \<Rightarrow> [(s, t)]) else [])
       (rows_of e w (pg_suspense w)))"

definition exact_sum :: "transaction list \<Rightarrow> int" where
  "exact_sum ts = sum_list (map (\<lambda>t. sint (Tx_AmountKobo t)) ts)"

definition va_tenant :: "'e pg \<Rightarrow> virtual_account \<Rightarrow> string option" where
  "va_tenant w va = map_option Cust_TenantID (fmlookup (pg_customers w) (VA_CustomerID va))"

definition latest :: "time list \<Rightarrow> time option" where
  "latest ts = (case ts of [] \<Rightarrow> None | t # r \<Rightarrow> Some (foldl max t r))"

text \<open>
  The row of a tenant. The joins form a tree (an item has one transaction, a transaction one
  account, an account one customer), so a sum over the joined rows counts a transaction once for
  each of its open items.
\<close>

definition tenant_open_sum :: "'e pg_env \<Rightarrow> 'e pg \<Rightarrow> string \<Rightarrow> int" where
  "tenant_open_sum e w tid =
     exact_sum (filter (\<lambda>t. txn_tenant w t = Some tid) (map snd (open_items e w)))"

definition tenant_row :: "'e pg_env \<Rightarrow> 'e pg \<Rightarrow> tenant \<Rightarrow> tenant_health" where
  "tenant_row e w ten =
     (let tid = Tenant_ID ten
      in \<lparr>TH_ID = tid, TH_Name = Tenant_Name ten,
          TH_Customers = int (length (filter (\<lambda>c. Cust_TenantID c = tid) (rows_of e w (pg_customers w)))),
          TH_Accounts = int (length (filter (\<lambda>va. va_tenant w va = Some tid) (rows_of e w (pg_vas w)))),
          TH_OpenSuspenseKobo = word_of_int (tenant_open_sum e w tid),
          TH_LastActivity = latest (map Tx_OccurredAt
             (filter (\<lambda>t. txn_tenant w t = Some tid) (rows_of e w (pg_txns w)))),
          TH_Status = ''active''\<rparr>)"

definition last_sweep :: "'e pg_env \<Rightarrow> 'e pg \<Rightarrow> sweep_health_snapshot option" where
  "last_sweep e w =
     (if pe_fault e ''health last sweep'' [] w then None
      else case sort_key (\<lambda>x. - Run_RanAt x)
                  (filter (\<lambda>x. Run_Error x = None) (rows_of e w (pg_runs w))) of
             [] \<Rightarrow> None
           | run # _ \<Rightarrow> Some \<lparr>SHS_Posted = Run_Posted run, SHS_Found = Run_Found run,
                               SHS_Suspensed = Run_Suspensed run, SHS_RanAt = Run_RanAt run\<rparr>)"

text \<open>A \<open>SUM\<close> that does not fit an \<open>int64\<close> fails when it is scanned.\<close>

definition health_ledger :: "'e pg_env \<Rightarrow> 'e pg \<Rightarrow> go_error + ledger_health" where
  "health_ledger e w =
     (let d = total_debits (pg_entries w); c = total_credits (pg_entries w)
      in if pe_fault e ''health ledger'' [] w \<or> \<not> fits64 d \<or> \<not> fits64 c
         then Inl (pg_error ''health ledger'')
         else let d = word_of_int d; c = word_of_int c
              in Inr \<lparr>LH_DebitsKobo = d, LH_CreditsKobo = c, LH_Balanced = (d = c)\<rparr>)"

definition health_webhooks :: "'e pg_env \<Rightarrow> 'e pg \<Rightarrow> go_error + webhook_health" where
  "health_webhooks e w =
     (if pe_fault e ''health webhooks'' [] w then Inl (pg_error ''health webhooks'')
      else let ds = filter (\<lambda>d. Del_CreatedAt d > pe_now e w - 24 * hour) (rows_of e w (pg_deliveries w))
           in Inr \<lparr>WH_Delivered = int (length (filter (\<lambda>d. Del_Status d = ''delivered'') ds)),
                   WH_Total = int (length ds)\<rparr>)"

definition health_suspense :: "'e pg_env \<Rightarrow> 'e pg \<Rightarrow> go_error + suspense_health" where
  "health_suspense e w =
     (let ts = map snd (open_items e w); n = exact_sum ts
      in if pe_fault e ''health suspense'' [] w \<or> \<not> fits64 n then Inl (pg_error ''health suspense'')
         else Inr \<lparr>SH_AmountKobo = word_of_int n, SH_ItemCount = int (length ts),
                   SH_TenantCount = int (length (remdups
                     (concat (map (\<lambda>t. case txn_tenant w t of None \<Rightarrow> [] | Some i \<Rightarrow> [i]) ts))))\<rparr>)"

definition health_tenants :: "'e pg_env \<Rightarrow> (string \<Rightarrow> string) \<Rightarrow> 'e pg \<Rightarrow> go_error + tenant_health list" where
  "health_tenants e coll w =
     (case pg_query e ''health tenants'' [] True w
             (sort_key (\<lambda>t. coll (Tenant_Name t)) (rows_of e w (pg_tenants w))) of
        Inl err \<Rightarrow> Inl err
      | Inr (tens, broken) \<Rightarrow>
          if broken \<or> list_ex (\<lambda>t. \<not> fits64 (tenant_open_sum e w (Tenant_ID t))) tens
          then Inl (pg_error ''health tenants'') else Inr (map (tenant_row e w) tens))"

section \<open>The repository\<close>

definition pg_GetPlatformHealth :: "'e pg_env \<Rightarrow> (string \<Rightarrow> string) \<Rightarrow> time \<Rightarrow> 'e pg
    \<Rightarrow> go_error + platform_health" where
  "pg_GetPlatformHealth e coll now w =
     (case health_ledger e w of Inl err \<Rightarrow> Inl err | Inr ledger \<Rightarrow>
     (case health_webhooks e w of Inl err \<Rightarrow> Inl err | Inr webhooks \<Rightarrow>
     (case health_suspense e w of Inl err \<Rightarrow> Inl err | Inr suspense \<Rightarrow>
     (if pe_fault e ''health count tenants'' [] w then Inl (pg_error ''health count tenants'')
      else let total = int (length (rows_of e w (pg_tenants w)))
           in case health_tenants e coll w of Inl err \<Rightarrow> Inl err | Inr tens \<Rightarrow>
                Inr \<lparr>PH_Ledger = ledger, PH_LastSweep = last_sweep e w, PH_Webhook24h = webhooks,
                     PH_CrossTenantSuspense = suspense, PH_ActiveTenants = total,
                     PH_TotalTenants = total, PH_TenantHealth = tens, PH_CheckedAt = now\<rparr>))))"

definition tenant_name :: "'e pg \<Rightarrow> transaction \<Rightarrow> string" where
  "tenant_name w t =
     (case do { i \<leftarrow> txn_tenant w t; fmlookup (pg_tenants w) i } of
        None \<Rightarrow> '''' | Some ten \<Rightarrow> Tenant_Name ten)"

definition admin_item :: "'e pg \<Rightarrow> suspense_item \<times> transaction \<Rightarrow> cross_tenant_suspense_item" where
  "admin_item w st =
     (let (s, t) = st
      in \<lparr>SI_ID = SI_ID s, SI_TransactionID = SI_TransactionID s, SI_Reason = SI_Reason s,
          SI_Status = SI_Status s, SI_ResolvedBy = None, SI_ResolvedAt = None, SI_Notes = None,
          SI_CreatedAt = SI_CreatedAt s, SI_AmountKobo = Tx_AmountKobo t,
          SI_NUBAN = va_nuban (txn_va w t), XSI_TenantName = tenant_name w t\<rparr>)"

definition pg_ListCrossTenantSuspense :: "'e pg_env \<Rightarrow> int \<Rightarrow> string \<Rightarrow> 'e pg
    \<Rightarrow> go_error + (cross_tenant_suspense_item list \<times> string)" where
  "pg_ListCrossTenantSuspense e limit cursor w =
     (let limit = (if limit \<le> 0 then 100 else limit);
          rows = map (admin_item w) (open_items e w);
          rows = (if cursor = '''' then rows
                  else case pe_timestamp e cursor of
                         None \<Rightarrow> [] | Some t \<Rightarrow> filter (\<lambda>s. SI_CreatedAt s < t) rows)
      in case pg_query e ''list cross-tenant suspense'' [cursor]
                (cursor = '''' \<or> pe_timestamp e cursor \<noteq> None) w
                (take (nat (limit + 1)) (sort_key (\<lambda>s. - SI_CreatedAt s) rows)) of
           Inl err \<Rightarrow> Inl (Wrap ''health repo: list cross-tenant suspense'' err)
         | Inr (out, broken) \<Rightarrow>
             if broken then Inl (pg_error ''rows'')
             else Inr (cut_page (\<lambda>s. format_nano (SI_CreatedAt s)) limit out))"

definition pg_platform_health_store :: "'e pg_env \<Rightarrow> (string \<Rightarrow> string) \<Rightarrow> 'e pg platform_health_store" where
  "pg_platform_health_store e coll = \<lparr>hs_GetPlatformHealth = pg_GetPlatformHealth e coll,
     hs_ListCrossTenantSuspense = pg_ListCrossTenantSuspense e\<rparr>"

end
