(* ===== verification/Server.thy ===== *)
theory Server
  imports Router HealthRepo
begin

text \<open>
  The API over the production server: the dependencies that \<^verbatim>\<open>cmd/server/main.go\<close> hands to the
  router, and the refinement of every HTTP request by the step relation of the server, so that what
  holds of all runs holds of everything that can be reached through the API. Redis is part of the
  outside world.
\<close>

section \<open>Wiring\<close>

definition pg_redis :: "'e redis \<Rightarrow> 'e pg redis" where
  "pg_redis R = \<lparr>rd_Get = (\<lambda>now k w. rd_Get R now k (pg_remote w)),
     rd_SetNX = (\<lambda>now k v ttl. on_remote (rd_SetNX R now k v ttl)),
     rd_Set = (\<lambda>now k v ttl. on_remote (rd_Set R now k v ttl))\<rparr>"

record 'e deployment =
  dl_env :: "'e pg_env"
  dl_provider :: "'e provider"
  dl_queue :: nat
  dl_interval :: duration
  dl_overlap :: duration
  dl_redis :: "'e redis"
  dl_collation :: "string \<Rightarrow> string"
  dl_token :: string

definition pg_dependencies :: "'e deployment \<Rightarrow> 'e pg dependencies" where
  "pg_dependencies D =
     (let e = dl_env D; P = dl_provider D
      in \<lparr>dep_TenantStore = pg_tenant_store e,
          dep_HealthStore = pg_platform_health_store e (dl_collation D),
          dep_AuditStore = pg_audit_store e, dep_AuthStore = pg_auth_store e,
          dep_WebhookStore = pg_webhook_event_store e, dep_CustomerStore = pg_customer_store e,
          dep_TxnStore = pg_transaction_store e, dep_VAStore = pg_virtual_account_store e,
          dep_SuspenseStore = pg_suspense_store e, dep_WithdrawalStore = pg_withdrawal_store e,
          dep_RelayStore = pg_relay_store e, dep_SweepStore = pg_sweep_store e,
          dep_SettingsStore = pg_settings_store e, dep_LoadLimits = pg_load_limits,
          dep_Snapshot = (\<lambda>w. rt_limits (pg_rt w)), dep_Redis = pg_redis (dl_redis D),
          dep_CustomerSvc = pg_customer_service e, dep_Provisioning = pg_provisioning e P,
          dep_SuspenseSvc = pg_suspense_service e, dep_WithdrawalSvc = pg_withdrawal_service e P,
          dep_CollectionSvc = pg_collection_service e, dep_Provider = remote_provider P,
          dep_Enqueue = pg_enqueue (dl_queue D),
          dep_Sweep = pg_sweep_runner e P (dl_interval D) (dl_overlap D),
          dep_Dispatcher = pg_dispatcher e, dep_SweepToken = dl_token D\<rparr>)"

lemma pg_dependencies_sels [simp]:
  "dep_TenantStore (pg_dependencies D) = pg_tenant_store (dl_env D)"
  "dep_HealthStore (pg_dependencies D) = pg_platform_health_store (dl_env D) (dl_collation D)"
  "dep_AuditStore (pg_dependencies D) = pg_audit_store (dl_env D)"
  "dep_AuthStore (pg_dependencies D) = pg_auth_store (dl_env D)"
  "dep_WebhookStore (pg_dependencies D) = pg_webhook_event_store (dl_env D)"
  "dep_CustomerStore (pg_dependencies D) = pg_customer_store (dl_env D)"
  "dep_TxnStore (pg_dependencies D) = pg_transaction_store (dl_env D)"
  "dep_VAStore (pg_dependencies D) = pg_virtual_account_store (dl_env D)"
  "dep_SuspenseStore (pg_dependencies D) = pg_suspense_store (dl_env D)"
  "dep_WithdrawalStore (pg_dependencies D) = pg_withdrawal_store (dl_env D)"
  "dep_RelayStore (pg_dependencies D) = pg_relay_store (dl_env D)"
  "dep_SweepStore (pg_dependencies D) = pg_sweep_store (dl_env D)"
  "dep_SettingsStore (pg_dependencies D) = pg_settings_store (dl_env D)"
  "dep_LoadLimits (pg_dependencies D) = pg_load_limits"
  "dep_Snapshot (pg_dependencies D) = (\<lambda>w. rt_limits (pg_rt w))"
  "dep_Redis (pg_dependencies D) = pg_redis (dl_redis D)"
  "dep_CustomerSvc (pg_dependencies D) = pg_customer_service (dl_env D)"
  "dep_Provisioning (pg_dependencies D) = pg_provisioning (dl_env D) (dl_provider D)"
  "dep_SuspenseSvc (pg_dependencies D) = pg_suspense_service (dl_env D)"
  "dep_WithdrawalSvc (pg_dependencies D) = pg_withdrawal_service (dl_env D) (dl_provider D)"
  "dep_CollectionSvc (pg_dependencies D) = pg_collection_service (dl_env D)"
  "dep_Provider (pg_dependencies D) = remote_provider (dl_provider D)"
  "dep_Enqueue (pg_dependencies D) = pg_enqueue (dl_queue D)"
  "dep_Sweep (pg_dependencies D) = pg_sweep_runner (dl_env D) (dl_provider D) (dl_interval D) (dl_overlap D)"
  "dep_Dispatcher (pg_dependencies D) = pg_dispatcher (dl_env D)"
  "dep_SweepToken (pg_dependencies D) = dl_token D"
  by (simp_all add: pg_dependencies_def Let_def)

section \<open>Requests are runs of the server\<close>

definition dl_steps :: "'e deployment \<Rightarrow> 'e pg \<Rightarrow> 'e pg \<Rightarrow> bool" where
  "dl_steps D = pg_steps (dl_env D) (dl_provider D) (dl_queue D) (dl_interval D) (dl_overlap D)"

definition steps :: "'e deployment \<Rightarrow> ('e pg \<Rightarrow> 'a \<times> 'e pg) \<Rightarrow> bool" where
  "steps D op \<longleftrightarrow> (\<forall>w. dl_steps D w (snd (op w)))"

lemma stepsI: "(\<And>w x w'. op w = (x, w') \<Longrightarrow> dl_steps D w w') \<Longrightarrow> steps D op"
  by (simp add: steps_def) (metis prod.collapse)

lemma stepsD: "steps D op \<Longrightarrow> op w = (x, w') \<Longrightarrow> dl_steps D w w'"
  by (metis snd_conv steps_def)

lemma dl_steps_refl [simp, intro]: "dl_steps D w w"
  by (simp add: dl_steps_def)

lemma dl_steps_trans: "dl_steps D a b \<Longrightarrow> dl_steps D b c \<Longrightarrow> dl_steps D a c"
  unfolding dl_steps_def by (rule rtranclp_trans)

lemma dl_step: "pg_step (dl_env D) (dl_provider D) (dl_queue D) (dl_interval D) (dl_overlap D) w w'
    \<Longrightarrow> dl_steps D w w'"
  unfolding dl_steps_def by (rule r_into_rtranclp)

lemma steps_remote [simp, intro]: "steps D (on_remote op)"
  by (rule stepsI) (auto simp: on_remote_def split: prod.splits intro: dl_step pg_step.p_remote)

text \<open>The operations that the handlers call.\<close>

lemma steps_services [simp]:
  "steps D (CreateCustomer (pg_customer_service (dl_env D)) now t ref dn ident actor)"
  "steps D (UpdateKYCTier (pg_customer_service (dl_env D)) now t c tier actor)"
  "steps D (ProvisionVA (pg_provisioning (dl_env D) (dl_provider D)) now rnd t c actor)"
  "steps D (RenameVA (pg_provisioning (dl_env D) (dl_provider D)) now t c n actor)"
  "steps D (CloseVA (pg_provisioning (dl_env D) (dl_provider D)) now t c actor)"
  "steps D (SuspendVA (pg_provisioning (dl_env D) (dl_provider D)) now t c actor)"
  "steps D (UnsuspendVA (pg_provisioning (dl_env D) (dl_provider D)) now t c actor)"
  "steps D (Resolve (pg_suspense_service (dl_env D)) now i req)"
  "steps D (Initiate (pg_withdrawal_service (dl_env D) (dl_provider D)) now wreq)"
  "steps D (Collection_Create (pg_collection_service (dl_env D)) now creq)"
  "steps D (Collection_Cancel (pg_collection_service (dl_env D)) t0 c t)"
  "steps D (HandleNombaWebhook (pg_webhook_handler (dl_env D) (dl_provider D) (dl_queue D)) now hs request)"
  "steps D (Replay (pg_dispatcher (dl_env D)) del)"
  by (rule stepsI, rule dl_step, (metis pg_step.intros surj_pair; fail))+

lemma steps_stores [simp]:
  "steps D (pg_load_limits r raw)"
  "steps D (pg_CreateEndpoint (dl_env D) t0 ep)"
  "steps D (pg_UpsertSetting (dl_env D) t0 s raw)"
  "steps D (pg_CreateTenant (dl_env D) t0 s)"
  "steps D (pg_CreateAPIKey (dl_env D) t s h k)"
  "steps D (pg_RevokeAPIKey (dl_env D) i t)"
  "steps D (pg_CreateCredential (dl_env D) t0 cred)"
  "steps D (pg_SeedCredential (dl_env D) t0 cred)"
  "steps D (pg_SeedSetting (dl_env D) t0 s raw)"
  by (rule stepsI, rule dl_step, (metis pg_step.intros; fail))+


lemmas steps_dests = steps_services [THEN stepsD] steps_stores [THEN stepsD]

lemmas pg_api_stores = pg_tenant_store_def pg_auth_store_def pg_relay_store_def pg_settings_store_def

lemma steps_lifecycle: "steps D op \<Longrightarrow> steps D (\<lambda>w. lifecycle_result (op w))"
  by (rule stepsI) (auto simp: lifecycle_result_def dest: stepsD split: prod.splits option.splits)

lemma steps_v1_writers:
  "steps D (customerH_CreateCustomer h (customerH (pg_dependencies D)) r c)"
  "steps D (customerH_UpdateKYCTier h (customerH (pg_dependencies D)) r c)"
  "steps D (vaH_ProvisionVA h (vaH (pg_dependencies D)) rnd r c)"
  "steps D (withdrawalH_Initiate h (withdrawalH (pg_dependencies D)) r c)"
  "steps D (collectionH_Create h (pg_collection_service (dl_env D)) r c)"
  "steps D (collectionH_Cancel h (pg_collection_service (dl_env D)) r c)"
  "steps D (suspenseH_ResolveSuspense h (pg_suspense_service (dl_env D)) r c)"
  "steps D (relayH_CreateEndpoint h (pg_relay_store (dl_env D)) r c)"
  "steps D (relayH_ReplayDelivery (pg_relay_store (dl_env D)) (pg_dispatcher (dl_env D)) r c)"
  "steps D (apiKeyH_CreateAPIKey h (pg_tenant_store (dl_env D)) c)"
  "steps D (apiKeyH_RevokeAPIKey (pg_tenant_store (dl_env D)) r c)"
  by (rule stepsI,
      auto simp: customerH_CreateCustomer_def customerH_UpdateKYCTier_def vaH_ProvisionVA_def
        withdrawalH_Initiate_def collectionH_Create_def collectionH_Cancel_def
        suspenseH_ResolveSuspense_def relayH_CreateEndpoint_def relayH_ReplayDelivery_def
        apiKeyH_CreateAPIKey_def apiKeyH_RevokeAPIKey_def handler_defs pg_api_stores Let_def
      dest!: steps_dests split: option.splits sum.splits prod.splits if_splits)+

lemma steps_va_writers:
  "steps D (vaH_PatchVA h (vaH (pg_dependencies D)) r c)"
  "steps D (vaH_DeleteVA h (vaH (pg_dependencies D)) r c)"
  by (rule stepsI,
      auto simp: vaH_PatchVA_def vaH_DeleteVA_def handler_defs Let_def
      dest!: steps_dests stepsD [OF steps_lifecycle, OF steps_services(5)]
        stepsD [OF steps_lifecycle, OF steps_services(6)] stepsD [OF steps_lifecycle, OF steps_services(7)]
      split: option.splits sum.splits prod.splits if_splits)+

lemma steps_payee: "steps D (withdrawalH_ResolvePayee (withdrawalH (pg_dependencies D)) r)"
  by (rule stepsI)
    (auto simp: withdrawalH_ResolvePayee_def withdrawalH_def ResolveAccount_def pg_withdrawal_service_def
      remote_provider_def Let_def dest!: stepsD [OF steps_remote] split: sum.splits prod.splits if_splits)

lemmas steps_v1_all = steps_v1_writers steps_va_writers steps_payee

lemma steps_v1: "steps D (serve_v1 h (pg_dependencies D) x r c)"
  by (cases x) (simp_all add: steps_v1_all [unfolded steps_def] steps_def)

text \<open>The middleware: Redis belongs to the outside world.\<close>

lemma steps_redis:
  "steps D (rd_SetNX (pg_redis R) now k v ttl)" "steps D (rd_Set (pg_redis R) now k v ttl)"
  by (simp_all add: pg_redis_def)

lemma steps_begin: "steps D (idem_begin (pg_redis R) now tenant key)"
  by (rule stepsI)
    (auto simp: idem_begin_def idem_lock_def Let_def dest!: stepsD [OF steps_redis(1)]
      split: option.splits sum.splits prod.splits if_splits bool.splits)

lemma steps_finish: "dl_steps D w (idem_finish (pg_redis R) now key rsp w)"
  using steps_redis(2) [of D R now key _ idemKeyTTL] by (auto simp: idem_finish_def steps_def split: option.split)

lemma steps_idempotent:
  assumes "steps D op"
  shows "steps D (idempotent (pg_redis R) now c r op)"
proof (rule stepsI)
  fix w x w'
  assume run: "idempotent (pg_redis R) now c r op w = (x, w')"
  obtain a w1 where a: "idem_begin (pg_redis R) now (Some (Tenant_ID (Ctx_Tenant c)))
      (header_get r ''Idempotency-Key'') w = (a, w1)" by fastforce
  then have "dl_steps D w w1" by (rule stepsD [OF steps_begin])
  moreover have "dl_steps D w1 w'"
  proof (cases a)
    case (Proceed key)
    obtain out w2 where op: "op w1 = (out, w2)" by fastforce
    then have "dl_steps D w1 w2" by (rule stepsD [OF assms])
    with run a op Proceed show ?thesis
      by (cases out) (auto simp: idempotent_def intro: dl_steps_trans steps_finish)
  qed (use run a stepsD [OF assms] in \<open>auto simp: idempotent_def\<close>)
  ultimately show "dl_steps D w w'" by (rule dl_steps_trans)
qed

lemma steps_auth: "(\<And>c. steps D (nxt c)) \<Longrightarrow> steps D (Auth h ts r nxt)"
  by (rule stepsI) (auto simp: Auth_def Let_def dest: stepsD split: if_splits sum.splits prod.splits option.splits)

lemma steps_sweep_token: "steps D nxt \<Longrightarrow> steps D (SweepTokenAuth token r nxt)"
  by (rule stepsI) (auto simp: SweepTokenAuth_def dest: stepsD split: if_splits)

text \<open>The operator's handlers.\<close>

lemma steps_onboard_users:
  "onboard_users h (authH (pg_dependencies D)) tid n us w = (x, w') \<Longrightarrow> dl_steps D w w'"
proof (induction us arbitrary: n w)
  case (Cons u us)
  then show ?case
    by (auto simp: handler_defs pg_api_stores dest!: steps_dests Cons.IH intro: dl_steps_trans
        split: sum.splits prod.splits option.splits)
qed simp

lemma steps_onboard: "steps D (authH_Onboard h (authH (pg_dependencies D)) r)"
proof (rule stepsI)
  fix w x w'
  assume run: "authH_Onboard h (authH (pg_dependencies D)) r w = (x, w')"
  have inner: "dl_steps D v v'" if "onboard_tenant h (authH (pg_dependencies D)) ten us v = (y, v')" for ten us v y v'
    using that by (auto simp: onboard_tenant_def handler_defs pg_api_stores
        dest!: steps_dests steps_onboard_users [unfolded handler_defs pg_api_stores, simplified]
        intro: dl_steps_trans split: sum.splits prod.splits option.splits)
  from run show "dl_steps D w w'"
    by (auto simp: authH_Onboard_def dest!: inner intro: dl_steps_trans
        split: sum.splits prod.splits option.splits if_splits)
      (auto simp: authH_def pg_tenant_store_def dest!: steps_dests intro: dl_steps_trans)
qed

lemma steps_operator:
  "steps D (authH_OnboardAdmin h (authH (pg_dependencies D)) r)"
  "steps D (healthH_ListNombaVAs (healthH (pg_dependencies D)) r)"
  by (rule stepsI,
      auto simp: authH_OnboardAdmin_def healthH_ListNombaVAs_def handler_defs pg_api_stores
        remote_provider_def dest!: steps_dests stepsD [OF steps_remote]
      split: option.splits sum.splits prod.splits if_splits)+

lemma steps_put_limits: "steps D (settingsH_PutTierLimits h (settingsH (pg_dependencies D)) r)"
  by (rule stepsI)
    (auto simp: settingsH_PutTierLimits_def handler_defs pg_api_stores Let_def dest!: steps_dests
      intro: dl_steps_trans split: option.splits prod.splits if_splits)

lemma steps_reprocess_item:
  "reprocess_item (internalOpsH (pg_dependencies D)) now item w = (x, w') \<Longrightarrow> dl_steps D w w'"
  by (auto simp: reprocess_item_def internalOpsH_def remote_provider_def Let_def
      dest!: steps_services(8) [THEN stepsD] stepsD [OF steps_remote] intro: dl_steps_trans
      split: sum.splits option.splits prod.splits if_splits)

lemma steps_reprocess_items:
  "reprocess_items (internalOpsH (pg_dependencies D)) clk items w = (x, w') \<Longrightarrow> dl_steps D w w'"
  by (induction items arbitrary: clk w x)
    (auto simp: Let_def split: prod.splits dest!: steps_reprocess_item intro: dl_steps_trans)

lemma steps_reprocess: "steps D (internalOpsH_ReprocessSuspense h (internalOpsH (pg_dependencies D)))"
  by (rule stepsI)
    (auto simp: internalOpsH_ReprocessSuspense_def Let_def dest!: steps_reprocess_items
      split: sum.splits prod.splits)

lemma steps_internal: "steps D (serve_internal h (pg_dependencies D) x r)"
  using steps_onboard [of D h r] steps_reprocess [of D h] steps_put_limits [of D h r]
    steps_operator(1) [of D h r] steps_operator(2) [of D r]
  by (cases x) (simp_all add: steps_def)

lemma steps_webhook: "steps D (serve_webhook h (webhookH (pg_dependencies D)) r)"
  using steps_services(12) [of D]
  by (simp add: steps_def serve_webhook_def webhookH_def pg_webhook_handler_def Let_def split_beta)

lemma steps_sweep: "steps D (sweepH_HandleSweep h (sweepH (pg_dependencies D)) r)"
proof (rule stepsI)
  fix w x w'
  assume run: "sweepH_HandleSweep h (sweepH (pg_dependencies D)) r w = (x, w')"
  have "dl_steps D v v'" if "run_sweep h (sweepH (pg_dependencies D)) t v = (y, v')" for t v y v'
    using that by (auto simp: run_sweep_def sweepH_def intro: dl_step pg_step.p_sweep
        split: option.splits prod.splits)
  with run show "dl_steps D w w'" by (auto simp: sweepH_HandleSweep_def split: if_splits option.splits)
qed

lemma router_run:
  assumes "NewRouter h (pg_dependencies D) meth path r w = Some (out, w')"
  shows "dl_steps D w w'"
proof -
  have "steps D (serve h (pg_dependencies D) x r)" for x r
  proof (cases x)
    case (V1 y)
    then show ?thesis using steps_auth [OF steps_idempotent [OF steps_v1]] by (simp add: steps_def)
  next
    case (Internal y)
    then show ?thesis using steps_sweep_token [OF steps_internal] by (simp add: steps_def)
  qed (use steps_webhook steps_sweep in \<open>simp_all add: steps_def\<close>)
  with assms show ?thesis
    by (auto simp: NewRouter_def dest: stepsD split: option.splits prod.splits)
qed

text \<open>
  C3: Every HTTP request, on every route, with every body, header and outcome of the outside world,
  is a run of the server's step relation: whatever holds of all runs of the server holds of
  everything that can be reached through its API.
\<close>

theorem requests_are_runs:
  assumes "NewRouter h (pg_dependencies D) meth path r w = Some (out, w')"
  shows "dl_steps D w w'"
  using assms by (rule router_run)

section \<open>A small deployment\<close>

text \<open>Redis is unreachable for reading and takes every write; SHA-256 is stood in for by the identity.\<close>

definition demo_deployment :: "unit deployment" where
  "demo_deployment = \<lparr>dl_env = demo_env, dl_provider = demo_provider, dl_queue = 10, dl_interval = 0,
     dl_overlap = 0,
     dl_redis = \<lparr>rd_Get = (\<lambda>now k w. Inl (Errorf ''redis: nil'')), rd_SetNX = (\<lambda>now k v ttl w. (Inr True, w)),
       rd_Set = (\<lambda>now k v ttl w. (None, w))\<rparr>,
     dl_collation = id, dl_token = ''cron''\<rparr>"

definition demo_http :: http_env where
  "demo_http = \<lparr>he_now = (\<lambda>k. 5000), he_item_now = (\<lambda>i k. 5000), he_redis_now = (\<lambda>k. 5000),
     he_zone = (\<lambda>t. 0), he_rand = (\<lambda>n. Some (replicate n 0)), he_sha256 = id,
     he_bcrypt = (\<lambda>n s. Inr s), he_bcrypt_ok = (\<lambda>a b. a = b), he_range = (\<lambda>m. []), he_fuel = 10,
     he_readme = ''VaultNUBAN'', he_render = Some\<rparr>"

definition demo_request :: "string \<Rightarrow> json \<Rightarrow> request" where
  "demo_request auth body = \<lparr>Req_Header = [(''Authorization'', auth)], Req_Params = [], Req_Query = [],
     Req_Body = Some body\<rparr>"

lemma demo_webhook_route: "route ''POST'' [''webhooks'', ''nomba''] = Some (NombaWebhook, [])"
  by (simp add: route_def routes_def v1_routes_def internal_routes_def customer_path_def)

theorem requests_are_runs_witness:
  "dl_steps demo_deployment (pg_init ()) demo_received"
proof -
  have "webhook_headers (demo_request '''' demo_body\<lparr>Req_Params := []\<rparr>) = demo_headers"
    by (simp add: webhook_headers_def demo_request_def demo_headers_def lookup_str_def)
  moreover have "he_now demo_http = (\<lambda>k. 5000)" "dl_env demo_deployment = demo_env"
      "dl_provider demo_deployment = demo_provider" "dl_queue demo_deployment = 10"
    by (simp_all add: demo_http_def demo_deployment_def)
  moreover have "Req_Body (demo_request '''' demo_body) = Some demo_body" by (simp add: demo_request_def)
  ultimately have "\<exists>out. NewRouter demo_http (pg_dependencies demo_deployment) ''POST'' [''webhooks'', ''nomba'']
      (demo_request '''' demo_body) (pg_init ()) = Some (out, demo_received)"
    by (simp add: NewRouter_def demo_webhook_route serve_webhook_def webhookH_def demo_received_def
        pg_webhook_handler_def split_beta Let_def)
  then show ?thesis using requests_are_runs by blast
qed

end
