(* ===== verification/Migrations.thy ===== *)
theory Migrations
  imports Store "HOL-Library.Sublist"
begin

text \<open>
  \<^verbatim>\<open>internal/store/db.go\<close>: the opening of the connection pool and the runner of the schema
  migrations. The pool is a parameter with one operation for each statement that the runner sends, the
  embedded directory a list of file names and contents. What the SQL of a migration does is left to the
  database; which scripts it has executed, and in what order, is not.
\<close>

section \<open>The runner\<close>

record 'w pool =
  pl_create_table :: "'w \<Rightarrow> go_error option \<times> 'w"
  pl_exists :: "string \<Rightarrow> 'w \<Rightarrow> go_error + bool"
  pl_exec :: "string \<Rightarrow> 'w \<Rightarrow> go_error option \<times> 'w"
  pl_record :: "string \<Rightarrow> 'w \<Rightarrow> go_error option \<times> 'w"

definition up_suffix :: string where
  "up_suffix = ''.up.sql''"

definition TrimSuffix :: "string \<Rightarrow> string \<Rightarrow> string" where
  "TrimSuffix s suf = (if suffix suf s then take (length s - length suf) s else s)"

definition upFiles :: "(string \<times> string) list \<Rightarrow> string list" where
  "upFiles fs = sort (filter (suffix up_suffix) (map fst fs))"

definition version_of :: "string \<Rightarrow> string" where
  "version_of name = TrimSuffix name up_suffix"

fun apply_migrations :: "'w pool \<Rightarrow> (string \<times> string) list \<Rightarrow> string list \<Rightarrow> 'w \<Rightarrow> go_error option \<times> 'w" where
  "apply_migrations p fs [] w = (None, w)"
| "apply_migrations p fs (name # names) w =
     (case pl_exists p (version_of name) w of
        Inl err \<Rightarrow> (Some (Wrap (''store: check migration '' @ version_of name) err), w)
      | Inr True \<Rightarrow> apply_migrations p fs names w
      | Inr False \<Rightarrow>
          (case map_of fs name of
             None \<Rightarrow> (Some (Wrap (''store: read migration '' @ name) (Errorf ''file does not exist'')), w)
           | Some sql \<Rightarrow>
               (case pl_exec p sql w of
                  (Some err, w) \<Rightarrow> (Some (Wrap (''store: apply migration '' @ name) err), w)
                | (None, w) \<Rightarrow>
                    (case pl_record p (version_of name) w of
                       (Some err, w) \<Rightarrow> (Some (Wrap (''store: record migration '' @ name) err), w)
                     | (None, w) \<Rightarrow> apply_migrations p fs names w))))"

definition RunMigrations :: "'w pool \<Rightarrow> (string \<times> string) list \<Rightarrow> 'w \<Rightarrow> go_error option \<times> 'w" where
  "RunMigrations p fs w =
     (case pl_create_table p w of
        (Some err, w) \<Rightarrow> (Some (Wrap ''store: create schema_migrations'' err), w)
      | (None, w) \<Rightarrow> apply_migrations p fs (upFiles fs) w)"

text \<open>Opening the pool: the driver's constructor and a ping.\<close>

definition Open :: "(string \<Rightarrow> go_error option) \<Rightarrow> go_error option \<Rightarrow> string \<Rightarrow> go_error option" where
  "Open new ping dsn =
     (case new dsn of
        Some err \<Rightarrow> Some (Wrap ''store: open pool'' err)
      | None \<Rightarrow> map_option (Wrap ''store: ping'') ping)"

section \<open>What the runner relies on\<close>

text \<open>
  \<open>versions\<close> reads the table \<^verbatim>\<open>schema_migrations\<close>, which only the runner's insert changes;
  \<open>executed\<close> is the history of the scripts that the database has carried out. A statement that fails
  has no effect.
\<close>

definition pool_ok :: "'w pool \<Rightarrow> ('w \<Rightarrow> string set) \<Rightarrow> ('w \<Rightarrow> string list) \<Rightarrow> bool" where
  "pool_ok p versions executed \<longleftrightarrow>
     (\<forall>v w b. pl_exists p v w = Inr b \<longrightarrow> b = (v \<in> versions w)) \<and>
     (\<forall>w x w'. pl_create_table p w = (x, w') \<longrightarrow> versions w' = versions w \<and> executed w' = executed w) \<and>
     (\<forall>sql w x w'. pl_exec p sql w = (x, w') \<longrightarrow> versions w' = versions w \<and>
        executed w' = (if x = None then executed w @ [sql] else executed w)) \<and>
     (\<forall>v w x w'. pl_record p v w = (x, w') \<longrightarrow> executed w' = executed w \<and>
        versions w' = (if x = None then insert v (versions w) else versions w))"

lemma pool_okD:
  assumes "pool_ok p versions executed"
  shows "pl_exists p v w = Inr b \<Longrightarrow> b = (v \<in> versions w)"
    and "pl_create_table p w = (x, w') \<Longrightarrow> versions w' = versions w \<and> executed w' = executed w"
    and "pl_exec p sql w = (x, w') \<Longrightarrow> versions w' = versions w \<and>
      executed w' = (if x = None then executed w @ [sql] else executed w)"
    and "pl_record p v w = (x, w') \<Longrightarrow> executed w' = executed w \<and>
      versions w' = (if x = None then insert v (versions w) else versions w)"
  using assms unfolding pool_ok_def by blast+

text \<open>The scripts of the files that are not recorded, in the order of the files.\<close>

definition scripts :: "(string \<times> string) list \<Rightarrow> string set \<Rightarrow> string list \<Rightarrow> string list" where
  "scripts fs vs names = map (\<lambda>name. the (map_of fs name)) (filter (\<lambda>name. version_of name \<notin> vs) names)"

lemma scripts_simps [simp]:
  "scripts fs vs [] = []"
  "scripts fs vs (name # names) =
     (if version_of name \<in> vs then scripts fs vs names else the (map_of fs name) # scripts fs vs names)"
  by (simp_all add: scripts_def)

lemma scripts_insert:
  "v \<notin> version_of ` set names \<Longrightarrow> scripts fs (insert v vs) names = scripts fs vs names"
  by (auto simp: scripts_def intro!: arg_cong [of _ _ "map _"] filter_cong)

lemma version_of_eq:
  "suffix up_suffix a \<Longrightarrow> suffix up_suffix b \<Longrightarrow> version_of a = version_of b \<Longrightarrow> a = b"
  by (auto simp: version_of_def TrimSuffix_def suffix_def)

lemma upFiles_distinct:
  assumes "distinct (map fst fs)"
  shows "distinct (map version_of (upFiles fs))"
  using assms by (auto simp: upFiles_def distinct_map inj_on_def intro: version_of_eq)

section \<open>Runs\<close>

lemma apply_run:
  assumes ok: "pool_ok p versions executed"
  shows "apply_migrations p fs names w = (x, w') \<Longrightarrow> distinct (map version_of names) \<Longrightarrow>
    \<exists>n m. n \<le> m \<and> m \<le> Suc n \<and> (x = None \<longrightarrow> n = length names \<and> m = n) \<and>
      versions w' = versions w \<union> version_of ` set (take n names) \<and>
      executed w' = executed w @ scripts fs (versions w) (take m names)"
proof (induction names arbitrary: w)
  case (Cons name names)
  let ?goal = "\<lambda>n m. n \<le> m \<and> m \<le> Suc n \<and> (x = None \<longrightarrow> n = length (name # names) \<and> m = n) \<and>
      versions w' = versions w \<union> version_of ` set (take n (name # names)) \<and>
      executed w' = executed w @ scripts fs (versions w) (take m (name # names))"
  have fresh: "version_of name \<notin> version_of ` set (take m names)" for m
    using Cons.prems(2) set_take_subset [of m names] by auto
  have stop: ?case if "x \<noteq> None" "versions w' = versions w" "executed w' = executed w"
    using that by (intro exI [of _ 0]) auto
  have more: ?case if run: "apply_migrations p fs names v = (x, w')"
    and v: "versions v = insert (version_of name) (versions w)"
      "executed v = executed w @ (if version_of name \<in> versions w then [] else [the (map_of fs name)])" for v
  proof -
    from Cons.IH [OF run] Cons.prems(2) obtain n m where nm: "n \<le> m" "m \<le> Suc n"
      "x = None \<longrightarrow> n = length names \<and> m = n" "versions w' = versions v \<union> version_of ` set (take n names)"
      "executed w' = executed v @ scripts fs (versions v) (take m names)" by auto
    then have "?goal (Suc n) (Suc m)"
      using v scripts_insert [OF fresh, of fs "versions w" m] by auto
    then show ?thesis by blast
  qed
  show ?case
  proof (cases "pl_exists p (version_of name) w")
    case (Inl err)
    with Cons.prems(1) have "x \<noteq> None" "w' = w" by auto
    then show ?thesis by (intro stop) simp_all
  next
    case (Inr b)
    note b = pool_okD(1) [OF ok Inr]
    show ?thesis
    proof (cases b)
      case True
      with Inr Cons.prems(1) b more [of w] show ?thesis by (simp add: insert_absorb)
    next
      case False
      note old = this
      show ?thesis
      proof (cases "map_of fs name")
        case None
        with old Inr Cons.prems(1) have "x \<noteq> None" "w' = w" by auto
        then show ?thesis by (intro stop) simp_all
      next
        case (Some sql)
        obtain y u where y: "pl_exec p sql w = (y, u)" by fastforce
        note u = pool_okD(3) [OF ok y]
        show ?thesis
        proof (cases y)
          case (Some err)
          with old Inr \<open>map_of fs name = Some sql\<close> y Cons.prems(1) have "x \<noteq> None" "w' = u" by auto
          with u Some show ?thesis by (intro stop) simp_all
        next
          case None
          obtain z v where z: "pl_record p (version_of name) u = (z, v)" by fastforce
          note v = pool_okD(4) [OF ok z]
          show ?thesis
          proof (cases z)
            case (Some err)
            with old Inr \<open>map_of fs name = Some sql\<close> y None z Cons.prems(1) have "x \<noteq> None" "w' = v" by auto
            with old b Some None u v \<open>map_of fs name = Some sql\<close> have "?goal 0 1" by auto
            then show ?thesis by blast
          next
            case none: None
            with old Inr \<open>map_of fs name = Some sql\<close> y None z u v b Cons.prems(1) more [of v]
            show ?thesis by simp
          qed
        qed
      qed
    qed
  qed
qed simp

lemma apply_nothing:
  assumes ok: "pool_ok p versions executed" and "\<And>v u. \<exists>b. pl_exists p v u = Inr b"
    and "version_of ` set names \<subseteq> versions w"
  shows "apply_migrations p fs names w = (None, w)"
  using assms(3)
proof (induction names)
  case (Cons name names)
  obtain b where b: "pl_exists p (version_of name) w = Inr b" using assms(2) by blast
  with Cons pool_okD(1) [OF ok b] show ?case by simp
qed simp

lemma run_idle:
  assumes ok: "pool_ok p versions executed" and "\<forall>i u. \<exists>b. pl_exists p i u = Inr b"
    and "version_of ` set (upFiles fs) \<subseteq> versions v" and "pl_create_table p v = (None, v')"
  shows "RunMigrations p fs v = (None, v') \<and> executed v' = executed v"
  using apply_nothing [OF ok, of "upFiles fs" v'] pool_okD(2) [OF ok assms(4)] assms(2-4)
  by (simp add: RunMigrations_def)

text \<open>
  C31: Migrations are applied once, in the order of their names, and recorded. A run that succeeds has
  executed the scripts of exactly those up-migrations that were not recorded, each once and in the
  order of the file names, and has recorded all of them. A run that fails has executed a first part of
  these scripts and recorded them, except perhaps the last one it executed. And once all are recorded,
  while they stay so and the database answers, a run executes no script at all.
\<close>

theorem migrations_once:
  assumes "pool_ok p versions executed" and "distinct (map fst fs)" and "RunMigrations p fs w = (x, w')"
  shows "(x = None \<longrightarrow> executed w' = executed w @ scripts fs (versions w) (upFiles fs) \<and>
       versions w' = versions w \<union> version_of ` set (upFiles fs)) \<and>
    (\<exists>n m. n \<le> m \<and> m \<le> Suc n \<and> executed w' = executed w @ scripts fs (versions w) (take m (upFiles fs)) \<and>
       versions w' = versions w \<union> version_of ` set (take n (upFiles fs))) \<and>
    (\<forall>v v'. version_of ` set (upFiles fs) \<subseteq> versions v \<longrightarrow> (\<forall>i u. \<exists>b. pl_exists p i u = Inr b) \<longrightarrow>
       pl_create_table p v = (None, v') \<longrightarrow> RunMigrations p fs v = (None, v') \<and> executed v' = executed v)"
proof -
  obtain y u where c: "pl_create_table p w = (y, u)" by fastforce
  note u = pool_okD(2) [OF assms(1) c]
  have "\<exists>n m. n \<le> m \<and> m \<le> Suc n \<and> (x = None \<longrightarrow> n = length (upFiles fs) \<and> m = n) \<and>
      versions w' = versions w \<union> version_of ` set (take n (upFiles fs)) \<and>
      executed w' = executed w @ scripts fs (versions w) (take m (upFiles fs))"
  proof (cases y)
    case None
    with assms(3) c have "apply_migrations p fs (upFiles fs) u = (x, w')" by (simp add: RunMigrations_def)
    from apply_run [OF assms(1) this upFiles_distinct [OF assms(2)]] u show ?thesis by simp
  next
    case (Some err)
    with assms(3) c have "x \<noteq> None" "w' = u" by (auto simp: RunMigrations_def)
    with u show ?thesis by (intro exI [of _ 0]) auto
  qed
  then obtain n m where nm: "n \<le> m" "m \<le> Suc n" "x = None \<longrightarrow> n = length (upFiles fs) \<and> m = n"
    "versions w' = versions w \<union> version_of ` set (take n (upFiles fs))"
    "executed w' = executed w @ scripts fs (versions w) (take m (upFiles fs))" by blast
  show ?thesis
  proof (intro conjI impI allI)
    show "\<exists>n m. n \<le> m \<and> m \<le> Suc n \<and> executed w' = executed w @ scripts fs (versions w) (take m (upFiles fs)) \<and>
       versions w' = versions w \<union> version_of ` set (take n (upFiles fs))" using nm by blast
  qed (use nm run_idle [OF assms(1)] in simp_all)
qed

text \<open>A database that records and executes whatever it is told.\<close>

definition log_pool :: "(string list \<times> string list) pool" where
  "log_pool = \<lparr>pl_create_table = (\<lambda>w. (None, w)), pl_exists = (\<lambda>v (vs, l). Inr (v \<in> set vs)),
     pl_exec = (\<lambda>sql (vs, l). (None, (vs, l @ [sql]))), pl_record = (\<lambda>v (vs, l). (None, (v # vs, l)))\<rparr>"

lemma log_pool_ok: "pool_ok log_pool (set \<circ> fst) snd"
  by (auto simp: pool_ok_def log_pool_def)

definition some_files :: "(string \<times> string) list" where
  "some_files = [(''003_c.up.sql'', ''C''), (''002_b.up.sql'', ''B''), (''001_a.down.sql'', ''D''), (''001_a.up.sql'', ''A'')]"

lemma some_files_run: "RunMigrations log_pool some_files ([''002_b''], []) =
    (None, ([''003_c'', ''001_a'', ''002_b''], [''A'', ''C'']))"
  by code_simp

theorem migrations_once_witness:
  "scripts some_files {''002_b''} (upFiles some_files) = [''A'', ''C''] \<and>
   RunMigrations log_pool some_files ([''003_c'', ''001_a'', ''002_b''], []) = (None, ([''003_c'', ''001_a'', ''002_b''], []))"
proof -
  have d: "distinct (map fst some_files)" by (simp add: some_files_def)
  have v: "version_of ` set (upFiles some_files) = {''001_a'', ''002_b'', ''003_c''}" by code_simp
  note all = migrations_once [OF log_pool_ok d some_files_run]
  from all have "scripts some_files {''002_b''} (upFiles some_files) = [''A'', ''C'']" by simp
  moreover from all have "RunMigrations log_pool some_files ([''003_c'', ''001_a'', ''002_b''], [])
      = (None, ([''003_c'', ''001_a'', ''002_b''], []))"
    unfolding v by (fastforce simp: log_pool_def)
  ultimately show ?thesis ..
qed

end
