(* ===== verification/Boot.thy ===== *)
theory Boot
  imports Server Nomba Migrations
begin

text \<open>
  The start of the server: \<^verbatim>\<open>internal/config/config.go\<close>, \<^verbatim>\<open>cmd/server/seed.go\<close> and the part of
  \<^verbatim>\<open>cmd/server/main.go\<close> up to the router. The environment is a function from names to values;
  the connections to Postgres and Redis are parameters. Log output is left out.
\<close>

section \<open>Durations\<close>

text \<open>
  \<open>time.ParseDuration\<close> of the standard library, with its unsigned 64-bit arithmetic, its float64
  for the part after the point, and the wrap-around of the sum that it does not notice.
\<close>

fun leadingInt :: "nat \<Rightarrow> string \<Rightarrow> (nat \<times> string) option" where
  "leadingInt x [] = Some (x, [])"
| "leadingInt x (c # s) =
     (if \<not> is_digit c then Some (x, c # s)
      else if x > 2 ^ 63 div 10 then None
      else let y = 10 * x + undigit c in if y > 2 ^ 63 then None else leadingInt y s)"

fun leadingFraction :: "bool \<Rightarrow> nat \<Rightarrow> rat option \<Rightarrow> string \<Rightarrow> nat \<times> rat option \<times> string" where
  "leadingFraction overflow x scale [] = (x, scale, [])"
| "leadingFraction overflow x scale (c # s) =
     (if \<not> is_digit c then (x, scale, c # s)
      else if overflow \<or> x > (2 ^ 63 - 1) div 10 then leadingFraction True x scale s
      else let y = 10 * x + undigit c
           in if y > 2 ^ 63 then leadingFraction True x scale s
              else leadingFraction False y (fl_mult scale 10) s)"

definition unit_ns :: "string \<Rightarrow> nat option" where
  "unit_ns = map_of [(''ns'', 1), (''us'', 10 ^ 3), ([CHR 0xC2, CHR 0xB5, CHR ''s''], 10 ^ 3),
     ([CHR 0xCE, CHR 0xBC, CHR ''s''], 10 ^ 3), (''ms'', 10 ^ 6), (''s'', 10 ^ 9),
     (''m'', 60 * 10 ^ 9), (''h'', 3600 * 10 ^ 9)]"

text \<open>A scale beyond the range of float64 is infinite, and the fraction then counts for nothing.\<close>

definition fraction_ns :: "nat \<Rightarrow> nat \<Rightarrow> rat option \<Rightarrow> nat" where
  "fraction_ns f unit scale =
     (case do { sc \<leftarrow> scale; a \<leftarrow> float64 (of_nat f); b \<leftarrow> float64 (of_nat unit / sc); float64 (a * b) } of
        None \<Rightarrow> 0 | Some q \<Rightarrow> nat \<lfloor>q\<rfloor>)"

definition unit_char :: "char \<Rightarrow> bool" where
  "unit_char c \<longleftrightarrow> c \<noteq> CHR ''.'' \<and> \<not> is_digit c"

definition duration_unit :: "nat \<Rightarrow> nat \<Rightarrow> rat option \<Rightarrow> string \<Rightarrow> (nat \<times> string) option" where
  "duration_unit v f scale s =
     (if takeWhile unit_char s = [] then None
      else do { unit \<leftarrow> unit_ns (takeWhile unit_char s);
                if v > 2 ^ 63 div unit then None
                else let v = v * unit + (if f > 0 then fraction_ns f unit scale else 0)
                     in if v > 2 ^ 63 then None else Some (v, dropWhile unit_char s) })"

definition duration_term :: "string \<Rightarrow> (nat \<times> string) option" where
  "duration_term s =
     (if s = [] \<or> \<not> (hd s = CHR ''.'' \<or> is_digit (hd s)) then None
      else do { (v, s1) \<leftarrow> leadingInt 0 s;
                let point = (s1 \<noteq> [] \<and> hd s1 = CHR ''.'');
                    (f, scale, s2) = (if point then leadingFraction False 0 (Some 1) (tl s1) else (0, Some 1, s1))
                in if length s1 = length s \<and> \<not> (point \<and> length s2 \<noteq> length (tl s1)) then None
                   else duration_unit v f scale s2 })"

lemma leadingInt_shorter: "leadingInt x s = Some (v, r) \<Longrightarrow> length r \<le> length s"
  by (induction x s rule: leadingInt.induct) (auto simp: Let_def split: if_splits)

lemma leadingFraction_shorter: "leadingFraction b x sc s = (f, scale, r) \<Longrightarrow> length r \<le> length s"
  by (induction b x sc s rule: leadingFraction.induct) (fastforce simp: Let_def split: if_splits)+

lemma dropWhile_shorter: "takeWhile P s \<noteq> [] \<Longrightarrow> length (dropWhile P s) < length s"
  by (cases s) (auto simp: le_imp_less_Suc length_dropWhile_le split: if_splits)

lemma duration_unit_shorter: "duration_unit v f sc s = Some (w, r) \<Longrightarrow> length r < length s"
  by (auto simp: duration_unit_def Let_def dropWhile_shorter split: if_splits bind_splits)

lemma duration_term_shorter:
  assumes "duration_term s = Some (v, r)"
  shows "length r < length s"
proof -
  obtain x s1 f sc s2 where "leadingInt 0 s = Some (x, s1)" "duration_unit x f sc s2 = Some (v, r)"
    and "s2 = s1 \<or> leadingFraction False 0 (Some 1) (tl s1) = (f, sc, s2)"
    using assms by (auto simp: duration_term_def Let_def split: if_splits bind_splits prod.splits)
  then show ?thesis
    using leadingInt_shorter [of 0 s x s1] duration_unit_shorter [of x f sc s2 v r]
      leadingFraction_shorter [of False 0 "Some 1" "tl s1" f sc s2] by auto
qed

function duration_terms :: "nat \<Rightarrow> string \<Rightarrow> nat option" where
  "duration_terms d s =
     (if s = [] then Some d
      else case duration_term s of
        None \<Rightarrow> None
      | Some (v, r) \<Rightarrow> let d = (d + v) mod 2 ^ 64 in if d > 2 ^ 63 then None else duration_terms d r)"
  by pat_completeness auto
termination by (relation "measure (length \<circ> snd)") (auto simp: duration_term_shorter)

declare duration_terms.simps [simp del]

definition ParseDuration :: "string \<Rightarrow> duration option" where
  "ParseDuration s =
     (let signed = (s \<noteq> [] \<and> hd s \<in> {CHR ''-'', CHR ''+''}); neg = (signed \<and> hd s = CHR ''-'');
          s = (if signed then tl s else s)
      in if s = ''0'' then Some 0
         else if s = '''' then None
         else do { d \<leftarrow> duration_terms 0 s;
                   if neg then Some (- int d) else if d > 2 ^ 63 - 1 then None else Some (int d) })"

text \<open>A whole number of a unit is read exactly, as far as it fits an \<open>int64\<close>.\<close>

lemma read_digits_grows: "x \<le> foldl (\<lambda>acc c. 10 * acc + undigit c) x ds"
proof (induction ds arbitrary: x)
  case (Cons c ds)
  have "x \<le> 10 * x + undigit c" by simp
  also have "\<dots> \<le> foldl (\<lambda>acc c. 10 * acc + undigit c) x (c # ds)" using Cons.IH by simp
  finally show ?case .
qed simp

lemma leadingInt_digits:
  assumes "\<forall>c \<in> set ds. is_digit c" and "r \<noteq> [] \<longrightarrow> \<not> is_digit (hd r)"
    and "foldl (\<lambda>acc c. 10 * acc + undigit c) x ds \<le> 2 ^ 63"
  shows "leadingInt x (ds @ r) = Some (foldl (\<lambda>acc c. 10 * acc + undigit c) x ds, r)"
  using assms
proof (induction ds arbitrary: x)
  case Nil
  then show ?case by (cases r) auto
next
  case (Cons c ds)
  let ?y = "10 * x + undigit c"
  have "?y \<le> 2 ^ 63" using read_digits_grows [of ?y ds] Cons.prems(3) by simp
  moreover from this have "x \<le> 2 ^ 63 div 10" by simp
  ultimately show ?case using Cons by (simp add: Let_def not_less)
qed

lemma leadingInt_dec_nat:
  assumes "n \<le> 2 ^ 63" and "r \<noteq> [] \<longrightarrow> \<not> is_digit (hd r)"
  shows "leadingInt 0 (dec_nat n @ r) = Some (n, r)"
  using leadingInt_digits [of "dec_nat n" r 0] assms dec_nat_digits [of _ n] undec_dec_nat [of n]
  by (simp add: undec_def del: undec_dec_nat)

lemma ParseDuration_whole:
  assumes "unit_ns u = Some k" and "u \<noteq> []" "\<forall>c \<in> set u. unit_char c" and "0 < k" "n * k < 2 ^ 63"
  shows "ParseDuration (dec_nat n @ u) = Some (int (n * k))"
proof -
  have n: "n \<le> 2 ^ 63" and v: "n \<le> 2 ^ 63 div k"
    using assms(4,5) by (auto simp: less_eq_div_iff_mult_less_eq mult.commute intro: order_trans [of n "n * k"])
  have u: "takeWhile unit_char u = u" "dropWhile unit_char u = []" "\<not> is_digit (hd u)" "hd u \<noteq> CHR ''.''"
    using assms(2,3) by (auto simp: unit_char_def)
  have hd: "is_digit (hd (dec_nat n))" "dec_nat n \<noteq> []"
    using dec_nat_digits [of "hd (dec_nat n)" n] dec_nat_hd [of n] by auto
  have "duration_unit n 0 (Some 1) u = Some (n * k, [])"
    unfolding duration_unit_def u(1,2) using assms v by (simp add: Let_def not_less)
  then have "duration_term (dec_nat n @ u) = Some (n * k, [])"
    using hd u(3,4) n leadingInt_dec_nat [of n u]
    by (simp add: duration_term_def hd_append)
  then have "duration_terms 0 (dec_nat n @ u) = Some (n * k)"
    using assms(5) hd(2) by (simp add: duration_terms.simps [of 0 "dec_nat n @ u"] duration_terms.simps [of _ "[]"])
  moreover have "hd (dec_nat n @ u) \<notin> {CHR ''-'', CHR ''+''}"
    using hd by (auto simp: is_digit_def hd_append)
  moreover have "dec_nat n @ u \<noteq> ''0''" using u hd assms(2) by (cases "dec_nat n") (auto simp: Cons_eq_append_conv)
  ultimately show ?thesis using hd(2) assms(5) by (simp add: ParseDuration_def)
qed

section \<open>Configuration\<close>

text \<open>\<open>os.Getenv\<close> gives the empty string for a variable that is not set.\<close>

type_synonym environment = "string \<Rightarrow> string"

record config =
  Cfg_NombaClientID :: string
  Cfg_NombaClientSecret :: string
  Cfg_NombaAccountID :: string
  Cfg_NombaSubAccountID :: string
  Cfg_NombaBaseURL :: string
  Cfg_NombaWebhookSecret :: string
  Cfg_DatabaseURL :: string
  Cfg_RedisURL :: string
  Cfg_SweepInterval :: duration
  Cfg_SweepOverlap :: duration
  Cfg_InternalSweepToken :: string
  Cfg_Port :: string
  Cfg_Env :: string

definition requireEnv :: "environment \<Rightarrow> string \<Rightarrow> string" where
  "requireEnv env key = env key"

definition envOr :: "environment \<Rightarrow> string \<Rightarrow> string \<Rightarrow> string" where
  "envOr env key fallback = (if env key \<noteq> '''' then env key else fallback)"

definition config_parseDuration :: "environment \<Rightarrow> string \<Rightarrow> string \<Rightarrow> go_error + duration" where
  "config_parseDuration env key fallback =
     (case ParseDuration (envOr env key fallback) of
        None \<Rightarrow> Inl (Wrap (''config: '' @ key @ '' is not a valid duration'') (Errorf ''time: invalid duration''))
      | Some d \<Rightarrow> Inr d)"

definition config_Load :: "environment \<Rightarrow> go_error + config" where
  "config_Load env =
     (case config_parseDuration env ''SWEEP_INTERVAL'' ''10m'' of
        Inl err \<Rightarrow> Inl err
      | Inr interval \<Rightarrow>
          (case config_parseDuration env ''SWEEP_OVERLAP'' ''15m'' of
             Inl err \<Rightarrow> Inl err
           | Inr overlap \<Rightarrow>
               Inr \<lparr>Cfg_NombaClientID = requireEnv env ''NOMBA_CLIENT_ID'',
                    Cfg_NombaClientSecret = requireEnv env ''NOMBA_CLIENT_SECRET'',
                    Cfg_NombaAccountID = requireEnv env ''NOMBA_ACCOUNT_ID'',
                    Cfg_NombaSubAccountID = requireEnv env ''NOMBA_SUB_ACCOUNT_ID'',
                    Cfg_NombaBaseURL = requireEnv env ''NOMBA_BASE_URL'',
                    Cfg_NombaWebhookSecret = requireEnv env ''NOMBA_WEBHOOK_SECRET'',
                    Cfg_DatabaseURL = requireEnv env ''DATABASE_URL'',
                    Cfg_RedisURL = requireEnv env ''REDIS_URL'',
                    Cfg_SweepInterval = interval, Cfg_SweepOverlap = overlap,
                    Cfg_InternalSweepToken = requireEnv env ''INTERNAL_SWEEP_TOKEN'',
                    Cfg_Port = envOr env ''PORT'' ''8080'', Cfg_Env = envOr env ''ENV'' ''development''\<rparr>))"

section \<open>The demo accounts\<close>

text \<open>\<open>n\<close> numbers the calls of bcrypt and the readings of the clock. Failures are only logged.\<close>

definition seedCredential :: "http_env \<Rightarrow> nat \<Rightarrow> 'w auth_store \<Rightarrow> user_credential \<Rightarrow> string \<Rightarrow> 'w \<Rightarrow> 'w" where
  "seedCredential h n as cred password w =
     (case he_bcrypt h n password of
        Inl err \<Rightarrow> w
      | Inr hash \<Rightarrow> snd (au_SeedCredential as (he_now h n) (cred\<lparr>Cred_PasswordHash := hash\<rparr>) w))"

definition newAPIKey :: "http_env \<Rightarrow> (string \<times> string \<times> string) option" where
  "newAPIKey h =
     (case he_rand h 16 of
        None \<Rightarrow> None
      | Some b \<Rightarrow>
          let raw = ''sk_live_'' @ hex_encode b
          in Some (raw, he_sha256 h raw, if length raw > 16 then take 16 raw else raw))"

definition seed_user :: "string option \<Rightarrow> string \<Rightarrow> string \<Rightarrow> string \<Rightarrow> user_credential" where
  "seed_user tid email name role =
     \<lparr>Cred_ID = '''', Cred_TenantID = tid, Cred_Email = email, Cred_PasswordHash = '''',
      Cred_Name = name, Cred_Role = role, Cred_CreatedAt = 0\<rparr>"

definition demo_customers :: "(string \<times> string \<times> identity_input) list" where
  "demo_customers =
     [(''ada_okonkwo'', ''Adaeze Okonkwo'', \<lparr>In_BVNMasked = None, In_NINMasked = Some ''****1234'', In_KYCTier = 2\<rparr>),
      (''bisi_thomas'', ''Bisi Thomas'', \<lparr>In_BVNMasked = Some ''****5678'', In_NINMasked = None, In_KYCTier = 3\<rparr>),
      (''chidi_eze'', ''Chidi Eze'', \<lparr>In_BVNMasked = None, In_NINMasked = Some ''****9012'', In_KYCTier = 1\<rparr>),
      (''dupe_akin'', ''Dupe Akin'', \<lparr>In_BVNMasked = Some ''****3456'', In_NINMasked = None, In_KYCTier = 2\<rparr>)]"

fun seed_customers :: "http_env \<Rightarrow> 'w customer_service \<Rightarrow> string \<Rightarrow> nat
    \<Rightarrow> (string \<times> string \<times> identity_input) list \<Rightarrow> 'w \<Rightarrow> 'w" where
  "seed_customers h svc tid n [] w = w"
| "seed_customers h svc tid n ((ref, name, identity) # ds) w =
     seed_customers h svc tid (n + 1) ds
       (snd (CreateCustomer svc (he_item_now h n) tid ref name identity ''seed'' w))"

definition seed_users :: "http_env \<Rightarrow> 'w auth_store \<Rightarrow> 'w customer_service \<Rightarrow> string \<Rightarrow> 'w \<Rightarrow> 'w" where
  "seed_users h as svc tid w =
     (let w = seedCredential h 2 as (seed_user (Some tid) ''ada@acme.io'' ''Adaeze Okonkwo'' ''dev'')
                ''Dev1234!'' w;
          w = seedCredential h 3 as (seed_user (Some tid) ''bisi@acme.io'' ''Bisi Thomas'' ''ops'')
                ''Ops1234!'' w
      in seed_customers h svc tid 0 demo_customers w)"

definition seed_tenant :: "http_env \<Rightarrow> 'w auth_store \<Rightarrow> 'w tenant_store \<Rightarrow> 'w customer_service \<Rightarrow> 'w \<Rightarrow> 'w" where
  "seed_tenant h as ts svc w =
     (case ts_CreateTenant ts (he_now h 1) ''Acme Fintech'' w of
        (Inl err, w) \<Rightarrow> w
      | (Inr ten, w) \<Rightarrow>
          (case newAPIKey h of
             None \<Rightarrow> w
           | Some (rawKey, keyHash, keyPrefix) \<Rightarrow>
               (case ts_CreateAPIKey ts (Tenant_ID ten) rawKey keyHash keyPrefix w of
                  (Inl err, w) \<Rightarrow> w
                | (Inr k, w) \<Rightarrow> seed_users h as svc (Tenant_ID ten) w)))"

definition seedDemoData :: "http_env \<Rightarrow> 'w auth_store \<Rightarrow> 'w tenant_store \<Rightarrow> 'w customer_service \<Rightarrow> 'w \<Rightarrow> 'w" where
  "seedDemoData h as ts svc w =
     (let w = seedCredential h 0 as (seed_user None ''operator@systyn.io'' ''Systyn Operator'' ''admin'')
                ''Admin1234!'' w
      in case au_GetCredentialByEmail as ''ada@acme.io'' w of
           Inr (None, _, _) \<Rightarrow> seed_tenant h as ts svc w
         | _ \<Rightarrow> w)"

section \<open>Tier limits at start\<close>

definition boot_limits :: "range_order \<Rightarrow> time \<Rightarrow> 'w settings_store
    \<Rightarrow> (range_order \<Rightarrow> json \<Rightarrow> 'w \<Rightarrow> go_error option \<times> 'w) \<Rightarrow> 'w \<Rightarrow> go_error option \<times> 'w" where
  "boot_limits r now st load w =
     (case se_SeedSetting st now TierLimitsKey DefaultTierLimitsJSON w of
        (Some err, w) \<Rightarrow> (Some err, w)
      | (None, w) \<Rightarrow>
          (case se_GetSetting st TierLimitsKey w of
             Inl err \<Rightarrow> (Some err, w)
           | Inr raw \<Rightarrow> load r (case raw of None \<Rightarrow> DefaultTierLimitsJSON | Some j \<Rightarrow> j) w))"

section \<open>The server\<close>

text \<open>
  What the process finds outside: the driver behind the URLs, the connection pool that the migrations
  run over and the embedded directory of their files, the provider that a configuration
  describes, and the collation of the database. What a migration does to the schema is part of the
  world outside; the tables that the repositories use are there with their constraints.
\<close>

record 'e surroundings =
  su_newPool :: "string \<Rightarrow> go_error option"
  su_ping :: "go_error option"
  su_pool :: "'e pool"
  su_migrationFS :: "(string \<times> string) list"
  su_redisURL :: "string \<Rightarrow> go_error + 'e redis"
  su_redisPing :: "'e redis \<Rightarrow> go_error option"
  su_env :: "'e pg_env"
  su_provider :: "config \<Rightarrow> 'e provider"
  su_collation :: "string \<Rightarrow> string"

definition OpenRedis :: "'e surroundings \<Rightarrow> string \<Rightarrow> go_error + 'e redis" where
  "OpenRedis S url =
     (case su_redisURL S url of
        Inl err \<Rightarrow> Inl (Wrap ''store: parse redis URL'' err)
      | Inr rdb \<Rightarrow> (case su_redisPing S rdb of
          Some err \<Rightarrow> Inl (Wrap ''store: redis ping'' err) | None \<Rightarrow> Inr rdb))"

text \<open>The adapter of the configuration; the HTTP client, the keyed hash and the like are of \<open>a\<close>.\<close>

definition nomba_New :: "'n adapter \<Rightarrow> config \<Rightarrow> 'n adapter" where
  "nomba_New a cfg =
     a\<lparr>ad_client := (ad_client a)\<lparr>nc_baseURL := Cfg_NombaBaseURL cfg, nc_clientID := Cfg_NombaClientID cfg,
         nc_clientSecret := Cfg_NombaClientSecret cfg, nc_accountID := Cfg_NombaAccountID cfg\<rparr>,
       ad_subAccountID := Cfg_NombaSubAccountID cfg, ad_webhookSecret := Cfg_NombaWebhookSecret cfg\<rparr>"

definition deployment_of :: "'e surroundings \<Rightarrow> config \<Rightarrow> 'e redis \<Rightarrow> 'e deployment" where
  "deployment_of S cfg rdb =
     \<lparr>dl_env = su_env S, dl_provider = su_provider S cfg, dl_queue = 512,
      dl_interval = Cfg_SweepInterval cfg, dl_overlap = Cfg_SweepOverlap cfg, dl_redis = rdb,
      dl_collation = su_collation S, dl_token = Cfg_InternalSweepToken cfg\<rparr>"

text \<open>
  \<open>main\<close> up to the router: the process exits with an error (\<open>Inl\<close>) or serves the API of a deployment.
  Its memory, the limits and the queue, is that of a fresh process.
\<close>

definition main :: "environment \<Rightarrow> http_env \<Rightarrow> 'e surroundings \<Rightarrow> 'e pg
    \<Rightarrow> (go_error + 'e deployment) \<times> 'e pg" where
  "main env h S w =
     (let w = w\<lparr>pg_rt := runtime_init\<rparr>; e = su_env S
      in case config_Load env of Inl err \<Rightarrow> (Inl err, w) | Inr cfg \<Rightarrow>
        (case Open (su_newPool S) (su_ping S) (Cfg_DatabaseURL cfg) of Some err \<Rightarrow> (Inl err, w) | None \<Rightarrow>
        (case on_remote (RunMigrations (su_pool S) (su_migrationFS S)) w of (Some err, w) \<Rightarrow> (Inl err, w) | (None, w) \<Rightarrow>
        (case OpenRedis S (Cfg_RedisURL cfg) of Inl err \<Rightarrow> (Inl err, w) | Inr rdb \<Rightarrow>
        (case boot_limits (he_range h) (he_now h 0) (pg_settings_store e) pg_load_limits w of
           (Some err, w) \<Rightarrow> (Inl err, w)
         | (None, w) \<Rightarrow>
             (Inr (deployment_of S cfg rdb),
              seedDemoData h (pg_auth_store e) (pg_tenant_store e) (pg_customer_service e) w))))))"

section \<open>The start is a run\<close>

lemma steps_seed_credential: "dl_steps D w (seedCredential h n (pg_auth_store (dl_env D)) cred password w)"
  using steps_stores(8) [of D]
  by (auto simp: seedCredential_def pg_auth_store_def steps_def split: sum.split)

lemma steps_seed_customers: "dl_steps D w (seed_customers h (pg_customer_service (dl_env D)) tid n ds w)"
proof (induction ds arbitrary: n w)
  case (Cons d ds)
  obtain ref name identity where d: "d = (ref, name, identity)" by (metis surj_pair)
  have "dl_steps D w (snd (CreateCustomer (pg_customer_service (dl_env D)) (he_item_now h n) tid ref name
      identity ''seed'' w))" using steps_services(1) [of D] by (simp add: steps_def)
  with Cons.IH show ?case unfolding d by (simp, blast intro: dl_steps_trans)
qed simp

lemma steps_seed_users:
  "dl_steps D w (seed_users h (pg_auth_store (dl_env D)) (pg_customer_service (dl_env D)) tid w)"
  unfolding seed_users_def Let_def
  by (rule dl_steps_trans [OF dl_steps_trans [OF steps_seed_credential steps_seed_credential] steps_seed_customers])

lemma steps_seed_tenant:
  "dl_steps D w (seed_tenant h (pg_auth_store (dl_env D)) (pg_tenant_store (dl_env D))
     (pg_customer_service (dl_env D)) w)"
  by (auto simp: seed_tenant_def pg_tenant_store_def dest!: steps_dests
      intro: dl_steps_trans dl_steps_trans [OF _ steps_seed_users]
      split: sum.splits prod.splits option.splits)

lemma steps_seed:
  "dl_steps D w (seedDemoData h (pg_auth_store (dl_env D)) (pg_tenant_store (dl_env D))
     (pg_customer_service (dl_env D)) w)"
  by (auto simp: seedDemoData_def Let_def intro: dl_steps_trans [OF steps_seed_credential steps_seed_tenant]
      steps_seed_credential split: sum.splits prod.splits option.splits)

lemma steps_boot_limits:
  "steps D (boot_limits r now (pg_settings_store (dl_env D)) pg_load_limits)"
  by (rule stepsI) (auto simp: boot_limits_def pg_settings_store_def dest!: steps_dests intro: dl_steps_trans
      split: sum.splits prod.splits option.splits)

definition fresh :: "'e pg \<Rightarrow> 'e pg" where
  "fresh w = w\<lparr>pg_rt := runtime_init\<rparr>"

lemma main_up:
  assumes "main env h S w = (Inr D, w')"
  obtains cfg rdb u v where "config_Load env = Inr cfg" and "D = deployment_of S cfg rdb"
    and "on_remote (RunMigrations (su_pool S) (su_migrationFS S)) (fresh w) = (None, u)"
    and "boot_limits (he_range h) (he_now h 0) (pg_settings_store (su_env S)) pg_load_limits u = (None, v)"
    and "w' = seedDemoData h (pg_auth_store (su_env S)) (pg_tenant_store (su_env S)) (pg_customer_service (su_env S)) v"
  using assms by (auto simp: main_def fresh_def Let_def split: sum.splits option.splits prod.splits)

lemma main_run:
  assumes "main env h S w = (Inr D, w')"
  shows "dl_steps D (fresh w) w'"
proof -
  from main_up [OF assms] obtain cfg rdb u v where D: "D = deployment_of S cfg rdb"
    and m: "on_remote (RunMigrations (su_pool S) (su_migrationFS S)) (fresh w) = (None, u)"
    and l: "boot_limits (he_range h) (he_now h 0) (pg_settings_store (su_env S)) pg_load_limits u = (None, v)"
    and w': "w' = seedDemoData h (pg_auth_store (su_env S)) (pg_tenant_store (su_env S)) (pg_customer_service (su_env S)) v"
    by metis
  have e: "dl_env D = su_env S" by (simp add: D deployment_of_def)
  from m have "dl_steps D (fresh w) u" by (rule stepsD [OF steps_remote])
  moreover from stepsD [OF steps_boot_limits [of D]] l have "dl_steps D u v" by (simp add: e)
  moreover from steps_seed [of D v h] have "dl_steps D v w'" by (simp add: e w')
  ultimately show ?thesis by (blast intro: dl_steps_trans)
qed

text \<open>An unsuccessful start touches nothing but the settings and the schema.\<close>

lemma main_exit:
  assumes "main env h S w = (Inl err, w')"
  shows "pg_view w' = pg_view w \<and> pg_creds w' = pg_creds w"
  using assms
  by (auto simp: main_def on_remote_def boot_limits_def Let_def pg_settings_store_def pg_SeedSetting_def pg_load_limits_def
      split: sum.splits option.splits prod.splits if_splits)

section \<open>Limits that stop the server\<close>

lemma load_step_error: "foldl (load_step m) (Inl err) ks = Inl err"
  by (induction ks) (simp_all add: load_step_def)

lemma load_step_bad_key:
  assumes "k \<in> set ks" and "sscanf_d k = None"
  shows "\<exists>err. foldl (load_step m) acc ks = Inl err"
  using assms(1)
proof (induction ks arbitrary: acc)
  case (Cons k' ks)
  show ?case
  proof (cases "k' = k")
    case True
    with assms(2) have "\<exists>err. load_step m acc k' = Inl err" by (cases acc) (simp_all add: load_step_def)
    then show ?thesis using load_step_error by (metis foldl_Cons)
  qed (use Cons in auto)
qed simp

lemma parse_limits_bad_key:
  assumes "limit_map_of_json raw = Some m" and "k \<in> fmdom' m" and "sscanf_d k = None"
  shows "\<exists>err. parse_limits r raw = Inl err"
  using assms load_step_bad_key [of k "range_keys r m" m "Inr fmempty"]
  by (simp add: parse_limits_def load_step_def [abs_def])

lemma limit_map_members:
  assumes "distinct ks"
  shows "foldl add_limit (Some acc) (map (\<lambda>k. (k, json_of_limit (f k))) ks) =
     Some (foldl (\<lambda>m k. fmupd k (f k) m) acc ks)"
  by (induction ks arbitrary: acc) (simp_all add: add_limit_def)

lemma find_same: "List.find (\<lambda>x. x = k) ks = (if k \<in> set ks then Some k else None)"
  by (induction ks) auto

lemma limit_map_round_trip: "limit_map_of_json (json_of_string_limits m) = Some m"
proof -
  let ?ks = "sorted_list_of_set (fmdom' m)"
  have "fmlookup (foldl (\<lambda>m' k. fmupd k (the (fmlookup m k)) m') fmempty ?ks) i = fmlookup m i" for i
    using foldl_fmupd_lookup [of "\<lambda>k. k" ?ks "\<lambda>k. the (fmlookup m k)" fmempty i]
      fmdom'_notI [of m i] fmdom'I [of m i]
    by (cases "fmlookup m i") (simp_all add: find_same)
  then show ?thesis
    by (simp add: json_of_string_limits_def limit_map_members fmap_ext)
qed

lemma pg_load_rejects:
  "parse_limits r raw = Inl err \<Longrightarrow> pg_load_limits r raw w = (Some err, w)"
  by (simp add: pg_load_limits_def Load_def)

lemma boot_rejects:
  assumes "fmlookup (pg_settings w) TierLimitsKey = Some raw" and "\<And>r. \<exists>err. parse_limits r raw = Inl err"
  shows "\<exists>err. boot_limits r now (pg_settings_store e) pg_load_limits w = (Some err, w)"
proof -
  obtain err where "parse_limits r raw = Inl err" using assms(2) by blast
  with assms(1) show ?thesis
    by (auto simp: boot_limits_def pg_settings_store_def pg_SeedSetting_def pg_GetSetting_def pg_row_def
        wrap_err_def pg_load_rejects split: option.splits)
qed

text \<open>
  C27: A tier-limit document that the server refuses keeps it from starting. \<open>PutTierLimits\<close> stores the
  document first and tries to load it afterwards: a request with a key that is not a number is answered
  500 and the limits in use stay as they are, but the document is in the database; and every later
  start that finds it there, with whatever environment and surroundings, ends with an error.
\<close>

theorem rejected_limits_stop_start:
  assumes "decodeJSON limit_map_of_json r = Some m" and "k \<in> fmdom' m" and "sscanf_d k = None"
    and "\<not> pe_fault (dl_env D) ''upsert setting'' [TierLimitsKey] w"
    and "pe_jsonb (dl_env D) (json_of_string_limits m) = Some (json_of_string_limits m)"
  shows "\<exists>detail w'. serve_internal h (pg_dependencies D) I_PutTierLimits r w = (InternalServerError detail, w') \<and>
    pg_rt w' = pg_rt w \<and>
    (\<forall>env h' S v. fmlookup (pg_settings v) TierLimitsKey = fmlookup (pg_settings w') TierLimitsKey \<longrightarrow>
       (\<exists>err v'. main env h' S v = (Inl err, v')))"
proof -
  let ?raw = "json_of_string_limits m"
  let ?w' = "w\<lparr>pg_settings := fmupd TierLimitsKey ?raw (pg_settings w)\<rparr>"
  have bad: "\<exists>err. parse_limits ord ?raw = Inl err" for ord
    by (rule parse_limits_bad_key [OF limit_map_round_trip assms(2,3)])
  then obtain err where err: "parse_limits (he_range h) ?raw = Inl err" by blast
  have "fmdom' m \<noteq> {}" using assms(2) by blast
  with assms(1,4,5) err have "serve_internal h (pg_dependencies D) I_PutTierLimits r w =
      (InternalServerError (error_string err), ?w')"
    by (simp add: settingsH_PutTierLimits_def settingsH_def pg_settings_store_def pg_UpsertSetting_def
        pg_load_rejects Let_def)
  moreover have "\<exists>err v'. main env h' S v = (Inl err, v')"
    if set: "fmlookup (pg_settings v) TierLimitsKey = Some ?raw" for env h' and S :: "'b surroundings" and v
  proof -
    obtain x v' where run: "main env h' S v = (x, v')" by fastforce
    show ?thesis
    proof (cases x)
      case (Inr D')
      from main_up [OF run [unfolded Inr]] obtain u t
        where m: "on_remote (RunMigrations (su_pool S) (su_migrationFS S)) (fresh v) = (None, u)"
          and l: "boot_limits (he_range h') (he_now h' 0) (pg_settings_store (su_env S)) pg_load_limits u = (None, t)"
        by metis
      from m set have "fmlookup (pg_settings u) TierLimitsKey = Some ?raw"
        by (auto simp: on_remote_def fresh_def split: prod.splits)
      from boot_rejects [OF this bad, of "he_range h'" "he_now h' 0" "su_env S"] l show ?thesis by auto
    qed (use run in blast)
  qed
  ultimately show ?thesis by auto
qed

section \<open>The operator's password\<close>

abbreviation operator_row :: "'e pg \<Rightarrow> user_credential option" where
  "operator_row w \<equiv> fmlookup (pg_creds w) ''operator@systyn.io''"

lemma operator_row_kept:
  "leaves operator_row (pg_CreateTenant e now i)" "leaves operator_row (pg_CreateAPIKey e t i h x)"
  by (simp_all add: leaves_def pg_CreateTenant_def pg_CreateAPIKey_def pg_split)

lemma operator_row_customer:
  "leaves operator_row (CreateCustomer (pg_customer_service e) nows t x dn ident actor)"
  by (rule CreateCustomer_leaves) (simp_all add: leaves_def pg_customer_service_def pg_customer_store_def
      pg_audit_store_def pg_CreateCustomer_def pg_Append_def pg_split)

lemma operator_row_seed:
  "Cred_Email cred \<noteq> ''operator@systyn.io'' \<Longrightarrow>
   operator_row (seedCredential h n (pg_auth_store e) cred password w) = operator_row w"
  by (simp add: seedCredential_def pg_auth_store_def pg_SeedCredential_def pg_split split: sum.split)

lemma operator_row_customers:
  "operator_row (seed_customers h (pg_customer_service e) tid n ds w) = operator_row w"
  by (induction ds arbitrary: n w) (auto simp: leavesD [OF operator_row_customer])

lemma operator_row_tenant:
  "operator_row (seed_tenant h (pg_auth_store e) (pg_tenant_store e) (pg_customer_service e) w) = operator_row w"
  using operator_row_kept [where e = e, THEN leaves_pair]
  by (auto simp: seed_tenant_def seed_users_def pg_tenant_store_def operator_row_customers
      operator_row_seed seed_user_def Let_def split: sum.splits prod.splits option.splits)

text \<open>
  C25: The published password opens every production server. Started on an empty database that does
  not fail, the server has an operator whose password is the one in \<^verbatim>\<open>seed.go\<close>, whatever the
  environment: a login with it is answered 200 with the token of the internal routes, the one that
  onboards tenants, moves suspended funds and sets the tier limits.
\<close>

theorem published_password:
  assumes "main env h S w = (Inr D, w')" and "pg_creds w = fmempty"
    and "\<And>s a v. \<not> pe_fault (su_env S) s a v" and "he_bcrypt h 0 ''Admin1234!'' = Inr hash"
    and "he_bcrypt_ok h' hash ''Admin1234!''" and "env ''INTERNAL_SWEEP_TOKEN'' \<noteq> ''''"
    and "decodeJSON decode_login r = Some (''operator@systyn.io'', ''Admin1234!'')"
  shows "\<exists>fs. NewRouter h' (pg_dependencies D) ''POST'' [''auth'', ''login''] r w' = Some (writeJSON 200 (JObj fs), w') \<and>
    (''admin_token'', JStr (env ''INTERNAL_SWEEP_TOKEN'')) \<in> set fs \<and> dl_token D = env ''INTERNAL_SWEEP_TOKEN''"
proof -
  let ?as = "pg_auth_store (su_env S)"
  from main_up [OF assms(1)] obtain cfg rdb u v where cfg: "config_Load env = Inr cfg" and D: "D = deployment_of S cfg rdb"
    and m: "on_remote (RunMigrations (su_pool S) (su_migrationFS S)) (fresh w) = (None, u)"
    and l: "boot_limits (he_range h) (he_now h 0) (pg_settings_store (su_env S)) pg_load_limits u = (None, v)"
    and w': "w' = seedDemoData h ?as (pg_tenant_store (su_env S)) (pg_customer_service (su_env S)) v"
    by metis
  have tok: "dl_token D = env ''INTERNAL_SWEEP_TOKEN''"
    using cfg by (auto simp: D deployment_of_def config_Load_def requireEnv_def split: sum.splits)
  have v: "pg_creds v = fmempty"
    using m l assms(2) by (auto simp: on_remote_def boot_limits_def fresh_def pg_settings_store_def pg_SeedSetting_def pg_load_limits_def Let_def
        split: option.splits sum.splits prod.splits if_splits)
  let ?op = "seed_user None ''operator@systyn.io'' ''Systyn Operator'' ''admin''"
  obtain row where row: "operator_row (seedCredential h 0 ?as ?op ''Admin1234!'' v) = Some row"
    "Cred_PasswordHash row = hash" "Cred_Role row = ''admin''" "Cred_TenantID row = None"
    using assms(3,4) v by (simp add: seedCredential_def pg_auth_store_def pg_SeedCredential_def cred_row_def
        seed_user_def uuid_opt_def gen_uuid_def Let_def in_range_vals)
  have "operator_row w' = Some row"
    using row(1)
    by (auto simp: w' seedDemoData_def operator_row_tenant Let_def split: sum.splits prod.splits option.splits)
  with row have "pg_GetCredentialByEmail (su_env S) ''operator@systyn.io'' w' = Inr (Some row, None, None)"
    using assms(3) by (simp add: pg_GetCredentialByEmail_def)
  moreover have "decodeJSON decode_login (r\<lparr>Req_Params := ps\<rparr>) = decodeJSON decode_login r" for ps
    by (simp add: decodeJSON_def)
  moreover have "dl_env D = su_env S" by (simp add: D deployment_of_def)
  moreover have "route ''POST'' [''auth'', ''login''] = Some (Login, [])" by (simp add: route_def routes_def)
  ultimately show ?thesis
    using row assms(5-7) tok
    by (auto simp: NewRouter_def authH_Login_def authH_def pg_auth_store_def login_reply_def json_map_def)
qed

section \<open>A small start\<close>

lemma load_step_good_keys:
  assumes "\<forall>k \<in> set ks. sscanf_d k \<noteq> None"
  shows "\<exists>m'. foldl (load_step strMap) (Inr m) ks = Inr m'"
  using assms by (induction ks arbitrary: m) (auto simp: load_step_def)

lemma default_limits_load: "\<exists>m. parse_limits r DefaultTierLimitsJSON = Inr m"
proof -
  have n: "sscanf_d ''1'' = Some 1" "sscanf_d ''2'' = Some 2" "sscanf_d ''3'' = Some 3" by code_simp+
  obtain a b c where m: "limit_map_of_json DefaultTierLimitsJSON =
      Some (fmupd ''3'' a (fmupd ''2'' b (fmupd ''1'' c fmempty)))"
    by (simp add: DefaultTierLimitsJSON_def add_limit_def jmember_def jlast_def limit_keys fits64_def)
  have "\<forall>k \<in> set (range_keys r (fmupd ''3'' a (fmupd ''2'' b (fmupd ''1'' c fmempty)))). sscanf_d k \<noteq> None"
    by (auto simp: fmdom'_alt_def n)
  from load_step_good_keys [OF this] show ?thesis by (simp add: parse_limits_def m load_step_def [abs_def])
qed

definition demo_surroundings :: "unit surroundings" where
  "demo_surroundings = \<lparr>su_newPool = (\<lambda>s. None), su_ping = None,
     su_pool = \<lparr>pl_create_table = (\<lambda>w. (None, w)), pl_exists = (\<lambda>v w. Inr True),
       pl_exec = (\<lambda>sql w. (None, w)), pl_record = (\<lambda>v w. (None, w))\<rparr>,
     su_migrationFS = [(''001_create_tenants.up.sql'', ''CREATE TABLE tenants'')],
     su_redisURL = (\<lambda>s. Inr (dl_redis demo_deployment)), su_redisPing = (\<lambda>r. None),
     su_env = demo_env, su_provider = (\<lambda>c. demo_provider), su_collation = id\<rparr>"

definition demo_variables :: environment where
  "demo_variables key = (if key = ''INTERNAL_SWEEP_TOKEN'' then ''cron'' else '''')"

lemma unit_ns_minute: "unit_ns ''m'' = Some (60 * 10 ^ 9)" by (simp add: unit_ns_def)

lemma default_durations: "ParseDuration ''10m'' = Some (10 * minute)" "ParseDuration ''15m'' = Some (15 * minute)"
  using ParseDuration_whole [OF unit_ns_minute, of 10] ParseDuration_whole [OF unit_ns_minute, of 15]
  by (simp_all add: dec_nat.simps digit_values unit_char_def is_digit_def minute_def second_def)

lemma demo_boot_at:
  assumes "pg_settings w = fmempty"
  shows "\<exists>D v. main demo_variables demo_http demo_surroundings w = (Inr D, v) \<and> dl_token D = ''cron'' \<and>
    dl_provider D = demo_provider"
proof -
  obtain m where m: "parse_limits (he_range demo_http) DefaultTierLimitsJSON = Inr m"
    using default_limits_load by blast
  have "\<exists>v. boot_limits (he_range demo_http) (he_now demo_http 0) (pg_settings_store demo_env) pg_load_limits
      (w\<lparr>pg_rt := runtime_init, pg_remote := ()\<rparr>) = (None, v)"
    using m assms by (simp add: boot_limits_def pg_settings_store_def pg_SeedSetting_def pg_GetSetting_def pg_row_def
        wrap_err_def demo_env_def pg_load_limits_def Load_def)
  moreover have "\<exists>cfg. config_Load demo_variables = Inr cfg \<and> Cfg_InternalSweepToken cfg = ''cron''"
    by (simp add: config_Load_def requireEnv_def config_parseDuration_def envOr_def demo_variables_def default_durations)
  ultimately show ?thesis
    by (auto simp: main_def demo_surroundings_def deployment_of_def Let_def on_remote_def Open_def OpenRedis_def
        RunMigrations_def upFiles_def)
qed

lemma demo_boot:
  "\<exists>D w. main demo_variables demo_http demo_surroundings (pg_init ()) = (Inr D, w) \<and> dl_token D = ''cron''"
  using demo_boot_at [of "pg_init ()"] by (auto simp: pg_init_def)

theorem published_password_witness:
  "\<exists>D w fs. main demo_variables demo_http demo_surroundings (pg_init ()) = (Inr D, w) \<and>
     NewRouter demo_http (pg_dependencies D) ''POST'' [''auth'', ''login'']
       (demo_request '''' (JObj [(''email'', JStr ''operator@systyn.io''), (''password'', JStr ''Admin1234!'')])) w
     = Some (writeJSON 200 (JObj fs), w) \<and> (''admin_token'', JStr ''cron'') \<in> set fs"
proof -
  obtain D w where run: "main demo_variables demo_http demo_surroundings (pg_init ()) = (Inr D, w)"
    using demo_boot by blast
  have dec: "decode_login (JObj [(''email'', JStr ''operator@systyn.io''), (''password'', JStr ''Admin1234!'')])
      = Some (''operator@systyn.io'', ''Admin1234!'')" by code_simp
  from published_password [OF run, of "''Admin1234!''" demo_http
      "demo_request '''' (JObj [(''email'', JStr ''operator@systyn.io''), (''password'', JStr ''Admin1234!'')])"] dec run
  show ?thesis by (auto simp: pg_init_def demo_surroundings_def demo_env_def demo_http_def demo_variables_def
      decodeJSON_def demo_request_def)
qed

definition broken_limits :: "(string, tier_limit) fmap" where
  "broken_limits = fmupd ''one'' \<lparr>TL_DailyCreditKobo = 0, TL_MaxBalanceKobo = 0\<rparr> fmempty"

theorem rejected_limits_stop_start_witness:
  "\<exists>detail w. serve_internal demo_http (pg_dependencies demo_deployment) I_PutTierLimits
      (demo_request '''' (json_of_string_limits broken_limits)) (pg_init ()) = (InternalServerError detail, w) \<and>
    (\<exists>err v. main demo_variables demo_http demo_surroundings w = (Inl err, v))"
proof -
  have dec: "decodeJSON limit_map_of_json (demo_request '''' (json_of_string_limits broken_limits)) = Some broken_limits"
    by (simp add: decodeJSON_def demo_request_def limit_map_round_trip)
  have key: "''one'' \<in> fmdom' broken_limits" by (simp add: broken_limits_def)
  have "sscanf_d ''one'' = None" by code_simp
  from rejected_limits_stop_start [OF dec key this, of demo_deployment "pg_init ()" demo_http]
  show ?thesis by (fastforce simp: demo_deployment_def demo_env_def)
qed

end
