(* ===== verification/Access.thy ===== *)
theory Access
  imports Server Flows
begin

text \<open>
  Who gets what through the API of the production server: requests without credentials, requests
  for the customers of another tenant, and the routes that do not look at the tenant.
\<close>

section \<open>Credentials\<close>

text \<open>The hash of an active key of a tenant.\<close>

definition key_known :: "'e pg \<Rightarrow> string \<Rightarrow> bool" where
  "key_known w hash \<longleftrightarrow> (\<exists>i k. fmlookup (pg_keys w) i = Some k \<and> Key_KeyHash k = hash \<and>
     Key_Active k \<and> fmlookup (pg_tenants w) (Key_TenantID k) \<noteq> None)"

definition credentialed :: "http_env \<Rightarrow> 'e deployment \<Rightarrow> endpoint \<Rightarrow> request \<Rightarrow> 'e pg \<Rightarrow> bool" where
  "credentialed h D x r w =
     (case x of
        V1 y \<Rightarrow> (\<exists>key. header_get r ''Authorization'' = bearer @ key \<and> key_known w (he_sha256 h key))
      | Internal y \<Rightarrow> header_get r ''Authorization'' = bearer @ dl_token D
      | SweepCron \<Rightarrow> header_get r ''Authorization'' = bearer @ dl_token D
      | _ \<Rightarrow> True)"

lemma unknown_key:
  assumes "\<not> key_known w hash"
  shows "\<exists>err. pg_GetTenantByAPIKey e hash w = Inl err \<or> pg_GetTenantByAPIKey e hash w = Inr (None, None)"
proof -
  have "List.find (\<lambda>k. Key_KeyHash k = hash \<and> Key_Active k
      \<and> fmlookup (pg_tenants w) (Key_TenantID k) \<noteq> None) (rows_of e w (pg_keys w)) = None"
    using assms by (auto simp: find_None in_range_vals key_known_def)
  then show ?thesis by (simp add: pg_GetTenantByAPIKey_def)
qed

lemma Auth_unknown:
  assumes "\<forall>key. header_get r ''Authorization'' = bearer @ key \<longrightarrow> \<not> key_known w (he_sha256 h key)"
  shows "\<exists>detail. Auth h (pg_tenant_store e) r nxt w = (Unauthorized detail, w)"
proof (cases "take (length bearer) (header_get r ''Authorization'') = bearer")
  case True
  let ?key = "drop (length bearer) (header_get r ''Authorization'')"
  from True have "header_get r ''Authorization'' = bearer @ ?key" by (metis append_take_drop_id)
  with assms unknown_key [of w "he_sha256 h ?key" e] show ?thesis
    by (auto simp: Auth_def Let_def hashAPIKey_def pg_tenant_store_def)
qed (auto simp: Auth_def Let_def)

text \<open>
  C6: A request without credentials is answered 401 and changes nothing: on every route under
  \<^verbatim>\<open>/v1\<close> unless the Authorization header carries a key whose hash is that of an active key of an
  existing tenant, and on every route under \<^verbatim>\<open>/internal\<close>, the sweep included, unless it carries
  the token of the deployment.
\<close>

theorem no_credential_no_access:
  assumes "route meth path = Some (x, ps)" and "\<not> credentialed h D x r w"
  shows "\<exists>detail. NewRouter h (pg_dependencies D) meth path r w = Some (Unauthorized detail, w)"
proof (cases x)
  case (V1 y)
  with assms(2) have "\<forall>key. header_get (r\<lparr>Req_Params := ps\<rparr>) ''Authorization'' = bearer @ key \<longrightarrow>
      \<not> key_known w (he_sha256 h key)" by (auto simp: credentialed_def)
  from Auth_unknown [OF this, of "dl_env D"] assms(1) V1 show ?thesis by (auto simp: NewRouter_def)
qed (use assms in \<open>auto simp: NewRouter_def credentialed_def SweepTokenAuth_def sweepH_HandleSweep_def
       sweepH_def\<close>)

section \<open>Other tenants' customers\<close>

definition foreign :: "'e pg_env \<Rightarrow> 'e pg \<Rightarrow> string \<Rightarrow> string \<Rightarrow> bool" where
  "foreign e w tenantID customerID =
     (case pg_customer_row e customerID w of
        None \<Rightarrow> True | Some c \<Rightarrow> pe_uuid e tenantID \<noteq> Some (Cust_TenantID c))"

lemma serverErr_pg [simp]:
  "serverErr (pg_error s) = InternalServerError ''internal server error''"
  "serverErr (Wrap m err) = InternalServerError ''internal server error''"
  by (simp_all add: serverErr_def pg_error_def)

lemma foreign_get:
  assumes "foreign e w t c"
  shows "pg_GetCustomer e t c w =
      (if pe_fault e ''get customer'' [c, t] w \<or> pe_uuid e c = None \<or> pe_uuid e t = None
       then Inl (pg_error ''get customer'') else Inr None)"
proof -
  from assms have "(case pg_customer_row e c w of None \<Rightarrow> None
      | Some x \<Rightarrow> if pe_uuid e t = Some (Cust_TenantID x) then Some x else None) = None"
    by (auto simp: foreign_def split: option.splits)
  then show ?thesis by (simp add: pg_GetCustomer_def scanCustomer_def pg_row_def)
qed

lemma foreign_twice:
  assumes "foreign e w t c" and "foreign e w' t c"
    and "pe_fault e ''get customer'' [c, t] w = pe_fault e ''get customer'' [c, t] w'"
  obtains (gone) "pg_GetCustomer e t c w = Inr None" "pg_GetCustomer e t c w' = Inr None"
    | (failed) s where "pg_GetCustomer e t c w = Inl (pg_error s)" "pg_GetCustomer e t c w' = Inl (pg_error s)"
  using that foreign_get [OF assms(1)] foreign_get [OF assms(2)] assms(3) by metis

lemma pg_error_kinds [simp]:
  "as_state (pg_error s) = None" "as_not_found (pg_error s) = None" "as_validation (pg_error s) = None"
  "pg_error s \<noteq> Panic m"
  by (simp_all add: pg_error_def)

text \<open>The lookup of the customer fails: the database does, or one of the identifiers is no UUID.\<close>

definition lookup_fails :: "'e pg_env \<Rightarrow> 'e pg \<Rightarrow> string \<Rightarrow> string \<Rightarrow> bool" where
  "lookup_fails e w tenantID customerID \<longleftrightarrow> pe_fault e ''get customer'' [customerID, tenantID] w \<or>
     pe_uuid e customerID = None \<or> pe_uuid e tenantID = None"

text \<open>The collection is of a customer of the tenant.\<close>

definition own_collection :: "'e pg_env \<Rightarrow> 'e pg \<Rightarrow> string \<Rightarrow> string \<Rightarrow> bool" where
  "own_collection e w tenantID collectionID \<longleftrightarrow>
     (\<exists>col cust. fmlookup (pg_collections w) collectionID = Some col \<and>
        pg_customer_row e (Col_CustomerID col) w = Some cust \<and> Cust_TenantID cust = tenantID)"

text \<open>
  Requests whose body the handlers accept before they look at the customer, and among them those
  that ask for a change of the status of the account.
\<close>

definition well_formed :: "v1_route \<Rightarrow> request \<Rightarrow> bool" where
  "well_formed x r =
     (case x of
        V_UpdateKYCTier \<Rightarrow> (case decodeJSON decode_update_kyc r of
            None \<Rightarrow> False | Some tier \<Rightarrow> 1 \<le> tier \<and> tier \<le> 3)
      | V_PatchVA \<Rightarrow> (case decodeJSON decode_patch_va r of
            None \<Rightarrow> False
          | Some q \<Rightarrow> PVA_AccountName q \<noteq> None \<or> PVA_Status q \<in> {''SUSPENDED'', ''ACTIVE''})
      | V_InitiateWithdrawal \<Rightarrow> (case decodeJSON (decode_withdrawal '''' '''') r of
            None \<Rightarrow> False | Some q \<Rightarrow> validate_request q = None)
      | V_CreateCollection \<Rightarrow> (case decodeJSON (decode_collection '''' '''') r of
            None \<Rightarrow> False | Some q \<Rightarrow> CCR_Reference q \<noteq> '''')
      | _ \<Rightarrow> True)"

definition changes_status :: "v1_route \<Rightarrow> request \<Rightarrow> bool" where
  "changes_status x r =
     (case x of
        V_DeleteVA \<Rightarrow> True
      | V_PatchVA \<Rightarrow> (case decodeJSON decode_patch_va r of
            None \<Rightarrow> False | Some q \<Rightarrow> PVA_AccountName q = None)
      | _ \<Rightarrow> False)"

definition form_error :: "outcome \<Rightarrow> bool" where
  "form_error out \<longleftrightarrow> (\<exists>d. out = BadRequest d) \<or> (\<exists>ty d. out = UnprocessableEntity ty d)"

lemma form_error_simps [simp]: "form_error (BadRequest d)" "form_error (UnprocessableEntity ty d)"
  by (auto simp: form_error_def)

text \<open>What a tenant is answered about a customer that is not its own, on a route that looks.\<close>

definition denied :: "v1_route \<Rightarrow> request \<Rightarrow> bool \<Rightarrow> outcome \<Rightarrow> bool" where
  "denied x r fails out =
     (if \<not> well_formed x r then form_error out
      else if fails then out = InternalServerError ''internal server error'' \<or> (\<exists>d. out = NotFound d)
      else if changes_status x r then out = no_content 204
      else \<exists>d. out = NotFound d)"

lemmas guard_defs = customerH_UpdateKYCTier_def vaH_ProvisionVA_def vaH_GetVA_def vaH_PatchVA_def
  vaH_DeleteVA_def txnH_ListTransactions_def txnH_GetStatement_def txnH_GetBalance_def
  withdrawalH_Initiate_def collectionH_Create_def with_customer_def UpdateKYCTier_def ProvisionVA_def
  GetVA_def RenameVA_def SuspendVA_def UnsuspendVA_def CloseVA_def mustGetActiveVA_def
  lifecycle_result_def handleLifecycleError_def service_error_def handler_defs

abbreviation below_customer :: "v1_route \<Rightarrow> bool" where
  "below_customer x \<equiv> \<exists>m p. (m, customer_path p, x) \<in> set v1_routes"

abbreviation unscoped :: "v1_route list" where
  "unscoped \<equiv> [V_ListWithdrawals, V_ListCollections, V_GetCollection]"

lemma customer_routes:
  assumes "below_customer x"
  shows "x \<in> {V_UpdateKYCTier, V_ProvisionVA, V_GetVA, V_PatchVA, V_DeleteVA,
     V_ListTransactions, V_GetStatement, V_GetBalance, V_InitiateWithdrawal, V_ListWithdrawals,
     V_CreateCollection, V_ListCollections, V_GetCollection, V_CancelCollection}" (is "_ \<in> ?routes")
proof -
  have "\<forall>(m, p, x)\<in>set v1_routes. take 3 p = customer_path [] \<longrightarrow> x \<in> ?routes"
    by (simp add: v1_routes_def customer_path_def)
  moreover from assms obtain m p where "(m, customer_path p, x) \<in> set v1_routes" by blast
  ultimately show ?thesis by (fastforce simp: customer_path_def)
qed

lemmas denied_defs = denied_def well_formed_def changes_status_def guard_defs pg_wiring pg_service_defs
  pg_stores Let_def decodeJSON_def

abbreviation unseen :: "'e deployment \<Rightarrow> request \<Rightarrow> request_context \<Rightarrow> 'e pg \<Rightarrow> bool \<Rightarrow> string \<Rightarrow> bool" where
  "unseen D r c w fails s \<equiv>
     pg_GetCustomer (dl_env D) (Tenant_ID (Ctx_Tenant c)) (URLParam r ''customerID'') w =
       (if fails then Inl (pg_error s) else Inr None)"

abbreviation denied_in_both :: "http_env \<Rightarrow> 'e deployment \<Rightarrow> v1_route \<Rightarrow> request \<Rightarrow> request_context \<Rightarrow> 'e pg
    \<Rightarrow> 'e pg \<Rightarrow> bool \<Rightarrow> bool" where
  "denied_in_both h D x r c w w' fails \<equiv> \<exists>out. serve_v1 h (pg_dependencies D) x r c w = (out, w) \<and>
     serve_v1 h (pg_dependencies D) x r c w' = (out, w') \<and> denied x r fails out"

lemma denied_reads:
  assumes "unseen D r c w fails s" and "unseen D r c w' fails s" and "x \<in> {V_GetVA, V_ListTransactions, V_GetStatement, V_GetBalance}"
  shows "denied_in_both h D x r c w w' fails"
  using assms by (auto simp: denied_defs split: if_splits)

lemma denied_va:
  assumes "unseen D r c w fails s" and "unseen D r c w' fails s" and "x \<in> {V_ProvisionVA, V_DeleteVA}"
  shows "denied_in_both h D x r c w w' fails"
  using assms by (auto simp: denied_defs split: if_splits)

lemma denied_kyc:
  assumes "unseen D r c w fails s" and "unseen D r c w' fails s"
  shows "denied_in_both h D V_UpdateKYCTier r c w w' fails"
  using assms by (auto simp: denied_defs split: if_splits option.splits)

lemma denied_patch:
  assumes "unseen D r c w fails s" and "unseen D r c w' fails s"
  shows "denied_in_both h D V_PatchVA r c w w' fails"
  using assms by (auto simp: denied_defs split: if_splits option.splits)

lemma denied_withdrawal:
  assumes "unseen D r c w fails s" and "unseen D r c w' fails s"
  shows "denied_in_both h D V_InitiateWithdrawal r c w w' fails"
  using assms by (cases fails) (auto simp: denied_defs decode_withdrawal_def Initiate_def validate_request_def split: bind_splits)

lemma decode_collection_ids:
  "decodeJSON (decode_collection a b) r =
     map_option (\<lambda>q. q\<lparr>CCR_CustomerID := a, CCR_TenantID := b\<rparr>) (decodeJSON (decode_collection '''' '''') r)"
  by (auto simp: decodeJSON_def decode_collection_def split: bind_splits)

lemma denied_collection:
  assumes "unseen D r c w fails s" and "unseen D r c w' fails s"
  shows "denied_in_both h D V_CreateCollection r c w w' fails"
proof (cases "decodeJSON (decode_collection '''' '''') r")
  case (Some q)
  with assms show ?thesis
    by (cases "CCR_Reference q = ''''"; cases fails)
      (auto simp: denied_def well_formed_def changes_status_def collectionH_Create_def pg_wiring pg_stores
        service_error_def Collection_Create_def
        decode_collection_ids [of "URLParam r ''customerID''" "Tenant_ID (Ctx_Tenant c)"])
qed (auto simp: denied_def well_formed_def collectionH_Create_def
    decode_collection_ids [of "URLParam r ''customerID''" "Tenant_ID (Ctx_Tenant c)"])

lemma denied_checked:
  assumes "below_customer x" and "x \<notin> set unscoped" and "x \<noteq> V_CancelCollection"
    and "unseen D r c w fails s" and "unseen D r c w' fails s"
  shows "denied_in_both h D x r c w w' fails"
  using customer_routes [OF assms(1)] assms(2,3)
    denied_reads [OF assms(4,5), of x h] denied_va [OF assms(4,5), of x h] denied_kyc [OF assms(4,5), of h]
    denied_patch [OF assms(4,5), of h] denied_withdrawal [OF assms(4,5), of h]
    denied_collection [OF assms(4,5), of h]
  by (elim insertE emptyE) (simp_all del: serve_v1.simps)

lemma cancel_denied:
  assumes "\<not> own_collection (dl_env D) w (Tenant_ID (Ctx_Tenant c)) (URLParam r ''collectionID'')"
  shows "\<exists>out. serve_v1 h (pg_dependencies D) V_CancelCollection r c w = (out, w) \<and>
    ((\<exists>d. out = NotFound d) \<or> (\<exists>ty d. out = UnprocessableEntity ty d))"
  using assms
  by (auto simp: collectionH_Cancel_def Collection_Cancel_def pg_wiring pg_stores pg_GetCollection_def
      pg_GetCustomerByID_def scanCustomer_def pg_row_def wrap_err_def own_collection_def joined_collection_def
      service_error_def split: option.splits sum.splits if_splits)

text \<open>
  C7: FR-1.3, isolation of tenants, on every route of the API below a customer, for a key of a tenant
  that does not own the customer. (1) The routes that look at the owner change nothing. A request with a valid
  body is answered 404, or 500 where the lookup itself fails; but the change of an account's status (a DELETE, a PATCH
  with a status) is answered 204, as if it had been done, where the README promises 404. And the
  reply is the same in any two databases in which the customer is not the tenant's (and in which
  the lookup fails alike): in one that holds another tenant's customer and in one that holds none. So it
  does not even tell whether the customer exists. (2) A collection is cancelled only for the tenant of its own customer;
  otherwise the request changes nothing and is refused. (3) The listing of withdrawals, the listing of
  collections and the route of one collection do not look: they give every tenant the reply that they
  give the owner.
\<close>

theorem tenant_isolation:
  assumes "(m, customer_path p, x) \<in> set v1_routes"
    and "foreign (dl_env D) w (Tenant_ID (Ctx_Tenant c)) (URLParam r ''customerID'')"
    and "foreign (dl_env D) w' (Tenant_ID (Ctx_Tenant c)) (URLParam r ''customerID'')"
    and "pe_fault (dl_env D) ''get customer'' [URLParam r ''customerID'', Tenant_ID (Ctx_Tenant c)] w
       = pe_fault (dl_env D) ''get customer'' [URLParam r ''customerID'', Tenant_ID (Ctx_Tenant c)] w'"
  shows "if x \<in> {V_ListWithdrawals, V_ListCollections, V_GetCollection}
    then \<exists>out. \<forall>owner. serve_v1 h (pg_dependencies D) x r owner w = (out, w)
    else if x = V_CancelCollection
    then own_collection (dl_env D) w (Tenant_ID (Ctx_Tenant c)) (URLParam r ''collectionID'') \<or>
      (\<exists>out. serve_v1 h (pg_dependencies D) x r c w = (out, w) \<and>
        ((\<exists>d. out = NotFound d) \<or> (\<exists>ty d. out = UnprocessableEntity ty d)))
    else \<exists>out. serve_v1 h (pg_dependencies D) x r c w = (out, w) \<and>
      serve_v1 h (pg_dependencies D) x r c w' = (out, w') \<and>
      denied x r (lookup_fails (dl_env D) w (Tenant_ID (Ctx_Tenant c)) (URLParam r ''customerID'')) out"
proof (cases "x \<in> set unscoped \<or> x = V_CancelCollection")
  case True
  then show ?thesis using cancel_denied [of D w c r h] by auto
next
  case False
  have "unseen D r c w (lookup_fails (dl_env D) w (Tenant_ID (Ctx_Tenant c)) (URLParam r ''customerID'')) ''get customer''"
    using foreign_get [OF assms(2)] by (simp add: lookup_fails_def)
  moreover have "unseen D r c w' (lookup_fails (dl_env D) w (Tenant_ID (Ctx_Tenant c)) (URLParam r ''customerID'')) ''get customer''"
    using foreign_get [OF assms(3)] assms(4) by (simp add: lookup_fails_def)
  moreover have "below_customer x" using assms(1) by blast
  ultimately show ?thesis using False denied_checked [where h = h and x = x] by auto
qed

theorem no_credential_no_access_witness:
  "\<exists>detail. NewRouter demo_http (pg_dependencies demo_deployment) ''GET'' [''v1'', ''audit'']
     (demo_request ''Bearer none'' JNull) (pg_init ()) = Some (Unauthorized detail, pg_init ())"
proof (rule no_credential_no_access)
  show "route ''GET'' [''v1'', ''audit''] = Some (V1 V_ListAuditEntries, [])"
    by (simp add: route_def routes_def v1_routes_def internal_routes_def customer_path_def)
  show "\<not> credentialed demo_http demo_deployment (V1 V_ListAuditEntries) (demo_request ''Bearer none'' JNull)
      (pg_init ())" by (simp add: credentialed_def key_known_def pg_init_def)
qed

section \<open>Two tenants\<close>

text \<open>
  A database with two tenants. The customer \<open>c1\<close> is of the first; \<open>c2\<close>, of the second, has a suspended
  account, and a credit of 500 kobo for it waits in suspense.
\<close>

definition other_customer :: customer where
  "other_customer = demo_customer\<lparr>Cust_ID := ''c2'', Cust_TenantID := ''t2''\<rparr>"

definition other_account :: virtual_account where
  "other_account = \<lparr>VA_ID = ''v2'', VA_CustomerID = ''c2'', VA_NombaAccountRef = ''r2'', VA_NUBAN = ''0000000002'',
     VA_BankName = '''', VA_AccountName = '''', VA_NombaHolderID = '''', VA_Status = VAStatusSuspended,
     VA_CreatedAt = 0, VA_UpdatedAt = 0, VA_CustomerDisplayName = '''', VA_TenantName = ''''\<rparr>"

definition first_tenant :: tenant where
  "first_tenant = \<lparr>Tenant_ID = ''t1'', Tenant_Name = ''One'', Tenant_CreatedAt = 0\<rparr>"

definition first_key :: api_key where
  "first_key = \<lparr>Key_ID = ''k1'', Key_TenantID = ''t1'', Key_RawKey = '''', Key_KeyHash = ''vn_one'',
     Key_KeyPrefix = ''vn_one'', Key_Active = True, Key_CreatedAt = 0\<rparr>"

definition two_tenants :: "unit pg" where
  "two_tenants = demo_db\<lparr>pg_tenants := fmupd ''t1'' first_tenant fmempty, pg_keys := fmupd ''k1'' first_key fmempty,
     pg_customers := fmupd ''c2'' other_customer (pg_customers demo_db),
     pg_identities := fmupd ''c2'' (the (Cust_Identity demo_customer)) (pg_identities demo_db),
     pg_vas := fmupd ''v2'' other_account fmempty,
     pg_txns := fmupd ''t1'' (demo_held\<lparr>Tx_VirtualAccountID := Some ''v2''\<rparr>) fmempty\<rparr>"

lemma two_tenants_foreign:
  "foreign demo_env two_tenants ''t1'' ''c2''" "foreign demo_env (pg_init ()) ''t1'' ''c2''"
  "\<not> foreign demo_env two_tenants ''t2'' ''c2''"
  by (simp_all add: foreign_def pg_customer_row_def demo_env_def two_tenants_def other_customer_def pg_init_def)

definition first_context :: request_context where
  "first_context = \<lparr>Ctx_Tenant = first_tenant, Ctx_APIKey = Some first_key\<rparr>"

abbreviation other_request :: request where
  "other_request \<equiv> demo_request '''' JNull\<lparr>Req_Params := [(''customerID'', ''c2'')]\<rparr>"

lemma v1_route_entries:
  "(''GET'', customer_path [Lit ''balance''], V_GetBalance) \<in> set v1_routes"
  "(''DELETE'', customer_path [Lit ''virtual-account''], V_DeleteVA) \<in> set v1_routes"
  "(''GET'', customer_path [Lit ''withdrawals''], V_ListWithdrawals) \<in> set v1_routes"
  by (simp_all add: v1_routes_def)

lemma other_request_lookup:
  "URLParam other_request ''customerID'' = ''c2''" "Tenant_ID (Ctx_Tenant first_context) = ''t1''"
  "dl_env demo_deployment = demo_env" "\<not> lookup_fails demo_env two_tenants ''t1'' ''c2''"
  by (simp_all add: lookup_str_def demo_deployment_def first_context_def first_tenant_def demo_env_def lookup_fails_def)

lemma other_request_foreign:
  "foreign (dl_env demo_deployment) two_tenants (Tenant_ID (Ctx_Tenant first_context)) (URLParam other_request ''customerID'')"
  "foreign (dl_env demo_deployment) (pg_init ()) (Tenant_ID (Ctx_Tenant first_context)) (URLParam other_request ''customerID'')"
  "pe_fault (dl_env demo_deployment) s a two_tenants = pe_fault (dl_env demo_deployment) s a (pg_init ())"
  unfolding other_request_lookup by (rule two_tenants_foreign)+ (simp add: demo_env_def)

theorem tenant_isolation_witness:
  "(\<exists>d. serve_v1 demo_http (pg_dependencies demo_deployment) V_GetBalance other_request first_context two_tenants
       = (NotFound d, two_tenants) \<and>
     serve_v1 demo_http (pg_dependencies demo_deployment) V_GetBalance other_request first_context (pg_init ())
       = (NotFound d, pg_init ())) \<and>
   serve_v1 demo_http (pg_dependencies demo_deployment) V_DeleteVA other_request first_context two_tenants
     = (no_content 204, two_tenants) \<and>
   (\<exists>out. \<forall>owner. serve_v1 demo_http (pg_dependencies demo_deployment) V_ListWithdrawals other_request owner two_tenants
     = (out, two_tenants))"
proof (intro conjI)
  note at = tenant_isolation [where h = demo_http, OF _ other_request_foreign]
  show "\<exists>d. serve_v1 demo_http (pg_dependencies demo_deployment) V_GetBalance other_request first_context two_tenants
       = (NotFound d, two_tenants) \<and>
     serve_v1 demo_http (pg_dependencies demo_deployment) V_GetBalance other_request first_context (pg_init ())
       = (NotFound d, pg_init ())"
    using at [OF v1_route_entries(1)] other_request_lookup(4)
    by (auto simp: denied_def well_formed_def changes_status_def other_request_lookup(1-3) lookup_str_def split: if_splits simp del: serve_v1.simps)
  show "serve_v1 demo_http (pg_dependencies demo_deployment) V_DeleteVA other_request first_context two_tenants
     = (no_content 204, two_tenants)"
    using at [OF v1_route_entries(2)] other_request_lookup(4)
    by (auto simp: denied_def well_formed_def changes_status_def other_request_lookup(1-3) lookup_str_def split: if_splits simp del: serve_v1.simps)
  show "\<exists>out. \<forall>owner. serve_v1 demo_http (pg_dependencies demo_deployment) V_ListWithdrawals other_request owner two_tenants
     = (out, two_tenants)"
    using at [OF v1_route_entries(3)] by (simp del: serve_v1.simps)
qed

lemma first_key_found: "pg_GetTenantByAPIKey demo_env ''vn_one'' two_tenants =
    Inr (Some first_tenant, Some first_key)"
  by (simp add: pg_GetTenantByAPIKey_def demo_env_def two_tenants_def first_key_def first_tenant_def
      range_vals_def range_keys_def Let_def)

definition take_body :: json where
  "take_body = JObj [(''resolution'', JStr ''reassign''), (''target_customer_id'', JStr ''c1''),
     (''notes'', JStr '''')]"

definition take_request :: resolve_request where
  "take_request = \<lparr>RR_Resolution = ''reassign'', RR_TargetCustomerID = ''c1'', RR_Notes = '''',
     RR_Actor = ''key:vn_one'', RR_TenantID = ''t1''\<rparr>"

lemma take_resolves:
  "\<exists>w. Resolve (pg_suspense_service demo_env) (\<lambda>k. 5000) ''i1'' take_request two_tenants = (None, w)"
  by (simp add: Resolve_def resolveByReassign_def pg_suspense_service_def pg_stores pg_GetCustomer_def
      pg_GetSuspenseItem_def demo_suspended_def
      scanCustomer_def pg_row_def pg_customer_row_def wrap_err_def pg_GetTransaction_def
      pg_PostTransaction_def assertBalanced_def txn_row_def uuid_opt_def va_exists_def entry_ok_def
      SuspenseToCustomer_def reassign_finish_def pg_ResolveSuspenseItem_def resolution_tx_def
      pg_GetActiveVA_def pg_find_va_def range_vals_def range_keys_def Let_def resolutionTxID_def
      two_tenants_def other_customer_def other_account_def
      demo_db_def take_request_def demo_held_def demo_customer_def demo_defs)

lemma take_moves:
  assumes "Resolve (pg_suspense_service demo_env) (\<lambda>k. 5000) ''i1'' take_request two_tenants = (None, w)"
  shows "exact_balance (CustomerWalletAccount ''c1'') (pg_entries w) = 1200"
    and "exact_balance AccountSuspense (pg_entries w) = 0"
proof -
  have req: "RR_Resolution take_request = ''reassign''" "RR_TargetCustomerID take_request = ''c1''"
    by (simp_all add: take_request_def)
  have "ss_GetSuspenseItem (sp_suspense (pg_suspense_service demo_env)) ''i1'' two_tenants = Inr (Some demo_suspended)"
    by (simp add: pg_suspense_service_def pg_stores pg_GetSuspenseItem_def pg_row_def wrap_err_def
        demo_env_def two_tenants_def demo_db_def)
  with assms req have r: "resolveByReassign (pg_suspense_service demo_env) (\<lambda>k. 5000) demo_suspended take_request
      two_tenants = (None, w)" by (simp add: Resolve_def split: if_splits)
  have t: "SI_TransactionID demo_suspended = ''t1''" "SI_ID demo_suspended = ''i1''"
    "fmlookup (pg_txns two_tenants) ''t1'' = Some (demo_held\<lparr>Tx_VirtualAccountID := Some ''v2''\<rparr>)"
    "fmlookup (pg_txns two_tenants) (resolutionTxID ''i1'') = None"
    "Tx_AmountKobo demo_held = 500" "pg_entries two_tenants = pg_entries demo_db"
    by (simp_all add: demo_suspended_def two_tenants_def resolutionTxID_def demo_held_def)
  from r show "exact_balance (CustomerWalletAccount ''c1'') (pg_entries w) = 1200"
    by (rule reassign_moves) (use t req in \<open>simp_all add: demo_db_def two_entries_balance\<close>)
  from r show "exact_balance AccountSuspense (pg_entries w) = 0"
    by (rule reassign_moves) (use t req in \<open>simp_all add: demo_db_def two_entries_balance\<close>)
qed

text \<open>
  C26: The resolution of suspense items is not isolated. With its own key the first tenant asks for the
  item of a credit that was paid into the account of a customer of the second tenant, whom it does
  not even see, and has the money moved to the wallet of its own customer: \<open>ResolveSuspense\<close> checks
  whose customer the target is, but not whose account the credit was for.
\<close>

theorem foreign_suspense_taken:
  "SI_TransactionID demo_suspended = ''t1'' \<and>
   fmlookup (pg_txns two_tenants) ''t1'' = Some (demo_held\<lparr>Tx_VirtualAccountID := Some ''v2''\<rparr>) \<and>
   fmlookup (pg_vas two_tenants) ''v2'' = Some other_account \<and>
   foreign demo_env two_tenants ''t1'' (VA_CustomerID other_account) \<and>
   \<not> foreign demo_env two_tenants ''t2'' (VA_CustomerID other_account) \<and>
   exact_balance (CustomerWalletAccount ''c1'') (pg_entries two_tenants) = 700 \<and>
   (\<exists>w. NewRouter demo_http (pg_dependencies demo_deployment) ''PATCH'' [''v1'', ''suspense'', ''i1'']
          (demo_request ''Bearer vn_one'' take_body) two_tenants
        = Some (writeJSON 200 (JObj [(''status'', JStr ''resolved'')]), w) \<and>
      exact_balance (CustomerWalletAccount ''c1'') (pg_entries w) = 1200 \<and>
      exact_balance AccountSuspense (pg_entries w) = 0)"
proof -
  obtain w where r: "Resolve (pg_suspense_service demo_env) (\<lambda>k. 5000) ''i1'' take_request two_tenants = (None, w)"
    using take_resolves by blast
  have route: "route ''PATCH'' [''v1'', ''suspense'', ''i1''] = Some (V1 V_ResolveSuspense, [(''itemID'', ''i1'')])"
    by (simp add: route_def routes_def v1_routes_def internal_routes_def customer_path_def)
  have dec: "decode_resolve (actorFromContext first_context) (Tenant_ID first_tenant) take_body = Some take_request"
    by code_simp
  have served: "serve_v1 demo_http (pg_dependencies demo_deployment) V_ResolveSuspense
      (demo_request ''Bearer vn_one'' take_body\<lparr>Req_Params := [(''itemID'', ''i1'')]\<rparr>) first_context two_tenants
    = (writeJSON 200 (JObj [(''status'', JStr ''resolved'')]), w)"
    using dec r by (simp add: suspenseH_ResolveSuspense_def decodeJSON_def demo_request_def lookup_str_def
        demo_deployment_def demo_http_def first_context_def)
  have "NewRouter demo_http (pg_dependencies demo_deployment) ''PATCH'' [''v1'', ''suspense'', ''i1'']
          (demo_request ''Bearer vn_one'' take_body) two_tenants
        = Some (writeJSON 200 (JObj [(''status'', JStr ''resolved'')]), w)"
    using first_key_found served
    by (simp add: NewRouter_def route Auth_def demo_request_def lookup_str_def bearer_def hashAPIKey_def
        pg_tenant_store_def demo_deployment_def demo_http_def first_context_def idempotent_def idem_begin_def)
  moreover have "exact_balance (CustomerWalletAccount ''c1'') (pg_entries two_tenants) = 700"
    by (simp add: two_tenants_def demo_db_def two_entries_balance)
  moreover have "VA_CustomerID other_account = ''c2''" "fmlookup (pg_vas two_tenants) ''v2'' = Some other_account"
    "fmlookup (pg_txns two_tenants) ''t1'' = Some (demo_held\<lparr>Tx_VirtualAccountID := Some ''v2''\<rparr>)"
    by (simp_all add: other_account_def two_tenants_def)
  ultimately show ?thesis
    using take_moves [OF r] two_tenants_foreign by (simp add: demo_suspended_def)
qed

end
