(* ===== verification/Lifetime.thy ===== *)
theory Lifetime
  imports Boot Access
begin

text \<open>
  The life of an installation: starts that succeed or end with an error, at any moment and with any
  environment, and while a server is up its requests, the iterations of its worker, the goroutines of
  its relay and moves of the outside world, in any order. A restart forgets the memory of the process
  (queue, limits, relay goroutines) and keeps the database.
\<close>

section \<open>Steps\<close>

inductive life :: "'e surroundings \<Rightarrow> 'e deployment option \<times> 'e pg \<Rightarrow> 'e deployment option \<times> 'e pg \<Rightarrow> bool"
  for S where
  l_start: "main env h S w = (Inr D, w') \<Longrightarrow> life S (x, w) (Some D, w')"
| l_exit: "main env h S w = (Inl err, w') \<Longrightarrow> life S (x, w) (None, w')"
| l_request: "NewRouter h (pg_dependencies D) meth path r w = Some (out, w') \<Longrightarrow>
    life S (Some D, w) (Some D, w')"
| l_worker: "life S (Some D, w) (Some D, pg_worker_step (dl_env D) now w)"
| l_relay: "life S (Some D, w) (Some D, pg_run_job (dl_env D) hmac http now k w)"
| l_outside: "life S (x, w) (x, w\<lparr>pg_remote := outside\<rparr>)"

lemma dl_steps_ledger: "dl_steps D w w' \<Longrightarrow> ledger_steps (pg_view w) (pg_view w')"
  unfolding dl_steps_def by (rule pg_steps_ledger)

lemma life_ledger:
  "life S a b \<Longrightarrow> ledger_steps (pg_view (snd a)) (pg_view (snd b))"
proof (induction rule: life.induct)
  case (l_start env h w D w' x)
  from dl_steps_ledger [OF main_run [OF l_start]] show ?case by (simp add: fresh_def)
next
  case (l_exit env h w err w' x)
  from main_exit [OF l_exit] show ?case by simp
next
  case (l_request h D meth path r w out w')
  from dl_steps_ledger [OF router_run [OF l_request]] show ?case by simp
next
  case (l_worker D w now)
  have "dl_steps D w (pg_worker_step (dl_env D) now w)" by (rule dl_step) (rule pg_step.p_worker)
  from dl_steps_ledger [OF this] show ?case by simp
next
  case (l_relay D w hmac http now k)
  have "dl_steps D w (pg_run_job (dl_env D) hmac http now k w)" by (rule dl_step) (rule pg_step.p_relay_job)
  from dl_steps_ledger [OF this] show ?case by simp
qed simp

lemma lives_ledger: "(life S)\<^sup>*\<^sup>* a b \<Longrightarrow> ledger_steps (pg_view (snd a)) (pg_view (snd b))"
  by (induction rule: rtranclp_induct) (auto intro: ledger_steps_trans life_ledger)

section \<open>The dashboard\<close>

lemma health_sums:
  assumes "pg_GetPlatformHealth e coll now w = Inr p" and "total_debits (pg_entries w) = total_credits (pg_entries w)"
  shows "LH_Balanced (PH_Ledger p) \<and> sint (LH_DebitsKobo (PH_Ledger p)) = total_debits (pg_entries w) \<and>
    sint (LH_CreditsKobo (PH_Ledger p)) = total_credits (pg_entries w)"
  using assms
  by (auto simp: pg_GetPlatformHealth_def health_ledger_def Let_def sint_of_int_fits
      split: sum.splits if_splits)

text \<open>
  C4: The admin dashboard says that the books balance, and it is right. After any life of an
  installation that began with an empty ledger (starts, failed starts, crashes, requests, background
  work), the health page is the internal error or reports a balanced ledger, and the sums it shows
  are the exact debits and credits.
\<close>

theorem dashboard_balanced:
  assumes "(life S)\<^sup>*\<^sup>* (x, w\<^sub>0) (Some D, w)" and "pg_view w\<^sub>0 = (fmempty, [])"
    and "header_get r ''Authorization'' = bearer @ dl_token D"
  shows "\<exists>out. NewRouter h (pg_dependencies D) ''GET'' [''internal'', ''health''] r w = Some (out, w) \<and>
    ((\<exists>err. out = serverErr err) \<or>
     (\<exists>p. out = writeJSON 200 (platform_health_json p) \<and> LH_Balanced (PH_Ledger p) \<and>
        sint (LH_DebitsKobo (PH_Ledger p)) = total_debits (pg_entries w) \<and>
        sint (LH_CreditsKobo (PH_Ledger p)) = total_credits (pg_entries w)))"
proof -
  have "ledger_inv (pg_txns w) (pg_entries w)"
    using ledger_steps_inv [OF lives_ledger [OF assms(1)]] assms(2) by simp
  then have bal: "total_debits (pg_entries w) = total_credits (pg_entries w)" by (simp add: ledger_inv_def)
  have "route ''GET'' [''internal'', ''health''] = Some (Internal I_GetPlatformHealth, [])"
    by (simp add: route_def routes_def v1_routes_def internal_routes_def customer_path_def)
  then have run: "NewRouter h (pg_dependencies D) ''GET'' [''internal'', ''health''] r w =
      Some (healthH_GetPlatformHealth h (healthH (pg_dependencies D)) w, w)"
    using assms(3) by (simp add: NewRouter_def SweepTokenAuth_def)
  show ?thesis
  proof (cases "pg_GetPlatformHealth (dl_env D) (dl_collation D) (he_now h 0) w")
    case (Inl err)
    with run show ?thesis
      by (auto simp: healthH_GetPlatformHealth_def healthH_def pg_platform_health_store_def)
  next
    case (Inr p)
    with run health_sums [OF Inr bal] show ?thesis
      by (auto simp: healthH_GetPlatformHealth_def healthH_def pg_platform_health_store_def)
  qed
qed

theorem dashboard_balanced_witness:
  "\<exists>D w out. main demo_variables demo_http demo_surroundings (pg_init ()) = (Inr D, w) \<and>
     NewRouter demo_http (pg_dependencies D) ''GET'' [''internal'', ''health''] (demo_request ''Bearer cron'' JNull) w
       = Some (out, w) \<and>
     ((\<exists>err. out = serverErr err) \<or> (\<exists>p. out = writeJSON 200 (platform_health_json p) \<and> LH_Balanced (PH_Ledger p)))"
proof -
  obtain D w where run: "main demo_variables demo_http demo_surroundings (pg_init ()) = (Inr D, w)"
    and tok: "dl_token D = ''cron''" using demo_boot by blast
  from run have "(life demo_surroundings)\<^sup>*\<^sup>* (None, pg_init ()) (Some D, w)"
    by (intro r_into_rtranclp life.l_start)
  from dashboard_balanced [OF this, of "demo_request ''Bearer cron'' JNull" demo_http] run tok
  show ?thesis by (fastforce simp: pg_init_def demo_request_def lookup_str_def bearer_def)
qed

section \<open>What a restart forgets\<close>

abbreviation inbox :: "'e pg \<Rightarrow> (string, webhook_event) fmap \<times> work_item list" where
  "inbox w \<equiv> (pg_events w, rt_queue (pg_rt w))"

lemma inbox_stores [simp]:
  "leaves inbox (pg_CreateTenant e t i)" "leaves inbox (pg_CreateAPIKey e i x h k)"
  "leaves inbox (pg_SeedCredential e t c)" "leaves inbox (pg_SeedSetting e t i raw)"
  "leaves inbox (pg_CreateCustomer e t i x dn ident)" "leaves inbox (pg_Append e t a)"
  by (simp_all add: leaves_def pg_CreateTenant_def pg_CreateAPIKey_def pg_SeedCredential_def pg_SeedSetting_def
      pg_CreateCustomer_def pg_Append_def pg_split)

lemma inbox_customer [simp]: "leaves inbox (CreateCustomer (pg_customer_service e) nows t x dn ident actor)"
  by (rule CreateCustomer_leaves) (simp_all add: pg_customer_service_def pg_customer_store_def pg_audit_store_def)

lemma inbox_credential: "inbox (seedCredential h n (pg_auth_store e) cred password w) = inbox w"
  using leavesD [OF inbox_stores(3)] by (auto simp: seedCredential_def pg_auth_store_def split: sum.split)

lemma inbox_customers: "inbox (seed_customers h (pg_customer_service e) tid n ds w) = inbox w"
proof (induction ds arbitrary: n w)
  case (Cons d ds)
  obtain ref name identity where d: "d = (ref, name, identity)" by (metis surj_pair)
  show ?case unfolding d seed_customers.simps Cons.IH by (rule leavesD [OF inbox_customer])
qed simp

lemma inbox_seed: "inbox (seedDemoData h (pg_auth_store e) (pg_tenant_store e) (pg_customer_service e) w) = inbox w"
proof -
  have users: "inbox (seed_users h (pg_auth_store e) (pg_customer_service e) tid v) = inbox v" for tid v
    unfolding seed_users_def Let_def inbox_customers inbox_credential ..
  have "inbox (seed_tenant h (pg_auth_store e) (pg_tenant_store e) (pg_customer_service e) v) = inbox v" for v
    by (auto simp: seed_tenant_def pg_tenant_store_def users [simplified] dest!: leaves_pair [OF inbox_stores(1)]
        leaves_pair [OF inbox_stores(2)] split: sum.split prod.split option.split)
  then show ?thesis
    using inbox_credential [of h 0 e] by (simp add: seedDemoData_def Let_def split: sum.split prod.split option.split)
qed

lemma main_inbox:
  assumes "main env h S w = (Inr D, w')"
  shows "inbox w' = (pg_events w, [])"
proof -
  from main_up [OF assms] obtain cfg rdb u v where
    m: "on_remote (RunMigrations (su_pool S) (su_migrationFS S)) (fresh w) = (None, u)"
    and l: "boot_limits (he_range h) (he_now h 0) (pg_settings_store (su_env S)) pg_load_limits u = (None, v)"
    and w': "w' = seedDemoData h (pg_auth_store (su_env S)) (pg_tenant_store (su_env S)) (pg_customer_service (su_env S)) v"
    by metis
  have "inbox u = (pg_events w, [])"
    using m by (auto simp: on_remote_def fresh_def runtime_init_def split: prod.splits)
  moreover have "inbox v = inbox u"
    using l by (auto simp: boot_limits_def pg_settings_store_def pg_load_limits_def Load_def
        dest!: leaves_pair [OF inbox_stores(4)] split: sum.splits prod.splits option.splits)
  ultimately show ?thesis unfolding w' inbox_seed by simp
qed

text \<open>A notification whose key is in the table is answered and dropped.\<close>

lemma redelivery_dropped:
  assumes "HandleNombaWebhook (pg_webhook_handler e P cap) now hs (Some body) w = (code, w')"
    and "pv_ParseWebhook P (now 1) body (pg_remote w) = Inr p"
    and "fmlookup (pg_events w) i = Some evt" and "WE_DedupeKey evt = dedupe_key p"
  shows "inbox w' = inbox w"
proof -
  have "\<exists>x \<in> set (rows_of e v (pg_events w)). WE_DedupeKey x = WE_DedupeKey (received_event p body)" for v
    using assms(4) in_range_vals [of evt "pe_scan e v" "pg_events w"] assms(3)
    by (intro bexI [of _ evt]) (auto simp: received_event_def)
  then show ?thesis
    using assms(1,2)
    by (auto simp: HandleNombaWebhook_def pg_webhook_handler_def remote_provider_def pg_webhook_event_store_def
        pg_InsertWebhookEvent_def gen_uuid_def Let_def split: option.splits if_splits)
qed

lemma queued_webhook:
  assumes "HandleNombaWebhook (pg_webhook_handler e P cap) now hs (Some body) w = (code, w')"
    and "pv_ParseWebhook P (now 1) body (pg_remote w) = Inr p"
    and "rt_queue (pg_rt w') \<noteq> rt_queue (pg_rt w)"
  obtains i evt where "code = 200" and "fmlookup (pg_events w') i = Some evt"
    and "WE_DedupeKey evt = dedupe_key p" and "WE_Status evt = ''received''"
proof -
  have "code = 200 \<and> (\<exists>evt. fmlookup (pg_events w') (pe_random e (pg_drawn w)) = Some evt \<and>
      WE_DedupeKey evt = dedupe_key p \<and> WE_Status evt = ''received'')"
    using assms
    by (auto simp: HandleNombaWebhook_def pg_webhook_handler_def remote_provider_def pg_webhook_event_store_def
        pg_InsertWebhookEvent_def gen_uuid_def received_event_def pg_enqueue_def Enqueue_def Let_def
        split: option.splits if_splits)
  with that show ?thesis by blast
qed

text \<open>
  C24: A restart loses the credits that are waiting. A notification that was stored, queued and answered
  200 is only in the memory of the process until the worker comes to it: after a restart (a deployment,
  a crash; the shutdown stops the worker without emptying its queue) the queue is empty, the event stays
  "received", and a redelivery of the notification, whatever it is answered, is dropped as a duplicate.
  Only a sweep over the time of the payment can still bring it back.
\<close>

theorem restart_loses_queue:
  assumes "HandleNombaWebhook (pg_webhook_handler e P cap) now hs (Some body) w = (code, w1)"
    and "pv_ParseWebhook P (now 1) body (pg_remote w) = Inr p"
    and "rt_queue (pg_rt w1) \<noteq> rt_queue (pg_rt w)"
    and "main env h S w1 = (Inr D, w2)"
    and "HandleNombaWebhook (pg_webhook_handler (dl_env D) (dl_provider D) (dl_queue D)) now' hs' (Some body) w2 = (code', w3)"
    and "pv_ParseWebhook (dl_provider D) (now' 1) body (pg_remote w2) = Inr p'" and "dedupe_key p' = dedupe_key p"
  shows "code = 200 \<and> rt_queue (pg_rt w2) = [] \<and> rt_queue (pg_rt w3) = [] \<and>
    (\<exists>i evt. fmlookup (pg_events w3) i = Some evt \<and> WE_DedupeKey evt = dedupe_key p \<and> WE_Status evt = ''received'')"
proof -
  from queued_webhook [OF assms(1-3)] obtain i evt where evt: "code = 200" "fmlookup (pg_events w1) i = Some evt"
    "WE_DedupeKey evt = dedupe_key p" "WE_Status evt = ''received''" by blast
  from main_inbox [OF assms(4)] have w2: "pg_events w2 = pg_events w1" "rt_queue (pg_rt w2) = []" by simp_all
  from redelivery_dropped [OF assms(5,6)] evt w2 assms(7) have "inbox w3 = inbox w2" by simp
  with evt w2 show ?thesis by auto
qed

theorem restart_loses_queue_witness:
  "\<exists>D w2 code w3. main demo_variables demo_http demo_surroundings demo_received = (Inr D, w2) \<and>
     HandleNombaWebhook (pg_webhook_handler (dl_env D) (dl_provider D) (dl_queue D)) (\<lambda>k. 9000) demo_headers (Some demo_body) w2
       = (code, w3) \<and>
     length (rt_queue (pg_rt demo_received)) = 1 \<and> rt_queue (pg_rt w3) = []"
proof -
  let ?H = "pg_webhook_handler demo_env demo_provider 10"
  have parse: "pv_ParseWebhook demo_provider now demo_body r = fake_ParseWebhook now demo_body" for now r
    by (simp add: demo_provider_def)
  obtain code w1 where r: "HandleNombaWebhook ?H (\<lambda>k. 5000) demo_headers (Some demo_body) (pg_init ()) = (code, w1)"
    by fastforce
  then have w1: "w1 = demo_received" by (simp add: demo_received_def)
  have "pg_settings demo_received = fmempty"
    by (simp add: demo_received_def HandleNombaWebhook_def pg_webhook_handler_def remote_provider_def
      demo_provider_def demo_headers_def demo_parse pg_stores pg_InsertWebhookEvent_def demo_env_def
      pg_init_def runtime_init_def pg_enqueue_def Enqueue_def gen_uuid_def Let_def
      received_event_def micros_def dec_nat.simps digit_values)
  then obtain D w2 where m: "main demo_variables demo_http demo_surroundings demo_received = (Inr D, w2)"
    and D: "dl_provider D = demo_provider" using demo_boot_at by blast
  obtain c3 w3 where r3: "HandleNombaWebhook (pg_webhook_handler (dl_env D) (dl_provider D) (dl_queue D)) (\<lambda>k. 9000)
      demo_headers (Some demo_body) w2 = (c3, w3)" by fastforce
  have q: "rt_queue (pg_rt w1) \<noteq> rt_queue (pg_rt (pg_init ()))"
    unfolding w1 by (simp add: demo_queue pg_init_def runtime_init_def)
  from restart_loses_queue [OF r parse [unfolded demo_parse] q m [folded w1] r3] D m r3 show ?thesis
    by (simp add: parse demo_parse demo_queue)
qed

end
