(* ===== verification/Replays.thy ===== *)
theory Replays
  imports Http
begin

text \<open>
  What an Idempotency-Key gives a tenant, over the middleware \<open>idempotent\<close> around any handler: while
  the first request with the key runs, others with it are turned away, and once it has answered they
  get its answer. The key belongs to the tenant, not to the route or the body.
\<close>

section \<open>Requests that find the key\<close>

text \<open>
  A request that finds the key live is answered without its handler: with the stored answer, or as if
  the first request were still running.
\<close>

lemma idempotent_live:
  assumes "redis_contract rdb keys" and "header_get r ''Idempotency-Key'' = ik" and "ik \<noteq> ''''"
    and "live (now 0) (keys w (redis_key (Tenant_ID (Ctx_Tenant c)) ik)) = Some b"
    and "live (now 1) (keys w (redis_key (Tenant_ID (Ctx_Tenant c)) ik)) = Some b"
  shows "\<exists>out w'. (\<forall>nxt. idempotent rdb now c r nxt w = (out, w')) \<and>
    (out = in_progress \<or> (\<exists>q. b \<noteq> inFlight \<and> decode_stored b = Some q \<and> out = Reply (sent q)))"
  using begin_live [where now = now, OF assms(1,3-5)] assms(2) by (auto simp: idempotent_def)

lemma idempotent_stored:
  assumes "header_get r ''Idempotency-Key'' = ik" and "ik \<noteq> ''''" and "stored_json rsp = Some b"
    and "rd_Get rdb (now 0) (redis_key (Tenant_ID (Ctx_Tenant c)) ik) w = Inr b"
  shows "idempotent rdb now c r nxt w = (Reply (repeated rsp), w)"
proof -
  from decode_stored_json [OF assms(3)] obtain q where q: "decode_stored b = Some q" "sent q = repeated rsp" "b \<noteq> inFlight"
    by blast
  from begin_stored [where now = now, OF assms(2,4) q(3,1)] assms(1) q(2) show ?thesis by (simp add: idempotent_def)
qed

text \<open>The key right after a request has taken it and after it has answered.\<close>

lemma key_taken:
  assumes "redis_contract rdb keys" and "ik \<noteq> ''''"
    and "idem_begin rdb now (Some tid) ik w = (Proceed k, w1)"
  shows "keys w1 (redis_key tid ik) = Some (inFlight, now 1 + 30 * second)"
  using begin_Proceed [OF assms] by simp

lemma key_answered:
  assumes "redis_contract rdb keys" and "stored_json rsp = Some b" and "fst (rd_Set rdb now k b idemKeyTTL w) = None"
  shows "keys (idem_finish rdb now k rsp w) k = Some (b, now + idemKeyTTL)"
  using contract_set [OF assms(1), of now k b idemKeyTTL w] assms(2,3)
  by (cases "rd_Set rdb now k b idemKeyTTL w") (simp add: idem_finish_def)

text \<open>
  C8: What an Idempotency-Key guarantees, with a Redis of which any operation may fail. Let a request of
  a tenant take the key, let its handler run (anything may happen to the world meanwhile) and answer
  \<open>rsp\<close>. No other request of the tenant with the key, of whatever route and body, runs its handler while
  the 30 seconds of the lock last: it is answered 409. If Redis accepts the answer, no other one runs
  its handler within 24 hours from then either, as long as nobody else writes the key: it is answered
  409, or, if Redis can be read, with the status of \<open>rsp\<close> and its body, where an empty body has become
  \<^verbatim>\<open>null\<close>. Beyond this nothing is guaranteed: a handler that outlives the lock, or an answer that Redis
  refuses, leaves the key to the next request.
\<close>

theorem idempotency_key:
  assumes ok: "redis_contract rdb keys"
    and key: "header_get r ''Idempotency-Key'' = ik" "ik \<noteq> ''''"
    and first: "idem_begin rdb now (Some (Tenant_ID (Ctx_Tenant c))) ik w = (Proceed k, w1)"
    and run: "nxt w1 = (Reply rsp, w2)" and body: "stored_json rsp = Some b"
    and other: "header_get r' ''Idempotency-Key'' = ik" "Ctx_Tenant c' = Ctx_Tenant c"
  shows "\<exists>w3. idempotent rdb now c r nxt w = (Reply rsp, w3) \<and>
    (\<forall>v now'. keys v k = keys w1 k \<and> now' 0 < now 1 + 30 * second \<and> now' 1 < now 1 + 30 * second \<longrightarrow>
       (\<exists>v'. \<forall>nxt'. idempotent rdb now' c' r' nxt' v = (in_progress, v'))) \<and>
    (fst (rd_Set rdb (now 2) k b idemKeyTTL w2) = None \<longrightarrow>
       (\<forall>v now'. keys v k = keys w3 k \<and> now' 0 < now 2 + idemKeyTTL \<and> now' 1 < now 2 + idemKeyTTL \<longrightarrow>
         (\<exists>out v'. (\<forall>nxt'. idempotent rdb now' c' r' nxt' v = (out, v')) \<and>
            (out = Reply (repeated rsp) \<or> out = in_progress) \<and>
            (rd_Get rdb (now' 0) k v = Inr b \<longrightarrow> out = Reply (repeated rsp) \<and> v' = v))))"
proof -
  have k: "k = redis_key (Tenant_ID (Ctx_Tenant c)) ik" by (rule begin_Proceed [OF ok key(2) first])
  let ?w3 = "idem_finish rdb (now 2) k rsp w2"
  have "idempotent rdb now c r nxt w = (Reply rsp, ?w3)"
    using first key run by (simp add: idempotent_def)
  moreover have "\<exists>v'. \<forall>nxt'. idempotent rdb now' c' r' nxt' v = (in_progress, v')"
    if "keys v k = keys w1 k" "now' 0 < now 1 + 30 * second" "now' 1 < now 1 + 30 * second" for v now'
  proof -
    have "keys v (redis_key (Tenant_ID (Ctx_Tenant c')) ik) = Some (inFlight, now 1 + 30 * second)"
      using that(1) key_taken [OF ok key(2) first] other(2) k by simp
    with that(2,3) idempotent_live [where now = now', OF ok other(1) key(2), of v c' inFlight]
    show ?thesis by (auto simp: live_def)
  qed
  moreover have "\<exists>out v'. (\<forall>nxt'. idempotent rdb now' c' r' nxt' v = (out, v')) \<and>
      (out = Reply (repeated rsp) \<or> out = in_progress) \<and>
      (rd_Get rdb (now' 0) k v = Inr b \<longrightarrow> out = Reply (repeated rsp) \<and> v' = v)"
    if set: "fst (rd_Set rdb (now 2) k b idemKeyTTL w2) = None" and v: "keys v k = keys ?w3 k"
      and t: "now' 0 < now 2 + idemKeyTTL" "now' 1 < now 2 + idemKeyTTL" for v now'
  proof (cases "rd_Get rdb (now' 0) k v = Inr b")
    case True
    then have "rd_Get rdb (now' 0) (redis_key (Tenant_ID (Ctx_Tenant c')) ik) v = Inr b" using k other(2) by simp
    from idempotent_stored [where now = now', OF other(1) key(2) body this] show ?thesis by blast
  next
    case False
    have "keys v (redis_key (Tenant_ID (Ctx_Tenant c')) ik) = Some (b, now 2 + idemKeyTTL)"
      using v key_answered [OF ok body set] other(2) k by simp
    with t obtain out v' where out: "\<forall>nxt'. idempotent rdb now' c' r' nxt' v = (out, v')"
      "out = in_progress \<or> (\<exists>q. b \<noteq> inFlight \<and> decode_stored b = Some q \<and> out = Reply (sent q))"
      using idempotent_live [where now = now', OF ok other(1) key(2), of v c' b] by (auto simp: live_def)
    with decode_stored_json [OF body] have "out = Reply (repeated rsp) \<or> out = in_progress" by auto
    with out False show ?thesis by blast
  qed
  ultimately show ?thesis by blast
qed

text \<open>A Redis that holds its keys as a map, and a payment that is asked for twice.\<close>

type_synonym key_table = "string \<Rightarrow> (json \<times> time) option"

definition map_redis :: "key_table redis" where
  "map_redis = \<lparr>rd_Get = (\<lambda>now k m. case live now (m k) of
        Some v \<Rightarrow> Inr v | None \<Rightarrow> Inl (Errorf ''redis: nil'')),
     rd_SetNX = (\<lambda>now k v ttl m. if live now (m k) = None then (Inr True, m(k \<mapsto> (v, now + ttl)))
        else (Inr False, m)),
     rd_Set = (\<lambda>now k v ttl m. (None, m(k \<mapsto> (v, now + ttl))))\<rparr>"

lemma map_redis_ok: "redis_ok map_redis (\<lambda>m. m)"
  by (simp add: redis_ok_def map_redis_def)

definition keyed_request :: request where
  "keyed_request = \<lparr>Req_Header = [(''Idempotency-Key'', ''pay-1'')], Req_Params = [], Req_Query = [],
     Req_Body = None\<rparr>"

definition keyed_context :: request_context where
  "keyed_context = \<lparr>Ctx_Tenant = \<lparr>Tenant_ID = ''t1'', Tenant_Name = '''', Tenant_CreatedAt = 0\<rparr>,
     Ctx_APIKey = None\<rparr>"

text \<open>A payment that is asked for twice: the second one gets the answer of the first.\<close>

theorem idempotency_key_witness:
  "\<exists>m. idempotent map_redis (\<lambda>k. 0) keyed_context keyed_request (\<lambda>m. (Reply (201, Some (JStr ''paid'')), m)) (\<lambda>k. None)
      = (Reply (201, Some (JStr ''paid'')), m) \<and>
     idempotent map_redis (\<lambda>k. second) keyed_context keyed_request (\<lambda>m. (Reply (200, None), m)) m
      = (Reply (201, Some (JStr ''paid'')), m)"
proof -
  let ?rsp = "(201, Some (JStr ''paid'')) :: response"
  let ?b = "JObj [(''status_code'', JInt 201), (''body'', JStr ''paid'')]"
  let ?m = "(\<lambda>k. None)(''idem:t1:pay-1'' \<mapsto> (inFlight, 30 * second))"
  have "idem_begin map_redis (\<lambda>k. 0) (Some (Tenant_ID (Ctx_Tenant keyed_context))) ''pay-1'' (\<lambda>k. None)
      = (Proceed ''idem:t1:pay-1'', ?m)"
    by (simp add: idem_begin_def idem_lock_def map_redis_def live_def keyed_context_def redis_key_def Let_def)
  moreover have key: "header_get keyed_request ''Idempotency-Key'' = ''pay-1''"
    by (simp add: keyed_request_def lookup_str_def)
  moreover have b: "stored_json ?rsp = Some ?b" by (simp add: stored_json_def)
  moreover have rep: "repeated ?rsp = ?rsp" by (simp add: repeated_def sent_def)
  ultimately obtain m where m: "idempotent map_redis (\<lambda>k. 0) keyed_context keyed_request (\<lambda>m. (Reply ?rsp, m)) (\<lambda>k. None)
      = (Reply ?rsp, m)" and
    again: "\<forall>v now'. v ''idem:t1:pay-1'' = m ''idem:t1:pay-1'' \<and> now' 0 < 0 + idemKeyTTL \<and> now' 1 < 0 + idemKeyTTL \<longrightarrow>
       (\<exists>out v'. (\<forall>nxt'. idempotent map_redis now' keyed_context keyed_request nxt' v = (out, v')) \<and>
          (out = Reply ?rsp \<or> out = in_progress) \<and>
          (rd_Get map_redis (now' 0) ''idem:t1:pay-1'' v = Inr ?b \<longrightarrow> out = Reply ?rsp \<and> v' = v))"
    using idempotency_key [OF redis_ok_contract [OF map_redis_ok] key _ _ _ b key refl, where now = "\<lambda>k. 0" and k = "''idem:t1:pay-1''"
        and nxt = "\<lambda>m. (Reply ?rsp, m)" and w = "\<lambda>k. None" and ?w1.0 = ?m and ?w2.0 = ?m and c = keyed_context]
    by (auto simp: map_redis_def)
  have "m ''idem:t1:pay-1'' = Some (?b, idemKeyTTL)"
    using m key b by (auto simp: idempotent_def idem_begin_def idem_lock_def map_redis_def live_def keyed_context_def
        redis_key_def idem_finish_def Let_def)
  then have "rd_Get map_redis second ''idem:t1:pay-1'' m = Inr ?b"
    by (simp add: map_redis_def live_def idemKeyTTL_def second_def hour_def minute_def)
  with again [rule_format, of m "\<lambda>k. second"] m show ?thesis
    by (auto simp: idemKeyTTL_def second_def hour_def minute_def)
qed

section \<open>A slow request\<close>

lemma begin_after_lock:
  assumes ok: "redis_ok rdb keys" and ik: "ik \<noteq> ''''"
    and k: "keys v (redis_key tid ik) = Some (x, until)" and late: "until \<le> now 0" "until \<le> now 1"
  obtains v1 where "idem_begin rdb now (Some tid) ik v = (Proceed (redis_key tid ik), v1)"
    and "keys v1 = (keys v)(redis_key tid ik \<mapsto> (inFlight, now 1 + 30 * second))"
proof -
  let ?k = "redis_key tid ik"
  have gone: "live (now 0) (keys v ?k) = None" "live (now 1) (keys v ?k) = None"
    using k late by (simp_all add: live_def)
  obtain r v1 where nx: "rd_SetNX rdb (now 1) ?k inFlight (30 * second) v = (r, v1)" by fastforce
  from ok have "r = Inr True \<and> keys v1 = (keys v)(?k \<mapsto> (inFlight, now 1 + 30 * second))"
    by (rule redis_setnx [where now = "now 1" and w = v and k = ?k and v = inFlight and ttl = "30 * second"])
      (use nx gone in auto)
  with nx redis_get_None [OF ok gone(1)] ik that show ?thesis
    by (auto simp: idem_begin_def idem_lock_def Let_def)
qed

text \<open>
  C18: A slow request runs twice. The lock of an Idempotency-Key stands for 30 seconds and is not
  renewed, while a single call to the provider may take as long (the time limit of its client is 30
  seconds too) and a withdrawal may need several: a retry that arrives once the lock has run out,
  with the first request still in its handler, takes the key and runs the handler again. Both are
  answered by their own runs, and whichever ends last leaves its answer for the replays.
\<close>

theorem slow_request_runs_twice:
  assumes ok: "redis_ok rdb keys"
    and key: "header_get r ''Idempotency-Key'' = ik" "ik \<noteq> ''''"
    and first: "idem_begin rdb now (Some (Tenant_ID (Ctx_Tenant c))) ik w = (Proceed k, w1)"
    and untouched: "keys v k = keys w1 k"
    and late: "now 1 + 30 * second \<le> now' 0" "now 1 + 30 * second \<le> now' 1"
    and run: "\<And>u. nxt u = (Reply (rsp u), f u)"
    and bodies: "\<And>u s. snd (rsp u) \<noteq> Some (JInvalid s)"
  shows "\<exists>v1. idem_begin rdb now' (Some (Tenant_ID (Ctx_Tenant c))) ik v = (Proceed k, v1) \<and>
    keys v1 = (keys v)(k \<mapsto> (inFlight, now' 1 + 30 * second)) \<and>
    idempotent rdb now' c r nxt v = (Reply (rsp v1), idem_finish rdb (now' 2) k (rsp v1) (f v1)) \<and>
    (\<forall>u. live (now 2) (keys (idem_finish rdb (now 2) k (rsp w1) u) k) = stored_json (rsp w1))"
proof -
  have k: "k = redis_key (Tenant_ID (Ctx_Tenant c)) ik" by (rule begin_Proceed [OF redis_ok_contract [OF ok] key(2) first])
  have at: "keys v (redis_key (Tenant_ID (Ctx_Tenant c)) ik) = Some (inFlight, now 1 + 30 * second)"
    using key_taken [OF redis_ok_contract [OF ok] key(2) first] untouched k by simp
  obtain v1 where v1: "idem_begin rdb now' (Some (Tenant_ID (Ctx_Tenant c))) ik v = (Proceed k, v1)"
    "keys v1 = (keys v)(k \<mapsto> (inFlight, now' 1 + 30 * second))"
    using begin_after_lock [OF ok key(2) at late] k by metis
  obtain b where b: "stored_json (rsp w1) = Some b" using stored_json_Some bodies by blast
  have "idempotent rdb now' c r nxt v = (Reply (rsp v1), idem_finish rdb (now' 2) k (rsp v1) (f v1))"
    using v1(1) key run by (simp add: idempotent_def)
  moreover have "live (now 2) (keys (idem_finish rdb (now 2) k (rsp w1) u) k) = stored_json (rsp w1)" for u
    using key_answered [OF redis_ok_contract [OF ok] b] redis_ok_set [OF ok] b
    by (simp add: live_def idemKeyTTL_def hour_def minute_def second_def)
  ultimately show ?thesis using v1 by auto
qed

text \<open>A handler that counts the payments it has made, next to the keys.\<close>

definition counting_redis :: "(key_table \<times> nat) redis" where
  "counting_redis = \<lparr>rd_Get = (\<lambda>now k w. rd_Get map_redis now k (fst w)),
     rd_SetNX = (\<lambda>now k v ttl w. case rd_SetNX map_redis now k v ttl (fst w) of (r, m) \<Rightarrow> (r, m, snd w)),
     rd_Set = (\<lambda>now k v ttl w. case rd_Set map_redis now k v ttl (fst w) of (r, m) \<Rightarrow> (r, m, snd w))\<rparr>"

lemma counting_redis_ok: "redis_ok counting_redis fst"
  by (simp add: redis_ok_def counting_redis_def map_redis_def)

definition pay :: "key_table \<times> nat \<Rightarrow> outcome \<times> (key_table \<times> nat)" where
  "pay w = (Reply (201, Some (JInt (int (snd w)))), fst w, Suc (snd w))"

theorem slow_request_runs_twice_witness:
  "\<exists>m. idempotent counting_redis (\<lambda>k. 31 * second) keyed_context keyed_request pay
      ((\<lambda>k. None)(''idem:t1:pay-1'' \<mapsto> (inFlight, 30 * second)), 1) = (Reply (201, Some (JInt 1)), m, 2)"
proof -
  let ?m = "(\<lambda>k. None)(''idem:t1:pay-1'' \<mapsto> (inFlight, 30 * second)) :: key_table"
  have took: "idem_begin counting_redis (\<lambda>k. 0) (Some (Tenant_ID (Ctx_Tenant keyed_context))) ''pay-1'' (\<lambda>k. None, 0)
      = (Proceed ''idem:t1:pay-1'', ?m, 0)"
    by (simp add: idem_begin_def idem_lock_def counting_redis_def map_redis_def live_def keyed_context_def redis_key_def Let_def)
  have key: "header_get keyed_request ''Idempotency-Key'' = ''pay-1''"
    by (simp add: keyed_request_def lookup_str_def)
  have again: "idem_begin counting_redis (\<lambda>k. 31 * second) (Some (Tenant_ID (Ctx_Tenant keyed_context))) ''pay-1'' (?m, 1)
      = (Proceed ''idem:t1:pay-1'', ?m(''idem:t1:pay-1'' \<mapsto> (inFlight, 31 * second + 30 * second)), 1)"
    by (simp add: idem_begin_def idem_lock_def counting_redis_def map_redis_def live_def keyed_context_def redis_key_def
        second_def Let_def)
  have "\<exists>v1. idem_begin counting_redis (\<lambda>k. 31 * second) (Some (Tenant_ID (Ctx_Tenant keyed_context))) ''pay-1'' (?m, 1)
        = (Proceed ''idem:t1:pay-1'', v1) \<and>
      fst v1 = (fst (?m, 1::nat))(''idem:t1:pay-1'' \<mapsto> (inFlight, 31 * second + 30 * second)) \<and>
      idempotent counting_redis (\<lambda>k. 31 * second) keyed_context keyed_request pay (?m, 1)
      = (Reply (201, Some (JInt (int (snd v1)))), idem_finish counting_redis (31 * second) ''idem:t1:pay-1''
           (201, Some (JInt (int (snd v1)))) (fst v1, Suc (snd v1))) \<and>
      (\<forall>u. live 0 (fst (idem_finish counting_redis 0 ''idem:t1:pay-1'' (201, Some (JInt (int (snd (?m, 0::nat))))) u) ''idem:t1:pay-1'')
         = stored_json (201, Some (JInt (int (snd (?m, 0::nat))))))"
    by (rule slow_request_runs_twice [OF counting_redis_ok key _ took]) (auto simp: second_def pay_def)
  then have "\<exists>m. idempotent counting_redis (\<lambda>k. 31 * second) keyed_context keyed_request pay (?m, 1)
      = (Reply (201, Some (JInt 1)), idem_finish counting_redis (31 * second) ''idem:t1:pay-1'' (201, Some (JInt 1)) (m, 2))"
    unfolding again by (auto simp: numeral_2_eq_2)
  then show ?thesis
    by (auto simp: idem_finish_def stored_json_def counting_redis_def map_redis_def)
qed

end
