(* ===== verification/Logs.thy ===== *)
theory Logs
  imports Router Migrations
begin

text \<open>
  \<^verbatim>\<open>internal/logger\<close> (log lines, daily files and their pruning) and the two middleware around the
  whole API that do not touch its state: the request identifier and the request log
  (\<^verbatim>\<open>internal/api/middleware/request_id.go\<close>, \<^verbatim>\<open>logger.go\<close>). The directory of the files is a map
  from names to entries; whether a file can be opened or removed is a parameter.
\<close>

section \<open>Daily files\<close>

datatype dir_entry = Folder | File string

type_synonym log_dir = "(string, dir_entry) fmap"

record file_system =
  fs_openable :: "string \<Rightarrow> bool"
  fs_removable :: "string \<Rightarrow> bool"
  fs_mkdir :: bool
  fs_listable :: bool

record daily_writer =
  DW_RetainDays :: int
  DW_Current :: "string option"
  DW_Date :: string

definition log_name :: "string \<Rightarrow> string" where
  "log_name date = ''api-'' @ date @ ''.log''"

text \<open>The open file; once it is removed from the directory, what is written to it is lost.\<close>

definition file_append :: "string \<Rightarrow> string \<Rightarrow> log_dir \<Rightarrow> log_dir" where
  "file_append name p d =
     (case fmlookup d name of Some (File c) \<Rightarrow> fmupd name (File (c @ p)) d | _ \<Rightarrow> d)"

definition file_open :: "file_system \<Rightarrow> string \<Rightarrow> log_dir \<Rightarrow> log_dir option" where
  "file_open fs name d =
     (if \<not> fs_openable fs name \<or> fmlookup d name = Some Folder then None
      else Some (if fmlookup d name = None then fmupd name (File '''') d else d))"

text \<open>
  \<open>today\<close> is the date of \<open>time.Now\<close>; it does not go back to the date of a file that was closed. The
  result says how many bytes were written and whether the
  pruning was started.
\<close>

definition daily_Write :: "file_system \<Rightarrow> string \<Rightarrow> string \<Rightarrow> daily_writer \<times> log_dir
    \<Rightarrow> (go_error + nat) \<times> bool \<times> daily_writer \<times> log_dir" where
  "daily_Write fs today p x =
     (let (wr, d) = x
      in if DW_Current wr = None \<or> today \<noteq> DW_Date wr
         then case file_open fs (log_name today) d of
                None \<Rightarrow> (Inl (Wrap ''logger: open log file'' (Errorf ''open'')), False, wr, d)
              | Some d \<Rightarrow>
                  (Inr (length p), True, wr\<lparr>DW_Current := Some (log_name today), DW_Date := today\<rparr>,
                   file_append (log_name today) p d)
         else (Inr (length p), False, wr, file_append (the (DW_Current wr)) p d))"

definition TrimPrefix :: "string \<Rightarrow> string \<Rightarrow> string" where
  "TrimPrefix s pre = (if prefix pre s then drop (length pre) s else s)"

definition is_log :: "log_dir \<Rightarrow> string \<Rightarrow> bool" where
  "is_log d n \<longleftrightarrow> fmlookup d n \<noteq> None \<and> fmlookup d n \<noteq> Some Folder \<and> prefix ''api-'' n \<and> suffix ''.log'' n"

definition log_date :: "string \<Rightarrow> string" where
  "log_date n = TrimSuffix (TrimPrefix n ''api-'') ''.log''"

text \<open>\<open>os.ReadDir\<close> lists by name; no two logs have the same date, so that the order is determined.\<close>

definition newest_first :: "log_dir \<Rightarrow> string list" where
  "newest_first d = rev (sort_key log_date (filter (is_log d) (sorted_list_of_set (fmdom' d))))"

definition pruneOld :: "file_system \<Rightarrow> int \<Rightarrow> log_dir \<Rightarrow> log_dir" where
  "pruneOld fs retainDays d =
     (if \<not> fs_listable fs then d
      else foldl (\<lambda>d (i, n). if int i \<ge> retainDays \<and> fs_removable fs n then fmdrop n d else d) d
             (enumerate 0 (newest_first d)))"

section \<open>Log lines\<close>

text \<open>
  The package's state: the directory, the file writer once it is enabled, how many prunings are
  still to run, and what went to the two streams of the process.
\<close>

record logger =
  Lg_Dir :: log_dir
  Lg_Writer :: "daily_writer option"
  Lg_Prunes :: nat
  Lg_Out :: string
  Lg_ErrOut :: string

record log_env =
  le_fs :: file_system
  le_pid :: int
  le_useColor :: bool
  le_zone :: "time \<Rightarrow> duration"

definition local_date :: "(time \<Rightarrow> duration) \<Rightarrow> time \<Rightarrow> string" where
  "local_date offset t = format_date (t + offset t)"

definition EnableFileLogging :: "log_env \<Rightarrow> time \<Rightarrow> int \<Rightarrow> logger \<Rightarrow> go_error option \<times> logger" where
  "EnableFileLogging e now retainDays s =
     (if \<not> fs_mkdir (le_fs e) then (Some (Wrap ''logger: create log dir'' (Errorf ''mkdir'')), s)
      else case daily_Write (le_fs e) (local_date (le_zone e) now) ''''
                  (\<lparr>DW_RetainDays = retainDays, DW_Current = None, DW_Date = ''''\<rparr>, Lg_Dir s) of
             (Inl err, _) \<Rightarrow> (Some err, s)
           | (Inr _, started, wr, d) \<Rightarrow>
               (None, s\<lparr>Lg_Dir := d, Lg_Writer := Some wr,
                        Lg_Prunes := Lg_Prunes s + (if started then 1 else 0)\<rparr>))"

text \<open>A pruning that was started runs.\<close>

definition run_prune :: "log_env \<Rightarrow> logger \<Rightarrow> logger" where
  "run_prune e s =
     (case Lg_Writer s of
        Some wr \<Rightarrow> if Lg_Prunes s = 0 then s
                   else s\<lparr>Lg_Dir := pruneOld (le_fs e) (DW_RetainDays wr) (Lg_Dir s),
                          Lg_Prunes := Lg_Prunes s - 1\<rparr>
      | None \<Rightarrow> s)"

text \<open>The layout \<^verbatim>\<open>01/02/2006, 3:04:05 PM\<close>.\<close>

definition format_log_time :: "time \<Rightarrow> string" where
  "format_log_time t =
     (let (y, m, d) = civil_date (t div (24 * hour)); s = t mod (24 * hour); hr = s div hour
      in pad_n 2 m @ ''/'' @ pad_n 2 d @ ''/'' @ pad_n 4 y @ '', ''
         @ show_int (if hr mod 12 = 0 then 12 else hr mod 12) @ '':'' @ pad_n 2 (s mod hour div minute)
         @ '':'' @ pad_n 2 (s mod minute div second) @ (if hr < 12 then '' AM'' else '' PM''))"

definition esc :: "string \<Rightarrow> string" where
  "esc code = CHR 0x1B # ''['' @ code"

abbreviation "reset \<equiv> esc ''0m''"
abbreviation "red \<equiv> esc ''31m''"
abbreviation "green \<equiv> esc ''32m''"
abbreviation "yellow \<equiv> esc ''33m''"
abbreviation "magenta \<equiv> esc ''35m''"
abbreviation "cyan \<equiv> esc ''36m''"
abbreviation "gray \<equiv> esc ''90m''"

definition pad_left :: "nat \<Rightarrow> string \<Rightarrow> string" where
  "pad_left n s = replicate (n - length s) (CHR '' '') @ s"

definition levelWidth :: nat where
  "levelWidth = 7"

definition log_line :: "log_env \<Rightarrow> string \<Rightarrow> string \<Rightarrow> string \<Rightarrow> string \<Rightarrow> time \<Rightarrow> string" where
  "log_line e level colour ctx message now =
     (let ts = format_log_time (now + le_zone e now); pid = show_int (le_pid e)
      in if \<not> le_useColor e
         then ''[VaultNUBAN] '' @ pid @ ''  - '' @ ts @ ''     '' @ pad_left levelWidth level
              @ '' ['' @ ctx @ ''] '' @ message @ [CHR 0x0A]
         else yellow @ ''[VaultNUBAN]'' @ reset @ '' '' @ green @ pid @ reset @ ''  - '' @ gray @ ts
              @ reset @ ''  '' @ colour @ pad_left levelWidth level @ reset @ '' '' @ yellow @ ''[''
              @ ctx @ '']'' @ reset @ '' '' @ colour @ message @ reset @ [CHR 0x0A])"

text \<open>The writer of a stream: the stream, and then the file when one is enabled.\<close>

definition file_write :: "log_env \<Rightarrow> time \<Rightarrow> string \<Rightarrow> logger \<Rightarrow> logger" where
  "file_write e now line s =
     (case Lg_Writer s of
        None \<Rightarrow> s
      | Some wr \<Rightarrow>
          (let (r, started, wr, d) = daily_Write (le_fs e) (local_date (le_zone e) now) line (wr, Lg_Dir s)
           in s\<lparr>Lg_Dir := d, Lg_Writer := Some wr, Lg_Prunes := Lg_Prunes s + (if started then 1 else 0)\<rparr>))"

text \<open>The two readings of the clock are that of the line and that of the file.\<close>

definition Log :: "log_env \<Rightarrow> (nat \<Rightarrow> time) \<Rightarrow> string \<Rightarrow> string \<Rightarrow> logger \<Rightarrow> logger" where
  "Log e now ctx message s =
     (let line = log_line e ''LOG'' green ctx message (now 0)
      in file_write e (now 1) line (s\<lparr>Lg_Out := Lg_Out s @ line\<rparr>))"

definition Warn :: "log_env \<Rightarrow> (nat \<Rightarrow> time) \<Rightarrow> string \<Rightarrow> string \<Rightarrow> logger \<Rightarrow> logger" where
  "Warn e now ctx message s =
     (let line = log_line e ''WARN'' yellow ctx message (now 0)
      in file_write e (now 1) line (s\<lparr>Lg_Out := Lg_Out s @ line\<rparr>))"

definition log_Error :: "log_env \<Rightarrow> (nat \<Rightarrow> time) \<Rightarrow> string \<Rightarrow> string \<Rightarrow> logger \<Rightarrow> logger" where
  "log_Error e now ctx message s =
     (let line = log_line e ''ERROR'' red ctx message (now 0)
      in file_write e (now 1) line (s\<lparr>Lg_ErrOut := Lg_ErrOut s @ line\<rparr>))"

definition Debug :: "log_env \<Rightarrow> (nat \<Rightarrow> time) \<Rightarrow> string \<Rightarrow> string \<Rightarrow> logger \<Rightarrow> logger" where
  "Debug e now ctx message s =
     (let line = log_line e ''DEBUG'' magenta ctx message (now 0)
      in file_write e (now 1) line (s\<lparr>Lg_Out := Lg_Out s @ line\<rparr>))"

definition Verbose :: "log_env \<Rightarrow> (nat \<Rightarrow> time) \<Rightarrow> string \<Rightarrow> string \<Rightarrow> logger \<Rightarrow> logger" where
  "Verbose e now ctx message s =
     (let line = log_line e ''VERBOSE'' cyan ctx message (now 0)
      in file_write e (now 1) line (s\<lparr>Lg_Out := Lg_Out s @ line\<rparr>))"

section \<open>The request log\<close>

definition fixed2 :: "int \<Rightarrow> string" where
  "fixed2 n = show_int (n div 100) @ ''.'' @ pad_n 2 (n mod 100)"

text \<open>\<open>Duration.Seconds\<close> is a double; it is printed to two decimals, rounded to even.\<close>

definition Seconds :: "duration \<Rightarrow> rat" where
  "Seconds d = nearest64 (of_int (d div second) + nearest64 (of_int (d mod second) / 10 ^ 9))"

definition formatDuration :: "duration \<Rightarrow> string" where
  "formatDuration d =
     (if d < 1000000 then show_int (d div 1000) @ [CHR 0xCE, CHR 0xBC] @ ''s''
      else if d < second then show_int (d div 1000000) @ ''ms''
      else fixed2 (half_even (Seconds d * 100)) @ ''s'')"

text \<open>
  The request log around the router: \<open>clk\<close> are its two readings of the clock. A handler that panics
  passes through it, and one that never answers never comes back.
\<close>

definition log_request :: "log_env \<Rightarrow> (nat \<Rightarrow> time) \<Rightarrow> (nat \<Rightarrow> time) \<Rightarrow> string \<Rightarrow> string \<Rightarrow> outcome
    \<Rightarrow> logger \<Rightarrow> logger" where
  "log_request e clk now meth path out s =
     (case (case out of Reply (status, body) \<Rightarrow> Some status | Page media text \<Rightarrow> Some 200 | _ \<Rightarrow> None) of
        Some status \<Rightarrow>
          let msg = meth @ '' '' @ path @ '' '' @ show_int status @ '' +'' @ formatDuration (clk 1 - clk 0)
          in if status \<ge> 500 then log_Error e now ''RouterExplorer'' msg s
             else if status \<ge> 400 then Warn e now ''RouterExplorer'' msg s
             else Log e now ''RouterExplorer'' msg s
      | None \<Rightarrow> s)"

text \<open>The identifier that a request carries, or is given; the error of the random bytes is ignored.\<close>

definition RequestID :: "http_env \<Rightarrow> request \<Rightarrow> string" where
  "RequestID h r =
     (let rid = header_get r ''X-Request-Id''
      in if rid = '''' then hex_encode (case he_rand h 8 of None \<Rightarrow> replicate 8 0 | Some b \<Rightarrow> b) else rid)"

text \<open>
  The API behind the two middleware: the identifier that the reply carries in \<^verbatim>\<open>X-Request-Id\<close>, the reply,
  and the two states. The line is written after the handler has returned.
\<close>

definition url_path :: "string list \<Rightarrow> string" where
  "url_path path = concat (map (\<lambda>seg. ''/'' @ seg) path)"

definition logged_api :: "log_env \<Rightarrow> (nat \<Rightarrow> time) \<Rightarrow> (nat \<Rightarrow> time) \<Rightarrow> http_env \<Rightarrow> 'w dependencies \<Rightarrow> string
    \<Rightarrow> string list \<Rightarrow> request \<Rightarrow> 'w \<times> logger \<Rightarrow> ((string \<times> outcome) \<times> 'w \<times> logger) option" where
  "logged_api e clk now h d meth path r x =
     map_option (\<lambda>(out, w). ((RequestID h r, out), w, log_request e clk now meth (url_path path) out (snd x)))
       (NewRouter h d meth path r (fst x))"

section \<open>What is kept\<close>

lemma log_name_date:
  assumes "is_log d n"
  shows "n = log_name (log_date n)"
proof -
  from assms obtain s where s: "n = ''api-'' @ s" by (auto simp: is_log_def prefix_def)
  from assms obtain t where t: "n = t @ ''.log''" by (auto simp: is_log_def suffix_def)
  have "\<exists>u. s = u @ ''.log''"
  proof -
    from s t have "''api-'' @ s = t @ ''.log''" by simp
    then obtain u where "(''api-'' = t @ u \<and> u @ s = ''.log'') \<or> (''api-'' @ u = t \<and> s = u @ ''.log'')"
      unfolding append_eq_append_conv2 by blast
    then show ?thesis
    proof
      assume u: "''api-'' = t @ u \<and> u @ s = ''.log''"
      then have "u = [] \<or> CHR ''.'' \<in> set u" by (cases u) auto
      moreover have "CHR ''.'' \<notin> set (t @ u)" using conjunct1 [OF u, symmetric] by simp
      ultimately show ?thesis using u by auto
    qed blast
  qed
  then obtain u where u: "s = u @ ''.log''" by blast
  then show ?thesis
    by (simp add: s u log_date_def TrimPrefix_def TrimSuffix_def log_name_def suffix_def)
qed

lemma newest_first_set: "set (newest_first d) = {n. is_log d n}"
  by (auto simp: newest_first_def is_log_def intro: fmdom'I)

lemma newest_first_sorted: "sorted_wrt (\<lambda>m n. log_date n < log_date m) (newest_first d)"
proof -
  let ?ns = "filter (is_log d) (sorted_list_of_set (fmdom' d))"
  have "inj_on log_date (set ?ns)" by (rule inj_onI) (use log_name_date [of d] in \<open>metis (mono_tags, lifting) mem_Collect_eq set_filter\<close>)
  then have "distinct (map log_date (sort_key log_date ?ns))" by (simp add: distinct_map)
  moreover have "sorted (map log_date (sort_key log_date ?ns))" by simp
  ultimately have "sorted_wrt (<) (map log_date (sort_key log_date ?ns))" by (simp add: strict_sorted_iff)
  then show ?thesis by (simp add: newest_first_def sorted_wrt_map sorted_wrt_rev)
qed

text \<open>The position of a log is the number of logs that are newer.\<close>

lemma newest_first_rank:
  assumes "i < length (newest_first d)"
  shows "card {m. is_log d m \<and> log_date (newest_first d ! i) < log_date m} = i"
proof -
  let ?ns = "newest_first d"
  note srt = sorted_wrt_nth_less [OF newest_first_sorted [of d]]
  have "{m. is_log d m \<and> log_date (?ns ! i) < log_date m} = (!) ?ns ` {..<i}"
  proof (intro equalityI subsetI)
    fix m assume "m \<in> {m. is_log d m \<and> log_date (?ns ! i) < log_date m}"
    then have m: "m \<in> set ?ns" "log_date (?ns ! i) < log_date m" by (simp_all add: newest_first_set)
    then obtain j where j: "j < length ?ns" "m = ?ns ! j" by (metis in_set_conv_nth)
    with m srt [of i j] have "j < i" by (metis linorder_neqE_nat order_less_asym order_less_irrefl)
    with j show "m \<in> (!) ?ns ` {..<i}" by blast
  next
    fix m assume "m \<in> (!) ?ns ` {..<i}"
    then obtain j where "j < i" "m = ?ns ! j" by auto
    with srt [of j i] assms nth_mem [of j ?ns] show "m \<in> {m. is_log d m \<and> log_date (?ns ! i) < log_date m}"
      by (simp add: newest_first_set)
  qed
  moreover have "inj_on ((!) ?ns) {..<i}"
  proof (rule inj_onI)
    fix a b assume ab: "a \<in> {..<i}" "b \<in> {..<i}" "?ns ! a = ?ns ! b"
    with srt [of a b] srt [of b a] assms show "a = b" by (cases a b rule: linorder_cases) auto
  qed
  ultimately show ?thesis by (simp add: card_image)
qed

lemma prune_loop:
  "fmlookup (foldl (\<lambda>d (i, n). if int i \<ge> r \<and> fs_removable fs n then fmdrop n d else d) d (enumerate k ns)) n =
     (if \<exists>i < length ns. ns ! i = n \<and> r \<le> int (k + i) \<and> fs_removable fs n then None else fmlookup d n)"
proof (induction ns arbitrary: k d)
  case (Cons m ns)
  show ?case by (auto simp: Cons.IH Ex_less_Suc2 add_ac)
qed simp

theorem pruneOld_lookup:
  "fmlookup (pruneOld fs r d) n =
     (if fs_listable fs \<and> is_log d n \<and> fs_removable fs n \<and> r \<le> int (card {m. is_log d m \<and> log_date n < log_date m})
      then None else fmlookup d n)"
proof -
  have "(\<exists>i < length (newest_first d). newest_first d ! i = n \<and> r \<le> int i \<and> fs_removable fs n) \<longleftrightarrow>
      is_log d n \<and> fs_removable fs n \<and> r \<le> int (card {m. is_log d m \<and> log_date n < log_date m})"
  proof (cases "is_log d n")
    case True
    then obtain i where i: "i < length (newest_first d)" "newest_first d ! i = n"
      by (metis newest_first_set in_set_conv_nth mem_Collect_eq)
    have c: "card {m. is_log d m \<and> log_date n < log_date m} = i"
      using newest_first_rank [OF i(1)] by (simp add: i(2))
    have "j = i" if "j < length (newest_first d)" "newest_first d ! j = n" for j
      using newest_first_rank [OF that(1)] c by (simp add: that(2))
    with True i show ?thesis unfolding c by blast
  next
    case False
    then show ?thesis by (metis newest_first_set mem_Collect_eq nth_mem)
  qed
  then show ?thesis by (cases "fs_listable fs") (simp_all add: pruneOld_def prune_loop)
qed

text \<open>
  Pruning leaves at most \<open>retainDays\<close> logs, the newest ones, and nothing that is not a log is touched.
\<close>

lemma pruned_logs:
  assumes "fs_listable fs" and "\<And>n. fs_removable fs n"
  shows "is_log (pruneOld fs r d) n \<longleftrightarrow>
    is_log d n \<and> int (card {m. is_log d m \<and> log_date n < log_date m}) < r"
  using assms by (auto simp: is_log_def [of "pruneOld fs r d"] pruneOld_lookup) (auto simp: is_log_def)

theorem log_retention:
  assumes "fs_listable fs" and "\<And>n. fs_removable fs n" and "0 \<le> r"
  shows "int (card {n. is_log (pruneOld fs r d) n}) \<le> r"
    and "\<not> is_log d n \<Longrightarrow> fmlookup (pruneOld fs r d) n = fmlookup d n"
proof -
  let ?rank = "\<lambda>n. card {m. is_log d m \<and> log_date n < log_date m}"
  have "inj_on ?rank {n. is_log (pruneOld fs r d) n}"
  proof (rule inj_onI)
    fix a b
    assume "a \<in> {n. is_log (pruneOld fs r d) n}" "b \<in> {n. is_log (pruneOld fs r d) n}" and eq: "?rank a = ?rank b"
    then have "a \<in> set (newest_first d)" "b \<in> set (newest_first d)"
      by (simp_all add: pruned_logs [OF assms(1,2)] newest_first_set)
    then obtain i j where "i < length (newest_first d)" "newest_first d ! i = a"
      "j < length (newest_first d)" "newest_first d ! j = b" by (metis in_set_conv_nth)
    with newest_first_rank [of i d] newest_first_rank [of j d] eq show "a = b" by simp
  qed
  moreover have "?rank ` {n. is_log (pruneOld fs r d) n} \<subseteq> {..<nat r}"
    by (auto simp: pruned_logs [OF assms(1,2)])
  ultimately have "card {n. is_log (pruneOld fs r d) n} \<le> card {..<nat r}"
    by (rule card_inj_on_le) simp
  with assms(3) show "int (card {n. is_log (pruneOld fs r d) n}) \<le> r" by simp
qed (simp add: pruneOld_lookup)

text \<open>A line that the file takes is at its end, and the file is that of the day.\<close>

lemma daily_Write_appends:
  assumes "daily_Write fs today p (wr, d) = (Inr n, started, wr', d')"
    and "DW_Current wr = Some (log_name (DW_Date wr))" and "is_log d (log_name (DW_Date wr))"
  shows "DW_Current wr' = Some (log_name today) \<and> DW_Date wr' = today \<and> n = length p \<and>
    (\<exists>c. fmlookup d' (log_name today) = Some (File (c @ p)))"
  using assms
  by (auto simp: daily_Write_def file_open_def file_append_def is_log_def split: if_splits option.splits dir_entry.splits)

end
