(* ===== verification/Spec2Isabelle.thy ===== *)
theory Spec2Isabelle
  imports TokenFlight Harness AccountRaces Listing Lifetime Access Replays Logs
begin

text \<open>
  A development for the VaultNUBAN server (Go, \<^verbatim>\<open>src/internal\<close> and \<^verbatim>\<open>src/cmd/server\<close>): a
  service that gives the customers of its tenants virtual bank accounts, books incoming credits,
  reversals and outgoing transfers in a double-entry ledger, and keeps what it cannot attribute in
  suspense.

  \<^bold>\<open>How the program works.\<close> The provider (Nomba) notifies the webhook handler of a payment; the
  handler checks the signature, stores the event under a deduplication key and offers it to the
  worker's bounded channel. The worker matches the payment to a virtual account, checks the limits of
  the customer's KYC tier, and posts the transaction with its ledger entries; what does not match goes
  to suspense, from where an operator reassigns it or flags it for refund. A cron job runs the sweep,
  which lists the provider's transactions of a window and posts the missing ones through the same
  worker code. Withdrawals call the provider first and then post to the ledger. The relay tells the
  tenants. All of this runs over repository interfaces with two implementations, the in-memory stores
  of the test harness and the Postgres repositories of the production server. In front of it is an HTTP
  API: routes for the tenants behind an API key and the idempotency middleware, routes for the operator
  behind the internal token, the webhook and the cron route. The start of the server reads its
  configuration, applies the schema migrations, loads the tier limits and seeds demo accounts.

  \<^bold>\<open>Conventions.\<close> A Go struct is a record with the fields in the source's order, \<open>int64\<close> is
  \<open>64 word\<close> compared by \<open>sint\<close>, a nil pointer is \<open>None\<close>, \<open>(value, error)\<close> is a sum. An interface
  value is a record of operations over the type of the world behind it (Store, Runtime); a service takes
  that record as an argument, so the same definition runs over both implementations. The readings of
  the clock of an operation are a function \<open>now\<close>, indexed in the order of the calls in the code. The
  order in which Go visits a map, the outcome of unstable sorting, random bytes, database faults, the
  network and the answers of the provider are arguments, and the theorems hold for all of them.

  \<^bold>\<open>Theories.\<close>
  \<^item> Prelude: numbers, decimal rendering, errors, JSON documents, iteration orders, shared lemmas.
  \<^item> Domain (\<^verbatim>\<open>domain/domain.go\<close>), Ledger (\<^verbatim>\<open>ledger/ledger.go\<close>), Store
    (\<^verbatim>\<open>store/store.go\<close>, the abstract ledger \<open>ledger_step\<close> and the locale \<open>transaction_ledger\<close> that
    every transaction store has to meet), Runtime (\<^verbatim>\<open>provider/provider.go\<close>,
    \<^verbatim>\<open>config/tier_limits.go\<close>, \<^verbatim>\<open>provider/fakeprov/fake.go\<close>).
  \<^item> Memstore (\<^verbatim>\<open>store/memstore/memstore.go\<close>) and Postgres (\<^verbatim>\<open>store/postgres/*_repo.go\<close>): the
    repositories; both interpret the locale of Store.
  \<^item> Matcher, Worker, Sweep (\<^verbatim>\<open>recon/*.go\<close>), Relay (\<^verbatim>\<open>relay/relay.go\<close>), Customers,
    Provisioning, Suspense, Withdrawals, Collections (\<^verbatim>\<open>service/*.go\<close>): the services.
  \<^item> Webhook, Idempotency (\<^verbatim>\<open>api/handlers/webhook.go\<close>, \<^verbatim>\<open>api/middleware/idempotency.go\<close>).
  \<^item> Calendar, Doubles: the parts of \<open>time\<close>, \<open>strconv\<close> and \<open>float64\<close> that the program uses.
  \<^item> Nomba, TokenFlight (\<^verbatim>\<open>provider/nomba/*.go\<close>): the adapter, and the concurrent refresh of its
    token as a step relation over any number of callers.
  \<^item> Harness: all operations over the in-memory stores as one step relation. Production: the wiring of
    \<^verbatim>\<open>cmd/server/main.go\<close> over Postgres as the step relation \<open>pg_step\<close>. Flows: single operations of the
    production server followed through. Races: withdrawals and suspense resolutions taken apart into
    their calls, so that any number of them interleave; AccountRaces: the same for the operations on
    virtual accounts, with each other and with all of that. Listing: from the provider's list to the ledger. HealthRepo
    (\<^verbatim>\<open>postgres/health_repo.go\<close>): the queries of the dashboard.
  \<^item> Http (\<^verbatim>\<open>api/problem\<close>, \<^verbatim>\<open>middleware/auth.go\<close>, \<^verbatim>\<open>sweep_token.go\<close>, the idempotency middleware
    around a handler, the shared parts of the handlers); TenantAPI, MoneyAPI, AdminAPI
    (\<^verbatim>\<open>api/handlers/*.go\<close>): one definition per handler, from a request to a reply and a new world;
    Readme (\<^verbatim>\<open>readme.go\<close>): the page at the root; Router (\<^verbatim>\<open>api/server.go\<close>): the routes. These are over any stores, services and provider; Server
    puts the production server behind them.
  \<^item> Migrations (\<^verbatim>\<open>store/db.go\<close>), Boot (\<^verbatim>\<open>config/config.go\<close>, \<^verbatim>\<open>store/redis.go\<close>, \<^verbatim>\<open>cmd/server/seed.go\<close>,
    \<^verbatim>\<open>main.go\<close> up to the router), Lifetime: starts, requests and background work in any order, and what a restart loses.
  \<^item> Logs (\<^verbatim>\<open>logger/*.go\<close>, \<^verbatim>\<open>middleware/logger.go\<close>, \<^verbatim>\<open>request_id.go\<close>): log lines, the daily files and
    what their pruning keeps, the request log and the request identifier around the router.
  \<^item> Access (credentials and tenants), Replays (idempotency keys): properties of the API. This theory: properties of whole runs.

  \<^bold>\<open>Lemma groups.\<close> The services are proved once, inside locales (\<open>transaction_ledger\<close>,
  \<open>recon_ledger\<close>, \<open>sweep_ledger\<close>, \<open>suspense_ledger\<close>, \<open>withdrawal_ledger\<close>, \<open>va_directory\<close>,
  \<open>provisioning\<close>, \<open>worker_frame\<close>, \<open>sweep_frame\<close>), against what a store promises, and every locale is
  interpreted on the in-memory and on the Postgres model. The \<open>leaves\<close> lemmas say which part of the
  state an operation does not touch; \<open>pg_step_ledger\<close> and \<open>pg_step_accounts\<close> collect them into the
  refinement of the server by the abstract ledger and by the account lifecycle. The \<open>steps\<close> lemmas of
  Server say that a handler is a run of \<open>pg_step\<close>; with \<open>main_run\<close> they carry what holds of all runs to
  the life of an installation. The \<open>phases_are\<close> theorems say that the calls of an operation, run without
  interruption, are the operation.

  \<^bold>\<open>Bounds and fuel.\<close> The page loop of the sweep takes a number of pages as fuel; for every listing
  whose cursors come to an end that many pages are enough (\<open>sweep_terminates\<close>), and more fuel does not
  change the result. Amounts in naira pass through IEEE doubles; they are exact up to \<open>2 ^ 50\<close> kobo.
  Ledger sums are \<open>int64\<close>, with the wrap-around of the code. The parser of durations ends because each
  term consumes its unit; the conversion to naira, which does not always return, is a partial function.
  In \<open>pg_step\<close> a request is one step. Others can come between the calls of a withdrawal and of a
  suspense resolution (Races: \<open>phases_are_Initiate\<close>, \<open>phases_are_Resolve\<close>) and of an operation on a virtual
  account (AccountRaces: \<open>phases_are_provisioning\<close>), before and after the handler in the
  idempotency middleware, and in the token refresh. In the other handlers two requests are not
  interleaved.

  \<^bold>\<open>Where the model is coarser than the program.\<close> A commit that reports an error has left nothing behind;
  in truth its outcome may be unknown, and a transaction that was committed after all is found as a
  duplicate by the next attempt. The conversion of naira to kobo rounds the product by 100 and the sum with one half each
  for itself; a compiler may fuse them on some processors, which stays within the bounds that are
  stated. Of a member that occurs twice in a JSON object the last one that is not \<^verbatim>\<open>null\<close> counts (the
  last one for a pointer or a slice), and a nested struct is read from the last one.
  What is proved of an Idempotency-Key holds when any operation of Redis may fail
  (\<open>redis_contract\<close>); \<open>redis_ok\<close>, where none does, is used where a failure of the program is shown.

  \<^bold>\<open>Not modelled.\<close> CORS, the recovery from panics and what the router library answers to requests
  without a route; listening and signals (what a shutdown does to the state is that of a restart, in
  Lifetime); the log lines that the services and handlers write on their way (only those of the request
  log are); \<open>notImplemented\<close> of \<^verbatim>\<open>api/server.go\<close>, which no route uses. These are input/output or belong
  to libraries and touch neither the state nor the documents of the API. Postgres, Redis, HTTP, HMAC,
  SHA-256, bcrypt and the Markdown renderer themselves are parameters with their documented behaviour, and so is the effect of
  the SQL of a migration: the tables are there with their constraints.
\<close>

section \<open>The ledger of the production server\<close>

text \<open>
  C1: NFR-1 in production. Starting from the empty database, after any sequence of requests,
  worker iterations, sweeps, relay deliveries and moves of the outside world, in any order and with
  any database faults, debits equal credits over the whole ledger and over every transaction, every
  entry belongs to a recorded transaction, and the signed int64 sum of the ledger is zero.
\<close>

theorem production_ledger_balanced:
  assumes "pg_steps e P cap iv ol w w'" and "pg_view w = (fmempty, [])"
  shows "total_debits (pg_entries w') = total_credits (pg_entries w') \<and>
    (\<forall>tx. total_debits (entries_of tx (pg_entries w')) = total_credits (entries_of tx (pg_entries w'))) \<and>
    LE_TransactionID ` set (pg_entries w') \<subseteq> fmdom' (pg_txns w') \<and>
    sum_list (map signed_amount (pg_entries w')) = 0"
proof -
  have "ledger_inv (pg_txns w') (pg_entries w')"
    using ledger_steps_inv [OF pg_steps_ledger [OF assms(1)]] assms(2) by simp
  then show ?thesis by (rule ledger_inv_all)
qed

theorem production_ledger_balanced_witness:
  "length (pg_entries demo_processed) = 2 \<and>
   total_debits (pg_entries demo_processed) = total_credits (pg_entries demo_processed)"
  using production_ledger_balanced [OF demo_steps] demo_processed_view(1) by (simp add: pg_init_def)

text \<open>
  C2: A transaction is posted exactly once. Once its identifier is in the database, no further
  step of the server (a redelivered webhook, a sweep that lists it again, a reversal, a withdrawal
  or a suspense resolution) changes its row or adds or removes an entry of it.
\<close>

theorem posted_exactly_once:
  assumes "pg_steps e P cap iv ol w w'" and "fmlookup (pg_txns w) i = Some t"
  shows "fmlookup (pg_txns w') i = Some t \<and> entries_of i (pg_entries w') = entries_of i (pg_entries w)"
  using ledger_steps_entries_of [OF pg_steps_ledger [OF assms(1)], of i] assms(2) by simp

theorem posted_exactly_once_witness:
  "\<exists>w'. w' = pg_worker_step demo_env (\<lambda>k. 7000)
           (demo_processed\<lparr>pg_rt := (pg_rt demo_processed)\<lparr>rt_queue := [demo_item]\<rparr>\<rparr>) \<and>
        entries_of ''t1'' (pg_entries w') = pg_entries demo_processed"
proof -
  let ?w = "demo_processed\<lparr>pg_rt := (pg_rt demo_processed)\<lparr>rt_queue := [demo_item]\<rparr>\<rparr>"
  have "pg_steps demo_env demo_provider 10 0 0 ?w (pg_worker_step demo_env (\<lambda>k. 7000) ?w)"
    by (intro r_into_rtranclp p_worker)
  moreover obtain t where "fmlookup (pg_txns ?w) ''t1'' = Some t" using demo_processed_view(2) by auto
  ultimately show ?thesis
    using posted_exactly_once [of demo_env demo_provider 10 0 0 ?w] demo_processed_view(1)
    by (simp add: entries_of_def)
qed

text \<open>
  C9: What the worker does to the ledger with one item, on every branch: an item that ends in an
  error leaves the whole database as it was; otherwise a credit or a reversal whose identifier is
  new is recorded with exactly the entries that the routing decision gives, and every other item
  (a duplicate, a failed payment, an unknown event type) leaves the ledger alone.
\<close>

theorem process_posts:
  "case process (pg_worker e) now item w of
     (Some err, w') \<Rightarrow> w' = w
   | (None, w') \<Rightarrow>
       let i = PT_TransactionID (WP_Transaction (WI_Payload item))
       in if WP_EventType (WI_Payload item) \<in> {''payment_success'', ''payment_reversal''} \<and>
             fmlookup (pg_txns w) i = None
          then pg_entries w' = pg_entries w @ routed (pg_worker e) (now 0) item w \<and>
               (\<exists>t. pg_txns w' = fmupd i t (pg_txns w) \<and>
                    Tx_AmountKobo t = PT_AmountKobo (WP_Transaction (WI_Payload item)))
          else pg_txns w' = pg_txns w \<and> pg_entries w' = pg_entries w"
  by (rule pg_recon.process_spec)

end
